(* ===== verification/Comm_Prelude.thy ===== *)
theory Comm_Prelude
  imports Main "HOL-Library.Char_ord" "HOL-Library.List_Lexorder" "HOL-Library.Multiset"
    "HOL-Library.AList"
begin

text \<open>
  Shared ground of the development: Go errors and results, 64-bit integers, decimal
  text of integers (\<open>strconv.ParseInt\<close> and the verbs \<open>%d\<close>/\<open>%v\<close>), Go maps from
  strings to strings, and the generic lemmas on lists that the components use.
\<close>

section \<open>Collections of rewrite rules\<close>

named_theorems row_simps \<open>unfolding rules of SQL statements and row lookups\<close>
named_theorems step_defs \<open>definitions of the operations a step relation ranges over\<close>

section \<open>Errors and results\<close>

text \<open>
  A Go error is a value. The constructors keep what the code distinguishes: the sentinels
  that \<open>errors.Is\<close> is asked about, the constraint errors of the SQL engine, any other
  failure of code outside the repository (\<open>EngineError\<close>), a message built by
  \<open>errors.New\<close> or \<open>fmt.Errorf\<close> (\<open>NewError\<close>), a message that wraps one error with
  \<open>%w\<close> (\<open>WrapError\<close>) or two (\<open>WrapError2\<close>), and a message that only prints an
  error with \<open>%v\<close> or \<open>%s\<close> (\<open>TextError\<close>), which hides it from \<open>errors.Is\<close>.
\<close>

datatype go_error =
    ErrNoRows
  | ErrTxDone
  | ErrNotExist
  | ErrEOF
  | ErrInvalidCredentials
  | ErrMismatchedHashAndPassword
  | ErrUserIDNotFound
  | ErrSyntax string
  | ErrRange string
  | UniqueViolation string
  | ForeignKeyViolation
  | ScanNull string
  | EngineError string
  | NewError string
  | WrapError string go_error
  | WrapError2 string go_error go_error
  | TextError string go_error

text \<open>The chain walk of \<open>errors.Is\<close>.\<close>

fun errors_is :: "go_error \<Rightarrow> go_error \<Rightarrow> bool" where
  "errors_is (WrapError m e) t = (WrapError m e = t \<or> errors_is e t)"
| "errors_is (WrapError2 m e f) t = (WrapError2 m e f = t \<or> errors_is e t \<or> errors_is f t)"
| "errors_is e t = (e = t)"

text \<open>A pair of results \<open>(value, err)\<close>, \<open>err == nil\<close> being \<open>None\<close>.\<close>

type_synonym 'r go_result = "'r \<times> go_error option"

text \<open>An early return \<open>if err != nil { return err }\<close> leaves a sum: the error or the value.\<close>

type_synonym 'r outcome = "go_error + 'r"

text \<open>What a Go call does: it returns a value and an error, or it panics.\<close>

datatype 'r go_ret = Returns 'r "go_error option" | Panics string

definition succeeds :: "'r outcome \<Rightarrow> bool" where
  "succeeds r = (case r of Inl _ \<Rightarrow> False | Inr _ \<Rightarrow> True)"

lemma succeeds_simps [simp]: "succeeds (Inl e) = False" "succeeds (Inr x) = True"
  by (simp_all add: succeeds_def)

section \<open>64-bit integers and their decimal text\<close>

definition int64_min :: int where "int64_min = - (2 ^ 63)"
definition int64_max :: int where "int64_max = 2 ^ 63 - 1"

definition is_int64 :: "int \<Rightarrow> bool" where
  "is_int64 i \<longleftrightarrow> int64_min \<le> i \<and> i \<le> int64_max"

text \<open>The value a 64-bit \<open>int\<close> expression has after it wraps around.\<close>

definition wrap64 :: "int \<Rightarrow> int" where
  "wrap64 i = (i + 2 ^ 63) mod 2 ^ 64 - 2 ^ 63"

lemma wrap64_id: "is_int64 i \<Longrightarrow> wrap64 i = i"
  by (simp add: wrap64_def is_int64_def int64_min_def int64_max_def)

lemma wrap64_range: "is_int64 (wrap64 i)"
proof -
  have "0 \<le> (i + 2 ^ 63) mod 2 ^ 64" and "(i + 2 ^ 63) mod 2 ^ 64 < (2::int) ^ 64"
    by simp_all
  then show ?thesis by (simp add: wrap64_def is_int64_def int64_min_def int64_max_def)
qed

definition digit_char :: "nat \<Rightarrow> char" where
  "digit_char d = char_of (48 + d)"

definition is_digit :: "char \<Rightarrow> bool" where
  "is_digit c \<longleftrightarrow> 48 \<le> (of_char c :: nat) \<and> (of_char c :: nat) \<le> 57"

definition digit_val :: "char \<Rightarrow> nat" where
  "digit_val c = of_char c - 48"

lemma digit_char_simps [simp]:
  "d < 10 \<Longrightarrow> is_digit (digit_char d)"
  "d < 10 \<Longrightarrow> digit_val (digit_char d) = d"
  by (simp_all add: is_digit_def digit_val_def digit_char_def)

text \<open>Decimal text of a natural number and of an integer, as \<open>%d\<close> and \<open>%v\<close> print it.\<close>

fun show_nat :: "nat \<Rightarrow> string" where
  "show_nat n = (if n < 10 then [digit_char n] else show_nat (n div 10) @ [digit_char (n mod 10)])"

declare show_nat.simps [simp del]

definition show_int :: "int \<Rightarrow> string" where
  "show_int i = (if i < 0 then CHR ''-'' # show_nat (nat (- i)) else show_nat (nat i))"

text \<open>
  The digit loop of \<open>strconv.ParseUint(s, 10, 64)\<close>: a character that is not a digit is a
  syntax error, a value past \<open>2^64 - 1\<close> a range error, whichever comes first.
\<close>

fun parse_digits :: "string \<Rightarrow> string \<Rightarrow> nat \<Rightarrow> nat outcome" where
  "parse_digits s0 [] n = Inr n"
| "parse_digits s0 (c # cs) n =
     (if \<not> is_digit c then Inl (ErrSyntax s0)
      else if 2 ^ 64 \<le> n * 10 + digit_val c then Inl (ErrRange s0)
      else parse_digits s0 cs (n * 10 + digit_val c))"

definition parse_uint64 :: "string \<Rightarrow> nat outcome" where
  "parse_uint64 s = (if s = [] then Inl (ErrSyntax s) else parse_digits s s 0)"

text \<open>\<open>strconv.ParseInt(s, 10, 64)\<close>.\<close>

definition parse_int64 :: "string \<Rightarrow> int outcome" where
  "parse_int64 s =
     (if s = [] then Inl (ErrSyntax s)
      else
        let neg = (hd s = CHR ''-'');
            t = (if hd s = CHR ''-'' \<or> hd s = CHR ''+'' then tl s else s)
        in (case parse_uint64 t of
              Inl (ErrRange _) \<Rightarrow> Inl (ErrRange s)
            | Inl _ \<Rightarrow> Inl (ErrSyntax s)
            | Inr u \<Rightarrow>
                if \<not> neg \<and> 2 ^ 63 \<le> u then Inl (ErrRange s)
                else if neg \<and> 2 ^ 63 < u then Inl (ErrRange s)
                else Inr (if neg then - int u else int u)))"

lemma parse_digits_append:
  "parse_digits s0 (xs @ ys) n =
     (case parse_digits s0 xs n of Inl e \<Rightarrow> Inl e | Inr m \<Rightarrow> parse_digits s0 ys m)"
  by (induction s0 xs n rule: parse_digits.induct) auto

lemma show_nat_nonempty [simp]: "show_nat n \<noteq> []"
  by (subst show_nat.simps) simp

lemma show_nat_digits: "c \<in> set (show_nat n) \<Longrightarrow> is_digit c"
proof (induction n rule: show_nat.induct)
  case (1 n)
  then show ?case
    by (cases "n < 10") (auto simp: show_nat.simps [of n])
qed

lemma parse_digits_show_nat: "n < 2 ^ 64 \<Longrightarrow> parse_digits s0 (show_nat n) 0 = Inr n"
proof (induction n rule: show_nat.induct)
  case (1 n)
  show ?case
  proof (cases "n < 10")
    case True
    then show ?thesis by (simp add: show_nat.simps [of n])
  next
    case False
    with 1 have "parse_digits s0 (show_nat (n div 10)) 0 = Inr (n div 10)" by simp
    with False 1(2) show ?thesis
      by (simp add: show_nat.simps [of n] parse_digits_append)
  qed
qed

lemma show_nat_hd: "is_digit (hd (show_nat n))"
  by (rule show_nat_digits [of _ n]) simp

lemma parse_uint64_show_nat: "n < 2 ^ 64 \<Longrightarrow> parse_uint64 (show_nat n) = Inr n"
  by (simp add: parse_uint64_def parse_digits_show_nat)

lemma digit_not_sign: "is_digit c \<Longrightarrow> c \<noteq> CHR ''-'' \<and> c \<noteq> CHR ''+''"
  by (auto simp: is_digit_def)

lemma parse_int64_show: 
  assumes "is_int64 i"
  shows "parse_int64 (show_int i) = Inr i"
proof (cases "i < 0")
  case True
  with assms have "nat (- i) \<le> 2 ^ 63"
    by (simp add: is_int64_def int64_min_def nat_le_iff)
  then have "nat (- i) < 2 ^ 64" and "\<not> 2 ^ 63 < nat (- i)" by simp_all
  with True show ?thesis
    by (simp add: parse_int64_def show_int_def parse_uint64_show_nat)
next
  case False
  with assms have "nat i < 2 ^ 63"
    by (simp add: is_int64_def int64_max_def nat_less_iff)
  then have "nat i < 2 ^ 64" and "\<not> 2 ^ 63 \<le> nat i" by simp_all
  with False show ?thesis
    using digit_not_sign [OF show_nat_hd [of "nat i"]]
    by (simp add: parse_int64_def show_int_def parse_uint64_show_nat)
qed

lemma parse_int64_range: "parse_int64 s = Inr i \<Longrightarrow> is_int64 i"
  by (auto simp: parse_int64_def Let_def is_int64_def int64_min_def int64_max_def
      split: if_splits sum.splits go_error.splits)

section \<open>Go maps from strings to strings\<close>

text \<open>A \<open>map[string]string\<close> as an association list with distinct keys.\<close>

type_synonym smap = "(string \<times> string) list"

definition map_set :: "string \<Rightarrow> string \<Rightarrow> smap \<Rightarrow> smap" where
  "map_set k v m = AList.update k v m"

lemma map_set_nonempty [simp]: "map_set k v m \<noteq> []"
  by (cases m) (auto simp: map_set_def)

lemma map_of_map_set [simp]: "map_of (map_set k v m) = (map_of m)(k \<mapsto> v)"
  by (simp add: map_set_def update_conv')

section \<open>Lists\<close>

lemma map_filter_set: "set (List.map_filter f xs) = {y. \<exists>x \<in> set xs. f x = Some y}"
  by (auto simp: List.map_filter_def image_iff) (metis option.sel)+

lemma map_filter_cong:
  "(\<And>x. x \<in> set xs \<Longrightarrow> f x = g x) \<Longrightarrow> List.map_filter f xs = List.map_filter g xs"
  by (induction xs) (simp_all add: List.map_filter_simps split: option.split)

lemma length_filter_eq: "distinct xs \<Longrightarrow> length (filter (\<lambda>x. x = a) xs) = (if a \<in> set xs then 1 else 0)"
  by (induction xs) (auto simp: filter_empty_conv)

lemma filter_map_filter:
  "filter P (List.map_filter f xs)
   = List.map_filter (\<lambda>x. case f x of None \<Rightarrow> None | Some y \<Rightarrow> if P y then Some y else None) xs"
  by (induction xs) (auto simp: List.map_filter_simps split: option.splits)

lemma length_map_filter: "length (List.map_filter f xs) = length (filter (\<lambda>x. f x \<noteq> None) xs)"
  by (induction xs) (auto simp: List.map_filter_simps split: option.splits)

lemma find_SomeD: "find P xs = Some x \<Longrightarrow> x \<in> set xs \<and> P x"
  by (induction xs) (auto split: if_splits)

lemma find_map_id:
  "find (\<lambda>x. f x = k) xs = Some y \<Longrightarrow> y \<in> set xs \<and> f y = k"
  by (induction xs) (auto split: if_splits)

lemma find_distinct_key:
  "distinct (map f xs) \<Longrightarrow> y \<in> set xs \<Longrightarrow> find (\<lambda>x. f x = f y) xs = Some y"
  by (induction xs) (auto simp: image_iff)

lemma find_None_key: "find (\<lambda>x. f x = k) xs = None \<longleftrightarrow> k \<notin> f ` set xs"
  by (auto simp: find_None_iff)

lemma distinct_map_filter_key: "distinct (map f xs) \<Longrightarrow> distinct (map f (filter P xs))"
  by (induction xs) auto

end
