(* ===== verification/Go_Strings.thy ===== *)
theory Go_Strings
  imports Comm_Prelude
begin

text \<open>
  What the program uses of Go's \<open>strings\<close> and \<open>unicode/utf8\<close> packages. A Go string is
  its bytes, so a \<open>string\<close> here is a list of bytes (\<open>char\<close>); \<open>runes\<close> decodes it the
  way \<open>range\<close> and \<open>utf8.RuneCountInString\<close> do, an invalid byte giving the rune U+FFFD
  of width one.
\<close>

section \<open>UTF-8\<close>

type_synonym rune = nat

definition rune_error :: rune where "rune_error = 65533"

definition in_range :: "nat \<Rightarrow> nat \<Rightarrow> nat \<Rightarrow> bool" where
  "in_range lo hi b \<longleftrightarrow> lo \<le> b \<and> b \<le> hi"

text \<open>
  \<open>utf8.DecodeRuneInString\<close>: the rune at the head of the bytes and its width. The accepted
  ranges of the second byte depend on the first (no overlong forms, no surrogates, nothing
  past U+10FFFF).
\<close>

fun decode_rune :: "nat list \<Rightarrow> rune \<times> nat" where
  "decode_rune [] = (rune_error, 0)"
| "decode_rune (b0 # bs) =
     (if b0 < 128 then (b0, 1)
      else if in_range 194 223 b0 then
        (case bs of
           b1 # _ \<Rightarrow>
             if in_range 128 191 b1 then ((b0 - 192) * 64 + (b1 - 128), 2) else (rune_error, 1)
         | _ \<Rightarrow> (rune_error, 1))
      else if in_range 224 239 b0 then
        (case bs of
           b1 # b2 # _ \<Rightarrow>
             if in_range (if b0 = 224 then 160 else 128) (if b0 = 237 then 159 else 191) b1
                \<and> in_range 128 191 b2
             then ((b0 - 224) * 4096 + (b1 - 128) * 64 + (b2 - 128), 3)
             else (rune_error, 1)
         | _ \<Rightarrow> (rune_error, 1))
      else if in_range 240 244 b0 then
        (case bs of
           b1 # b2 # b3 # _ \<Rightarrow>
             if in_range (if b0 = 240 then 144 else 128) (if b0 = 244 then 143 else 191) b1
                \<and> in_range 128 191 b2 \<and> in_range 128 191 b3
             then ((b0 - 240) * 262144 + (b1 - 128) * 4096 + (b2 - 128) * 64 + (b3 - 128), 4)
             else (rune_error, 1)
         | _ \<Rightarrow> (rune_error, 1))
      else (rune_error, 1))"

lemma decode_rune_width: "bs \<noteq> [] \<Longrightarrow> 1 \<le> snd (decode_rune bs) \<and> snd (decode_rune bs) \<le> 4"
  by (cases bs) (auto simp: Let_def split: list.splits)

declare decode_rune.simps [simp del]

lemma decode_rune_ascii: "b < 128 \<Longrightarrow> decode_rune (b # bs) = (b, 1)"
  by (simp add: decode_rune.simps)

definition bytes_of :: "string \<Rightarrow> nat list" where
  "bytes_of s = map of_char s"

function runes_of_bytes :: "nat list \<Rightarrow> rune list" where
  "runes_of_bytes [] = []"
| "runes_of_bytes (b # bs) =
     fst (decode_rune (b # bs)) # runes_of_bytes (drop (snd (decode_rune (b # bs))) (b # bs))"
  by pat_completeness auto
termination
proof (relation "measure length", goal_cases)
  case 1
  show ?case by simp
next
  case (2 b bs)
  have "1 \<le> snd (decode_rune (b # bs))" using decode_rune_width by blast
  then show ?case by simp
qed

definition runes :: "string \<Rightarrow> rune list" where
  "runes s = runes_of_bytes (bytes_of s)"

text \<open>\<open>utf8.RuneCountInString\<close>.\<close>

definition rune_count :: "string \<Rightarrow> int" where
  "rune_count s = int (length (runes s))"

text \<open>A string whose bytes are all below 128 is its own list of runes.\<close>

definition is_ascii :: "string \<Rightarrow> bool" where
  "is_ascii s \<longleftrightarrow> (\<forall>c \<in> set s. (of_char c :: nat) < 128)"

lemma runes_ascii: "is_ascii s \<Longrightarrow> runes s = map of_char s"
proof (induction s)
  case Nil
  then show ?case by (simp add: runes_def bytes_of_def)
next
  case (Cons c s)
  then show ?case
    by (simp add: runes_def bytes_of_def decode_rune_ascii is_ascii_def)
qed

lemma runes_of_bytes_length: "length (runes_of_bytes bs) \<le> length bs"
proof (induction bs rule: runes_of_bytes.induct)
  case 1
  show ?case by simp
next
  case (2 b bs)
  have "1 \<le> snd (decode_rune (b # bs))" using decode_rune_width by blast
  with 2 show ?case by simp
qed

lemma runes_of_bytes_length_ge: "length bs \<le> 4 * length (runes_of_bytes bs)"
proof (induction bs rule: runes_of_bytes.induct)
  case 1
  show ?case by simp
next
  case (2 b bs)
  have "snd (decode_rune (b # bs)) \<le> 4" using decode_rune_width by blast
  with 2 show ?case by simp
qed

lemma rune_count_bounds: "rune_count s \<le> int (length s)" "int (length s) \<le> 4 * rune_count s"
  using runes_of_bytes_length [of "bytes_of s"] runes_of_bytes_length_ge [of "bytes_of s"]
  by (simp_all add: rune_count_def runes_def bytes_of_def)

section \<open>White space\<close>

text \<open>\<open>unicode.IsSpace\<close>, and \<open>strings.TrimSpace\<close> on the decoded runes.\<close>

definition is_space :: "rune \<Rightarrow> bool" where
  "is_space r \<longleftrightarrow>
     r \<in> {9, 10, 11, 12, 13, 32, 133, 160, 5760, 8232, 8233, 8239, 8287, 12288}
     \<or> in_range 8192 8202 r"

definition trim_right :: "('a \<Rightarrow> bool) \<Rightarrow> 'a list \<Rightarrow> 'a list" where
  "trim_right p xs = rev (dropWhile p (rev xs))"

definition trim :: "('a \<Rightarrow> bool) \<Rightarrow> 'a list \<Rightarrow> 'a list" where
  "trim p xs = trim_right p (dropWhile p xs)"

definition trim_space :: "string \<Rightarrow> rune list" where
  "trim_space s = trim is_space (runes s)"

lemma trim_right_snoc [simp]:
  "trim_right p (xs @ [x]) = (if p x then trim_right p xs else xs @ [x])"
  by (simp add: trim_right_def)

lemma trim_right_Nil [simp]: "trim_right p [] = []"
  by (simp add: trim_right_def)

lemma trim_right_eq_Nil: "trim_right p xs = [] \<longleftrightarrow> (\<forall>x \<in> set xs. p x)"
  by (simp add: trim_right_def)

lemma trim_eq_Nil: "trim p xs = [] \<longleftrightarrow> (\<forall>x \<in> set xs. p x)"
proof -
  have "(\<forall>x \<in> set (dropWhile p xs). p x) \<longleftrightarrow> (\<forall>x \<in> set xs. p x)"
    by (induction xs) auto
  then show ?thesis by (simp add: trim_def trim_right_eq_Nil)
qed

lemma trim_right_prefix: "\<exists>zs. xs = trim_right p xs @ zs \<and> (\<forall>z \<in> set zs. p z)"
proof (induction xs rule: rev_induct)
  case Nil
  show ?case by simp
next
  case (snoc x xs)
  then obtain zs where "xs = trim_right p xs @ zs" and "\<forall>z \<in> set zs. p z" by blast
  then show ?case
    by (cases "p x") (auto intro!: exI [of _ "zs @ [x]"])
qed

lemma set_trim_right: "set (trim_right p xs) \<subseteq> set xs"
  by (metis Un_iff set_append subsetI trim_right_prefix)

lemma length_trim_right: "length (trim_right p xs) \<le> length xs"
  by (metis le_add1 length_append trim_right_prefix)

lemma last_trim_right: "trim_right p xs \<noteq> [] \<Longrightarrow> \<not> p (last (trim_right p xs))"
  by (induction xs rule: rev_induct) (auto split: if_splits)

lemma trim_right_id: "xs = [] \<or> \<not> p (last xs) \<Longrightarrow> trim_right p xs = xs"
  by (cases xs rule: rev_cases) auto

lemma hd_trim_right: "trim_right p xs \<noteq> [] \<Longrightarrow> hd (trim_right p xs) = hd xs"
  by (metis hd_append2 trim_right_prefix)

section \<open>Substrings\<close>

text \<open>\<open>strings.Contains\<close>.\<close>

fun contains :: "string \<Rightarrow> string \<Rightarrow> bool" where
  "contains [] sub = (sub = [])"
| "contains (c # s) sub = (take (length sub) (c # s) = sub \<or> contains s sub)"

lemma contains_iff: "contains s sub \<longleftrightarrow> (\<exists>a b. s = a @ sub @ b)"
proof (induction s)
  case Nil
  then show ?case by simp
next
  case (Cons c s)
  show ?case
  proof
    assume "contains (c # s) sub"
    then consider "take (length sub) (c # s) = sub" | "contains s sub" by auto
    then show "\<exists>a b. c # s = a @ sub @ b"
    proof cases
      case 1
      then have "c # s = [] @ sub @ drop (length sub) (c # s)"
        by (metis append_Nil append_take_drop_id)
      then show ?thesis by blast
    next
      case 2
      with Cons obtain a b where "s = a @ sub @ b" by blast
      then have "c # s = (c # a) @ sub @ b" by simp
      then show ?thesis by blast
    qed
  next
    assume "\<exists>a b. c # s = a @ sub @ b"
    then obtain a b where ab: "c # s = a @ sub @ b" by blast
    show "contains (c # s) sub"
    proof (cases a)
      case Nil
      with ab have "take (length sub) (c # s) = sub" by simp
      then show ?thesis by simp
    next
      case (Cons x a')
      with ab have "s = a' @ sub @ b" by simp
      with Cons.IH show ?thesis by auto
    qed
  qed
qed

text \<open>\<open>strings.ToUpper\<close> on ASCII letters.\<close>

definition upper_char :: "char \<Rightarrow> char" where
  "upper_char c =
     (if in_range 97 122 (of_char c) then char_of ((of_char c :: nat) - 32) else c)"

text \<open>\<open>strings.Join\<close>.\<close>

fun join :: "string \<Rightarrow> string list \<Rightarrow> string" where
  "join sep [] = []"
| "join sep [s] = s"
| "join sep (s # t # ss) = s @ sep @ join sep (t # ss)"

end
