(* ===== verification/Slug.thy ===== *)
theory Slug
  imports Go_Strings
begin

text \<open>
  \<open>slug/slug.go\<close>: \<open>Slugify\<close>, the function that makes the readable part of a note, section
  or tag URL. The lemmas show what a slug looks like and that making a slug of a slug
  changes nothing, which is what lets \<open>NoteViewGet\<close> compare the slug in the URL with the
  slug of the title.
\<close>

section \<open>The function\<close>

definition dash :: rune where "dash = 45"

text \<open>
  \<open>strings.ToLower\<close> followed by the deletion of every rune outside \<open>[a-z0-9-]\<close> only
  keeps runes whose lower case is ASCII: the ASCII letters, and the two further code points
  whose lower case is an ASCII letter (U+0130 and the Kelvin sign U+212A). Every other
  non-ASCII rune has a non-ASCII lower case, which the deletion removes, so the model
  leaves it as it is.
\<close>

definition to_lower :: "rune \<Rightarrow> rune" where
  "to_lower r =
     (if in_range 65 90 r then r + 32
      else if r = 304 then 105
      else if r = 8490 then 107
      else r)"

text \<open>\<open>strings.ReplaceAll\<close> of a space or an underscore by a dash.\<close>

definition replace_rune :: "rune \<Rightarrow> rune \<Rightarrow> rune list \<Rightarrow> rune list" where
  "replace_rune a b rs = map (\<lambda>r. if r = a then b else r) rs"

text \<open>The character class \<open>[a-z0-9-]\<close>; \<open>[^a-z0-9-]+\<close> replaced by nothing keeps exactly it.\<close>

definition slug_rune :: "rune \<Rightarrow> bool" where
  "slug_rune r \<longleftrightarrow> in_range 97 122 r \<or> in_range 48 57 r \<or> r = dash"

text \<open>\<open>-+\<close> replaced by one dash.\<close>

fun collapse_dashes :: "rune list \<Rightarrow> rune list" where
  "collapse_dashes [] = []"
| "collapse_dashes [r] = [r]"
| "collapse_dashes (r # q # rs) =
     (if r = dash \<and> q = dash then collapse_dashes (q # rs) else r # collapse_dashes (q # rs))"

definition max_len :: nat where "max_len = 100"

definition truncate_slug :: "rune list \<Rightarrow> rune list" where
  "truncate_slug rs =
     (if max_len < length rs then trim_right (\<lambda>r. r = dash) (take max_len rs) else rs)"

definition slug_runes :: "rune list \<Rightarrow> rune list" where
  "slug_runes rs0 =
     (let rs1 = map to_lower rs0;
          rs2 = replace_rune 32 dash rs1;
          rs3 = replace_rune 95 dash rs2;
          rs4 = filter slug_rune rs3;
          rs5 = collapse_dashes rs4;
          rs6 = trim (\<lambda>r. r = dash) rs5
      in truncate_slug rs6)"

definition slugify :: "string \<Rightarrow> string" where
  "slugify s =
     (let rs = slug_runes (runes s)
      in if rs = [] then ''untitled'' else map char_of rs)"

section \<open>The steps\<close>

text \<open>No two dashes in a row.\<close>

fun single_dashes :: "rune list \<Rightarrow> bool" where
  "single_dashes [] = True"
| "single_dashes [r] = True"
| "single_dashes (r # q # rs) = (\<not> (r = dash \<and> q = dash) \<and> single_dashes (q # rs))"

definition no_edge_dash :: "rune list \<Rightarrow> bool" where
  "no_edge_dash rs \<longleftrightarrow> rs = [] \<or> (hd rs \<noteq> dash \<and> last rs \<noteq> dash)"

definition slug_form :: "rune list \<Rightarrow> bool" where
  "slug_form rs \<longleftrightarrow>
     (\<forall>r \<in> set rs. slug_rune r) \<and> single_dashes rs \<and> no_edge_dash rs \<and> length rs \<le> max_len"

lemma set_collapse_dashes: "set (collapse_dashes rs) = set rs"
  by (induction rs rule: collapse_dashes.induct) auto

lemma hd_collapse_dashes: "rs \<noteq> [] \<Longrightarrow> hd (collapse_dashes rs) = hd rs"
  by (induction rs rule: collapse_dashes.induct) auto

lemma collapse_dashes_nonempty: "collapse_dashes rs = [] \<longleftrightarrow> rs = []"
  by (induction rs rule: collapse_dashes.induct) auto

lemma single_dashes_Cons:
  "single_dashes (r # rs) \<longleftrightarrow> single_dashes rs \<and> (rs = [] \<or> \<not> (r = dash \<and> hd rs = dash))"
  by (cases rs) auto

lemma single_dashes_collapse: "single_dashes (collapse_dashes rs)"
  by (induction rs rule: collapse_dashes.induct)
    (auto simp: single_dashes_Cons hd_collapse_dashes)

lemma single_dashes_append1: "single_dashes (xs @ ys) \<Longrightarrow> single_dashes xs"
  by (induction xs rule: single_dashes.induct) (auto simp: single_dashes_Cons)

lemma single_dashes_append2: "single_dashes (xs @ ys) \<Longrightarrow> single_dashes ys"
  by (induction xs) (auto simp: single_dashes_Cons)

lemma single_dashes_dropWhile: "single_dashes rs \<Longrightarrow> single_dashes (dropWhile p rs)"
  by (metis single_dashes_append2 takeWhile_dropWhile_id)

lemma single_dashes_trim_right: "single_dashes rs \<Longrightarrow> single_dashes (trim_right p rs)"
  by (metis single_dashes_append1 trim_right_prefix)

lemma single_dashes_take: "single_dashes rs \<Longrightarrow> single_dashes (take n rs)"
  by (metis append_take_drop_id single_dashes_append1)

lemma collapse_id: "single_dashes rs \<Longrightarrow> collapse_dashes rs = rs"
  by (induction rs rule: collapse_dashes.induct) auto

lemma trim_dash_edges: "no_edge_dash (trim (\<lambda>r. r = dash) rs)"
proof (cases "trim (\<lambda>r. r = dash) rs = []")
  case True
  then show ?thesis by (simp add: no_edge_dash_def)
next
  case False
  then have ne: "trim_right (\<lambda>r. r = dash) (dropWhile (\<lambda>r. r = dash) rs) \<noteq> []"
    by (simp add: trim_def)
  then have "dropWhile (\<lambda>r. r = dash) rs \<noteq> []" by (metis trim_right_Nil)
  then have "hd (dropWhile (\<lambda>r. r = dash) rs) \<noteq> dash" by (rule hd_dropWhile)
  with ne show ?thesis
    using hd_trim_right [OF ne] last_trim_right [OF ne]
    by (simp add: no_edge_dash_def trim_def)
qed

lemma trim_dash_id: "no_edge_dash rs \<Longrightarrow> trim (\<lambda>r. r = dash) rs = rs"
  by (cases rs) (auto simp: no_edge_dash_def trim_def trim_right_id)

lemma set_trim: "set (trim p rs) \<subseteq> set rs"
  unfolding trim_def by (meson set_dropWhileD set_trim_right subset_iff)

lemma single_dashes_trim: "single_dashes rs \<Longrightarrow> single_dashes (trim p rs)"
  by (simp add: trim_def single_dashes_trim_right single_dashes_dropWhile)

lemma truncate_form:
  assumes "\<forall>r \<in> set rs. slug_rune r" and "single_dashes rs" and "no_edge_dash rs"
  shows "slug_form (truncate_slug rs)"
proof (cases "max_len < length rs")
  case False
  with assms show ?thesis by (simp add: truncate_slug_def slug_form_def)
next
  case True
  let ?t = "trim_right (\<lambda>r. r = dash) (take max_len rs)"
  have chars: "\<forall>r \<in> set ?t. slug_rune r"
    using assms(1) set_trim_right [of "\<lambda>r. r = dash" "take max_len rs"] set_take_subset [of max_len rs]
    by blast
  have len: "length ?t \<le> max_len"
    using length_trim_right [of "\<lambda>r. r = dash" "take max_len rs"] by simp
  have edge: "no_edge_dash ?t"
  proof (cases "?t = []")
    case True
    then show ?thesis by (simp add: no_edge_dash_def)
  next
    case False
    have "hd ?t = hd rs" using hd_trim_right [OF False] True by (simp add: max_len_def)
    moreover have "rs \<noteq> []" using True by auto
    ultimately show ?thesis
      using last_trim_right [OF False] assms(3) False by (simp add: no_edge_dash_def)
  qed
  have "single_dashes ?t"
    using assms(2) by (simp add: single_dashes_trim_right single_dashes_take)
  with True chars len edge show ?thesis by (simp add: truncate_slug_def slug_form_def)
qed

lemma slug_runes_form: "slug_form (slug_runes rs)"
proof -
  let ?f = "filter slug_rune (replace_rune 95 dash (replace_rune 32 dash (map to_lower rs)))"
  let ?t = "trim (\<lambda>r. r = dash) (collapse_dashes ?f)"
  have "\<forall>r \<in> set ?t. slug_rune r"
    using set_trim [of "\<lambda>r. r = dash" "collapse_dashes ?f"] by (auto simp: set_collapse_dashes)
  moreover have "single_dashes ?t" by (simp add: single_dashes_trim single_dashes_collapse)
  moreover have "no_edge_dash ?t" by (rule trim_dash_edges)
  ultimately show ?thesis unfolding slug_runes_def Let_def by (rule truncate_form)
qed

lemma slug_rune_fixed: "slug_rune r \<Longrightarrow> to_lower r = r \<and> r \<noteq> 32 \<and> r \<noteq> 95 \<and> r < 128"
  by (auto simp: slug_rune_def to_lower_def in_range_def dash_def)

lemma slug_runes_id:
  assumes "slug_form rs"
  shows "slug_runes rs = rs"
proof -
  from assms have c: "\<forall>r \<in> set rs. slug_rune r" and s: "single_dashes rs"
    and e: "no_edge_dash rs" and l: "length rs \<le> max_len"
    by (simp_all add: slug_form_def)
  have "map to_lower rs = rs" using c by (auto intro!: map_idI dest: slug_rune_fixed)
  moreover have "replace_rune 32 dash rs = rs" "replace_rune 95 dash rs = rs"
    using c by (auto simp: replace_rune_def intro!: map_idI dest: slug_rune_fixed)
  moreover have "filter slug_rune rs = rs" using c by (simp add: filter_id_conv)
  ultimately show ?thesis
    using s e l by (simp add: slug_runes_def collapse_id trim_dash_id truncate_slug_def)
qed

lemma slug_form_ascii:
  assumes "slug_form rs"
  shows "runes (map char_of rs) = rs"
proof -
  have a: "\<forall>r \<in> set rs. r < 128" using assms by (auto simp: slug_form_def dest: slug_rune_fixed)
  then have "is_ascii (map char_of rs)" by (auto simp: is_ascii_def)
  moreover have "map (of_char \<circ> (char_of :: nat \<Rightarrow> char)) rs = rs"
    using a by (auto intro!: map_idI)
  ultimately show ?thesis by (simp add: runes_ascii)
qed

section \<open>What a slug is\<close>

definition slug_char :: "char \<Rightarrow> bool" where
  "slug_char c \<longleftrightarrow> slug_rune (of_char c)"

lemma map_char_of_of_char: "map char_of (map of_char s :: nat list) = s"
  by (simp add: comp_def)

lemma untitled_form: "slug_form (map of_char ''untitled'')"
  by (simp add: slug_form_def slug_rune_def in_range_def no_edge_dash_def dash_def max_len_def)

lemma slugify_runes: "\<exists>rs. slug_form rs \<and> rs \<noteq> [] \<and> slugify s = map char_of rs"
proof (cases "slug_runes (runes s) = []")
  case True
  then have "slugify s = map char_of (map of_char ''untitled'' :: nat list)"
    unfolding map_char_of_of_char by (simp add: slugify_def)
  then show ?thesis using untitled_form by blast
next
  case False
  then show ?thesis using slug_runes_form by (auto simp: slugify_def)
qed

text \<open>
  C37: every slug is a non-empty string over \<open>[a-z0-9-]\<close> of at most 100 bytes that neither
  starts nor ends with a dash and nowhere has two dashes in a row.
\<close>

theorem slugify_shape:
  "slugify s \<noteq> [] \<and> length (slugify s) \<le> 100 \<and> list_all slug_char (slugify s)
   \<and> hd (slugify s) \<noteq> CHR ''-'' \<and> last (slugify s) \<noteq> CHR ''-''
   \<and> (\<nexists>us vs. slugify s = us @ ''--'' @ vs)"
proof -
  obtain rs where f: "slug_form rs" and ne: "rs \<noteq> []" and s: "slugify s = map char_of rs"
    using slugify_runes by blast
  have a: "r < 128" if "r \<in> set rs" for r
    using f that slug_rune_fixed by (auto simp: slug_form_def)
  have dashes: "hd rs \<noteq> dash" "last rs \<noteq> dash" 
    using f ne by (simp_all add: slug_form_def no_edge_dash_def)
  have inj: "char_of r = CHR ''-'' \<Longrightarrow> r = dash" if "r \<in> set rs" for r
  proof -
    assume "char_of r = CHR ''-''"
    then have "of_char (char_of r :: char) = (45 :: nat)" by simp
    with a [OF that] show ?thesis by (simp add: dash_def)
  qed
  have "list_all slug_char (map char_of rs)"
    unfolding list_all_iff
  proof
    fix c assume "c \<in> set (map char_of rs)"
    then obtain r where "r \<in> set rs" and "c = char_of r" by auto
    with f a [of r] show "slug_char c" by (simp add: slug_char_def slug_form_def)
  qed
  moreover have "hd (map char_of rs) \<noteq> CHR ''-''" "last (map char_of rs) \<noteq> CHR ''-''"
    using ne dashes inj [of "hd rs"] inj [of "last rs"] by (auto simp: hd_map last_map)
  moreover have "\<nexists>us vs. map char_of rs = us @ ''--'' @ vs"
  proof
    assume "\<exists>us vs. map char_of rs = us @ ''--'' @ vs"
    then obtain xs p q ys where rs: "rs = xs @ p # q # ys" "char_of p = CHR ''-''" "char_of q = CHR ''-''"
      by (auto simp: map_eq_append_conv)
    moreover have "single_dashes (p # q # ys)"
      using f unfolding rs(1) slug_form_def by (blast intro: single_dashes_append2)
    ultimately show False using inj [of p] inj [of q] by simp
  qed
  ultimately show ?thesis using f ne s by (simp add: slug_form_def max_len_def)
qed

text \<open>\<open>Slugify\<close> is idempotent.\<close>

lemma slugify_idempotent: "slugify (slugify s) = slugify s"
proof -
  obtain rs where f: "slug_form rs" and ne: "rs \<noteq> []" and s: "slugify s = map char_of rs"
    using slugify_runes by blast
  have "slug_runes (runes (slugify s)) = rs"
    using f s by (simp add: slug_form_ascii slug_runes_id)
  with ne have "slugify (slugify s) = map char_of rs"
    by (simp add: slugify_def [of "slugify s"])
  with s show ?thesis by simp
qed

section \<open>A specification by words\<close>

text \<open>
  What a slug is meant to be: a title is a sequence of words, separated by spaces, underscores and
  dashes; of a word only letters and digits count, in lower case; the slug is the non-empty words
  with a dash between two of them, cut to the length.
\<close>

definition slug_letter :: "rune \<Rightarrow> rune option" where
  "slug_letter r =
     (if r \<in> {32, 95, dash} then Some dash
      else if slug_rune (to_lower r) then Some (to_lower r) else None)"

function dash_words :: "rune list \<Rightarrow> rune list list" where
  "dash_words xs =
     (case dropWhile (\<lambda>r. r = dash) xs of
        [] \<Rightarrow> []
      | y # ys \<Rightarrow> (y # takeWhile (\<lambda>r. r \<noteq> dash) ys) # dash_words (dropWhile (\<lambda>r. r \<noteq> dash) ys))"
  by pat_completeness auto

termination
proof (relation "measure length")
  fix xs y and ys :: "rune list"
  assume "dropWhile (\<lambda>r. r = dash) xs = y # ys"
  then have "length (y # ys) \<le> length xs" by (metis length_dropWhile_le)
  moreover have "length (dropWhile (\<lambda>r. r \<noteq> dash) ys) \<le> length ys" by (rule length_dropWhile_le)
  ultimately show "(dropWhile (\<lambda>r. r \<noteq> dash) ys, xs) \<in> measure length" by simp
qed simp

fun join_words :: "rune list list \<Rightarrow> rune list" where
  "join_words [] = []"
| "join_words [w] = w"
| "join_words (w # ws) = w @ dash # join_words ws"

definition slug_of_words :: "string \<Rightarrow> string" where
  "slug_of_words s =
     (let rs = truncate_slug (join_words (dash_words (List.map_filter slug_letter (runes s))))
      in if rs = [] then ''untitled'' else map char_of rs)"

lemma filter_map_option: "filter P (map f xs) = List.map_filter (\<lambda>x. if P (f x) then Some (f x) else None) xs"
  by (induction xs) (auto simp: List.map_filter_simps)

lemma slug_letter_steps:
  "slug_letter r = (let q = to_lower r; q = (if q = 32 then dash else q); q = (if q = 95 then dash else q)
     in if slug_rune q then Some q else None)"
proof (cases "r \<in> {32, 95, dash}")
  case True
  then show ?thesis by (auto simp: slug_letter_def to_lower_def in_range_def dash_def slug_rune_def)
next
  case False
  then have "to_lower r \<noteq> 32" "to_lower r \<noteq> 95" by (auto simp: to_lower_def in_range_def)
  then show ?thesis using False by (simp add: slug_letter_def Let_def)
qed

lemma slug_letter_filter:
  "filter slug_rune (replace_rune 95 dash (replace_rune 32 dash (map to_lower rs))) = List.map_filter slug_letter rs"
  unfolding replace_rune_def map_map filter_map_option
  by (rule map_filter_cong) (simp add: slug_letter_steps Let_def)

declare dash_words.simps [simp del]

lemma collapse_word: "list_all (\<lambda>r. r \<noteq> dash) w \<Longrightarrow> collapse_dashes (w @ zs) = w @ collapse_dashes zs"
proof (induction w)
  case (Cons a w)
  then show ?case by (cases "w @ zs") auto
qed simp

lemma collapse_dash_Cons:
  "collapse_dashes (dash # zs) = dash # collapse_dashes (dropWhile (\<lambda>r. r = dash) zs)"
  by (induction zs) auto

lemma drop_dashes_collapse:
  "dropWhile (\<lambda>r. r = dash) (collapse_dashes zs) = collapse_dashes (dropWhile (\<lambda>r. r = dash) zs)"
proof -
  have stop: "dropWhile (\<lambda>r. r = dash) (collapse_dashes ys) = collapse_dashes ys" if "ys = [] \<or> hd ys \<noteq> dash" for ys
    using that hd_collapse_dashes [of ys] by (cases "ys = []"; cases "collapse_dashes ys") auto
  show ?thesis
  proof (cases "zs = [] \<or> hd zs \<noteq> dash")
    case True
    then show ?thesis using stop [of zs] by (cases zs) auto
  next
    case False
    then obtain zs' where zs: "zs = dash # zs'" by (cases zs) auto
    have "dropWhile (\<lambda>r. r = dash) zs' = [] \<or> hd (dropWhile (\<lambda>r. r = dash) zs') \<noteq> dash"
      using hd_dropWhile [of "\<lambda>r. r = dash" zs'] by blast
    then show ?thesis using stop by (simp add: zs collapse_dash_Cons)
  qed
qed

lemma trim_right_append: "trim_right p (xs @ ys) = (if trim_right p ys = [] then trim_right p xs else xs @ trim_right p ys)"
  by (induction ys rule: rev_induct) (auto simp: append_assoc [symmetric] simp del: append_assoc)

text \<open>After a word, a dash and the next word follow, or nothing.\<close>

lemma trim_after_word:
  assumes "zs = [] \<or> hd zs = dash"
  shows "trim_right (\<lambda>r. r = dash) (collapse_dashes zs) =
    (if trim (\<lambda>r. r = dash) (collapse_dashes zs) = [] then [] else dash # trim (\<lambda>r. r = dash) (collapse_dashes zs))"
proof (cases zs)
  case (Cons z zs')
  let ?C = "collapse_dashes (dropWhile (\<lambda>r. r = dash) zs')"
  have c: "collapse_dashes zs = dash # ?C" using assms by (simp add: Cons collapse_dash_Cons)
  have "dropWhile (\<lambda>r. r = dash) ?C = ?C" by (simp add: drop_dashes_collapse dropWhile_idem)
  then have "trim (\<lambda>r. r = dash) (collapse_dashes zs) = trim_right (\<lambda>r. r = dash) ?C" by (simp add: trim_def c)
  then show ?thesis using trim_right_append [of "\<lambda>r. r = dash" "[dash]" ?C] trim_right_snoc [of _ "[]" dash]
    by (simp add: c)
qed (simp add: trim_def)

lemma join_words_Cons: "join_words (w # ws) = w @ (if ws = [] then [] else dash # join_words ws)"
  by (cases ws) auto

lemma dash_words_nonempty: "w \<in> set (dash_words xs) \<Longrightarrow> w \<noteq> []"
proof (induction xs rule: dash_words.induct)
  case (1 xs)
  then show ?case using dash_words.simps [of xs] by (cases "dropWhile (\<lambda>r. r = dash) xs") (auto simp del: dropWhile_eq_Nil_conv)
qed

lemma join_words_trim: "join_words (dash_words xs) = trim (\<lambda>r. r = dash) (collapse_dashes xs)"
proof (induction xs rule: dash_words.induct)
  case (1 xs)
  let ?d = "\<lambda>r. r = dash"
  show ?case
  proof (cases "dropWhile ?d xs")
    case Nil
    then have "dash_words xs = []" by (subst dash_words.simps) (simp del: dropWhile_eq_Nil_conv)
    then show ?thesis using Nil by (simp add: trim_def drop_dashes_collapse del: dropWhile_eq_Nil_conv)
  next
    case (Cons y ys)
    let ?w = "y # takeWhile (\<lambda>r. r \<noteq> dash) ys" and ?zs = "dropWhile (\<lambda>r. r \<noteq> dash) ys"
    have y: "y \<noteq> dash" using Cons hd_dropWhile [of ?d xs] by auto
    then have w: "list_all (\<lambda>r. r \<noteq> dash) ?w" by (auto simp: list_all_iff dest: set_takeWhileD)
    have ih: "join_words (dash_words ?zs) = trim ?d (collapse_dashes ?zs)" using 1 [OF Cons] .
    have next_dash: "?zs = [] \<or> hd ?zs = dash" using hd_dropWhile [of "\<lambda>r. r \<noteq> dash" ys] by blast
    have "trim ?d (collapse_dashes xs) = trim_right ?d (?w @ collapse_dashes ?zs)"
      using collapse_word [OF w, of ?zs] by (simp add: trim_def drop_dashes_collapse Cons)
    also have "\<dots> = ?w @ trim_right ?d (collapse_dashes ?zs)"
    proof -
      have "last ?w \<in> set ?w" by (rule last_in_set) simp
      then have "last ?w \<noteq> dash" using w unfolding list_all_iff by blast
      then have "trim_right ?d ?w = ?w" by (intro trim_right_id disjI2)
      then show ?thesis using trim_right_append [of ?d ?w "collapse_dashes ?zs"] by (metis append_Nil2)
    qed
    also have "\<dots> = ?w @ (if join_words (dash_words ?zs) = [] then [] else dash # join_words (dash_words ?zs))"
      unfolding trim_after_word [OF next_dash] ih ..
    also have "\<dots> = join_words (?w # dash_words ?zs)"
      using dash_words_nonempty [of _ ?zs] by (cases "dash_words ?zs") (auto simp: join_words_Cons)
    finally show ?thesis using Cons by (subst dash_words.simps) simp
  qed
qed

text \<open>
  C26: The six passes of \<open>Slugify\<close> compute the slug by words: of every title the non-empty words in
  order, each without the characters that are no letters or digits of ASCII and in lower case, joined
  by single dashes and cut to a hundred bytes.
\<close>

theorem slugify_is_slug_of_words: "slugify s = slug_of_words s"
  by (simp add: slugify_def slug_of_words_def slug_runes_def slug_letter_filter join_words_trim Let_def)

end
