(* ===== verification/Transactions.thy ===== *)
theory Transactions
  imports Comm_Prelude
begin

text \<open>
  \<open>dbx/sqlitex/sqlite.go\<close>, \<open>WithTransaction\<close>: run a closure inside a transaction, turn a
  panic of the closure into an error, roll back on an error and commit otherwise.

  The database connection is code outside the repository. What it does is a parameter, the
  record \<open>call\<close>: for one call of a repository operation, whether \<open>BEGIN\<close>, each statement
  of the call (numbered in the order the code issues them), \<open>COMMIT\<close> and \<open>ROLLBACK\<close> fail
  with an error of the engine (a time-out of the context, a busy database, an input/output
  error), and the text \<open>datetime('now')\<close> evaluates to. A transaction that is not committed
  leaves the database as it was at \<open>BEGIN\<close>: that is what the engine documents, and the
  model returns the database of the beginning on every path that does not commit.
\<close>

section \<open>Calls of the engine\<close>

record call =
  begin_fault :: "go_error option"
  stmt_fault :: "nat \<Rightarrow> go_error option"
  commit_fault :: "go_error option"
  rollback_fault :: "go_error option"
  now_txt :: string

text \<open>A call during which the engine never fails.\<close>

definition quiet :: "call \<Rightarrow> bool" where
  "quiet c \<longleftrightarrow> begin_fault c = None \<and> (\<forall>i. stmt_fault c i = None) \<and> commit_fault c = None"

definition good_call :: "string \<Rightarrow> call" where
  "good_call t = \<lparr>begin_fault = None, stmt_fault = (\<lambda>_. None), commit_fault = None,
                  rollback_fault = None, now_txt = t\<rparr>"

lemma quiet_good_call [simp]: "quiet (good_call t)"
  by (simp add: quiet_def good_call_def)

lemma now_good_call [simp]: "now_txt (good_call t) = t"
  by (simp add: good_call_def)

text \<open>One statement: the engine may fail before it has any effect.\<close>

definition exec :: "call \<Rightarrow> nat \<Rightarrow> ('db \<Rightarrow> 'a outcome) \<Rightarrow> 'db \<Rightarrow> 'a outcome" where
  "exec c i stm db = (case stmt_fault c i of Some e \<Rightarrow> Inl e | None \<Rightarrow> stm db)"

lemma exec_quiet: "quiet c \<Longrightarrow> exec c i stm db = stm db"
  by (simp add: exec_def quiet_def)

lemma exec_Inr: "exec c i stm db = Inr x \<longleftrightarrow> stmt_fault c i = None \<and> stm db = Inr x"
  by (simp add: exec_def split: option.splits)

lemma exec_Inr_D: "exec c i stm db = Inr x \<Longrightarrow> stm db = Inr x"
  by (simp add: exec_Inr)

section \<open>WithTransaction\<close>

text \<open>The inner function \<open>wrappedTx\<close>; \<open>zero\<close> is the zero value of the result type.\<close>

definition wrapped_tx :: "'r \<Rightarrow> 'r go_ret \<Rightarrow> 'r go_result" where
  "wrapped_tx zero ret =
     (case ret of
        Returns r err \<Rightarrow> (r, err)
      | Panics pv \<Rightarrow> (zero, Some (NewError (''error wrapped: '' @ pv))))"

definition with_transaction ::
    "call \<Rightarrow> 'r \<Rightarrow> ('db \<Rightarrow> 'r go_ret \<times> 'db) \<Rightarrow> 'db \<Rightarrow> 'r go_result \<times> 'db" where
  "with_transaction c zero txIn db =
     (case begin_fault c of
        Some err \<Rightarrow> ((zero, Some err), db)
      | None \<Rightarrow>
          (let (ret, tx) = txIn db;
               (result, err) = wrapped_tx zero ret
           in case err of
                Some e \<Rightarrow>
                  (case rollback_fault c of
                     Some rbErr \<Rightarrow>
                       ((result, Some (WrapError2 ''transaction failed, rollback failed'' e rbErr)), db)
                   | None \<Rightarrow> ((result, Some e), db))
              | None \<Rightarrow>
                  (case commit_fault c of
                     None \<Rightarrow> ((result, None), tx)
                   | Some e \<Rightarrow>
                       (case rollback_fault c of
                          Some rbErr \<Rightarrow>
                            ((result, Some (WrapError2 ''failed to commit, failed to rollback'' e rbErr)), db)
                        | None \<Rightarrow> ((result, Some (WrapError ''failed to commit'' e)), db)))))"

text \<open>A closure written as a straight run of statements: an error or the new database.\<close>

definition tx_body :: "'r \<Rightarrow> ('db \<Rightarrow> ('r \<times> 'db) outcome) \<Rightarrow> 'db \<Rightarrow> 'r go_ret \<times> 'db" where
  "tx_body bad f db =
     (case f db of Inl e \<Rightarrow> (Returns bad (Some e), db) | Inr (r, db') \<Rightarrow> (Returns r None, db'))"

lemma with_transaction_cases:
  "with_transaction c zero txIn db = ((r, err), db') \<Longrightarrow>
     (err = None \<and> begin_fault c = None \<and> commit_fault c = None \<and> txIn db = (Returns r None, db'))
     \<or> (err \<noteq> None \<and> db' = db)"
  by (auto simp: with_transaction_def wrapped_tx_def Let_def
      split: option.splits prod.splits go_ret.splits)

lemma with_transaction_ok:
  "with_transaction c zero txIn db = ((r, None), db') \<Longrightarrow> txIn db = (Returns r None, db')"
  using with_transaction_cases by fastforce

lemma with_transaction_fail:
  "with_transaction c zero txIn db = ((r, Some e), db') \<Longrightarrow> db' = db"
  using with_transaction_cases by fastforce

lemma with_transaction_quiet:
  "quiet c \<Longrightarrow> txIn db = (Returns r None, db') \<Longrightarrow>
     with_transaction c zero txIn db = ((r, None), db')"
  by (simp add: with_transaction_def wrapped_tx_def quiet_def)

lemma with_transaction_error:
  "quiet c \<Longrightarrow> txIn db = (Returns r (Some e), db') \<Longrightarrow>
     snd (fst (with_transaction c zero txIn db)) \<noteq> None \<and> snd (with_transaction c zero txIn db) = db"
  by (simp add: with_transaction_def wrapped_tx_def quiet_def split: option.splits)

lemma tx_body_ok: "tx_body bad f db = (Returns r None, db') \<longleftrightarrow> f db = Inr (r, db')"
  by (auto simp: tx_body_def split: sum.splits)

lemma tx_body_err: "f db = Inl e \<Longrightarrow> tx_body bad f db = (Returns bad (Some e), db)"
  by (simp add: tx_body_def)

text \<open>When the transaction commits: nothing fails and the closure returns without an error.\<close>

definition commits :: "call \<Rightarrow> 'r go_ret \<Rightarrow> bool" where
  "commits c ret \<longleftrightarrow>
     begin_fault c = None \<and> commit_fault c = None
     \<and> (case ret of Returns _ None \<Rightarrow> True | _ \<Rightarrow> False)"

text \<open>
  C13: \<open>WithTransaction\<close> is all or nothing, and it contains panics. It reports no error
  exactly when \<open>BEGIN\<close> and \<open>COMMIT\<close> succeed and the closure returns without an error or a
  panic, and then the database is the one the closure left; in every other case it reports
  an error and the database is the one it was given.
\<close>

theorem with_transaction_all_or_nothing:
  "(snd (fst (with_transaction c zero txIn db)) = None \<longleftrightarrow> commits c (fst (txIn db)))
   \<and> snd (with_transaction c zero txIn db) = (if commits c (fst (txIn db)) then snd (txIn db) else db)"
  by (cases "txIn db"; cases "fst (txIn db)")
     (auto simp: with_transaction_def wrapped_tx_def commits_def Let_def split: option.splits)

end
