(* ===== verification/Sql_Tables.thy ===== *)
theory Sql_Tables
  imports Transactions Go_Strings
begin

text \<open>
  What the stores rely on of the SQL engine. Rows are records kept in the order of their
  insertion. What the engine chooses by itself is a parameter, the record \<open>engine\<close>: whether
  foreign keys are enforced (\<open>PRAGMA foreign_keys\<close>), the rowid it gives to a new row, and the
  order in which a query without \<open>ORDER BY\<close> visits rows (one order per query, named by a
  label, as a permutation of positions computed from the keys of the rows). \<open>engine_ok\<close>
  states what the engine documents of them.

  The second half is a table with a numeric key and a unique text column, the shape of
  \<open>sections\<close>, \<open>tags\<close>, \<open>notes\<close> and \<open>users\<close>: its statements, and a locale with the lemmas
  that the four tables share.
\<close>

section \<open>The engine\<close>

record engine =
  fk_on :: bool
  alloc_id :: "int list \<Rightarrow> int option"
  scan :: "string \<Rightarrow> int list \<Rightarrow> nat list"

definition engine_ok :: "engine \<Rightarrow> bool" where
  "engine_ok en \<longleftrightarrow>
     fk_on en
     \<and> (\<forall>ids i. alloc_id en ids = Some i \<longrightarrow> i \<notin> set ids \<and> 0 < i \<and> is_int64 i)
     \<and> (\<forall>q ks. mset (scan en q ks) = mset [0..<length ks])"

text \<open>The documented rowid algorithm: one more than the largest, starting at one.\<close>

definition next_rowid :: "int list \<Rightarrow> int option" where
  "next_rowid ids =
     (let i = foldr max ids 0 + 1 in if i \<le> int64_max then Some i else None)"

definition std_engine :: engine where
  "std_engine = \<lparr>fk_on = True, alloc_id = next_rowid, scan = (\<lambda>q ks. [0..<length ks])\<rparr>"

lemma foldr_max_ge: "i \<in> set ids \<Longrightarrow> (i::int) \<le> foldr max ids 0"
  by (induction ids) auto

lemma foldr_max_nonneg: "(0::int) \<le> foldr max ids 0"
  by (induction ids) auto

lemma engine_ok_std [simp]: "engine_ok std_engine"
  unfolding engine_ok_def std_engine_def next_rowid_def Let_def
  using foldr_max_ge foldr_max_nonneg
  by (auto simp: is_int64_def int64_min_def int64_max_def split: if_splits) force+

lemma engine_ok_fk: "engine_ok en \<Longrightarrow> fk_on en"
  by (simp add: engine_ok_def)

lemma engine_ok_alloc: "engine_ok en \<Longrightarrow> alloc_id en ids = Some i \<Longrightarrow> i \<notin> set ids \<and> 0 < i"
  by (auto simp: engine_ok_def)

section \<open>Row order, LIMIT and ORDER BY\<close>

definition visit :: "engine \<Rightarrow> string \<Rightarrow> ('r \<Rightarrow> int) \<Rightarrow> 'r list \<Rightarrow> 'r list" where
  "visit en q key rows = map (nth rows) (scan en q (map key rows))"

lemma mset_visit [simp]: "engine_ok en \<Longrightarrow> mset (visit en q key rows) = mset rows"
proof -
  assume "engine_ok en"
  then have "mset (map (nth rows) (scan en q (map key rows))) = image_mset (nth rows) (mset [0..<length rows])"
    by (simp add: engine_ok_def)
  also have "\<dots> = mset (map (nth rows) [0..<length rows])" by simp
  finally show ?thesis by (simp add: visit_def map_nth)
qed

lemma set_visit [simp]: "engine_ok en \<Longrightarrow> set (visit en q key rows) = set rows"
  by (metis mset_visit set_mset_mset)

lemma length_visit [simp]: "engine_ok en \<Longrightarrow> length (visit en q key rows) = length rows"
  by (metis mset_visit size_mset)

lemma distinct_visit [simp]: "engine_ok en \<Longrightarrow> distinct (visit en q key rows) = distinct rows"
  by (metis mset_visit mset_eq_imp_distinct_iff)

lemma distinct_map_visit [simp]:
  "engine_ok en \<Longrightarrow> distinct (map f (visit en q key rows)) = distinct (map f rows)"
  by (metis mset_map mset_visit mset_eq_imp_distinct_iff)

lemma visit_std [simp]: "visit std_engine q key rows = rows"
  by (simp add: visit_def std_engine_def map_nth)

text \<open>\<open>LIMIT n OFFSET m\<close>: a negative limit is no limit, a negative offset is none.\<close>

definition sql_limit :: "int \<Rightarrow> int \<Rightarrow> 'r list \<Rightarrow> 'r list" where
  "sql_limit n m rows =
     (if n < 0 then drop (nat m) rows else take (nat n) (drop (nat m) rows))"

lemma set_sql_limit: "set (sql_limit n m rows) \<subseteq> set rows"
  by (auto simp: sql_limit_def dest: in_set_takeD in_set_dropD)

lemma length_sql_limit: "0 \<le> n \<Longrightarrow> int (length (sql_limit n m rows)) \<le> n"
  by (auto simp: sql_limit_def)

text \<open>\<open>ORDER BY key ASC\<close> and \<open>DESC\<close>; rows that tie keep the order of the scan.\<close>

definition order_desc :: "('r \<Rightarrow> 'k::linorder) \<Rightarrow> 'r list \<Rightarrow> 'r list" where
  "order_desc key rows = rev (sort_key key (rev rows))"

lemma mset_order_desc [simp]: "mset (order_desc key rows) = mset rows"
  by (simp add: order_desc_def)

lemma set_order_desc [simp]: "set (order_desc key rows) = set rows"
  by (simp add: order_desc_def)

lemma sorted_order_desc: "sorted_wrt (\<lambda>a b. key b \<le> key a) (order_desc key rows)"
proof -
  have "sorted (map key (sort_key key (rev rows)))" by simp
  then show ?thesis
    by (simp add: order_desc_def sorted_wrt_rev sorted_wrt_map)
qed

section \<open>Tables with a key and a unique text column\<close>

text \<open>\<open>INSERT\<close> of one row without a key: the new rowid, then the unique column.\<close>

definition insert_row ::
    "engine \<Rightarrow> string \<Rightarrow> ('r \<Rightarrow> int) \<Rightarrow> ('r \<Rightarrow> string) \<Rightarrow> (int \<Rightarrow> 'r) \<Rightarrow> 'r list \<Rightarrow> (int \<times> 'r list) outcome" where
  "insert_row en col rid rname mk rows =
     (case alloc_id en (map rid rows) of
        None \<Rightarrow> Inl (EngineError ''database or disk is full'')
      | Some i \<Rightarrow>
          if rname (mk i) \<in> rname ` set rows then Inl (UniqueViolation col)
          else Inr (i, rows @ [mk i]))"

text \<open>\<open>UPDATE ... WHERE id = k\<close>, which may rename the row.\<close>

definition update_row ::
    "string \<Rightarrow> ('r \<Rightarrow> int) \<Rightarrow> ('r \<Rightarrow> string) \<Rightarrow> ('r \<Rightarrow> 'r) \<Rightarrow> int \<Rightarrow> 'r list \<Rightarrow> 'r list outcome" where
  "update_row col rid rname f k rows =
     (if \<exists>r \<in> set rows. rid r = k \<and> (\<exists>s \<in> set rows. rid s \<noteq> k \<and> rname s = rname (f r))
      then Inl (UniqueViolation col)
      else Inr (map (\<lambda>r. if rid r = k then f r else r) rows))"

definition delete_row :: "('r \<Rightarrow> int) \<Rightarrow> int \<Rightarrow> 'r list \<Rightarrow> 'r list" where
  "delete_row rid k rows = filter (\<lambda>r. rid r \<noteq> k) rows"

definition by_id :: "('r \<Rightarrow> int) \<Rightarrow> int \<Rightarrow> 'r list \<Rightarrow> 'r option" where
  "by_id rid k rows = find (\<lambda>r. rid r = k) rows"

definition by_name :: "('r \<Rightarrow> string) \<Rightarrow> string \<Rightarrow> 'r list \<Rightarrow> 'r option" where
  "by_name rname s rows = find (\<lambda>r. rname r = s) rows"

definition table_ok :: "('r \<Rightarrow> int) \<Rightarrow> ('r \<Rightarrow> string) \<Rightarrow> 'r list \<Rightarrow> bool" where
  "table_ok rid rname rows \<longleftrightarrow>
     distinct (map rid rows) \<and> distinct (map rname rows) \<and> (\<forall>r \<in> set rows. 0 < rid r)"

lemma table_ok_Nil [simp]: "table_ok rid rname []"
  by (simp add: table_ok_def)

lemma by_id_None: "by_id rid k rows = None \<longleftrightarrow> k \<notin> rid ` set rows"
  by (auto simp: by_id_def find_None_iff)

lemma by_name_None: "by_name rname s rows = None \<longleftrightarrow> s \<notin> rname ` set rows"
  by (auto simp: by_name_def find_None_iff)

lemma by_id_Some: "by_id rid k rows = Some r \<Longrightarrow> r \<in> set rows \<and> rid r = k"
  by (auto simp: by_id_def dest: find_map_id)

lemma by_name_Some: "by_name rname s rows = Some r \<Longrightarrow> r \<in> set rows \<and> rname r = s"
  by (auto simp: by_name_def dest: find_map_id)

lemma by_id_in: "table_ok rid rname rows \<Longrightarrow> r \<in> set rows \<Longrightarrow> by_id rid (rid r) rows = Some r"
  by (auto simp: by_id_def table_ok_def intro: find_distinct_key)

lemma by_name_in: "table_ok rid rname rows \<Longrightarrow> r \<in> set rows \<Longrightarrow> by_name rname (rname r) rows = Some r"
  by (auto simp: by_name_def table_ok_def intro: find_distinct_key)

lemma by_id_Nil [simp]: "by_id rid k [] = None"
  by (simp add: by_id_def)

lemma by_id_single [simp]: "by_id rid k [r] = (if rid r = k then Some r else None)"
  by (simp add: by_id_def)

lemma by_id_append:
  "by_id rid k (xs @ ys) = (case by_id rid k xs of Some r \<Rightarrow> Some r | None \<Rightarrow> by_id rid k ys)"
  by (induction xs) (simp_all add: by_id_def)

lemma by_id_delete: "by_id rid j (delete_row rid k rows) = (if j = k then None else by_id rid j rows)"
  by (induction rows) (auto simp: by_id_def delete_row_def)

lemma delete_row_ok: "table_ok rid rname rows \<Longrightarrow> table_ok rid rname (delete_row rid k rows)"
  by (auto simp: table_ok_def delete_row_def distinct_map_filter_key)

lemma delete_row_ids: "rid ` set (delete_row rid k rows) = rid ` set rows - {k}"
  by (auto simp: delete_row_def)

lemma insert_row_ok:
  assumes "engine_ok en" and "table_ok rid rname rows" and "\<And>i. rid (mk i) = i"
    and "insert_row en col rid rname mk rows = Inr (i, rows')"
  shows "table_ok rid rname rows' \<and> rows' = rows @ [mk i] \<and> 0 < i \<and> i \<notin> rid ` set rows
    \<and> rname (mk i) \<notin> rname ` set rows"
  using assms engine_ok_alloc [OF assms(1), of "map rid rows"]
  by (auto simp: insert_row_def table_ok_def split: option.splits if_splits)

lemma insert_row_succeeds:
  "alloc_id en (map rid rows) = Some i \<Longrightarrow> rname (mk i) \<notin> rname ` set rows \<Longrightarrow>
     insert_row en col rid rname mk rows = Inr (i, rows @ [mk i])"
  by (simp add: insert_row_def)

text \<open>
  The interface of such a table: its two columns, and an update that keeps the key and
  gives every row it touches the same text.
\<close>

locale keyed_table =
  fixes rid :: "'r \<Rightarrow> int"
    and rname :: "'r \<Rightarrow> string"
    and upd :: "'x \<Rightarrow> 'r \<Rightarrow> 'r"
    and newname :: "'x \<Rightarrow> string"
  assumes upd_id: "rid (upd x r) = rid r"
    and upd_name: "rname (upd x r) = newname x"
begin

lemma map_rid: "map rid (map (\<lambda>r. if rid r = k then upd x r else r) rows) = map rid rows"
  by (simp add: upd_id)

lemma update_iff:
  "(\<exists>rows'. update_row col rid rname (upd x) k rows = Inr rows') \<longleftrightarrow>
     \<not> (k \<in> rid ` set rows \<and> (\<exists>s \<in> set rows. rid s \<noteq> k \<and> rname s = newname x))"
  by (auto simp: update_row_def upd_name)

lemma update_is:
  "update_row col rid rname (upd x) k rows = Inr rows' \<Longrightarrow>
     rows' = map (\<lambda>r. if rid r = k then upd x r else r) rows"
  by (simp add: update_row_def split: if_splits)

lemma update_ids:
  "update_row col rid rname (upd x) k rows = Inr rows' \<Longrightarrow> map rid rows' = map rid rows"
  using update_is map_rid by blast

lemma update_id_set:
  "update_row col rid rname (upd x) k rows = Inr rows' \<Longrightarrow> rid ` set rows' = rid ` set rows"
  using update_ids by (metis (no_types) list.set_map)

lemma update_ok:
  assumes ok: "table_ok rid rname rows" and up: "update_row col rid rname (upd x) k rows = Inr rows'"
  shows "table_ok rid rname rows'"
proof -
  have free: "k \<in> rid ` set rows \<Longrightarrow> s \<in> set rows \<Longrightarrow> rid s \<noteq> k \<Longrightarrow> rname s \<noteq> newname x" for s
    using up update_iff [of col x k rows] by auto
  have inj: "inj_on rid (set rows)" "inj_on rname (set rows)" "distinct rows"
    using ok by (auto simp: table_ok_def distinct_map)
  have "distinct (map rname rows')"
    unfolding update_is [OF up] distinct_map map_map comp_def
    using inj free
    by (auto simp: distinct_map inj_on_def upd_name upd_id split: if_splits) metis+
  moreover have "map rid rows' = map rid rows" by (rule update_ids [OF up])
  moreover have "\<forall>r \<in> set rows'. 0 < rid r"
    using ok unfolding update_is [OF up] by (auto simp: table_ok_def upd_id)
  ultimately show ?thesis using ok by (simp add: table_ok_def)
qed

lemma update_by_id:
  assumes "update_row col rid rname (upd x) k rows = Inr rows'"
  shows "by_id rid j rows' = (if j = k then map_option (upd x) (by_id rid j rows) else by_id rid j rows)"
proof -
  have "by_id rid j (map (\<lambda>r. if rid r = k then upd x r else r) rows)
      = (if j = k then map_option (upd x) (by_id rid j rows) else by_id rid j rows)"
    by (induction rows) (auto simp: by_id_def upd_id)
  then show ?thesis using update_is [OF assms] by simp
qed

end

end
