(* ===== verification/Notes_Schema.thy ===== *)
theory Notes_Schema
  imports Sql_Tables
begin

text \<open>
  A user's notes database at its latest version (\<open>dbx/migrations/sql/notes-db\<close>, migrations
  1 to 6): the tables, the view \<open>notes_details\<close>, the full-text index over that view, and the
  statements the data store issues, with their constraint checks and foreign-key actions.

  The index is an external-content FTS5 table: it holds a copy of what was inserted, one
  entry per inserted row, and the special command \<open>'delete'\<close> takes an entry out when it is
  given the very values that were inserted; given other values it damages the index
  (\<open>fts_malformed\<close>), as the engine documents.
\<close>

section \<open>Data\<close>

text \<open>\<open>data-store/models.go\<close>: \<open>Section\<close>, \<open>Tag\<close>, \<open>NoteDetail\<close>.\<close>

record Section =
  SectionID :: int
  SectionName :: string

record Tag =
  TagID :: int
  TagName :: string

record NoteDetail =
  DetailID :: int
  DetailTitle :: string

text \<open>A row of \<open>notes\<close>; \<open>content\<close> is the one nullable column the code reads.\<close>

record note_row =
  n_id :: int
  n_title :: string
  n_content :: "string option"
  n_section :: int
  n_created :: string
  n_updated :: string
  n_bookmark :: bool

record fts_row =
  f_rowid :: int
  f_title :: string
  f_content :: "string option"
  f_tags :: string

record notes_db =
  db_sections :: "Section list"
  db_tags :: "Tag list"
  db_notes :: "note_row list"
  notes_tags :: "(int \<times> int) list"
  reference_notes :: "(int \<times> int) list"
  notes_fts :: "fts_row list"
  fts_malformed :: bool

text \<open>The database right after its migrations: one section, nothing else.\<close>

definition bootstrapped :: notes_db where
  "bootstrapped = \<lparr>db_sections = [\<lparr>SectionID = 1, SectionName = ''01 Inbox''\<rparr>], db_tags = [],
     db_notes = [], notes_tags = [], reference_notes = [], notes_fts = [], fts_malformed = False\<rparr>"

definition detail_of :: "note_row \<Rightarrow> NoteDetail" where
  "detail_of n = \<lparr>DetailID = n_id n, DetailTitle = n_title n\<rparr>"

lemma detail_of_simps [simp]: "DetailID (detail_of n) = n_id n" "DetailTitle (detail_of n) = n_title n"
  by (simp_all add: detail_of_def)

section \<open>The view notes_details\<close>

text \<open>
  The sub-queries of the view for one note: the tags joined through \<open>notes_tags\<close>, and the
  notes joined through \<open>reference_notes\<close> in either direction. The JSON columns are modelled by
  the lists of objects they encode.
\<close>

definition tags_of :: "engine \<Rightarrow> string \<Rightarrow> notes_db \<Rightarrow> int \<Rightarrow> Tag list" where
  "tags_of en q db nid =
     List.map_filter (\<lambda>p. by_id TagID (snd p) (db_tags db))
       (visit en q snd (filter (\<lambda>p. fst p = nid) (notes_tags db)))"

definition refs_of :: "engine \<Rightarrow> notes_db \<Rightarrow> int \<Rightarrow> NoteDetail list" where
  "refs_of en db nid =
     List.map_filter (\<lambda>p. map_option detail_of (by_id n_id (snd p) (db_notes db)))
       (visit en ''reference_notes_json'' snd (filter (\<lambda>p. fst p = nid) (reference_notes db)))"

definition ref_bys_of :: "engine \<Rightarrow> notes_db \<Rightarrow> int \<Rightarrow> NoteDetail list" where
  "ref_bys_of en db nid =
     List.map_filter (\<lambda>p. map_option detail_of (by_id n_id (fst p) (db_notes db)))
       (visit en ''reference_by_notes_json'' fst (filter (\<lambda>p. snd p = nid) (reference_notes db)))"

definition tags_txt :: "engine \<Rightarrow> notes_db \<Rightarrow> int \<Rightarrow> string" where
  "tags_txt en db nid = join '' '' (map TagName (tags_of en ''tags_txt'' db nid))"

record view_row =
  v_id :: int
  v_section_id :: int
  v_section_name :: "string option"
  v_title :: string
  v_content :: "string option"
  v_created :: string
  v_updated :: string
  v_bookmark :: bool
  v_tags_json :: "Tag list"
  v_refs_json :: "NoteDetail list"
  v_ref_bys_json :: "NoteDetail list"

definition notes_details :: "engine \<Rightarrow> notes_db \<Rightarrow> note_row \<Rightarrow> view_row" where
  "notes_details en db n =
     \<lparr>v_id = n_id n, v_section_id = n_section n,
      v_section_name = map_option SectionName (by_id SectionID (n_section n) (db_sections db)),
      v_title = n_title n, v_content = n_content n, v_created = n_created n, v_updated = n_updated n,
      v_bookmark = n_bookmark n, v_tags_json = tags_of en ''tags_json'' db (n_id n),
      v_refs_json = refs_of en db (n_id n), v_ref_bys_json = ref_bys_of en db (n_id n)\<rparr>"

section \<open>The full-text index\<close>

definition fts_entry :: "engine \<Rightarrow> notes_db \<Rightarrow> note_row \<Rightarrow> fts_row" where
  "fts_entry en db n =
     \<lparr>f_rowid = n_id n, f_title = n_title n, f_content = n_content n, f_tags = tags_txt en db (n_id n)\<rparr>"

fun fts_remove :: "fts_row list \<Rightarrow> fts_row list \<times> bool \<Rightarrow> fts_row list \<times> bool" where
  "fts_remove [] s = s"
| "fts_remove (r # rs) (ix, bad) =
     fts_remove rs (if r \<in> set ix then (remove1 r ix, bad) else (ix, True))"

definition fts_insert_rows :: "fts_row list \<Rightarrow> notes_db \<Rightarrow> notes_db" where
  "fts_insert_rows rs db = db\<lparr>notes_fts := notes_fts db @ rs\<rparr>"

definition fts_delete_rows :: "fts_row list \<Rightarrow> notes_db \<Rightarrow> notes_db" where
  "fts_delete_rows rs db =
     (case fts_remove rs (notes_fts db, fts_malformed db) of
        (ix, bad) \<Rightarrow> db\<lparr>notes_fts := ix, fts_malformed := bad\<rparr>)"

text \<open>The rows a \<open>SELECT ... FROM notes_details WHERE id = ?\<close> yields.\<close>

definition entries_of_note :: "engine \<Rightarrow> notes_db \<Rightarrow> int \<Rightarrow> fts_row list" where
  "entries_of_note en db nid = map (fts_entry en db) (filter (\<lambda>n. n_id n = nid) (db_notes db))"

text \<open>
  The rows of \<open>SELECT ... FROM notes_details, json_each(tags_json) WHERE
  json_extract(value, '$.id') = ?\<close>: one per note and element of its tag array with that id.
\<close>

definition entries_of_tag :: "engine \<Rightarrow> notes_db \<Rightarrow> int \<Rightarrow> fts_row list" where
  "entries_of_tag en db tid =
     concat (map (\<lambda>n. map (\<lambda>_. fts_entry en db n)
       (filter (\<lambda>t. TagID t = tid) (tags_of en ''tags_json'' db (n_id n)))) (db_notes db))"

text \<open>The four constants of \<open>data-store/sqlite.go\<close>.\<close>

definition insNoteFTSSql :: "engine \<Rightarrow> int \<Rightarrow> notes_db \<Rightarrow> notes_db outcome" where
  "insNoteFTSSql en nid db = Inr (fts_insert_rows (entries_of_note en db nid) db)"

definition delNoteFTSSql :: "engine \<Rightarrow> int \<Rightarrow> notes_db \<Rightarrow> notes_db outcome" where
  "delNoteFTSSql en nid db = Inr (fts_delete_rows (entries_of_note en db nid) db)"

definition delTagFTSSql :: "engine \<Rightarrow> int \<Rightarrow> notes_db \<Rightarrow> notes_db outcome" where
  "delTagFTSSql en tid db = Inr (fts_delete_rows (entries_of_tag en db tid) db)"

definition insTagFTSSql :: "engine \<Rightarrow> int \<Rightarrow> notes_db \<Rightarrow> notes_db outcome" where
  "insTagFTSSql en tid db = Inr (fts_insert_rows (entries_of_tag en db tid) db)"

section \<open>Statements on the tables\<close>

definition new_note :: "string \<Rightarrow> string \<Rightarrow> string \<Rightarrow> int \<Rightarrow> int \<Rightarrow> note_row" where
  "new_note now title content sec i =
     \<lparr>n_id = i, n_title = title, n_content = Some content, n_section = sec,
      n_created = now, n_updated = now, n_bookmark = False\<rparr>"

lemma new_note_simps [simp]:
  "n_id (new_note now title content sec i) = i" "n_title (new_note now title content sec i) = title"
  "n_section (new_note now title content sec i) = sec"
  by (simp_all add: new_note_def)

definition insert_note ::
    "engine \<Rightarrow> string \<Rightarrow> string \<Rightarrow> string \<Rightarrow> int \<Rightarrow> notes_db \<Rightarrow> (int \<times> notes_db) outcome" where
  "insert_note en now title content sec db =
     (case insert_row en ''notes.title'' n_id n_title (new_note now title content sec) (db_notes db) of
        Inl e \<Rightarrow> Inl e
      | Inr (i, rows) \<Rightarrow>
          if fk_on en \<and> sec \<notin> SectionID ` set (db_sections db) then Inl ForeignKeyViolation
          else Inr (i, db\<lparr>db_notes := rows\<rparr>))"

text \<open>The columns \<open>UPDATE notes SET ...\<close> assigns.\<close>

definition set_note :: "string \<times> string \<times> int \<times> string \<Rightarrow> note_row \<Rightarrow> note_row" where
  "set_note x n = (case x of (title, content, sec, now) \<Rightarrow>
     n\<lparr>n_title := title, n_content := Some content, n_section := sec, n_updated := now\<rparr>)"

definition update_note ::
    "engine \<Rightarrow> string \<times> string \<times> int \<times> string \<Rightarrow> int \<Rightarrow> notes_db \<Rightarrow> notes_db outcome" where
  "update_note en x nid db =
     (case update_row ''notes.title'' n_id n_title (set_note x) nid (db_notes db) of
        Inl e \<Rightarrow> Inl e
      | Inr rows \<Rightarrow>
          if fk_on en \<and> nid \<in> n_id ` set (db_notes db)
             \<and> fst (snd (snd x)) \<notin> SectionID ` set (db_sections db)
          then Inl ForeignKeyViolation
          else Inr (db\<lparr>db_notes := rows\<rparr>))"

text \<open>\<open>ON DELETE CASCADE\<close> on both link tables.\<close>

definition delete_note :: "engine \<Rightarrow> int \<Rightarrow> notes_db \<Rightarrow> notes_db outcome" where
  "delete_note en nid db =
     (let db = db\<lparr>db_notes := delete_row n_id nid (db_notes db)\<rparr>
      in Inr (if fk_on en
              then db\<lparr>notes_tags := filter (\<lambda>p. fst p \<noteq> nid) (notes_tags db),
                      reference_notes := filter (\<lambda>p. fst p \<noteq> nid \<and> snd p \<noteq> nid) (reference_notes db)\<rparr>
              else db))"

text \<open>
  One \<open>INSERT\<close> with several rows of pairs: the primary key is checked row by row, the
  foreign keys at the end of the statement.
\<close>

definition insert_pairs ::
    "engine \<Rightarrow> string \<Rightarrow> int set \<Rightarrow> int set \<Rightarrow> int \<Rightarrow> int list \<Rightarrow> (int \<times> int) list \<Rightarrow> (int \<times> int) list outcome" where
  "insert_pairs en key left right nid ks rows =
     (let new = map (\<lambda>k. (nid, k)) ks
      in if \<not> distinct new \<or> (\<exists>p \<in> set new. p \<in> set rows) then Inl (UniqueViolation key)
         else if fk_on en \<and> (nid \<notin> left \<or> \<not> set ks \<subseteq> right) then Inl ForeignKeyViolation
         else Inr (rows @ new))"

definition insert_notes_tags :: "engine \<Rightarrow> int \<Rightarrow> int list \<Rightarrow> notes_db \<Rightarrow> notes_db outcome" where
  "insert_notes_tags en nid tids db =
     (case insert_pairs en ''notes_tags.note_id, notes_tags.tag_id''
             (n_id ` set (db_notes db)) (TagID ` set (db_tags db)) nid tids (notes_tags db) of
        Inl e \<Rightarrow> Inl e | Inr rows \<Rightarrow> Inr (db\<lparr>notes_tags := rows\<rparr>))"

definition insert_reference_notes :: "engine \<Rightarrow> int \<Rightarrow> int list \<Rightarrow> notes_db \<Rightarrow> notes_db outcome" where
  "insert_reference_notes en nid rids db =
     (case insert_pairs en ''reference_notes.note_id, reference_notes.ref_note_id''
             (n_id ` set (db_notes db)) (n_id ` set (db_notes db)) nid rids (reference_notes db) of
        Inl e \<Rightarrow> Inl e | Inr rows \<Rightarrow> Inr (db\<lparr>reference_notes := rows\<rparr>))"

definition delete_notes_tags :: "int \<Rightarrow> notes_db \<Rightarrow> notes_db outcome" where
  "delete_notes_tags nid db = Inr (db\<lparr>notes_tags := filter (\<lambda>p. fst p \<noteq> nid) (notes_tags db)\<rparr>)"

definition delete_reference_notes :: "int \<Rightarrow> notes_db \<Rightarrow> notes_db outcome" where
  "delete_reference_notes nid db =
     Inr (db\<lparr>reference_notes := filter (\<lambda>p. fst p \<noteq> nid) (reference_notes db)\<rparr>)"

definition set_bookmark :: "bool \<Rightarrow> int \<Rightarrow> notes_db \<Rightarrow> notes_db outcome" where
  "set_bookmark b nid db =
     Inr (db\<lparr>db_notes := map (\<lambda>n. if n_id n = nid then n\<lparr>n_bookmark := b\<rparr> else n) (db_notes db)\<rparr>)"

definition insert_section :: "engine \<Rightarrow> string \<Rightarrow> notes_db \<Rightarrow> (int \<times> notes_db) outcome" where
  "insert_section en nm db =
     (case insert_row en ''sections.name'' SectionID SectionName
             (\<lambda>i. \<lparr>SectionID = i, SectionName = nm\<rparr>) (db_sections db) of
        Inl e \<Rightarrow> Inl e | Inr (i, rows) \<Rightarrow> Inr (i, db\<lparr>db_sections := rows\<rparr>))"

definition set_section_name :: "string \<Rightarrow> Section \<Rightarrow> Section" where
  "set_section_name nm s = s\<lparr>SectionName := nm\<rparr>"

definition update_section :: "string \<Rightarrow> int \<Rightarrow> notes_db \<Rightarrow> notes_db outcome" where
  "update_section nm sid db =
     (case update_row ''sections.name'' SectionID SectionName (set_section_name nm) sid (db_sections db) of
        Inl e \<Rightarrow> Inl e | Inr rows \<Rightarrow> Inr (db\<lparr>db_sections := rows\<rparr>))"

text \<open>\<open>ON DELETE RESTRICT\<close>.\<close>

definition delete_section :: "engine \<Rightarrow> int \<Rightarrow> notes_db \<Rightarrow> notes_db outcome" where
  "delete_section en sid db =
     (if fk_on en \<and> sid \<in> SectionID ` set (db_sections db) \<and> sid \<in> n_section ` set (db_notes db)
      then Inl ForeignKeyViolation
      else Inr (db\<lparr>db_sections := delete_row SectionID sid (db_sections db)\<rparr>))"

definition insert_tag :: "engine \<Rightarrow> string \<Rightarrow> notes_db \<Rightarrow> (int \<times> notes_db) outcome" where
  "insert_tag en nm db =
     (case insert_row en ''tags.name'' TagID TagName (\<lambda>i. \<lparr>TagID = i, TagName = nm\<rparr>) (db_tags db) of
        Inl e \<Rightarrow> Inl e | Inr (i, rows) \<Rightarrow> Inr (i, db\<lparr>db_tags := rows\<rparr>))"

definition set_tag_name :: "string \<Rightarrow> Tag \<Rightarrow> Tag" where
  "set_tag_name nm t = t\<lparr>TagName := nm\<rparr>"

definition update_tag :: "string \<Rightarrow> int \<Rightarrow> notes_db \<Rightarrow> notes_db outcome" where
  "update_tag nm tid db =
     (case update_row ''tags.name'' TagID TagName (set_tag_name nm) tid (db_tags db) of
        Inl e \<Rightarrow> Inl e | Inr rows \<Rightarrow> Inr (db\<lparr>db_tags := rows\<rparr>))"

definition delete_tag :: "engine \<Rightarrow> int \<Rightarrow> notes_db \<Rightarrow> notes_db outcome" where
  "delete_tag en tid db =
     (let db = db\<lparr>db_tags := delete_row TagID tid (db_tags db)\<rparr>
      in Inr (if fk_on en then db\<lparr>notes_tags := filter (\<lambda>p. snd p \<noteq> tid) (notes_tags db)\<rparr> else db))"

section \<open>The tables as keyed tables\<close>

interpretation notes_tbl: keyed_table n_id n_title set_note fst
  by unfold_locales (auto simp: set_note_def split: prod.splits)

interpretation sections_tbl: keyed_table SectionID SectionName set_section_name "\<lambda>nm. nm"
  by unfold_locales (simp_all add: set_section_name_def)

interpretation tags_tbl: keyed_table TagID TagName set_tag_name "\<lambda>nm. nm"
  by unfold_locales (simp_all add: set_tag_name_def)

lemmas stmt_defs [row_simps] =
  insNoteFTSSql_def delNoteFTSSql_def delTagFTSSql_def insTagFTSSql_def insert_note_def update_note_def
  delete_note_def insert_notes_tags_def insert_reference_notes_def delete_notes_tags_def
  delete_reference_notes_def set_bookmark_def insert_section_def update_section_def delete_section_def
  insert_tag_def update_tag_def delete_tag_def

end
