(* ===== verification/Data_Store.thy ===== *)
theory Data_Store
  imports Notes_Schema
begin

text \<open>
  The operations of \<open>data-store/sqlite.go\<close> that write: each takes the engine, the call (which
  statements fail, and the current time) and the database, and returns its results and the
  database it leaves. Statements are numbered in the order the code issues them; a read of
  \<open>LastInsertId\<close> counts as one, since the driver may report an error there.
\<close>

section \<open>Notes\<close>

definition CreateNote_tx ::
    "engine \<Rightarrow> call \<Rightarrow> string \<Rightarrow> string \<Rightarrow> int \<Rightarrow> int list \<Rightarrow> int list \<Rightarrow> notes_db \<Rightarrow> int go_ret \<times> notes_db" where
  "CreateNote_tx en c title content sectionID tagIds referenceNoteIds db =
     (case exec c 0 (insert_note en (now_txt c) title content sectionID) db of
        Inl err \<Rightarrow> (Returns 0 (Some (WrapError ''failed to insert new note'' err)), db)
      | Inr (lastId, db1) \<Rightarrow>
     (case exec c 1 (\<lambda>_. Inr lastId) db1 of
        Inl err \<Rightarrow> (Returns 0 (Some (WrapError ''failed to retrieve id of inserted note'' err)), db1)
      | Inr nid \<Rightarrow>
     if nid = 0 then (Returns 0 (Some (NewError ''id of created note not returned'')), db1)
     else
     (case (if 0 < length tagIds then exec c 2 (insert_notes_tags en nid tagIds) db1 else Inr db1) of
        Inl err \<Rightarrow> (Returns 0 (Some (TextError (''failed to insert tags associated with note '' @ show_int nid) err)), db1)
      | Inr db2 \<Rightarrow>
     (case (if 0 < length referenceNoteIds then exec c 3 (insert_reference_notes en nid referenceNoteIds) db2
            else Inr db2) of
        Inl err \<Rightarrow> (Returns 0 (Some (TextError (''failed to insert reference notes for note_id '' @ show_int nid) err)), db2)
      | Inr db3 \<Rightarrow>
     (case exec c 4 (insNoteFTSSql en nid) db3 of
        Inl err \<Rightarrow> (Returns (-1) (Some err), db3)
      | Inr db4 \<Rightarrow> (Returns nid None, db4))))))"

definition CreateNote ::
    "engine \<Rightarrow> call \<Rightarrow> string \<Rightarrow> string \<Rightarrow> int \<Rightarrow> int list \<Rightarrow> int list \<Rightarrow> notes_db \<Rightarrow> int go_result \<times> notes_db" where
  "CreateNote en c title content sectionID tagIds referenceNoteIds db =
     with_transaction c 0 (CreateNote_tx en c title content sectionID tagIds referenceNoteIds) db"

definition UpdateNote_tx ::
    "engine \<Rightarrow> call \<Rightarrow> int \<Rightarrow> string \<Rightarrow> string \<Rightarrow> int \<Rightarrow> int list \<Rightarrow> int list \<Rightarrow> notes_db \<Rightarrow> int go_ret \<times> notes_db" where
  "UpdateNote_tx en c nid title content sectionID tagIds referenceNoteIds db =
     (case exec c 0 (delNoteFTSSql en nid) db of
        Inl err \<Rightarrow> (Returns (-1) (Some err), db)
      | Inr db1 \<Rightarrow>
     (case exec c 1 (update_note en (title, content, sectionID, now_txt c) nid) db1 of
        Inl err \<Rightarrow> (Returns (-1) (Some (WrapError (''failed to update note '' @ show_int nid) err)), db1)
      | Inr db2 \<Rightarrow>
     (case exec c 2 (delete_notes_tags nid) db2 of
        Inl err \<Rightarrow> (Returns (-1) (Some (WrapError ''failed to remove tags associated with note'' err)), db2)
      | Inr db3 \<Rightarrow>
     (case (if 0 < length tagIds then exec c 3 (insert_notes_tags en nid tagIds) db3 else Inr db3) of
        Inl err \<Rightarrow> (Returns 0 (Some (TextError (''failed to insert tags associated with note '' @ show_int nid) err)), db3)
      | Inr db4 \<Rightarrow>
     (case exec c 4 (delete_reference_notes nid) db4 of
        Inl err \<Rightarrow> (Returns (-1) (Some (TextError (''failed to remove reference notes associated with note '' @ show_int nid) err)), db4)
      | Inr db5 \<Rightarrow>
     (case (if 0 < length referenceNoteIds then exec c 5 (insert_reference_notes en nid referenceNoteIds) db5
            else Inr db5) of
        Inl err \<Rightarrow> (Returns 0 (Some (TextError (''failed to insert reference notes for note_id '' @ show_int nid) err)), db5)
      | Inr db6 \<Rightarrow>
     (case exec c 6 (insNoteFTSSql en nid) db6 of
        Inl err \<Rightarrow> (Returns (-1) (Some err), db6)
      | Inr db7 \<Rightarrow> (Returns 1 None, db7))))))))"

definition UpdateNote ::
    "engine \<Rightarrow> call \<Rightarrow> int \<Rightarrow> string \<Rightarrow> string \<Rightarrow> int \<Rightarrow> int list \<Rightarrow> int list \<Rightarrow> notes_db \<Rightarrow> go_error option \<times> notes_db" where
  "UpdateNote en c nid title content sectionID tagIds referenceNoteIds db =
     (case with_transaction c 0 (UpdateNote_tx en c nid title content sectionID tagIds referenceNoteIds) db of
        ((_, err), db') \<Rightarrow> (err, db'))"

definition DeleteNote_tx :: "engine \<Rightarrow> call \<Rightarrow> int \<Rightarrow> notes_db \<Rightarrow> int go_ret \<times> notes_db" where
  "DeleteNote_tx en c nid db =
     (case exec c 0 (delNoteFTSSql en nid) db of
        Inl err \<Rightarrow> (Returns (-1) (Some err), db)
      | Inr db1 \<Rightarrow>
     (case exec c 1 (delete_note en nid) db1 of
        Inl err \<Rightarrow> (Returns (-1) (Some (WrapError (''failed to delete note '' @ show_int nid) err)), db1)
      | Inr db2 \<Rightarrow> (Returns 1 None, db2)))"

definition DeleteNote :: "engine \<Rightarrow> call \<Rightarrow> int \<Rightarrow> notes_db \<Rightarrow> go_error option \<times> notes_db" where
  "DeleteNote en c nid db =
     (case with_transaction c 0 (DeleteNote_tx en c nid) db of ((_, err), db') \<Rightarrow> (err, db'))"

text \<open>A single statement outside a transaction: it happens or it does not.\<close>

definition exec_write :: "call \<Rightarrow> (notes_db \<Rightarrow> notes_db outcome) \<Rightarrow> notes_db \<Rightarrow> go_error option \<times> notes_db" where
  "exec_write c stm db =
     (case exec c 0 stm db of Inl err \<Rightarrow> (Some err, db) | Inr db' \<Rightarrow> (None, db'))"

definition SetNoteBookmark :: "call \<Rightarrow> int \<Rightarrow> bool \<Rightarrow> notes_db \<Rightarrow> go_error option \<times> notes_db" where
  "SetNoteBookmark c noteID bookmark db = exec_write c (set_bookmark bookmark noteID) db"

section \<open>Sections\<close>

definition CreateSection :: "engine \<Rightarrow> call \<Rightarrow> Section \<Rightarrow> notes_db \<Rightarrow> int go_result \<times> notes_db" where
  "CreateSection en c s db =
     (case exec c 0 (insert_section en (SectionName s)) db of
        Inl err \<Rightarrow> ((0, Some err), db)
      | Inr (lastId, db') \<Rightarrow> ((lastId, stmt_fault c 1), db'))"

definition UpdateSection :: "call \<Rightarrow> Section \<Rightarrow> notes_db \<Rightarrow> go_error option \<times> notes_db" where
  "UpdateSection c s db = exec_write c (update_section (SectionName s) (SectionID s)) db"

definition DeleteSection :: "engine \<Rightarrow> call \<Rightarrow> int \<Rightarrow> notes_db \<Rightarrow> go_error option \<times> notes_db" where
  "DeleteSection en c sid db = exec_write c (delete_section en sid) db"

section \<open>Tags\<close>

definition CreateTag :: "engine \<Rightarrow> call \<Rightarrow> Tag \<Rightarrow> notes_db \<Rightarrow> int go_result \<times> notes_db" where
  "CreateTag en c t db =
     (case exec c 0 (insert_tag en (TagName t)) db of
        Inl err \<Rightarrow> ((0, Some err), db)
      | Inr (lastId, db') \<Rightarrow> ((lastId, stmt_fault c 1), db'))"

definition UpdateTag_tx :: "engine \<Rightarrow> call \<Rightarrow> Tag \<Rightarrow> notes_db \<Rightarrow> int go_ret \<times> notes_db" where
  "UpdateTag_tx en c t db =
     (case exec c 0 (delTagFTSSql en (TagID t)) db of
        Inl err \<Rightarrow> (Returns (-1) (Some err), db)
      | Inr db1 \<Rightarrow>
     (case exec c 1 (update_tag (TagName t) (TagID t)) db1 of
        Inl err \<Rightarrow> (Returns (-1) (Some err), db1)
      | Inr db2 \<Rightarrow>
     (case exec c 2 (insTagFTSSql en (TagID t)) db2 of
        Inl err \<Rightarrow> (Returns (-1) (Some err), db2)
      | Inr db3 \<Rightarrow> (Returns 1 None, db3))))"

definition UpdateTag :: "engine \<Rightarrow> call \<Rightarrow> Tag \<Rightarrow> notes_db \<Rightarrow> go_error option \<times> notes_db" where
  "UpdateTag en c t db =
     (case with_transaction c 0 (UpdateTag_tx en c t) db of ((_, err), db') \<Rightarrow> (err, db'))"

definition DeleteTag_tx :: "engine \<Rightarrow> call \<Rightarrow> int \<Rightarrow> notes_db \<Rightarrow> int go_ret \<times> notes_db" where
  "DeleteTag_tx en c tid db =
     (case exec c 0 (delTagFTSSql en tid) db of
        Inl err \<Rightarrow> (Returns (-1) (Some err), db)
      | Inr db1 \<Rightarrow>
     (case exec c 1 (delete_tag en tid) db1 of
        Inl err \<Rightarrow> (Returns (-1) (Some err), db1)
      | Inr db2 \<Rightarrow>
     (case exec c 2 (insTagFTSSql en tid) db2 of
        Inl err \<Rightarrow> (Returns (-1) (Some err), db2)
      | Inr db3 \<Rightarrow> (Returns 1 None, db3))))"

definition DeleteTag :: "engine \<Rightarrow> call \<Rightarrow> int \<Rightarrow> notes_db \<Rightarrow> go_error option \<times> notes_db" where
  "DeleteTag en c tid db =
     (case with_transaction c 0 (DeleteTag_tx en c tid) db of ((_, err), db') \<Rightarrow> (err, db'))"

section \<open>What a success tells\<close>

text \<open>The sequence of statements behind each operation that reports success.\<close>

lemma CreateNote_okD:
  assumes "CreateNote en c title content sec tids rids db = ((nid, None), db')"
  shows "\<exists>db1 db2 db3. insert_note en (now_txt c) title content sec db = Inr (nid, db1) \<and> nid \<noteq> 0
    \<and> (if tids = [] then db2 = db1 else insert_notes_tags en nid tids db1 = Inr db2)
    \<and> (if rids = [] then db3 = db2 else insert_reference_notes en nid rids db2 = Inr db3)
    \<and> db' = fts_insert_rows (entries_of_note en db3 nid) db3"
  using with_transaction_ok [OF assms [unfolded CreateNote_def]]
  by (auto simp: CreateNote_tx_def exec_def insNoteFTSSql_def
      split: option.splits sum.splits prod.splits if_splits)

lemma UpdateNote_okD:
  assumes "UpdateNote en c nid title content sec tids rids db = (None, db')"
  shows "\<exists>db2 db3 db4. update_note en (title, content, sec, now_txt c) nid
        (fts_delete_rows (entries_of_note en db nid) db) = Inr db2
    \<and> (let d = db2\<lparr>notes_tags := filter (\<lambda>p. fst p \<noteq> nid) (notes_tags db2)\<rparr>
       in if tids = [] then db3 = d else insert_notes_tags en nid tids d = Inr db3)
    \<and> (let d = db3\<lparr>reference_notes := filter (\<lambda>p. fst p \<noteq> nid) (reference_notes db3)\<rparr>
       in if rids = [] then db4 = d else insert_reference_notes en nid rids d = Inr db4)
    \<and> db' = fts_insert_rows (entries_of_note en db4 nid) db4"
proof -
  obtain r where "with_transaction c 0 (UpdateNote_tx en c nid title content sec tids rids) db = ((r, None), db')"
    using assms by (auto simp: UpdateNote_def split: prod.splits)
  from with_transaction_ok [OF this] show ?thesis
    by (auto simp: UpdateNote_tx_def exec_def insNoteFTSSql_def delNoteFTSSql_def delete_notes_tags_def
        delete_reference_notes_def Let_def
        split: option.splits sum.splits prod.splits if_splits)
qed

lemma DeleteNote_okD:
  assumes "DeleteNote en c nid db = (None, db')"
  shows "delete_note en nid (fts_delete_rows (entries_of_note en db nid) db) = Inr db'"
proof -
  obtain r where "with_transaction c 0 (DeleteNote_tx en c nid) db = ((r, None), db')"
    using assms by (auto simp: DeleteNote_def split: prod.splits)
  from with_transaction_ok [OF this] show ?thesis
    by (auto simp: DeleteNote_tx_def exec_def delNoteFTSSql_def split: option.splits sum.splits)
qed

lemma UpdateTag_okD:
  assumes "UpdateTag en c t db = (None, db')"
  shows "\<exists>db2. update_tag (TagName t) (TagID t) (fts_delete_rows (entries_of_tag en db (TagID t)) db) = Inr db2
    \<and> db' = fts_insert_rows (entries_of_tag en db2 (TagID t)) db2"
proof -
  obtain r where "with_transaction c 0 (UpdateTag_tx en c t) db = ((r, None), db')"
    using assms by (auto simp: UpdateTag_def split: prod.splits)
  from with_transaction_ok [OF this] show ?thesis
    by (auto simp: UpdateTag_tx_def exec_def delTagFTSSql_def insTagFTSSql_def
        split: option.splits sum.splits)
qed

lemma DeleteTag_okD:
  assumes "DeleteTag en c tid db = (None, db')"
  shows "\<exists>db2. delete_tag en tid (fts_delete_rows (entries_of_tag en db tid) db) = Inr db2
    \<and> db' = fts_insert_rows (entries_of_tag en db2 tid) db2"
proof -
  obtain r where "with_transaction c 0 (DeleteTag_tx en c tid) db = ((r, None), db')"
    using assms by (auto simp: DeleteTag_def split: prod.splits)
  from with_transaction_ok [OF this] show ?thesis
    by (auto simp: DeleteTag_tx_def exec_def delTagFTSSql_def insTagFTSSql_def
        split: option.splits sum.splits)
qed

lemma exec_write_okD: "exec_write c stm db = (None, db') \<Longrightarrow> stm db = Inr db'"
  by (auto simp: exec_write_def exec_def split: option.splits sum.splits)

lemma exec_write_errD: "exec_write c stm db = (Some e, db') \<Longrightarrow> db' = db"
  by (auto simp: exec_write_def split: sum.splits)

lemma exec_write_quiet:
  "quiet c \<Longrightarrow> exec_write c stm db = (case stm db of Inl err \<Rightarrow> (Some err, db) | Inr db' \<Rightarrow> (None, db'))"
  by (simp add: exec_write_def exec_quiet)

text \<open>An operation that reports an error has no effect.\<close>

lemma CreateNote_errD: "CreateNote en c title content sec tids rids db = ((r, Some e), db') \<Longrightarrow> db' = db"
  by (auto simp: CreateNote_def dest: with_transaction_fail)

lemma UpdateNote_errD: "UpdateNote en c nid title content sec tids rids db = (Some e, db') \<Longrightarrow> db' = db"
  by (auto simp: UpdateNote_def split: prod.splits dest: with_transaction_fail)

lemma DeleteNote_errD: "DeleteNote en c nid db = (Some e, db') \<Longrightarrow> db' = db"
  by (auto simp: DeleteNote_def split: prod.splits dest: with_transaction_fail)

lemma UpdateTag_errD: "UpdateTag en c t db = (Some e, db') \<Longrightarrow> db' = db"
  by (auto simp: UpdateTag_def split: prod.splits dest: with_transaction_fail)

lemma DeleteTag_errD: "DeleteTag en c tid db = (Some e, db') \<Longrightarrow> db' = db"
  by (auto simp: DeleteTag_def split: prod.splits dest: with_transaction_fail)

end
