(* ===== verification/Data_Schema.thy ===== *)
theory Data_Schema
  imports Data_Store
begin

text \<open>
  The integrity of a notes database: keys and unique columns, and no link or section
  reference that dangles. Every operation of the data store keeps it, whatever statements
  fail during the call. The operations are gathered as commands, and the databases the
  store can produce from a freshly migrated one as an inductive predicate.
\<close>

definition schema_ok :: "notes_db \<Rightarrow> bool" where
  "schema_ok db \<longleftrightarrow>
     table_ok SectionID SectionName (db_sections db)
     \<and> table_ok TagID TagName (db_tags db)
     \<and> table_ok n_id n_title (db_notes db)
     \<and> distinct (notes_tags db) \<and> distinct (reference_notes db)
     \<and> (\<forall>p \<in> set (notes_tags db). fst p \<in> n_id ` set (db_notes db) \<and> snd p \<in> TagID ` set (db_tags db))
     \<and> (\<forall>p \<in> set (reference_notes db). fst p \<in> n_id ` set (db_notes db) \<and> snd p \<in> n_id ` set (db_notes db))
     \<and> (\<forall>n \<in> set (db_notes db). n_section n \<in> SectionID ` set (db_sections db))"

lemma schema_ok_bootstrapped [simp]: "schema_ok bootstrapped"
  by (simp add: schema_ok_def bootstrapped_def table_ok_def)

lemma schema_tables:
  assumes "schema_ok db"
  shows schema_sections: "table_ok SectionID SectionName (db_sections db)"
    and schema_tags: "table_ok TagID TagName (db_tags db)"
    and schema_notes: "table_ok n_id n_title (db_notes db)"
  using assms by (simp_all add: schema_ok_def)

section \<open>Statements keep the integrity\<close>

lemma schema_fts [simp]:
  "schema_ok (fts_insert_rows rs db) = schema_ok db"
  "schema_ok (fts_delete_rows rs db) = schema_ok db"
  by (simp_all add: schema_ok_def fts_insert_rows_def fts_delete_rows_def split: prod.splits)

lemma fts_rows_frame [simp]:
  "db_sections (fts_insert_rows rs db) = db_sections db" "db_sections (fts_delete_rows rs db) = db_sections db"
  "db_tags (fts_insert_rows rs db) = db_tags db" "db_tags (fts_delete_rows rs db) = db_tags db"
  "db_notes (fts_insert_rows rs db) = db_notes db" "db_notes (fts_delete_rows rs db) = db_notes db"
  "notes_tags (fts_insert_rows rs db) = notes_tags db" "notes_tags (fts_delete_rows rs db) = notes_tags db"
  "reference_notes (fts_insert_rows rs db) = reference_notes db"
  "reference_notes (fts_delete_rows rs db) = reference_notes db"
  by (simp_all add: fts_insert_rows_def fts_delete_rows_def split: prod.splits)

lemma insert_note_okD:
  assumes "engine_ok en" and "schema_ok db" and "insert_note en now title content sec db = Inr (i, db')"
  shows "db' = db\<lparr>db_notes := db_notes db @ [new_note now title content sec i]\<rparr>
    \<and> 0 < i \<and> i \<notin> n_id ` set (db_notes db) \<and> title \<notin> n_title ` set (db_notes db)
    \<and> sec \<in> SectionID ` set (db_sections db)
    \<and> table_ok n_id n_title (db_notes db')"
proof -
  obtain rows where r: "insert_row en ''notes.title'' n_id n_title (new_note now title content sec) (db_notes db) = Inr (i, rows)"
    and d: "db' = db\<lparr>db_notes := rows\<rparr>" and s: "sec \<in> SectionID ` set (db_sections db)"
    using assms engine_ok_fk [OF assms(1)]
    by (auto simp: insert_note_def split: sum.splits prod.splits if_splits)
  from insert_row_ok [OF assms(1) schema_notes [OF assms(2)] _ r] s d show ?thesis by auto
qed

lemma insert_note_schema:
  assumes "engine_ok en" and "schema_ok db" and "insert_note en now title content sec db = Inr (i, db')"
  shows "schema_ok db'"
  using insert_note_okD [OF assms] assms(2) by (auto simp: schema_ok_def)

lemma insert_pairs_okD:
  "insert_pairs en key left right nid ks rows = Inr rows' \<Longrightarrow>
     rows' = rows @ map (\<lambda>k. (nid, k)) ks \<and> distinct ks \<and> (\<forall>k \<in> set ks. (nid, k) \<notin> set rows)
     \<and> (fk_on en \<longrightarrow> nid \<in> left \<and> set ks \<subseteq> right)"
  by (auto simp: insert_pairs_def Let_def distinct_map split: if_splits)

lemma insert_pairs_succeeds:
  "distinct ks \<Longrightarrow> \<forall>k \<in> set ks. (nid, k) \<notin> set rows \<Longrightarrow> nid \<in> left \<Longrightarrow> set ks \<subseteq> right \<Longrightarrow>
     insert_pairs en key left right nid ks rows = Inr (rows @ map (\<lambda>k. (nid, k)) ks)"
  by (auto simp: insert_pairs_def Let_def distinct_map inj_on_def)

lemma insert_notes_tags_okD:
  "engine_ok en \<Longrightarrow> insert_notes_tags en nid ks db = Inr db' \<Longrightarrow>
     db' = db\<lparr>notes_tags := notes_tags db @ map (\<lambda>k. (nid, k)) ks\<rparr> \<and> distinct ks
     \<and> (\<forall>k \<in> set ks. (nid, k) \<notin> set (notes_tags db))
     \<and> nid \<in> n_id ` set (db_notes db) \<and> set ks \<subseteq> TagID ` set (db_tags db)"
  using engine_ok_fk [of en]
  by (auto simp: insert_notes_tags_def split: sum.splits dest!: insert_pairs_okD)

lemma insert_reference_notes_okD:
  "engine_ok en \<Longrightarrow> insert_reference_notes en nid ks db = Inr db' \<Longrightarrow>
     db' = db\<lparr>reference_notes := reference_notes db @ map (\<lambda>k. (nid, k)) ks\<rparr> \<and> distinct ks
     \<and> (\<forall>k \<in> set ks. (nid, k) \<notin> set (reference_notes db))
     \<and> nid \<in> n_id ` set (db_notes db) \<and> set ks \<subseteq> n_id ` set (db_notes db)"
  using engine_ok_fk [of en]
  by (auto simp: insert_reference_notes_def split: sum.splits dest!: insert_pairs_okD)

lemma insert_notes_tags_schema:
  assumes "engine_ok en" and "schema_ok db" and "insert_notes_tags en nid ks db = Inr db'"
  shows "schema_ok db'"
  using insert_notes_tags_okD [OF assms(1,3)] assms(2)
  by (auto simp: schema_ok_def distinct_map inj_on_def)

lemma insert_reference_notes_schema:
  assumes "engine_ok en" and "schema_ok db" and "insert_reference_notes en nid ks db = Inr db'"
  shows "schema_ok db'"
  using insert_reference_notes_okD [OF assms(1,3)] assms(2)
  by (auto simp: schema_ok_def distinct_map inj_on_def)

lemma update_note_okD:
  assumes "update_note en x nid db = Inr db'"
  shows "update_row ''notes.title'' n_id n_title (set_note x) nid (db_notes db) = Inr (db_notes db')
    \<and> db' = db\<lparr>db_notes := map (\<lambda>n. if n_id n = nid then set_note x n else n) (db_notes db)\<rparr>
    \<and> (fk_on en \<longrightarrow> nid \<in> n_id ` set (db_notes db) \<longrightarrow> fst (snd (snd x)) \<in> SectionID ` set (db_sections db))"
  using assms by (auto simp: update_note_def split: sum.splits if_splits dest: notes_tbl.update_is)

lemma n_section_set_note [simp]: "n_section (set_note x n) = fst (snd (snd x))"
  by (simp add: set_note_def split: prod.splits)

lemma update_note_schema:
  assumes "engine_ok en" and ok: "schema_ok db" and up: "update_note en x nid db = Inr db'"
  shows "schema_ok db'"
proof -
  note u = update_note_okD [OF up]
  have t: "table_ok n_id n_title (db_notes db')"
    by (rule notes_tbl.update_ok [OF schema_notes [OF ok] conjunct1 [OF u]])
  have ids: "n_id ` set (db_notes db') = n_id ` set (db_notes db)"
    by (rule notes_tbl.update_id_set [OF conjunct1 [OF u]])
  have "\<forall>n \<in> set (db_notes db'). n_section n \<in> SectionID ` set (db_sections db)"
    using u ok engine_ok_fk [OF assms(1)] by (auto simp: schema_ok_def)
  with t ids ok u show ?thesis by (simp add: schema_ok_def)
qed

lemma delete_links_schema:
  "schema_ok db \<Longrightarrow> schema_ok (db\<lparr>notes_tags := filter P (notes_tags db)\<rparr>)"
  "schema_ok db \<Longrightarrow> schema_ok (db\<lparr>reference_notes := filter Q (reference_notes db)\<rparr>)"
  by (auto simp: schema_ok_def)

lemma delete_note_is:
  "engine_ok en \<Longrightarrow> delete_note en nid db = Inr db' \<Longrightarrow>
     db' = db\<lparr>db_notes := delete_row n_id nid (db_notes db),
              notes_tags := filter (\<lambda>p. fst p \<noteq> nid) (notes_tags db),
              reference_notes := filter (\<lambda>p. fst p \<noteq> nid \<and> snd p \<noteq> nid) (reference_notes db)\<rparr>"
  by (auto simp: delete_note_def engine_ok_fk)

lemma delete_note_schema:
  assumes "engine_ok en" and "schema_ok db" and "delete_note en nid db = Inr db'"
  shows "schema_ok db'"
  using delete_note_is [OF assms(1,3)] assms(2) delete_row_ok [OF schema_notes [OF assms(2)], of nid]
  by (auto simp: schema_ok_def delete_row_ids) (auto simp: delete_row_def)

definition mark_note :: "bool \<Rightarrow> int \<Rightarrow> note_row \<Rightarrow> note_row" where
  "mark_note b nid n = (if n_id n = nid then n\<lparr>n_bookmark := b\<rparr> else n)"

lemma mark_note_simps [simp]:
  "n_id (mark_note b nid n) = n_id n" "n_title (mark_note b nid n) = n_title n"
  "n_content (mark_note b nid n) = n_content n" "n_section (mark_note b nid n) = n_section n"
  by (simp_all add: mark_note_def)

lemma set_bookmark_is:
  "set_bookmark b nid db = Inr (db\<lparr>db_notes := map (mark_note b nid) (db_notes db)\<rparr>)"
  by (simp add: set_bookmark_def mark_note_def [abs_def])

lemma set_bookmark_schema: "schema_ok db \<Longrightarrow> set_bookmark b nid db = Inr db' \<Longrightarrow> schema_ok db'"
  by (clarsimp simp: schema_ok_def set_bookmark_is table_ok_def comp_def image_image)

lemma insert_section_okD:
  assumes "engine_ok en" and "schema_ok db" and "insert_section en nm db = Inr (i, db')"
  shows "db' = db\<lparr>db_sections := db_sections db @ [\<lparr>SectionID = i, SectionName = nm\<rparr>]\<rparr>
    \<and> 0 < i \<and> i \<notin> SectionID ` set (db_sections db) \<and> nm \<notin> SectionName ` set (db_sections db)
    \<and> table_ok SectionID SectionName (db_sections db')"
proof -
  obtain rows where r: "insert_row en ''sections.name'' SectionID SectionName
      (\<lambda>i. \<lparr>SectionID = i, SectionName = nm\<rparr>) (db_sections db) = Inr (i, rows)"
    and d: "db' = db\<lparr>db_sections := rows\<rparr>"
    using assms by (auto simp: insert_section_def split: sum.splits prod.splits)
  from insert_row_ok [OF assms(1) schema_sections [OF assms(2)] _ r] d show ?thesis by auto
qed

lemma insert_tag_okD:
  assumes "engine_ok en" and "schema_ok db" and "insert_tag en nm db = Inr (i, db')"
  shows "db' = db\<lparr>db_tags := db_tags db @ [\<lparr>TagID = i, TagName = nm\<rparr>]\<rparr>
    \<and> 0 < i \<and> i \<notin> TagID ` set (db_tags db) \<and> nm \<notin> TagName ` set (db_tags db)
    \<and> table_ok TagID TagName (db_tags db')"
proof -
  obtain rows where r: "insert_row en ''tags.name'' TagID TagName
      (\<lambda>i. \<lparr>TagID = i, TagName = nm\<rparr>) (db_tags db) = Inr (i, rows)"
    and d: "db' = db\<lparr>db_tags := rows\<rparr>"
    using assms by (auto simp: insert_tag_def split: sum.splits prod.splits)
  from insert_row_ok [OF assms(1) schema_tags [OF assms(2)] _ r] d show ?thesis by auto
qed

lemma insert_named_schema:
  assumes "engine_ok en" and "schema_ok db"
  shows "insert_section en nm db = Inr (i, db') \<Longrightarrow> schema_ok db'"
    and "insert_tag en nm db = Inr (i, db') \<Longrightarrow> schema_ok db'"
proof -
  show "schema_ok db'" if "insert_section en nm db = Inr (i, db')"
    using insert_section_okD [OF assms that] assms(2) by (auto simp: schema_ok_def)
  show "schema_ok db'" if "insert_tag en nm db = Inr (i, db')"
    using insert_tag_okD [OF assms that] assms(2) by (auto simp: schema_ok_def)
qed

lemma update_section_schema:
  assumes ok: "schema_ok db" and up: "update_section nm sid db = Inr db'"
  shows "schema_ok db'"
proof -
  obtain rows where r: "update_row ''sections.name'' SectionID SectionName (set_section_name nm) sid (db_sections db) = Inr rows"
    and d: "db' = db\<lparr>db_sections := rows\<rparr>"
    using up by (auto simp: update_section_def split: sum.splits)
  have "SectionID ` set rows = SectionID ` set (db_sections db)"
    by (rule sections_tbl.update_id_set [OF r])
  then show ?thesis
    using ok d sections_tbl.update_ok [OF schema_sections [OF ok] r] by (simp add: schema_ok_def)
qed

lemma update_tag_okD:
  assumes "update_tag nm tid db = Inr db'"
  shows "update_row ''tags.name'' TagID TagName (set_tag_name nm) tid (db_tags db) = Inr (db_tags db')
    \<and> db' = db\<lparr>db_tags := map (\<lambda>t. if TagID t = tid then set_tag_name nm t else t) (db_tags db)\<rparr>"
  using assms by (auto simp: update_tag_def split: sum.splits dest: tags_tbl.update_is)

lemma update_tag_schema:
  assumes ok: "schema_ok db" and up: "update_tag nm tid db = Inr db'"
  shows "schema_ok db'"
proof -
  note u = update_tag_okD [OF up]
  have t: "table_ok TagID TagName (db_tags db')"
    by (rule tags_tbl.update_ok [OF schema_tags [OF ok] conjunct1 [OF u]])
  have "TagID ` set (db_tags db') = TagID ` set (db_tags db)"
    by (rule tags_tbl.update_id_set [OF conjunct1 [OF u]])
  with t u ok show ?thesis by (simp add: schema_ok_def)
qed

lemma delete_section_okD:
  assumes "engine_ok en" and "schema_ok db" and "delete_section en sid db = Inr db'"
  shows "db' = db\<lparr>db_sections := delete_row SectionID sid (db_sections db)\<rparr>
    \<and> sid \<notin> n_section ` set (db_notes db)"
proof -
  have "n_section ` set (db_notes db) \<subseteq> SectionID ` set (db_sections db)"
    using assms(2) by (simp add: schema_ok_def image_subset_iff)
  then show ?thesis
    using assms(3) engine_ok_fk [OF assms(1)] by (auto simp: delete_section_def split: if_splits)
qed

lemma delete_section_schema:
  assumes "engine_ok en" and "schema_ok db" and "delete_section en sid db = Inr db'"
  shows "schema_ok db'"
proof -
  note d = delete_section_okD [OF assms]
  then have "\<forall>n \<in> set (db_notes db). n_section n \<noteq> sid" by auto
  then show ?thesis
    using d assms(2) delete_row_ok [OF schema_sections [OF assms(2)], of sid]
    by (simp add: schema_ok_def delete_row_ids)
qed

lemma delete_tag_is:
  "engine_ok en \<Longrightarrow> delete_tag en tid db = Inr db' \<Longrightarrow>
     db' = db\<lparr>db_tags := delete_row TagID tid (db_tags db),
              notes_tags := filter (\<lambda>p. snd p \<noteq> tid) (notes_tags db)\<rparr>"
  by (auto simp: delete_tag_def engine_ok_fk)

lemma delete_tag_schema:
  assumes "engine_ok en" and "schema_ok db" and "delete_tag en tid db = Inr db'"
  shows "schema_ok db'"
  using delete_tag_is [OF assms(1,3)] assms(2) delete_row_ok [OF schema_tags [OF assms(2)], of tid]
  by (auto simp: schema_ok_def delete_row_ids)

section \<open>The operations keep the integrity\<close>

lemma result_cases:
  assumes "\<And>db'. op = (None, db') \<Longrightarrow> P db'" and "\<And>e db'. op = (Some e, db') \<Longrightarrow> P db'"
  shows "P (snd op)"
  using assms by (cases op; cases "fst op") auto

text \<open>
  The tables after a note is written: its row, and exactly the links it was given. The
  index part of the effect is added by the last statement.
\<close>

definition created :: "string \<Rightarrow> string \<Rightarrow> string \<Rightarrow> int \<Rightarrow> int list \<Rightarrow> int list \<Rightarrow> int \<Rightarrow> notes_db \<Rightarrow> notes_db" where
  "created now title content sec tids rids nid db =
     db\<lparr>db_notes := db_notes db @ [new_note now title content sec nid],
        notes_tags := notes_tags db @ map (\<lambda>k. (nid, k)) tids,
        reference_notes := reference_notes db @ map (\<lambda>k. (nid, k)) rids\<rparr>"

definition updated :: "string \<times> string \<times> int \<times> string \<Rightarrow> int list \<Rightarrow> int list \<Rightarrow> int \<Rightarrow> notes_db \<Rightarrow> notes_db" where
  "updated x tids rids nid db =
     db\<lparr>db_notes := map (\<lambda>n. if n_id n = nid then set_note x n else n) (db_notes db),
        notes_tags := filter (\<lambda>p. fst p \<noteq> nid) (notes_tags db) @ map (\<lambda>k. (nid, k)) tids,
        reference_notes := filter (\<lambda>p. fst p \<noteq> nid) (reference_notes db) @ map (\<lambda>k. (nid, k)) rids\<rparr>"

lemma CreateNote_effect:
  assumes "engine_ok en" and "schema_ok db"
    and "CreateNote en c title content sec tids rids db = ((nid, None), db')"
  defines "d \<equiv> created (now_txt c) title content sec tids rids nid db"
  shows "db' = fts_insert_rows (entries_of_note en d nid) d \<and> schema_ok d
    \<and> 0 < nid \<and> nid \<notin> n_id ` set (db_notes db) \<and> title \<notin> n_title ` set (db_notes db)"
proof -
  from CreateNote_okD [OF assms(3)] obtain db1 db2 db3 where
    s: "insert_note en (now_txt c) title content sec db = Inr (nid, db1)"
       "if tids = [] then db2 = db1 else insert_notes_tags en nid tids db1 = Inr db2"
       "if rids = [] then db3 = db2 else insert_reference_notes en nid rids db2 = Inr db3"
       "db' = fts_insert_rows (entries_of_note en db3 nid) db3" by blast
  note i = insert_note_okD [OF assms(1,2) s(1)]
  have ok2: "schema_ok db2"
    using s(2) insert_note_schema [OF assms(1,2) s(1)] insert_notes_tags_schema [OF assms(1)]
    by (auto split: if_splits)
  then have ok3: "schema_ok db3"
    using s(3) insert_reference_notes_schema [OF assms(1)] by (auto split: if_splits)
  have 2: "db2 = db1\<lparr>notes_tags := notes_tags db1 @ map (\<lambda>k. (nid, k)) tids\<rparr>"
    using s(2) insert_notes_tags_okD [OF assms(1)] by (cases "tids = []") auto
  have 3: "db3 = db2\<lparr>reference_notes := reference_notes db2 @ map (\<lambda>k. (nid, k)) rids\<rparr>"
    using s(3) insert_reference_notes_okD [OF assms(1)] by (cases "rids = []") auto
  have "d = db3" using i by (simp add: d_def created_def 2 3)
  with i ok3 s(4) show ?thesis by simp
qed

lemma CreateNote_schema:
  assumes "engine_ok en" and "schema_ok db"
  shows "schema_ok (snd (CreateNote en c title content sec tids rids db))"
proof (cases "CreateNote en c title content sec tids rids db")
  case (Pair re db')
  then show ?thesis
    using CreateNote_effect [OF assms] CreateNote_errD assms(2) by (cases re; cases "snd re") fastforce+
qed

lemma UpdateNote_effect:
  assumes "engine_ok en" and "schema_ok db"
    and "UpdateNote en c nid title content sec tids rids db = (None, db')"
  defines "d \<equiv> updated (title, content, sec, now_txt c) tids rids nid
      (fts_delete_rows (entries_of_note en db nid) db)"
  shows "db' = fts_insert_rows (entries_of_note en d nid) d \<and> schema_ok d"
proof -
  let ?d0 = "fts_delete_rows (entries_of_note en db nid) db"
  from UpdateNote_okD [OF assms(3)] obtain db2 db3 db4 where
    s: "update_note en (title, content, sec, now_txt c) nid ?d0 = Inr db2"
       "let d = db2\<lparr>notes_tags := filter (\<lambda>p. fst p \<noteq> nid) (notes_tags db2)\<rparr>
        in if tids = [] then db3 = d else insert_notes_tags en nid tids d = Inr db3"
       "let d = db3\<lparr>reference_notes := filter (\<lambda>p. fst p \<noteq> nid) (reference_notes db3)\<rparr>
        in if rids = [] then db4 = d else insert_reference_notes en nid rids d = Inr db4"
       "db' = fts_insert_rows (entries_of_note en db4 nid) db4" by blast
  note u = update_note_okD [OF s(1)]
  have "schema_ok db2" using assms by (intro update_note_schema [OF _ _ s(1)]) simp_all
  then have "schema_ok db3"
    using s(2) insert_notes_tags_schema [OF assms(1) delete_links_schema(1)]
    by (auto simp: Let_def delete_links_schema split: if_splits)
  then have ok4: "schema_ok db4"
    using s(3) insert_reference_notes_schema [OF assms(1) delete_links_schema(2)]
    by (auto simp: Let_def delete_links_schema split: if_splits)
  have 3: "db3 = db2\<lparr>notes_tags := filter (\<lambda>p. fst p \<noteq> nid) (notes_tags db2) @ map (\<lambda>k. (nid, k)) tids\<rparr>"
    using s(2) by (cases "tids = []") (auto simp: Let_def dest!: insert_notes_tags_okD [OF assms(1)])
  have 4: "db4 = db3\<lparr>reference_notes := filter (\<lambda>p. fst p \<noteq> nid) (reference_notes db3) @ map (\<lambda>k. (nid, k)) rids\<rparr>"
    using s(3) by (cases "rids = []") (auto simp: Let_def dest!: insert_reference_notes_okD [OF assms(1)])
  have "d = db4" unfolding d_def updated_def 4 3 using conjunct1 [OF conjunct2 [OF u]] by simp
  with ok4 s(4) show ?thesis by simp
qed

lemma UpdateNote_schema:
  assumes "engine_ok en" and "schema_ok db"
  shows "schema_ok (snd (UpdateNote en c nid title content sec tids rids db))"
  by (rule result_cases) (use assms UpdateNote_effect UpdateNote_errD in fastforce)+

lemma DeleteNote_schema:
  assumes "engine_ok en" and "schema_ok db"
  shows "schema_ok (snd (DeleteNote en c nid db))"
proof (rule result_cases)
  fix db' assume "DeleteNote en c nid db = (None, db')"
  from DeleteNote_okD [OF this] show "schema_ok db'"
    by (rule delete_note_schema [OF assms(1), rotated]) (simp add: assms(2))
qed (use assms DeleteNote_errD in blast)

lemma UpdateTag_schema:
  assumes "schema_ok db"
  shows "schema_ok (snd (UpdateTag en c t db))"
proof (rule result_cases)
  fix db' assume "UpdateTag en c t db = (None, db')"
  from UpdateTag_okD [OF this] show "schema_ok db'"
    using update_tag_schema assms by (metis schema_fts)
qed (use assms UpdateTag_errD in blast)

lemma DeleteTag_schema:
  assumes "engine_ok en" and "schema_ok db"
  shows "schema_ok (snd (DeleteTag en c tid db))"
proof (rule result_cases)
  fix db' assume "DeleteTag en c tid db = (None, db')"
  from DeleteTag_okD [OF this] show "schema_ok db'"
    using delete_tag_schema [OF assms(1)] assms(2) by (metis schema_fts)
qed (use assms DeleteTag_errD in blast)

lemma exec_write_schema:
  "schema_ok db \<Longrightarrow> (\<And>d. stm db = Inr d \<Longrightarrow> schema_ok d) \<Longrightarrow> schema_ok (snd (exec_write c stm db))"
  by (auto simp: exec_write_def exec_def split: option.split sum.split)

lemma CreateSection_schema:
  "engine_ok en \<Longrightarrow> schema_ok db \<Longrightarrow> schema_ok (snd (CreateSection en c s db))"
  using insert_named_schema(1) [of en db "SectionName s"]
  by (auto simp: CreateSection_def exec_def split: option.split sum.split)

lemma CreateTag_schema:
  "engine_ok en \<Longrightarrow> schema_ok db \<Longrightarrow> schema_ok (snd (CreateTag en c t db))"
  using insert_named_schema(2) [of en db "TagName t"]
  by (auto simp: CreateTag_def exec_def split: option.split sum.split)

section \<open>Commands and reachable databases\<close>

datatype store_cmd =
    Cmd_CreateNote string string int "int list" "int list"
  | Cmd_UpdateNote int string string int "int list" "int list"
  | Cmd_DeleteNote int
  | Cmd_SetNoteBookmark int bool
  | Cmd_CreateSection Section
  | Cmd_UpdateSection Section
  | Cmd_DeleteSection int
  | Cmd_CreateTag Tag
  | Cmd_UpdateTag Tag
  | Cmd_DeleteTag int

text \<open>The database a command leaves, whether it reports success or an error.\<close>

fun run_cmd :: "engine \<Rightarrow> call \<Rightarrow> store_cmd \<Rightarrow> notes_db \<Rightarrow> notes_db" where
  "run_cmd en c (Cmd_CreateNote title content sec tids rids) db = snd (CreateNote en c title content sec tids rids db)"
| "run_cmd en c (Cmd_UpdateNote nid title content sec tids rids) db =
     snd (UpdateNote en c nid title content sec tids rids db)"
| "run_cmd en c (Cmd_DeleteNote nid) db = snd (DeleteNote en c nid db)"
| "run_cmd en c (Cmd_SetNoteBookmark nid b) db = snd (SetNoteBookmark c nid b db)"
| "run_cmd en c (Cmd_CreateSection s) db = snd (CreateSection en c s db)"
| "run_cmd en c (Cmd_UpdateSection s) db = snd (UpdateSection c s db)"
| "run_cmd en c (Cmd_DeleteSection sid) db = snd (DeleteSection en c sid db)"
| "run_cmd en c (Cmd_CreateTag t) db = snd (CreateTag en c t db)"
| "run_cmd en c (Cmd_UpdateTag t) db = snd (UpdateTag en c t db)"
| "run_cmd en c (Cmd_DeleteTag tid) db = snd (DeleteTag en c tid db)"

inductive store_reach :: "engine \<Rightarrow> (store_cmd \<Rightarrow> notes_db \<Rightarrow> bool) \<Rightarrow> notes_db \<Rightarrow> bool"
  for en :: engine and allowed :: "store_cmd \<Rightarrow> notes_db \<Rightarrow> bool" where
  fresh: "store_reach en allowed bootstrapped"
| step: "store_reach en allowed db \<Longrightarrow> allowed cmd db \<Longrightarrow> store_reach en allowed (run_cmd en c cmd db)"

definition any_cmd :: "store_cmd \<Rightarrow> notes_db \<Rightarrow> bool" where
  "any_cmd cmd db = True"

lemma run_cmd_schema: "engine_ok en \<Longrightarrow> schema_ok db \<Longrightarrow> schema_ok (run_cmd en c cmd db)"
  by (cases cmd)
     (auto simp: CreateNote_schema UpdateNote_schema DeleteNote_schema UpdateTag_schema DeleteTag_schema
       CreateSection_schema CreateTag_schema SetNoteBookmark_def UpdateSection_def DeleteSection_def
       intro: exec_write_schema set_bookmark_schema update_section_schema delete_section_schema)

lemma store_reach_schema: "store_reach en allowed db \<Longrightarrow> engine_ok en \<Longrightarrow> schema_ok db"
  by (induction rule: store_reach.induct) (simp_all add: run_cmd_schema)

text \<open>
  C5: Referential integrity. Whatever the data store is asked to do, in whatever order, and
  whatever statements, commits or rollbacks fail on the way, a notes database that was
  bootstrapped keeps its keys and unique columns distinct, and no note is in a section that
  does not exist, no tag link and no reference has an end that does not exist.
\<close>

theorem reachable_schema_ok:
  assumes "engine_ok en" and "store_reach en any_cmd db"
  shows "schema_ok db"
  using assms store_reach_schema by blast

theorem reachable_schema_ok_witness:
  "schema_ok (run_cmd std_engine (good_call ''2025-01-02 03:04:05'')
     (Cmd_CreateTag \<lparr>TagID = 0, TagName = ''go''\<rparr>) bootstrapped)"
  by (rule reachable_schema_ok [OF engine_ok_std store_reach.step [OF store_reach.fresh]])
     (simp add: any_cmd_def)

end
