(* ===== verification/Go_Time.thy ===== *)
theory Go_Time
  imports Comm_Prelude
begin

text \<open>
  Times: a \<open>time.Time\<close> in UTC as its civil fields, the text the engine's
  \<open>datetime('now')\<close> writes, and \<open>time.ParseInLocation\<close> for the one layout the code uses,
  \<open>sqliteTimeFmt = "2006-01-02 15:04:05"\<close> (an hour of one digit, several spaces and a
  fraction of a second are accepted by the standard library, so they are accepted here).
\<close>

record go_time =
  t_year :: nat
  t_mon :: nat
  t_day :: nat
  t_hour :: nat
  t_min :: nat
  t_sec :: nat
  t_nsec :: nat

text \<open>The zero value of \<open>time.Time\<close>.\<close>

definition zero_time :: go_time where
  "zero_time = \<lparr>t_year = 1, t_mon = 1, t_day = 1, t_hour = 0, t_min = 0, t_sec = 0, t_nsec = 0\<rparr>"

definition is_leap :: "nat \<Rightarrow> bool" where
  "is_leap y \<longleftrightarrow> y mod 4 = 0 \<and> (y mod 100 \<noteq> 0 \<or> y mod 400 = 0)"

definition days_in :: "nat \<Rightarrow> nat \<Rightarrow> nat" where
  "days_in m y =
     (if m = 2 then (if is_leap y then 29 else 28)
      else if m = 4 \<or> m = 6 \<or> m = 9 \<or> m = 11 then 30 else 31)"

definition valid_time :: "go_time \<Rightarrow> bool" where
  "valid_time t \<longleftrightarrow> t_year t < 10000 \<and> 1 \<le> t_mon t \<and> t_mon t \<le> 12 \<and> 1 \<le> t_day t \<and> t_day t \<le> days_in (t_mon t) (t_year t)
     \<and> t_hour t < 24 \<and> t_min t < 60 \<and> t_sec t < 60 \<and> t_nsec t < 10 ^ 9"

section \<open>The text of a time\<close>

definition two_digits :: "nat \<Rightarrow> string" where
  "two_digits n = [digit_char (n div 10 mod 10), digit_char (n mod 10)]"

definition four_digits :: "nat \<Rightarrow> string" where
  "four_digits n = two_digits (n div 100) @ two_digits (n mod 100)"

text \<open>What \<open>datetime('now')\<close> returns: \<open>YYYY-MM-DD HH:MM:SS\<close>.\<close>

definition sqlite_datetime :: "go_time \<Rightarrow> string" where
  "sqlite_datetime t =
     four_digits (t_year t) @ ''-'' @ two_digits (t_mon t) @ ''-'' @ two_digits (t_day t) @ '' ''
     @ two_digits (t_hour t) @ '':'' @ two_digits (t_min t) @ '':'' @ two_digits (t_sec t)"

section \<open>Parsing\<close>

text \<open>\<open>getnum\<close> of the standard library: one or two digits, exactly two when \<open>fixed\<close>.\<close>

fun getnum :: "bool \<Rightarrow> string \<Rightarrow> (nat \<times> string) option" where
  "getnum fixed [] = None"
| "getnum fixed [a] = (if is_digit a \<and> \<not> fixed then Some (digit_val a, []) else None)"
| "getnum fixed (a # b # r) =
     (if \<not> is_digit a then None
      else if \<not> is_digit b then (if fixed then None else Some (digit_val a, b # r))
      else Some (digit_val a * 10 + digit_val b, r))"

fun skip_char :: "char \<Rightarrow> string \<Rightarrow> string option" where
  "skip_char c [] = None"
| "skip_char c (a # r) = (if a = c then Some r else None)"

text \<open>A space of the layout stands for any run of spaces; text that goes on needs one.\<close>

definition skip_space :: "string \<Rightarrow> string option" where
  "skip_space v =
     (if v \<noteq> [] \<and> hd v \<noteq> CHR '' '' then None else Some (dropWhile (\<lambda>c. c = CHR '' '') v))"

definition long_year :: "string \<Rightarrow> (nat \<times> string) option" where
  "long_year v =
     (if length v < 4 \<or> \<not> list_all is_digit (take 4 v) then None
      else Some (foldl (\<lambda>n c. n * 10 + digit_val c) 0 (take 4 v), drop 4 v))"

text \<open>The fraction of a second: at most nine digits count.\<close>

definition fraction :: "string \<Rightarrow> nat \<times> string" where
  "fraction v =
     (case v of
        p # d # r \<Rightarrow>
          (if (p = CHR ''.'' \<or> p = CHR '','') \<and> is_digit d then
             (let ds = takeWhile is_digit (d # r); k = take 9 ds
              in (foldl (\<lambda>n c. n * 10 + digit_val c) 0 k * 10 ^ (9 - length k), dropWhile is_digit (d # r)))
           else (0, v))
      | _ \<Rightarrow> (0, v))"

definition parse_fields :: "string \<Rightarrow> go_time option" where
  "parse_fields v =
     Option.bind (long_year v) (\<lambda>(y, v).
     Option.bind (skip_char (CHR ''-'') v) (\<lambda>v.
     Option.bind (getnum True v) (\<lambda>(mo, v).
     Option.bind (skip_char (CHR ''-'') v) (\<lambda>v.
     Option.bind (getnum True v) (\<lambda>(d, v).
     Option.bind (skip_space v) (\<lambda>v.
     Option.bind (getnum False v) (\<lambda>(h, v).
     Option.bind (skip_char (CHR '':'') v) (\<lambda>v.
     Option.bind (getnum True v) (\<lambda>(mi, v).
     Option.bind (skip_char (CHR '':'') v) (\<lambda>v.
     Option.bind (getnum True v) (\<lambda>(s, v).
     (case fraction v of (ns, v) \<Rightarrow>
        if v \<noteq> [] then None
        else Some \<lparr>t_year = y, t_mon = mo, t_day = d, t_hour = h, t_min = mi, t_sec = s, t_nsec = ns\<rparr>))))))))))))"

definition parse_time :: "string \<Rightarrow> go_time outcome" where
  "parse_time v =
     (case parse_fields v of
        None \<Rightarrow> Inl (ErrSyntax v)
      | Some t \<Rightarrow> if valid_time t then Inr t else Inl (ErrRange v))"

section \<open>Round trip\<close>

lemma digit_mod [simp]: "is_digit (digit_char (n mod 10))" "digit_val (digit_char (n mod 10)) = n mod 10"
  by simp_all

lemma getnum_two_digits [simp]: "n < 100 \<Longrightarrow> getnum fixed (two_digits n @ r) = Some (n, r)"
  by (simp add: two_digits_def)

lemma two_digits_nonempty [simp]: "two_digits n \<noteq> []" "hd (two_digits n @ r) \<noteq> CHR '' ''"
  using digit_mod(1) [of "n div 10"] by (auto simp: two_digits_def is_digit_def)

lemma two_digits_value: "m < 100 \<Longrightarrow> m div 10 mod 10 * 10 + m mod 10 = (m::nat)"
proof -
  assume "m < 100"
  then have "m div 10 mod 10 = m div 10" by simp
  then show ?thesis by simp
qed

lemma four_digits_value:
  fixes n :: nat
  assumes "n < 10000"
  shows "((n div 100 div 10 mod 10 * 10 + n div 100 mod 10) * 10 + n mod 100 div 10 mod 10) * 10 + n mod 100 mod 10 = n"
proof -
  have "n div 100 div 10 mod 10 * 10 + n div 100 mod 10 = n div 100"
    using assms by (intro two_digits_value) simp
  moreover have "n mod 100 div 10 mod 10 * 10 + n mod 100 mod 10 = n mod 100"
    by (intro two_digits_value) simp
  ultimately show ?thesis by (simp only: add_mult_distrib) simp
qed

lemma long_year_four_digits [simp]: "n < 10000 \<Longrightarrow> long_year (four_digits n @ r) = Some (n, r)"
proof -
  assume n: "n < 10000"
  obtain a b c d where abcd: "four_digits n = [a, b, c, d]"
    and v: "is_digit a" "is_digit b" "is_digit c" "is_digit d"
      "((digit_val a * 10 + digit_val b) * 10 + digit_val c) * 10 + digit_val d = n"
    using four_digits_value [OF n] unfolding four_digits_def two_digits_def append.simps
    by (metis digit_mod)
  then show ?thesis by (simp add: long_year_def eval_nat_numeral)
qed

lemma skip_space_one [simp]: "skip_space (CHR '' '' # two_digits n @ r) = Some (two_digits n @ r)"
  using digit_mod(1) [of "n div 10"]
  by (auto simp: skip_space_def two_digits_def is_digit_def)

lemma parse_time_datetime:
  assumes "valid_time t" and "t_nsec t = 0"
  shows "parse_time (sqlite_datetime t) = Inr t"
proof -
  have d: "t_day t < 100" "t_mon t < 100" "t_hour t < 100" "t_min t < 100" "t_sec t < 100" "t_year t < 10000"
    using assms by (auto simp: valid_time_def days_in_def split: if_splits)
  have last: "getnum True (two_digits (t_sec t)) = Some (t_sec t, [])"
    using getnum_two_digits [of "t_sec t" True "[]"] d by simp
  have "parse_fields (sqlite_datetime t) = Some t"
    using d last assms by (simp add: parse_fields_def sqlite_datetime_def fraction_def)
  with assms show ?thesis by (simp add: parse_time_def)
qed

end
