(* ===== verification/Data_Queries.thy ===== *)
theory Data_Queries
  imports Data_Schema Go_Time
begin

text \<open>
  The operations of \<open>data-store/sqlite.go\<close> that read. A query may fail when it is sent
  (statement 0 of the call) or while its rows are read (statement 1, \<open>rows.Err\<close>); a NULL
  that is scanned into a Go string is an error of the row. A Go slice is a list, the nil
  slice the empty one.
\<close>

section \<open>Results\<close>

text \<open>\<open>data-store/models.go\<close>: \<open>Note\<close>, \<open>PaginatedNotes\<close>, \<open>PaginatedTags\<close>, \<open>NoteSearchResult\<close>.\<close>

record Note =
  NoteID :: int
  NoteTitle :: string
  NoteContent :: string
  NoteSection :: Section
  NoteTags :: "Tag list"
  NoteCreatedAt :: go_time
  NoteLastUpdatedAt :: go_time
  ReferenceNotes :: "NoteDetail list"
  ReferenceByNotes :: "NoteDetail list"
  NoteBookmark :: bool

definition zero_note :: Note where
  "zero_note = \<lparr>NoteID = 0, NoteTitle = [], NoteContent = [], NoteSection = \<lparr>SectionID = 0, SectionName = []\<rparr>,
     NoteTags = [], NoteCreatedAt = zero_time, NoteLastUpdatedAt = zero_time, ReferenceNotes = [],
     ReferenceByNotes = [], NoteBookmark = False\<rparr>"

record 'a page =
  PageItems :: "'a list"
  PageLimit :: int
  PageOffset :: int
  HasMore :: bool
  NextOffset :: "int option"

definition zero_page :: "'a page" where
  "zero_page = \<lparr>PageItems = [], PageLimit = 0, PageOffset = 0, HasMore = False, NextOffset = None\<rparr>"

record NoteSearchResult =
  ResultID :: int
  ResultTitle :: string
  TitleHighlight :: string
  ContentSnippet :: string
  TagNames :: string

definition defaultLimit :: int where "defaultLimit = 5"

text \<open>\<open>parseNoteDetailsFromRows\<close>, and the query before it.\<close>

definition parseNoteDetailsFromRows :: "call \<Rightarrow> NoteDetail list \<Rightarrow> NoteDetail list go_result" where
  "parseNoteDetailsFromRows c rows =
     (case stmt_fault c 1 of Some err \<Rightarrow> ([], Some err) | None \<Rightarrow> (rows, None))"

definition query_details :: "call \<Rightarrow> NoteDetail list \<Rightarrow> NoteDetail list go_result" where
  "query_details c rows =
     (case stmt_fault c 0 of Some err \<Rightarrow> ([], Some err) | None \<Rightarrow> parseNoteDetailsFromRows c rows)"

text \<open>A query of one row: no row is \<open>sql.ErrNoRows\<close>.\<close>

definition query_row :: "call \<Rightarrow> 'r option \<Rightarrow> 'r outcome" where
  "query_row c row =
     (case stmt_fault c 0 of
        Some err \<Rightarrow> Inl err
      | None \<Rightarrow> (case row of None \<Rightarrow> Inl ErrNoRows | Some r \<Rightarrow> Inr r))"

section \<open>Notes\<close>

definition NoteExists :: "call \<Rightarrow> string \<Rightarrow> notes_db \<Rightarrow> int go_result" where
  "NoteExists c title db =
     (case query_row c (by_name n_title title (db_notes db)) of
        Inl err \<Rightarrow> (-1, Some err) | Inr n \<Rightarrow> (n_id n, None))"

text \<open>The scan of a row of the view into a note and its two time stamps.\<close>

definition scan_note :: "view_row \<Rightarrow> (Note \<times> string \<times> string) outcome" where
  "scan_note v =
     (case v_section_name v of
        None \<Rightarrow> Inl (ScanNull ''section_name'')
      | Some sname \<Rightarrow>
          (case v_content v of
             None \<Rightarrow> Inl (ScanNull ''content'')
           | Some content \<Rightarrow>
               Inr (\<lparr>NoteID = v_id v, NoteTitle = v_title v, NoteContent = content,
                     NoteSection = \<lparr>SectionID = v_section_id v, SectionName = sname\<rparr>,
                     NoteTags = v_tags_json v, NoteCreatedAt = zero_time, NoteLastUpdatedAt = zero_time,
                     ReferenceNotes = v_refs_json v, ReferenceByNotes = v_ref_bys_json v,
                     NoteBookmark = v_bookmark v\<rparr>, v_created v, v_updated v)))"

definition FindNoteByID :: "engine \<Rightarrow> call \<Rightarrow> int \<Rightarrow> notes_db \<Rightarrow> Note go_result" where
  "FindNoteByID en c nid db =
     (case (case query_row c (by_id n_id nid (db_notes db)) of
              Inl err \<Rightarrow> Inl err | Inr n \<Rightarrow> scan_note (notes_details en db n)) of
        Inl err \<Rightarrow>
          if errors_is err ErrNoRows then (zero_note, Some err)
          else (zero_note, Some (WrapError ''failed to scan row for note'' err))
      | Inr (n, createdStr, updatedStr) \<Rightarrow>
          (case parse_time createdStr of
             Inl err \<Rightarrow> (zero_note, Some (WrapError ''failed to parse created at time'' err))
           | Inr createdAt \<Rightarrow>
               (case parse_time updatedStr of
                  Inl err \<Rightarrow> (zero_note, Some (WrapError ''failed to parse updated at time'' err))
                | Inr updatedAt \<Rightarrow> (n\<lparr>NoteCreatedAt := createdAt, NoteLastUpdatedAt := updatedAt\<rparr>, None))))"

definition GetNoteDetailByIds :: "engine \<Rightarrow> call \<Rightarrow> int list \<Rightarrow> notes_db \<Rightarrow> NoteDetail list go_result" where
  "GetNoteDetailByIds en c ids db =
     query_details c (map detail_of
       (filter (\<lambda>n. n_id n \<in> set ids) (visit en ''GetNoteDetailByIds'' n_id (db_notes db))))"

text \<open>
  \<open>make([]T, 0, n)\<close> panics when the capacity does not fit the address space of the
  allocator, \<open>2^48\<close> bytes; \<open>sz\<close> is the size of an element.
\<close>

definition make_cap_ok :: "int \<Rightarrow> int \<Rightarrow> bool" where
  "make_cap_ok sz n \<longleftrightarrow> 0 \<le> n \<and> n * sz \<le> 2 ^ 48"

text \<open>The common body of \<open>ListNotes\<close> and \<open>ListTags\<close>: ask for one row more than the page holds.\<close>

definition paginate :: "int \<Rightarrow> int \<Rightarrow> 'a list \<Rightarrow> 'a page" where
  "paginate limit offset rows =
     (if limit < int (length rows)
      then \<lparr>PageItems = take (nat limit) rows, PageLimit = limit, PageOffset = offset, HasMore = True,
            NextOffset = Some (wrap64 (offset + limit))\<rparr>
      else \<lparr>PageItems = rows, PageLimit = limit, PageOffset = offset, HasMore = False, NextOffset = None\<rparr>)"

definition ListNotes :: "call \<Rightarrow> int \<Rightarrow> int \<Rightarrow> notes_db \<Rightarrow> NoteDetail page go_ret" where
  "ListNotes c limit0 offset0 db =
     (let limit = (if limit0 \<le> 0 then defaultLimit else limit0);
          offset = (if offset0 < 0 then 0 else offset0)
      in case stmt_fault c 0 of
           Some err \<Rightarrow> Returns zero_page (Some (WrapError ''failed to query notes'' err))
         | None \<Rightarrow>
             if \<not> make_cap_ok 8 limit then Panics ''runtime error: makeslice: cap out of range''
             else (case stmt_fault c 1 of
                     Some err \<Rightarrow> Returns zero_page (Some (WrapError ''error iterating notes'' err))
                   | None \<Rightarrow>
                       Returns (paginate limit offset
                         (map detail_of (sql_limit (wrap64 (limit + 1)) offset (sort_key n_id (db_notes db))))) None))"

definition RecentlyModifiedNotes :: "engine \<Rightarrow> call \<Rightarrow> int \<Rightarrow> notes_db \<Rightarrow> NoteDetail list go_result" where
  "RecentlyModifiedNotes en c limit db =
     query_details c (map detail_of (sql_limit limit 0
       (order_desc n_updated (visit en ''RecentlyModifiedNotes'' n_id (db_notes db)))))"

definition NotesInSection :: "call \<Rightarrow> int \<Rightarrow> notes_db \<Rightarrow> NoteDetail list go_result" where
  "NotesInSection c secID db =
     query_details c (map detail_of (sort_key n_title (filter (\<lambda>n. n_section n = secID) (db_notes db))))"

definition NotesWithTag :: "engine \<Rightarrow> call \<Rightarrow> int \<Rightarrow> notes_db \<Rightarrow> NoteDetail list go_result" where
  "NotesWithTag en c tagID db =
     query_details c (List.map_filter (\<lambda>p. map_option detail_of (by_id n_id (fst p) (db_notes db)))
       (visit en ''NotesWithTag'' fst (filter (\<lambda>p. snd p = tagID) (notes_tags db))))"

definition positive_limit :: "int \<Rightarrow> int" where
  "positive_limit limit = (if limit \<le> 0 then defaultLimit else limit)"

definition BookmarkedNotes :: "engine \<Rightarrow> call \<Rightarrow> int \<Rightarrow> notes_db \<Rightarrow> NoteDetail list go_result" where
  "BookmarkedNotes en c limit db =
     query_details c (map detail_of (sql_limit (positive_limit limit) 0
       (visit en ''BookmarkedNotes'' n_id (filter n_bookmark (db_notes db)))))"

text \<open>
  \<open>GROUP BY\<close> one end of \<open>reference_notes\<close> joined with \<open>notes\<close>, ordered by the size of the
  groups, largest first.
\<close>

definition group_size :: "int list \<Rightarrow> int \<Rightarrow> nat" where
  "group_size ks k = length (filter (\<lambda>j. j = k) ks)"

definition ranked_groups :: "engine \<Rightarrow> string \<Rightarrow> int list \<Rightarrow> int list" where
  "ranked_groups en q ks = order_desc (group_size ks) (visit en q (\<lambda>k. k) (remdups ks))"

definition grouped_notes :: "engine \<Rightarrow> string \<Rightarrow> int \<Rightarrow> int list \<Rightarrow> notes_db \<Rightarrow> NoteDetail list" where
  "grouped_notes en q limit ends db =
     List.map_filter (\<lambda>k. map_option detail_of (by_id n_id k (db_notes db)))
       (sql_limit (positive_limit limit) 0
         (ranked_groups en q (filter (\<lambda>k. by_id n_id k (db_notes db) \<noteq> None) ends)))"

definition MostReferencedNotes :: "engine \<Rightarrow> call \<Rightarrow> int \<Rightarrow> notes_db \<Rightarrow> NoteDetail list go_result" where
  "MostReferencedNotes en c limit db =
     query_details c (grouped_notes en ''MostReferencedNotes'' limit (map snd (reference_notes db)) db)"

definition NoteWithMostReferences :: "engine \<Rightarrow> call \<Rightarrow> int \<Rightarrow> notes_db \<Rightarrow> NoteDetail list go_result" where
  "NoteWithMostReferences en c limit db =
     query_details c (grouped_notes en ''NoteWithMostReferences'' limit (map fst (reference_notes db)) db)"

text \<open>\<open>content IS NULL OR TRIM(content) = ''\<close>: the engine's \<open>TRIM\<close> removes spaces only.\<close>

definition no_content :: "note_row \<Rightarrow> bool" where
  "no_content n = (case n_content n of None \<Rightarrow> True | Some s \<Rightarrow> list_all (\<lambda>ch. ch = CHR '' '') s)"

definition NotesWithNoContent :: "engine \<Rightarrow> call \<Rightarrow> int \<Rightarrow> notes_db \<Rightarrow> NoteDetail list go_result" where
  "NotesWithNoContent en c limit db =
     query_details c (map detail_of (sql_limit (positive_limit limit) 0
       (sort_key n_created (visit en ''NotesWithNoContent'' n_id (filter no_content (db_notes db))))))"

section \<open>Search\<close>

text \<open>
  The full-text engine: which entries of the index match a query, best first, or an error
  (a malformed query, a damaged index), and its two display functions.
\<close>

record fts_engine =
  fts_match :: "string \<Rightarrow> fts_row list \<Rightarrow> bool \<Rightarrow> int list outcome"
  fts_highlight :: "string \<Rightarrow> string \<Rightarrow> string"
  fts_snippet :: "string \<Rightarrow> string \<Rightarrow> string"

definition search_result :: "engine \<Rightarrow> fts_engine \<Rightarrow> string \<Rightarrow> notes_db \<Rightarrow> note_row \<Rightarrow> NoteSearchResult" where
  "search_result en ft q db n =
     \<lparr>ResultID = n_id n, ResultTitle = n_title n, TitleHighlight = fts_highlight ft q (n_title n),
      ContentSnippet = fts_snippet ft q (case n_content n of None \<Rightarrow> [] | Some s \<Rightarrow> s),
      TagNames = fts_highlight ft q (tags_txt en db (n_id n))\<rparr>"

text \<open>\<open>SELECT DISTINCT\<close> keeps the first of equal rows.\<close>

definition first_of_each :: "'a list \<Rightarrow> 'a list" where
  "first_of_each xs = rev (remdups (rev xs))"

definition SearchNotes :: "engine \<Rightarrow> fts_engine \<Rightarrow> call \<Rightarrow> string \<Rightarrow> notes_db \<Rightarrow> NoteSearchResult list go_result" where
  "SearchNotes en ft c q db =
     (case exec c 0 (\<lambda>db. fts_match ft q (notes_fts db) (fts_malformed db)) db of
        Inl err \<Rightarrow> ([], Some err)
      | Inr hits \<Rightarrow>
          (case stmt_fault c 1 of
             Some err \<Rightarrow> ([], Some (WrapError ''error iterating search results'' err))
           | None \<Rightarrow>
               (sql_limit 50 0 (first_of_each (List.map_filter
                  (\<lambda>k. map_option (search_result en ft q db) (by_id n_id k (db_notes db))) hits)), None)))"

section \<open>Sections and tags\<close>

definition zero_section :: Section where "zero_section = \<lparr>SectionID = 0, SectionName = []\<rparr>"
definition zero_tag :: Tag where "zero_tag = \<lparr>TagID = 0, TagName = []\<rparr>"

definition FindSectionByID :: "call \<Rightarrow> int \<Rightarrow> notes_db \<Rightarrow> Section go_result" where
  "FindSectionByID c sid db =
     (case query_row c (by_id SectionID sid (db_sections db)) of
        Inl err \<Rightarrow> (zero_section, Some err) | Inr s \<Rightarrow> (s, None))"

definition FindSectionByName :: "call \<Rightarrow> string \<Rightarrow> notes_db \<Rightarrow> Section go_result" where
  "FindSectionByName c nm db =
     (case query_row c (by_name SectionName nm (db_sections db)) of
        Inl err \<Rightarrow> (zero_section, Some err) | Inr s \<Rightarrow> (s, None))"

definition list_query :: "call \<Rightarrow> (go_error \<Rightarrow> go_error) \<Rightarrow> (go_error \<Rightarrow> go_error) \<Rightarrow> 'r list \<Rightarrow> 'r list go_result" where
  "list_query c onQuery onRows rows =
     (case stmt_fault c 0 of
        Some err \<Rightarrow> ([], Some (onQuery err))
      | None \<Rightarrow> (case stmt_fault c 1 of Some err \<Rightarrow> ([], Some (onRows err)) | None \<Rightarrow> (rows, None)))"

definition ListAllSections :: "call \<Rightarrow> notes_db \<Rightarrow> Section list go_result" where
  "ListAllSections c db =
     list_query c (WrapError ''failed to query sections'') (WrapError ''error iterating sections'')
       (sort_key SectionName (db_sections db))"

text \<open>\<open>max(last_updated_at_utc)\<close> over the notes of a section.\<close>

definition last_activity :: "notes_db \<Rightarrow> int \<Rightarrow> string" where
  "last_activity db sid =
     foldr max (map n_updated (filter (\<lambda>n. n_section n = sid) (db_notes db))) []"

definition RecentlyActiveSections :: "engine \<Rightarrow> call \<Rightarrow> int \<Rightarrow> notes_db \<Rightarrow> Section list go_result" where
  "RecentlyActiveSections en c limit db =
     list_query c (\<lambda>err. err) (WrapError ''error iterating sections'')
       (List.map_filter (\<lambda>k. by_id SectionID k (db_sections db))
         (sql_limit (positive_limit limit) 0
           (order_desc (last_activity db)
             (visit en ''RecentlyActiveSections'' (\<lambda>k. k)
               (remdups (filter (\<lambda>k. by_id SectionID k (db_sections db) \<noteq> None)
                 (map n_section (db_notes db))))))))"

definition FindTagByID :: "call \<Rightarrow> int \<Rightarrow> notes_db \<Rightarrow> Tag go_result" where
  "FindTagByID c tid db =
     (case query_row c (by_id TagID tid (db_tags db)) of
        Inl err \<Rightarrow> (zero_tag, Some err) | Inr t \<Rightarrow> (t, None))"

definition FindTagByName :: "call \<Rightarrow> string \<Rightarrow> notes_db \<Rightarrow> Tag go_result" where
  "FindTagByName c nm db =
     (case query_row c (by_name TagName nm (db_tags db)) of
        Inl err \<Rightarrow> (zero_tag, Some err) | Inr t \<Rightarrow> (t, None))"

definition ListAllTags :: "call \<Rightarrow> notes_db \<Rightarrow> Tag list go_result" where
  "ListAllTags c db =
     list_query c (WrapError ''failed to query tags'') (WrapError ''error iterating tags'')
       (sort_key TagName (db_tags db))"

definition ListTags :: "call \<Rightarrow> int \<Rightarrow> int \<Rightarrow> notes_db \<Rightarrow> Tag page go_ret" where
  "ListTags c limit0 offset0 db =
     (let limit = (if limit0 \<le> 0 then 10 else limit0);
          offset = (if offset0 < 0 then 0 else offset0)
      in case stmt_fault c 0 of
           Some err \<Rightarrow> Returns zero_page (Some (WrapError ''failed to query tags'' err))
         | None \<Rightarrow>
             if \<not> make_cap_ok 24 limit then Panics ''runtime error: makeslice: cap out of range''
             else (case stmt_fault c 1 of
                     Some err \<Rightarrow> Returns zero_page (Some (WrapError ''error iterating tags'' err))
                   | None \<Rightarrow>
                       Returns (paginate limit offset
                         (sql_limit (wrap64 (limit + 1)) offset (sort_key TagID (db_tags db)))) None))"

definition QueryTags :: "engine \<Rightarrow> call \<Rightarrow> int list \<Rightarrow> notes_db \<Rightarrow> Tag list go_result" where
  "QueryTags en c ids db =
     list_query c (\<lambda>err. err) (WrapError ''failed iterating sql rows'')
       (filter (\<lambda>t. TagID t \<in> set ids) (visit en ''QueryTags'' TagID (db_tags db)))"

section \<open>When the engine does not fail\<close>

lemma quiet_faults [simp]: "quiet c \<Longrightarrow> stmt_fault c i = None"
  by (simp add: quiet_def)

lemma query_row_quiet [simp]:
  "quiet c \<Longrightarrow> query_row c row = (case row of None \<Rightarrow> Inl ErrNoRows | Some r \<Rightarrow> Inr r)"
  by (simp add: query_row_def)

lemma query_details_quiet [simp]: "quiet c \<Longrightarrow> query_details c rows = (rows, None)"
  by (simp add: query_details_def parseNoteDetailsFromRows_def)

lemma list_query_quiet [simp]: "quiet c \<Longrightarrow> list_query c f g rows = (rows, None)"
  by (simp add: list_query_def)

lemma query_details_ok: "query_details c rows = (r, None) \<Longrightarrow> r = rows"
  by (auto simp: query_details_def parseNoteDetailsFromRows_def split: option.splits)

lemma list_query_ok: "list_query c f g rows = (r, None) \<Longrightarrow> r = rows"
  by (auto simp: list_query_def split: option.splits)

end
