(* ===== verification/Data_Index.thy ===== *)
theory Data_Index
  imports Data_Schema
begin

text \<open>
  The full-text index against the notes. The code maintains it by hand: before a change it
  deletes the entries of the notes that change, and it inserts them again afterwards. Every
  operation but one keeps the index exactly in step with the view; \<open>DeleteTag\<close> re-inserts the
  notes that carry the tag \<^emph>\<open>after\<close> the tag and its links are gone, when no note carries it any
  more, so these notes leave the index.
\<close>

definition fts_synced :: "engine \<Rightarrow> notes_db \<Rightarrow> bool" where
  "fts_synced en db \<longleftrightarrow>
     \<not> fts_malformed db \<and> mset (notes_fts db) = mset (map (fts_entry en db) (db_notes db))"

lemma fts_synced_bootstrapped [simp]: "fts_synced en bootstrapped"
  by (simp add: fts_synced_def bootstrapped_def)

section \<open>Entries of the index\<close>

lemma fts_remove_subset:
  "mset rs \<subseteq># mset ix \<Longrightarrow>
     mset (fst (fts_remove rs (ix, bad))) = mset ix - mset rs \<and> snd (fts_remove rs (ix, bad)) = bad"
proof (induction rs arbitrary: ix)
  case (Cons r rs)
  have r: "r \<in> set ix" using Cons.prems by (metis insert_subset_eq_iff mset.simps(2) set_mset_mset)
  moreover have "mset rs \<subseteq># mset (remove1 r ix)"
    using Cons.prems by (simp add: insert_subset_eq_iff)
  ultimately show ?case using Cons.IH by simp
qed simp

lemma fts_delete_subset:
  assumes "mset rs \<subseteq># mset (notes_fts db)"
  shows "mset (notes_fts (fts_delete_rows rs db)) = mset (notes_fts db) - mset rs"
    and "fts_malformed (fts_delete_rows rs db) = fts_malformed db"
  using fts_remove_subset [OF assms, of "fts_malformed db"]
  by (simp_all add: fts_delete_rows_def split: prod.splits) (metis fst_conv snd_conv)+

lemma fts_insert_simps [simp]:
  "notes_fts (fts_insert_rows rs db) = notes_fts db @ rs"
  "fts_malformed (fts_insert_rows rs db) = fts_malformed db"
  by (simp_all add: fts_insert_rows_def)

lemma tags_of_cong:
  assumes "db_tags db = db_tags db'"
    and "filter (\<lambda>p. fst p = nid) (notes_tags db) = filter (\<lambda>p. fst p = nid) (notes_tags db')"
  shows "tags_of en q db nid = tags_of en q db' nid"
  using assms by (simp add: tags_of_def)

lemma fts_entry_cong:
  assumes "db_tags db = db_tags db'"
    and "filter (\<lambda>p. fst p = n_id n) (notes_tags db) = filter (\<lambda>p. fst p = n_id n) (notes_tags db')"
  shows "fts_entry en db n = fts_entry en db' n"
  using tags_of_cong [OF assms] by (simp add: fts_entry_def tags_txt_def)

lemma fts_entry_fts [simp]:
  "fts_entry en (fts_insert_rows rs db) = fts_entry en db"
  "fts_entry en (fts_delete_rows rs db) = fts_entry en db"
  by (rule ext, rule fts_entry_cong; simp)+

lemma entries_of_note_fts [simp]:
  "entries_of_note en (fts_insert_rows rs db) nid = entries_of_note en db nid"
  "entries_of_note en (fts_delete_rows rs db) nid = entries_of_note en db nid"
  by (simp_all add: entries_of_note_def)

lemma entries_split:
  "mset (map (fts_entry en db) (db_notes db)) =
     mset (map (fts_entry en db) (filter (\<lambda>n. n_id n \<noteq> nid) (db_notes db))) + mset (entries_of_note en db nid)"
  unfolding entries_of_note_def mset_map mset_filter image_mset_union [symmetric]
  by (simp add: multiset_partition [symmetric] add.commute multiset_partition [of _ "\<lambda>n. n_id n = nid"])

text \<open>The common step: the entries of one note are replaced and those of the others stay.\<close>

lemma replace_entries:
  assumes sync: "fts_synced en db"
    and fts: "notes_fts d = notes_fts (fts_delete_rows (entries_of_note en db nid) db)"
      "fts_malformed d = fts_malformed (fts_delete_rows (entries_of_note en db nid) db)"
    and rest: "map (fts_entry en d) (filter (\<lambda>n. n_id n \<noteq> nid) (db_notes d))
      = map (fts_entry en db) (filter (\<lambda>n. n_id n \<noteq> nid) (db_notes db))"
  shows "fts_synced en (fts_insert_rows (entries_of_note en d nid) d)"
proof -
  have sub: "mset (entries_of_note en db nid) \<subseteq># mset (notes_fts db)"
    using sync entries_split [of en db nid] by (simp add: fts_synced_def)
  have "mset (notes_fts d) = mset (map (fts_entry en db) (filter (\<lambda>n. n_id n \<noteq> nid) (db_notes db)))"
    using fts_delete_subset(1) [OF sub] sync entries_split [of en db nid] fts
    by (simp add: fts_synced_def)
  then have "mset (notes_fts d @ entries_of_note en d nid) = mset (map (fts_entry en d) (db_notes d))"
    using entries_split [of en d nid] rest by (metis mset_append)
  moreover have "\<not> fts_malformed d"
    using fts_delete_subset(2) [OF sub] sync fts by (simp add: fts_synced_def)
  ultimately show ?thesis by (simp add: fts_synced_def)
qed

section \<open>Notes\<close>

lemma CreateNote_synced:
  assumes "engine_ok en" and ok: "schema_ok db" and sync: "fts_synced en db"
    and "CreateNote en c title content sec tids rids db = ((nid, None), db')"
  shows "fts_synced en db'"
proof -
  let ?d = "created (now_txt c) title content sec tids rids nid db"
  note e = CreateNote_effect [OF assms(1,2,4)]
  have old: "n_id n \<noteq> nid" if "n \<in> set (db_notes db)" for n using e that by blast
  have keep: "filter (\<lambda>n. n_id n \<noteq> nid) (db_notes db) = db_notes db"
    using old by (simp add: filter_id_conv)
  have none: "entries_of_note en db nid = []"
    using old by (simp add: entries_of_note_def filter_empty_conv)
  have "map (fts_entry en ?d) (db_notes db) = map (fts_entry en db) (db_notes db)"
  proof (rule map_cong [OF refl])
    fix n assume "n \<in> set (db_notes db)"
    then show "fts_entry en ?d n = fts_entry en db n"
      using old by (intro fts_entry_cong) (auto simp: created_def filter_empty_conv)
  qed
  then have "fts_synced en (fts_insert_rows (entries_of_note en ?d nid) ?d)"
    using keep none by (intro replace_entries [OF sync]) (simp_all add: created_def fts_delete_rows_def)
  then show ?thesis using e by simp
qed

lemma UpdateNote_synced:
  assumes "engine_ok en" and ok: "schema_ok db" and sync: "fts_synced en db"
    and "UpdateNote en c nid title content sec tids rids db = (None, db')"
  shows "fts_synced en db'"
proof -
  let ?x = "(title, content, sec, now_txt c)"
  let ?d = "updated ?x tids rids nid (fts_delete_rows (entries_of_note en db nid) db)"
  have rest: "filter (\<lambda>n. n_id n \<noteq> nid) (map (\<lambda>n. if n_id n = nid then set_note ?x n else n) ns)
      = filter (\<lambda>n. n_id n \<noteq> nid) ns" for ns
    by (induction ns) (auto simp: notes_tbl.upd_id)
  have "map (fts_entry en ?d) (filter (\<lambda>n. n_id n \<noteq> nid) (db_notes db))
      = map (fts_entry en db) (filter (\<lambda>n. n_id n \<noteq> nid) (db_notes db))"
  proof (rule map_cong [OF refl])
    fix n assume "n \<in> set (filter (\<lambda>n. n_id n \<noteq> nid) (db_notes db))"
    then show "fts_entry en ?d n = fts_entry en db n"
      by (intro fts_entry_cong) (auto simp: updated_def filter_empty_conv intro: filter_cong)
  qed
  then have "fts_synced en (fts_insert_rows (entries_of_note en ?d nid) ?d)"
    using rest by (intro replace_entries [OF sync]) (simp_all add: updated_def)
  then show ?thesis using UpdateNote_effect [OF assms(1,2,4)] by simp
qed

lemma DeleteNote_synced:
  assumes "engine_ok en" and sync: "fts_synced en db" and "DeleteNote en c nid db = (None, db')"
  shows "fts_synced en db'"
proof -
  note d = delete_note_is [OF assms(1) DeleteNote_okD [OF assms(3)]]
  have "map (fts_entry en db') (filter (\<lambda>n. n_id n \<noteq> nid) (db_notes db))
      = map (fts_entry en db) (filter (\<lambda>n. n_id n \<noteq> nid) (db_notes db))"
  proof (rule map_cong [OF refl])
    fix n assume "n \<in> set (filter (\<lambda>n. n_id n \<noteq> nid) (db_notes db))"
    then have ne: "n_id n \<noteq> nid" by simp
    have "filter (\<lambda>p. fst p = n_id n) (filter (\<lambda>p. fst p \<noteq> nid) (notes_tags db))
        = filter (\<lambda>p. fst p = n_id n) (notes_tags db)"
      using ne by (auto intro: filter_cong)
    with d show "fts_entry en db' n = fts_entry en db n" by (intro fts_entry_cong) simp_all
  qed
  moreover have "entries_of_note en db' nid = []"
    using d by (simp add: entries_of_note_def delete_row_def filter_empty_conv)
  moreover have "fts_synced en (fts_insert_rows (entries_of_note en db' nid) db')"
    using d calculation(1) by (intro replace_entries [OF sync]) (simp_all add: delete_row_def)
  ultimately show ?thesis by (simp add: fts_synced_def)
qed

section \<open>Tags\<close>

text \<open>Under the integrity of the database a note's tag array has at most one object per tag.\<close>

definition carries :: "notes_db \<Rightarrow> int \<Rightarrow> note_row \<Rightarrow> bool" where
  "carries db tid n \<longleftrightarrow> (n_id n, tid) \<in> set (notes_tags db)"

lemma carried_once:
  assumes "engine_ok en" and ok: "schema_ok db"
  shows "length (filter (\<lambda>t. TagID t = tid) (tags_of en q db nid)) = (if (nid, tid) \<in> set (notes_tags db) then 1 else 0)"
proof -
  let ?v = "visit en q snd (filter (\<lambda>p. fst p = nid) (notes_tags db))"
  have v: "set ?v = {p \<in> set (notes_tags db). fst p = nid}" "distinct ?v"
    using assms by (auto simp: schema_ok_def)
  have "length (filter (\<lambda>t. TagID t = tid) (tags_of en q db nid))
      = length (filter (\<lambda>p. (case by_id TagID (snd p) (db_tags db) of None \<Rightarrow> None
          | Some y \<Rightarrow> if TagID y = tid then Some y else None) \<noteq> None) ?v)"
    by (simp add: tags_of_def filter_map_filter length_map_filter)
  also have "\<dots> = length (filter (\<lambda>p. p = (nid, tid)) ?v)"
  proof (rule arg_cong [where f = length], rule filter_cong [OF refl])
    fix p assume "p \<in> set ?v"
    then have "p \<in> set (notes_tags db)" "fst p = nid" using v by auto
    then have "by_id TagID (snd p) (db_tags db) \<noteq> None"
      using ok by (auto simp: schema_ok_def by_id_None)
    then show "((case by_id TagID (snd p) (db_tags db) of None \<Rightarrow> None
          | Some y \<Rightarrow> if TagID y = tid then Some y else None) \<noteq> None) = (p = (nid, tid))"
      using \<open>fst p = nid\<close> by (cases p) (auto dest: by_id_Some split: option.splits)
  qed
  also have "\<dots> = (if (nid, tid) \<in> set (notes_tags db) then 1 else 0)"
    using v by (simp add: length_filter_eq)
  finally show ?thesis .
qed

lemma entries_of_tag_is:
  assumes "engine_ok en" and "schema_ok db"
  shows "entries_of_tag en db tid = map (fts_entry en db) (filter (carries db tid) (db_notes db))"
proof -
  have "concat (map (\<lambda>n. map (\<lambda>_. fts_entry en db n)
          (filter (\<lambda>t. TagID t = tid) (tags_of en ''tags_json'' db (n_id n)))) ns)
      = map (fts_entry en db) (filter (carries db tid) ns)" for ns
  proof (induction ns)
    case (Cons n ns)
    have "map (\<lambda>_. fts_entry en db n) (filter (\<lambda>t. TagID t = tid) (tags_of en ''tags_json'' db (n_id n)))
        = (if carries db tid n then [fts_entry en db n] else [])"
      using carried_once [OF assms, of tid "''tags_json''" "n_id n"]
      by (auto simp: carries_def map_replicate_const split: if_splits)
    then show ?case using Cons by simp
  qed simp
  then show ?thesis by (simp add: entries_of_tag_def)
qed

lemma tags_split:
  "mset (map f ns) = mset (map f (filter (\<lambda>n. \<not> P n) ns)) + mset (map f (filter P ns))"
  by (induction ns) auto

lemma delete_tag_entries:
  fixes tid :: int
  assumes "engine_ok en" and "schema_ok db" and sync: "fts_synced en db"
  defines "d \<equiv> fts_delete_rows (entries_of_tag en db tid) db"
  shows "mset (notes_fts d) = mset (map (fts_entry en db) (filter (\<lambda>n. \<not> carries db tid n) (db_notes db)))"
    and "\<not> fts_malformed d"
proof -
  have sub: "mset (entries_of_tag en db tid) \<subseteq># mset (notes_fts db)"
    using sync tags_split [of "fts_entry en db" "db_notes db" "carries db tid"]
    by (simp add: fts_synced_def entries_of_tag_is [OF assms(1,2)])
  show "\<not> fts_malformed d"
    using fts_delete_subset(2) [OF sub] sync by (simp add: d_def fts_synced_def)
  show "mset (notes_fts d) = mset (map (fts_entry en db) (filter (\<lambda>n. \<not> carries db tid n) (db_notes db)))"
    using fts_delete_subset(1) [OF sub] sync tags_split [of "fts_entry en db" "db_notes db" "carries db tid"]
    by (simp add: d_def fts_synced_def entries_of_tag_is [OF assms(1,2)])
qed

text \<open>A note that does not carry a tag has the same entry before and after a change of the tag.\<close>

lemma untagged_entry:
  assumes "engine_ok en" and "\<not> carries db tid n"
    and "filter (\<lambda>p. fst p = n_id n) (notes_tags db') = filter (\<lambda>p. fst p = n_id n) (notes_tags db)"
    and "\<And>k. k \<noteq> tid \<Longrightarrow> by_id TagID k (db_tags db') = by_id TagID k (db_tags db)"
  shows "fts_entry en db' n = fts_entry en db n"
proof -
  let ?v = "visit en ''tags_txt'' snd (filter (\<lambda>p. fst p = n_id n) (notes_tags db))"
  have "snd p \<noteq> tid" if "p \<in> set ?v" for p
  proof
    assume "snd p = tid"
    moreover have "p \<in> set (notes_tags db)" "fst p = n_id n" using that assms(1) by auto
    ultimately show False using assms(2) by (metis carries_def prod.collapse)
  qed
  then have "List.map_filter (\<lambda>p. by_id TagID (snd p) (db_tags db')) ?v
      = List.map_filter (\<lambda>p. by_id TagID (snd p) (db_tags db)) ?v"
    using assms(4) by (intro map_filter_cong) auto
  then have "tags_of en ''tags_txt'' db' (n_id n) = tags_of en ''tags_txt'' db (n_id n)"
    using assms(3) by (simp add: tags_of_def)
  then show ?thesis by (simp add: fts_entry_def tags_txt_def)
qed

lemma UpdateTag_synced:
  assumes "engine_ok en" and ok: "schema_ok db" and sync: "fts_synced en db"
    and "UpdateTag en c t db = (None, db')"
  shows "fts_synced en db'"
proof -
  let ?tid = "TagID t"
  let ?d = "fts_delete_rows (entries_of_tag en db ?tid) db"
  from UpdateTag_okD [OF assms(4)] obtain d2 where
    u: "update_tag (TagName t) ?tid ?d = Inr d2" and
    db': "db' = fts_insert_rows (entries_of_tag en d2 ?tid) d2" by blast
  note up = update_tag_okD [OF u]
  have ok2: "schema_ok d2" by (rule update_tag_schema [OF _ u]) (simp add: ok)
  have fr: "db_notes d2 = db_notes db" "notes_tags d2 = notes_tags db"
    "notes_fts d2 = notes_fts ?d" "fts_malformed d2 = fts_malformed ?d"
    by (simp_all add: conjunct2 [OF up])
  have other: "by_id TagID k (db_tags d2) = by_id TagID k (db_tags db)" if "k \<noteq> ?tid" for k
    using tags_tbl.update_by_id [OF conjunct1 [OF up]] that by simp
  have same: "carries d2 = carries db" by (simp add: carries_def fun_eq_iff fr)
  have "map (fts_entry en db) (filter (\<lambda>n. \<not> carries db ?tid n) (db_notes db))
      = map (fts_entry en d2) (filter (\<lambda>n. \<not> carries db ?tid n) (db_notes db))"
    using other fr by (auto intro!: map_cong untagged_entry [OF assms(1), symmetric])
  then have "mset (notes_fts ?d) = mset (map (fts_entry en d2) (filter (\<lambda>n. \<not> carries db ?tid n) (db_notes db)))"
    using delete_tag_entries(1) [OF assms(1) ok sync, of ?tid] by (simp only:)
  then have "mset (notes_fts db') = mset (map (fts_entry en d2) (db_notes d2))"
    using tags_split [of "fts_entry en d2" "db_notes db" "carries db ?tid"]
    by (simp add: db' fr same entries_of_tag_is [OF assms(1) ok2])
  then show ?thesis
    using delete_tag_entries(2) [OF assms(1) ok sync, of ?tid] by (simp add: fts_synced_def db' fr)
qed

text \<open>What is in the index after a tag is deleted: the notes that did not carry it.\<close>

lemma DeleteTag_index:
  assumes "engine_ok en" and ok: "schema_ok db" and sync: "fts_synced en db"
    and "DeleteTag en c tid db = (None, db')"
  shows "db_notes db' = db_notes db
    \<and> mset (notes_fts db') = mset (map (fts_entry en db') (filter (\<lambda>n. \<not> carries db tid n) (db_notes db)))
    \<and> \<not> fts_malformed db'"
proof -
  let ?d = "fts_delete_rows (entries_of_tag en db tid) db"
  from DeleteTag_okD [OF assms(4)] obtain d2 where
    u: "delete_tag en tid ?d = Inr d2" and db': "db' = fts_insert_rows (entries_of_tag en d2 tid) d2" by blast
  note d2 = delete_tag_is [OF assms(1) u]
  have ok2: "schema_ok d2" by (rule delete_tag_schema [OF assms(1) _ u]) (simp add: ok)
  have none: "entries_of_tag en d2 tid = []"
    unfolding entries_of_tag_is [OF assms(1) ok2] by (simp add: carries_def d2 filter_empty_conv)
  have "fts_entry en d2 n = fts_entry en db n" if "\<not> carries db tid n" for n
  proof (rule untagged_entry [OF assms(1) that])
    have "filter (\<lambda>p. fst p = n_id n) (filter (\<lambda>p. snd p \<noteq> tid) (notes_tags db))
        = filter (\<lambda>p. fst p = n_id n) (notes_tags db)"
      unfolding filter_filter using that by (intro filter_cong) (auto simp: carries_def)
    then show "filter (\<lambda>p. fst p = n_id n) (notes_tags d2) = filter (\<lambda>p. fst p = n_id n) (notes_tags db)"
      by (simp add: d2)
    show "by_id TagID k (db_tags d2) = by_id TagID k (db_tags db)" if "k \<noteq> tid" for k
      using that by (simp add: d2 by_id_delete)
  qed
  then have "map (fts_entry en db) (filter (\<lambda>n. \<not> carries db tid n) (db_notes db))
      = map (fts_entry en d2) (filter (\<lambda>n. \<not> carries db tid n) (db_notes db))" by simp
  then have "mset (notes_fts ?d) = mset (map (fts_entry en d2) (filter (\<lambda>n. \<not> carries db tid n) (db_notes db)))"
    using delete_tag_entries(1) [OF assms(1) ok sync, of tid] by (simp only:)
  moreover have "db_notes d2 = db_notes db" "notes_fts d2 = notes_fts ?d" "fts_malformed d2 = fts_malformed ?d"
    by (simp_all add: d2)
  ultimately show ?thesis
    using delete_tag_entries(2) [OF assms(1) ok sync, of tid] by (simp add: db' none)
qed

section \<open>The index over all runs\<close>

text \<open>A tag is deleted only while no note carries it; every other command is allowed.\<close>

fun keeps_index :: "store_cmd \<Rightarrow> notes_db \<Rightarrow> bool" where
  "keeps_index (Cmd_DeleteTag tid) db = (tid \<notin> snd ` set (notes_tags db))"
| "keeps_index _ db = True"

lemma fts_synced_cong:
  assumes "map (fts_entry en db') (db_notes db') = map (fts_entry en db) (db_notes db)"
    and "notes_fts db' = notes_fts db" and "fts_malformed db' = fts_malformed db" and "fts_synced en db"
  shows "fts_synced en db'"
  using assms by (simp add: fts_synced_def)

lemma fts_synced_other:
  "fts_synced en (db\<lparr>db_sections := rows\<rparr>) = fts_synced en db"
  by (simp add: fts_synced_def fts_entry_def [abs_def] tags_txt_def tags_of_def)

lemma fts_synced_mark:
  "fts_synced en db \<Longrightarrow> fts_synced en (db\<lparr>db_notes := map (mark_note b nid) (db_notes db)\<rparr>)"
  by (simp add: fts_synced_def fts_entry_def [abs_def] tags_txt_def tags_of_def comp_def)

lemma fts_synced_new_tag:
  assumes "schema_ok db" and "fts_synced en db" and "k \<notin> TagID ` set (db_tags db)" and "engine_ok en"
  shows "fts_synced en (db\<lparr>db_tags := db_tags db @ [\<lparr>TagID = k, TagName = nm\<rparr>]\<rparr>)" (is "fts_synced en ?d")
proof (rule fts_synced_cong [OF _ _ _ assms(2)])
  have "\<not> carries db k n" for n
    using assms(1,3) by (auto simp: carries_def schema_ok_def)
  then have "fts_entry en ?d n = fts_entry en db n" for n
    by (rule untagged_entry [OF assms(4), where tid = k])
       (simp_all add: by_id_append split: option.split)
  then show "map (fts_entry en ?d) (db_notes ?d) = map (fts_entry en db) (db_notes db)" by simp
qed simp_all

lemma exec_write_synced:
  "fts_synced en db \<Longrightarrow> (\<And>d. stm db = Inr d \<Longrightarrow> fts_synced en d) \<Longrightarrow> fts_synced en (snd (exec_write c stm db))"
  by (auto simp: exec_write_def exec_def split: option.split sum.split)

lemma CreateNote_snd_synced:
  assumes "engine_ok en" and "schema_ok db" and "fts_synced en db"
  shows "fts_synced en (snd (CreateNote en c title content sec tids rids db))"
proof (cases "CreateNote en c title content sec tids rids db")
  case (Pair re db')
  then show ?thesis
    using CreateNote_synced [OF assms] CreateNote_errD assms(3) by (cases re; cases "snd re") fastforce+
qed

lemma ops_synced:
  assumes "engine_ok en" and "schema_ok db" and "fts_synced en db"
  shows "fts_synced en (snd (UpdateNote en c nid title content sec tids rids db))"
    and "fts_synced en (snd (DeleteNote en c nid db))"
    and "fts_synced en (snd (UpdateTag en c t db))"
  by (rule result_cases, use assms UpdateNote_synced UpdateNote_errD in blast,
      use assms UpdateNote_errD in blast)
     (rule result_cases, use assms DeleteNote_synced in blast, use assms DeleteNote_errD in blast,
      rule result_cases, use assms UpdateTag_synced in blast, use assms UpdateTag_errD in blast)

lemma DeleteTag_unused_synced:
  assumes "engine_ok en" and "schema_ok db" and "fts_synced en db" and "tid \<notin> snd ` set (notes_tags db)"
  shows "fts_synced en (snd (DeleteTag en c tid db))"
proof (rule result_cases)
  fix db' assume "DeleteTag en c tid db = (None, db')"
  from DeleteTag_index [OF assms(1,2,3) this]
  moreover have "\<not> carries db tid n" for n using assms(4) by (force simp: carries_def)
  ultimately show "fts_synced en db'" by (simp add: fts_synced_def)
qed (use assms DeleteTag_errD in blast)

lemma run_cmd_synced:
  assumes "engine_ok en" and "schema_ok db" and "fts_synced en db" and "keeps_index cmd db"
  shows "fts_synced en (run_cmd en c cmd db)"
proof (cases cmd)
  case (Cmd_CreateSection s)
  then show ?thesis using assms
    by (auto simp: CreateSection_def exec_def fts_synced_other dest!: insert_section_okD [OF assms(1,2)]
        split: option.split sum.split)
next
  case (Cmd_CreateTag t)
  then show ?thesis using assms
    by (auto simp: CreateTag_def exec_def dest!: insert_tag_okD [OF assms(1,2)]
        intro: fts_synced_new_tag split: option.split sum.split)
next
  case (Cmd_SetNoteBookmark nid b)
  then show ?thesis using assms
    by (auto simp: SetNoteBookmark_def set_bookmark_is intro!: exec_write_synced fts_synced_mark)
next
  case (Cmd_UpdateSection s)
  then show ?thesis using assms
    by (auto simp: UpdateSection_def update_section_def fts_synced_other intro!: exec_write_synced
        split: sum.splits)
next
  case (Cmd_DeleteSection sid)
  then show ?thesis using assms
    by (auto simp: DeleteSection_def delete_section_def fts_synced_other intro!: exec_write_synced
        split: if_splits)
qed (use assms in \<open>simp_all add: CreateNote_snd_synced ops_synced DeleteTag_unused_synced\<close>)

lemma store_reach_synced:
  "store_reach en keeps_index db \<Longrightarrow> engine_ok en \<Longrightarrow> schema_ok db \<and> fts_synced en db"
  by (induction rule: store_reach.induct) (simp_all add: run_cmd_schema run_cmd_synced)

text \<open>
  C11: The search index stays exact. As long as no tag is deleted while a note carries it, every
  database the store can produce has an undamaged full-text index that holds exactly one
  entry per note, with the title, content and tag names the view shows for it now.
\<close>

theorem reachable_index_exact:
  assumes "engine_ok en" and "store_reach en keeps_index db"
  shows "fts_synced en db"
  using assms store_reach_synced by blast

text \<open>
  \<open>DeleteTag\<close> takes notes out of the search index. When it succeeds on a database whose
  index is exact, all notes are still there, but the index holds entries only for those that
  did not carry the tag: a note that carried it has no entry and cannot be found any more.
\<close>

theorem DeleteTag_unindexes_notes:
  assumes "engine_ok en" and "schema_ok db" and "fts_synced en db"
    and "DeleteTag en c tid db = (None, db')"
  shows "db_notes db' = db_notes db
    \<and> f_rowid ` set (notes_fts db') = n_id ` {n \<in> set (db_notes db). (n_id n, tid) \<notin> set (notes_tags db)}"
proof -
  note d = DeleteTag_index [OF assms]
  have "set (notes_fts db') = fts_entry en db' ` {n \<in> set (db_notes db). \<not> carries db tid n}"
    using arg_cong [OF conjunct1 [OF conjunct2 [OF d]], of set_mset] by simp
  with d show ?thesis by (force simp: carries_def fts_entry_def image_image)
qed

end
