(* ===== verification/Data_Notes.thy ===== *)
theory Data_Notes
  imports Data_Queries Data_Index
begin

text \<open>
  What the operations on notes do, seen through the operations that read: a note that is
  created or updated is read back as it was written, a deleted one is gone and nothing points
  to it, references are symmetric, and the exact conditions under which a note can be created
  and a section deleted.
\<close>

section \<open>Links of a note\<close>

lemma map_filter_total:
  "(\<And>x. x \<in> set xs \<Longrightarrow> \<exists>y. f x = Some y \<and> g y = h x) \<Longrightarrow> map g (List.map_filter f xs) = map h xs"
  by (induction xs) (fastforce simp: List.map_filter_simps)+

lemma tag_ids_of_note:
  assumes "engine_ok en" and "schema_ok db"
  shows "map TagID (tags_of en q db nid) = map snd (visit en q snd (filter (\<lambda>p. fst p = nid) (notes_tags db)))"
  unfolding tags_of_def
proof (rule map_filter_total)
  fix p assume "p \<in> set (visit en q snd (filter (\<lambda>p. fst p = nid) (notes_tags db)))"
  then have "snd p \<in> TagID ` set (db_tags db)" using assms by (auto simp: schema_ok_def)
  then show "\<exists>y. by_id TagID (snd p) (db_tags db) = Some y \<and> TagID y = snd p"
    by (metis by_id_None by_id_Some not_None_eq)
qed

lemma note_detail_exists:
  "k \<in> n_id ` set (db_notes db) \<Longrightarrow>
     \<exists>y. map_option detail_of (by_id n_id k (db_notes db)) = Some y \<and> DetailID y = k"
  by (cases "by_id n_id k (db_notes db)") (auto simp: by_id_None dest: by_id_Some)

lemma ref_ids_of_note:
  assumes "engine_ok en" and "schema_ok db"
  shows "map DetailID (refs_of en db nid)
      = map snd (visit en ''reference_notes_json'' snd (filter (\<lambda>p. fst p = nid) (reference_notes db)))"
    and "map DetailID (ref_bys_of en db nid)
      = map fst (visit en ''reference_by_notes_json'' fst (filter (\<lambda>p. snd p = nid) (reference_notes db)))"
  unfolding refs_of_def ref_bys_of_def using assms
  by (auto intro!: map_filter_total note_detail_exists simp: schema_ok_def)

lemma link_msets:
  assumes "engine_ok en" and "schema_ok db"
  shows "mset (map TagID (tags_of en q db nid)) = mset (map snd (filter (\<lambda>p. fst p = nid) (notes_tags db)))"
    and "mset (map DetailID (refs_of en db nid)) = mset (map snd (filter (\<lambda>p. fst p = nid) (reference_notes db)))"
    and "mset (map DetailID (ref_bys_of en db nid)) = mset (map fst (filter (\<lambda>p. snd p = nid) (reference_notes db)))"
  unfolding tag_ids_of_note [OF assms] ref_ids_of_note [OF assms] using assms(1) by simp_all

lemma ref_id_sets:
  assumes "engine_ok en" and "schema_ok db"
  shows "DetailID ` set (refs_of en db a) = {b. (a, b) \<in> set (reference_notes db)}"
    and "DetailID ` set (ref_bys_of en db a) = {b. (b, a) \<in> set (reference_notes db)}"
proof -
  have 1: "fst ` {p \<in> R. snd p = a} = {b. (b, a) \<in> R}" "snd ` {p \<in> R. fst p = a} = {b. (a, b) \<in> R}"
    for R :: "(int \<times> int) set"
    by force+
  show "DetailID ` set (refs_of en db a) = {b. (a, b) \<in> set (reference_notes db)}"
    using arg_cong [OF link_msets(2) [OF assms, of a], of set_mset] 1(2) by simp
  show "DetailID ` set (ref_bys_of en db a) = {b. (b, a) \<in> set (reference_notes db)}"
    using arg_cong [OF link_msets(3) [OF assms, of a], of set_mset] 1(1) by simp
qed

section \<open>Reading one note\<close>

text \<open>The note a row of the table is read as, when its text columns parse.\<close>

definition note_of :: "engine \<Rightarrow> notes_db \<Rightarrow> note_row \<Rightarrow> string \<Rightarrow> string \<Rightarrow> go_time \<Rightarrow> go_time \<Rightarrow> Note" where
  "note_of en db n sname content t u =
     \<lparr>NoteID = n_id n, NoteTitle = n_title n, NoteContent = content,
      NoteSection = \<lparr>SectionID = n_section n, SectionName = sname\<rparr>,
      NoteTags = tags_of en ''tags_json'' db (n_id n), NoteCreatedAt = t, NoteLastUpdatedAt = u,
      ReferenceNotes = refs_of en db (n_id n), ReferenceByNotes = ref_bys_of en db (n_id n),
      NoteBookmark = n_bookmark n\<rparr>"

lemma FindNoteByID_found:
  assumes "quiet c" and "by_id n_id nid (db_notes db) = Some n"
    and "by_id SectionID (n_section n) (db_sections db) = Some s" and "n_content n = Some content"
    and "parse_time (n_created n) = Inr t" and "parse_time (n_updated n) = Inr u"
  shows "FindNoteByID en c nid db = (note_of en db n (SectionName s) content t u, None)"
  using assms by (simp add: FindNoteByID_def scan_note_def notes_details_def note_of_def)

lemma FindNoteByID_okD:
  assumes "FindNoteByID en c nid db = (nt, None)"
  shows "\<exists>n sname content t u. by_id n_id nid (db_notes db) = Some n \<and> n_content n = Some content
    \<and> parse_time (n_created n) = Inr t \<and> parse_time (n_updated n) = Inr u
    \<and> nt = note_of en db n sname content t u"
  using assms
  by (auto simp: FindNoteByID_def query_row_def scan_note_def notes_details_def note_of_def
      split: sum.splits option.splits if_splits)

lemma FindNoteByID_missing:
  "quiet c \<Longrightarrow> nid \<notin> n_id ` set (db_notes db) \<Longrightarrow> FindNoteByID en c nid db = (zero_note, Some ErrNoRows)"
  using by_id_None [of n_id nid "db_notes db"] by (simp add: FindNoteByID_def)

text \<open>
  A note references another exactly when the other lists it among the notes that
  reference it: what \<open>FindNoteByID\<close> shows of two notes agrees.
\<close>

theorem references_are_symmetric:
  assumes "engine_ok en" and "schema_ok db"
    and "FindNoteByID en c1 a db = (na, None)" and "FindNoteByID en c2 b db = (nb, None)"
  shows "b \<in> DetailID ` set (ReferenceNotes na) \<longleftrightarrow> a \<in> DetailID ` set (ReferenceByNotes nb)"
proof -
  have "ReferenceNotes na = refs_of en db a" "ReferenceByNotes nb = ref_bys_of en db b"
    using FindNoteByID_okD [OF assms(3)] FindNoteByID_okD [OF assms(4)]
    by (auto simp: note_of_def dest: by_id_Some)
  then show ?thesis by (simp add: ref_id_sets [OF assms(1,2)])
qed

section \<open>Creating a note\<close>

lemma created_simps [simp]:
  "db_sections (created now title content sec tids rids nid db) = db_sections db"
  "db_tags (created now title content sec tids rids nid db) = db_tags db"
  "db_notes (created now title content sec tids rids nid db) = db_notes db @ [new_note now title content sec nid]"
  "notes_tags (created now title content sec tids rids nid db) = notes_tags db @ map (\<lambda>k. (nid, k)) tids"
  "reference_notes (created now title content sec tids rids nid db) = reference_notes db @ map (\<lambda>k. (nid, k)) rids"
  by (simp_all add: created_def)

lemma schema_section_of:
  assumes "schema_ok db" and "n \<in> set (db_notes db)"
  shows "\<exists>s. by_id SectionID (n_section n) (db_sections db) = Some s"
proof -
  have "n_section n \<in> SectionID ` set (db_sections db)" using assms by (simp add: schema_ok_def)
  then show ?thesis using by_id_None [of SectionID "n_section n" "db_sections db"] by (metis not_None_eq)
qed

lemma no_links_of_fresh:
  assumes "schema_ok db" and "nid \<notin> n_id ` set (db_notes db)"
  shows "filter (\<lambda>p. fst p = nid) (notes_tags db) = []"
    and "filter (\<lambda>p. fst p = nid) (reference_notes db) = []"
    and "filter (\<lambda>p. snd p = nid) (reference_notes db) = []"
  using assms by (fastforce simp: filter_empty_conv schema_ok_def)+

lemma view_fts [simp]:
  "tags_of en q (fts_insert_rows rs db) nid = tags_of en q db nid"
  "refs_of en (fts_insert_rows rs db) nid = refs_of en db nid"
  "ref_bys_of en (fts_insert_rows rs db) nid = ref_bys_of en db nid"
  by (simp_all add: tags_of_def refs_of_def ref_bys_of_def)

lemma created_note_found:
  assumes "engine_ok en" and "schema_ok db"
    and "CreateNote en c title content sec tids rids db = ((nid, None), db')"
    and "now_txt c = sqlite_datetime t" and "valid_time t" and "t_nsec t = 0" and "quiet c'"
  shows "\<exists>n. FindNoteByID en c' nid db' = (n, None) \<and> NoteID n = nid \<and> NoteTitle n = title
    \<and> NoteContent n = content \<and> SectionID (NoteSection n) = sec \<and> NoteCreatedAt n = t
    \<and> NoteLastUpdatedAt n = t \<and> \<not> NoteBookmark n \<and> mset (map TagID (NoteTags n)) = mset tids
    \<and> mset (map DetailID (ReferenceNotes n)) = mset rids
    \<and> DetailID ` set (ReferenceByNotes n) = {nid} \<inter> set rids"
proof -
  let ?d = "created (now_txt c) title content sec tids rids nid db"
  let ?n = "new_note (now_txt c) title content sec nid"
  note e = CreateNote_effect [OF assms(1,2,3)]
  have ok: "schema_ok ?d" and fresh: "nid \<notin> n_id ` set (db_notes db)" and db': "db' = fts_insert_rows (entries_of_note en ?d nid) ?d"
    using e by blast+
  have n: "by_id n_id nid (db_notes ?d) = Some ?n"
    using by_id_in [OF schema_notes [OF ok], of ?n] by simp
  obtain s where s: "by_id SectionID sec (db_sections ?d) = Some s"
    using schema_section_of [OF ok, of ?n] by auto
  have p: "parse_time (now_txt c) = Inr t" using assms by (simp add: parse_time_datetime)
  have "FindNoteByID en c' nid db' = (note_of en db' ?n (SectionName s) content t t, None)"
    using n s p assms(7) by (intro FindNoteByID_found) (simp_all add: db' new_note_def)
  moreover have "mset (map TagID (tags_of en ''tags_json'' ?d nid)) = mset tids"
    unfolding link_msets(1) [OF assms(1) ok] using no_links_of_fresh [OF assms(2) fresh]
    by (simp add: comp_def filter_map)
  moreover have "mset (map DetailID (refs_of en ?d nid)) = mset rids"
    unfolding link_msets(2) [OF assms(1) ok] using no_links_of_fresh [OF assms(2) fresh]
    by (simp add: comp_def filter_map)
  moreover have "DetailID ` set (ref_bys_of en ?d nid) = {nid} \<inter> set rids"
  proof -
    have "(b, nid) \<notin> set (reference_notes db)" for b
      using no_links_of_fresh(3) [OF assms(2) fresh] by (auto simp: filter_empty_conv)
    then show ?thesis unfolding ref_id_sets(2) [OF assms(1) ok] by auto
  qed
  moreover have "s \<in> set (db_sections ?d) \<and> SectionID s = sec" using s by (rule by_id_Some)
  ultimately show ?thesis by (simp add: db' note_of_def new_note_def)
qed

text \<open>
  A created note reads back as it was written. When \<open>CreateNote\<close> reports an id, whatever
  the engine's choices, \<open>FindNoteByID\<close> on that id returns the title, content and section
  given, the time of creation in both time stamps, no bookmark, exactly the tags and the
  references given, and no note that references it but itself.
\<close>

theorem CreateNote_FindNoteByID:
  assumes "engine_ok en" and "schema_ok db"
    and "CreateNote en c title content sec tids rids db = ((nid, None), db')"
    and "now_txt c = sqlite_datetime t" and "valid_time t" and "t_nsec t = 0" and "quiet c'"
  shows "\<exists>n. FindNoteByID en c' nid db' = (n, None) \<and> NoteID n = nid \<and> NoteTitle n = title
    \<and> NoteContent n = content \<and> SectionID (NoteSection n) = sec \<and> NoteCreatedAt n = t
    \<and> NoteLastUpdatedAt n = t \<and> \<not> NoteBookmark n \<and> mset (map TagID (NoteTags n)) = mset tids
    \<and> mset (map DetailID (ReferenceNotes n)) = mset rids
    \<and> DetailID ` set (ReferenceByNotes n) = {nid} \<inter> set rids"
  using assms by (rule created_note_found)

lemma insert_pairs_iff:
  "fk_on en \<Longrightarrow> (\<exists>rows'. insert_pairs en key left right nid ks rows = Inr rows') \<longleftrightarrow>
     distinct ks \<and> (\<forall>k \<in> set ks. (nid, k) \<notin> set rows) \<and> nid \<in> left \<and> set ks \<subseteq> right"
  by (auto simp: insert_pairs_def Let_def distinct_map inj_on_def)

lemma CreateNote_quiet:
  assumes "quiet c"
  shows "snd (fst (CreateNote en c title content sec tids rids db)) = None \<longleftrightarrow>
    (\<exists>nid db1 db2 db3. insert_note en (now_txt c) title content sec db = Inr (nid, db1) \<and> nid \<noteq> 0
       \<and> (if tids = [] then db2 = db1 else insert_notes_tags en nid tids db1 = Inr db2)
       \<and> (if rids = [] then db3 = db2 else insert_reference_notes en nid rids db2 = Inr db3))"
  using assms
  by (auto simp: CreateNote_def CreateNote_tx_def with_transaction_def wrapped_tx_def exec_quiet quiet_def
      insNoteFTSSql_def exec_def Let_def split: sum.splits option.splits if_splits)

lemma created_iff:
  assumes "engine_ok en" and "schema_ok db" and "quiet c"
    and "alloc_id en (map n_id (db_notes db)) = Some nid"
  shows "snd (fst (CreateNote en c title content sec tids rids db)) = None \<longleftrightarrow>
    title \<notin> n_title ` set (db_notes db) \<and> sec \<in> SectionID ` set (db_sections db)
    \<and> distinct tids \<and> set tids \<subseteq> TagID ` set (db_tags db)
    \<and> distinct rids \<and> set rids \<subseteq> insert nid (n_id ` set (db_notes db))" (is "?L \<longleftrightarrow> ?R")
proof -
  note fk = engine_ok_fk [OF assms(1)]
  note al = engine_ok_alloc [OF assms(1) assms(4)]
  let ?n = "new_note (now_txt c) title content sec nid"
  have ins: "insert_note en (now_txt c) title content sec db = Inr (i, db1) \<longleftrightarrow>
      i = nid \<and> title \<notin> n_title ` set (db_notes db) \<and> sec \<in> SectionID ` set (db_sections db)
      \<and> db1 = db\<lparr>db_notes := db_notes db @ [?n]\<rparr>" for i db1
    using fk assms(4) by (auto simp: insert_note_def insert_row_def)
  have fresh: "(nid, k) \<notin> set (notes_tags db)" "(nid, k) \<notin> set (reference_notes db)" for k
    using no_links_of_fresh(1,2) [OF assms(2), of nid] al by (auto simp: filter_empty_conv)
  have tg: "insert_notes_tags en nid tids (db\<lparr>db_notes := db_notes db @ [?n]\<rparr>) = Inr db2 \<longleftrightarrow>
      distinct tids \<and> set tids \<subseteq> TagID ` set (db_tags db)
      \<and> db2 = db\<lparr>db_notes := db_notes db @ [?n], notes_tags := notes_tags db @ map (\<lambda>k. (nid, k)) tids\<rparr>" for db2
    using fresh(1) fk by (auto simp: insert_notes_tags_def insert_pairs_def Let_def distinct_map inj_on_def)
  have rf: "(\<exists>db3. insert_reference_notes en nid rids
        (db\<lparr>db_notes := db_notes db @ [?n], notes_tags := nt\<rparr>) = Inr db3) \<longleftrightarrow>
      distinct rids \<and> set rids \<subseteq> insert nid (n_id ` set (db_notes db))" for nt
    using fresh(2) fk by (auto simp: insert_reference_notes_def insert_pairs_def Let_def distinct_map inj_on_def)
  have rf': "(\<exists>db3. insert_reference_notes en nid rids (db\<lparr>db_notes := db_notes db @ [?n]\<rparr>) = Inr db3) \<longleftrightarrow>
      distinct rids \<and> set rids \<subseteq> insert nid (n_id ` set (db_notes db))"
    using fresh(2) fk by (auto simp: insert_reference_notes_def insert_pairs_def Let_def distinct_map inj_on_def)
  show ?thesis
    unfolding CreateNote_quiet [OF assms(3)] ins using al rf rf'
    by (cases "tids = []"; cases "rids = []") (auto simp: tg)
qed

text \<open>
  Exactly when a note can be created. On an engine that does not fail, and while there
  are ids left, \<open>CreateNote\<close> succeeds if and only if no note has the title, the section
  exists, the tags exist and none is given twice, and every reference is to an existing note
  (or the new one itself) and none is given twice.
\<close>

theorem CreateNote_succeeds_iff:
  assumes "engine_ok en" and "schema_ok db" and "quiet c"
    and "alloc_id en (map n_id (db_notes db)) = Some nid"
  shows "snd (fst (CreateNote en c title content sec tids rids db)) = None \<longleftrightarrow>
    title \<notin> n_title ` set (db_notes db) \<and> sec \<in> SectionID ` set (db_sections db)
    \<and> distinct tids \<and> set tids \<subseteq> TagID ` set (db_tags db)
    \<and> distinct rids \<and> set rids \<subseteq> insert nid (n_id ` set (db_notes db))"
  using assms by (rule created_iff)

section \<open>Updating and deleting a note\<close>

lemma updated_simps [simp]:
  "db_sections (updated x tids rids nid db) = db_sections db"
  "db_tags (updated x tids rids nid db) = db_tags db"
  "db_notes (updated x tids rids nid db) = map (\<lambda>n. if n_id n = nid then set_note x n else n) (db_notes db)"
  "notes_tags (updated x tids rids nid db) = filter (\<lambda>p. fst p \<noteq> nid) (notes_tags db) @ map (\<lambda>k. (nid, k)) tids"
  "reference_notes (updated x tids rids nid db) =
     filter (\<lambda>p. fst p \<noteq> nid) (reference_notes db) @ map (\<lambda>k. (nid, k)) rids"
  by (simp_all add: updated_def)

lemma by_id_map_note:
  "by_id n_id k (map (\<lambda>n. if n_id n = nid then set_note x n else n) ns)
   = (if k = nid then map_option (set_note x) (by_id n_id k ns) else by_id n_id k ns)"
  by (induction ns) (auto simp: by_id_def notes_tbl.upd_id)

text \<open>
  C22: What \<open>UpdateNote\<close> changes, and that it changes nothing else. When it succeeds, the note
  has the new title, content, section and time of update and keeps its id, creation time and
  bookmark, it has exactly the tags and references given, and every other note, every tag link
  and reference of another note (those to this note included), every section and every tag is
  as before.
\<close>

theorem UpdateNote_exact:
  assumes "engine_ok en" and "schema_ok db"
    and "UpdateNote en c nid title content sec tids rids db = (None, db')"
  shows "by_id n_id k (db_notes db') =
      (if k = nid
       then map_option (\<lambda>n. n\<lparr>n_title := title, n_content := Some content, n_section := sec, n_updated := now_txt c\<rparr>)
              (by_id n_id k (db_notes db))
       else by_id n_id k (db_notes db))
    \<and> set (notes_tags db') = {p \<in> set (notes_tags db). fst p \<noteq> nid} \<union> {nid} \<times> set tids
    \<and> set (reference_notes db') = {p \<in> set (reference_notes db). fst p \<noteq> nid} \<union> {nid} \<times> set rids
    \<and> db_sections db' = db_sections db \<and> db_tags db' = db_tags db"
proof -
  have "set_note (title, content, sec, now_txt c)
      = (\<lambda>n. n\<lparr>n_title := title, n_content := Some content, n_section := sec, n_updated := now_txt c\<rparr>)"
    by (simp add: set_note_def fun_eq_iff)
  then show ?thesis
    using UpdateNote_effect [OF assms] by (auto simp: by_id_map_note)
qed

text \<open>
  After \<open>DeleteNote\<close> succeeds the note is gone (\<open>FindNoteByID\<close> reports \<open>sql.ErrNoRows\<close>),
  no tag link and no reference in either direction mentions it, and every other note, link
  and reference is as before.
\<close>

theorem DeleteNote_exact:
  assumes "engine_ok en" and "schema_ok db" and "DeleteNote en c nid db = (None, db')" and "quiet c'"
  shows "FindNoteByID en c' nid db' = (zero_note, Some ErrNoRows)
    \<and> set (db_notes db') = {n \<in> set (db_notes db). n_id n \<noteq> nid}
    \<and> set (notes_tags db') = {p \<in> set (notes_tags db). fst p \<noteq> nid}
    \<and> set (reference_notes db') = {p \<in> set (reference_notes db). fst p \<noteq> nid \<and> snd p \<noteq> nid}
    \<and> db_sections db' = db_sections db \<and> db_tags db' = db_tags db"
proof -
  note d = delete_note_is [OF assms(1) DeleteNote_okD [OF assms(3)]]
  have "nid \<notin> n_id ` set (db_notes db')" by (simp add: d delete_row_ids)
  with assms(4) have "FindNoteByID en c' nid db' = (zero_note, Some ErrNoRows)"
    by (rule FindNoteByID_missing)
  then show ?thesis using d by (auto simp: delete_row_def)
qed

section \<open>Sections\<close>

text \<open>
  \<open>DeleteSection\<close> is restricted: on an engine that does not fail it reports an error
  exactly when some note is in the section, and then the database is unchanged; otherwise
  the section is gone and everything else is as before.
\<close>

theorem DeleteSection_restricted:
  assumes "engine_ok en" and "schema_ok db" and "quiet c"
  shows "DeleteSection en c sid db =
    (if sid \<in> n_section ` set (db_notes db) then (Some ForeignKeyViolation, db)
     else (None, db\<lparr>db_sections := filter (\<lambda>s. SectionID s \<noteq> sid) (db_sections db)\<rparr>))"
proof -
  have "n_section ` set (db_notes db) \<subseteq> SectionID ` set (db_sections db)"
    using assms(2) by (simp add: schema_ok_def image_subset_iff)
  then show ?thesis
    using engine_ok_fk [OF assms(1)]
    by (auto simp: DeleteSection_def exec_write_quiet [OF assms(3)] delete_section_def delete_row_def)
qed

section \<open>The index after a deleted tag\<close>

text \<open>
  C28: After a tag is deleted, editing a note that carried it damages the search index. If
  \<open>DeleteTag\<close> succeeded on a database with an exact index, the next successful \<open>UpdateNote\<close>
  of such a note deletes an entry that the index does not have.
\<close>

theorem DeleteTag_then_UpdateNote_damages_index:
  assumes "engine_ok en" and "schema_ok db" and "fts_synced en db"
    and "DeleteTag en c1 tid db = (None, d1)" and "(nid, tid) \<in> set (notes_tags db)"
    and "UpdateNote en c2 nid title content sec tids rids d1 = (None, d2)"
  shows "fts_malformed d2"
proof -
  have ok1: "schema_ok d1" using DeleteTag_schema [OF assms(1,2), of c1 tid] assms(4) by simp
  note ix = DeleteTag_index [OF assms(1-4)]
  have gone: "\<forall>r \<in> set (notes_fts d1). f_rowid r \<noteq> nid"
    using arg_cong [OF conjunct1 [OF conjunct2 [OF ix]], of set_mset] assms(5)
    by (auto simp: carries_def fts_entry_def)
  have "nid \<in> n_id ` set (db_notes d1)"
    using assms(2,5) ix by (force simp: schema_ok_def)
  then obtain n ns where n: "filter (\<lambda>n. n_id n = nid) (db_notes d1) = n # ns" "n_id n = nid"
    by (cases "filter (\<lambda>n. n_id n = nid) (db_notes d1)")
       (auto simp: filter_empty_conv filter_eq_Cons_iff)
  have "snd (fts_remove (fts_entry en d1 n # rs) (notes_fts d1, b))" for rs b
  proof -
    have mono: "snd (fts_remove rs (ix, True))" for rs ix
      by (induction rs arbitrary: ix) auto
    have "fts_entry en d1 n \<notin> set (notes_fts d1)" using gone n(2) by (auto simp: fts_entry_def)
    then show ?thesis by (simp add: mono)
  qed
  then have "fts_malformed (fts_delete_rows (entries_of_note en d1 nid) d1)"
    using n(1) by (simp add: fts_delete_rows_def entries_of_note_def case_prod_beta del: fts_remove.simps)
  then show ?thesis
    using UpdateNote_effect [OF assms(1) ok1 assms(6)] by (simp add: updated_def)
qed

end
