(* ===== verification/Data_Lists.thy ===== *)
theory Data_Lists
  imports Data_Notes
begin

text \<open>
  What the listings return: pages that cover everything once, searches that drop nothing the
  index matches, rankings that are rankings, and name-ordered lists that are complete.
\<close>

section \<open>Pages\<close>

lemma paginate_step:
  fixes xs :: "'a list"
  assumes "0 < L" and "int L < 2 ^ 62" and "int (length xs) < 2 ^ 62" and "m \<le> length xs"
  defines "p \<equiv> paginate (int L) (int m) (sql_limit (wrap64 (int L + 1)) (int m) xs)"
  shows "PageItems p = take L (drop m xs)"
    and "NextOffset p = (if m + L < length xs then Some (int (m + L)) else None)"
proof -
  have w: "wrap64 (int L + 1) = int (Suc L)" "m + L < length xs \<Longrightarrow> wrap64 (int m + int L) = int (m + L)"
    using assms(2,3) by (simp_all add: wrap64_def)
  have rows: "sql_limit (int (Suc L)) (int m) xs = take (Suc L) (drop m xs)"
    by (simp only: sql_limit_def nat_int) simp
  show "PageItems p = take L (drop m xs)"
    unfolding p_def w rows by (auto simp: paginate_def min_def take_all)
  show "NextOffset p = (if m + L < length xs then Some (int (m + L)) else None)"
    using w(2) assms(4) unfolding p_def w(1) rows by (auto simp: paginate_def)
qed

text \<open>A client that follows \<open>NextOffset\<close> from a page to the next, and collects the items.\<close>

fun follow :: "(int \<Rightarrow> 'a page go_ret) \<Rightarrow> nat \<Rightarrow> int \<Rightarrow> 'a list option" where
  "follow get 0 offset = None"
| "follow get (Suc fuel) offset =
     (case get offset of
        Returns p None \<Rightarrow>
          (case NextOffset p of
             None \<Rightarrow> Some (PageItems p)
           | Some next \<Rightarrow> map_option ((@) (PageItems p)) (follow get fuel next))
      | _ \<Rightarrow> None)"

lemma follow_pages:
  assumes get: "\<And>m. m \<le> length xs \<Longrightarrow> get (int m) = Returns (paginate (int L) (int m)
      (sql_limit (wrap64 (int L + 1)) (int m) xs)) None"
    and L: "0 < L" "int L < 2 ^ 62" "int (length xs) < 2 ^ 62"
  shows "m \<le> length xs \<Longrightarrow> length xs - m < fuel \<Longrightarrow> follow get fuel (int m) = Some (drop m xs)"
proof (induction fuel arbitrary: m)
  case (Suc fuel)
  note step = paginate_step [OF L(1,2,3) Suc.prems(1)]
  show ?case
  proof (cases "m + L < length xs")
    case True
    then have "follow get fuel (int (m + L)) = Some (drop (m + L) xs)"
      using Suc.prems L(1) by (intro Suc.IH) simp_all
    moreover have "take L (drop m xs) @ drop (m + L) xs = drop m xs"
      by (metis add.commute append_take_drop_id drop_drop)
    ultimately show ?thesis using True step by (simp add: get [OF Suc.prems(1)])
  next
    case False
    then show ?thesis using step by (simp add: get [OF Suc.prems(1)])
  qed
qed simp

definition page_limit :: "int \<Rightarrow> int \<Rightarrow> int" where
  "page_limit dflt limit = (if limit \<le> 0 then dflt else limit)"

lemma ListNotes_quiet:
  assumes "quiet c" and "limit \<le> 2 ^ 45"
  shows "ListNotes c limit (int m) db = Returns (paginate (int (nat (page_limit 5 limit))) (int m)
     (sql_limit (wrap64 (int (nat (page_limit 5 limit)) + 1)) (int m)
       (map detail_of (sort_key n_id (db_notes db))))) None"
  using assms
  by (auto simp: ListNotes_def make_cap_ok_def defaultLimit_def page_limit_def sql_limit_def Let_def
      take_map drop_map)

lemma ListTags_quiet:
  assumes "quiet c" and "limit \<le> 2 ^ 43"
  shows "ListTags c limit (int m) db = Returns (paginate (int (nat (page_limit 10 limit))) (int m)
     (sql_limit (wrap64 (int (nat (page_limit 10 limit)) + 1)) (int m) (sort_key TagID (db_tags db)))) None"
  using assms by (auto simp: ListTags_def make_cap_ok_def page_limit_def Let_def)

text \<open>
  C30: Paging through \<open>ListNotes\<close>, with any page size the allocator can hold, ends after at most
  one request more than there are notes, and the pages together are all notes in the order of
  their ids, each exactly once. The same holds of \<open>ListTags\<close>.
\<close>

theorem pages_cover_everything:
  assumes "quiet c" and "limit \<le> 2 ^ 43"
    and "int (length (db_notes db)) < 2 ^ 62" and "int (length (db_tags db)) < 2 ^ 62"
  shows "follow (\<lambda>offset. ListNotes c limit offset db) (Suc (length (db_notes db))) 0
      = Some (map detail_of (sort_key n_id (db_notes db)))
    \<and> follow (\<lambda>offset. ListTags c limit offset db) (Suc (length (db_tags db))) 0
      = Some (sort_key TagID (db_tags db))"
proof -
  have n: "follow (\<lambda>offset. ListNotes c limit offset db) (Suc (length (db_notes db))) (int 0)
      = Some (drop 0 (map detail_of (sort_key n_id (db_notes db))))"
    by (rule follow_pages [where L = "nat (page_limit 5 limit)"], rule ListNotes_quiet)
       (use assms in \<open>auto simp: page_limit_def\<close>)
  have t: "follow (\<lambda>offset. ListTags c limit offset db) (Suc (length (db_tags db))) (int 0)
      = Some (drop 0 (sort_key TagID (db_tags db)))"
    by (rule follow_pages [where L = "nat (page_limit 10 limit)"], rule ListTags_quiet)
       (use assms in \<open>auto simp: page_limit_def\<close>)
  from n t show ?thesis by simp
qed

theorem pages_cover_everything_witness:
  "follow (\<lambda>offset. ListNotes (good_call ''t'') 5 offset bootstrapped) (Suc (length (db_notes bootstrapped))) 0
     = Some (map detail_of (sort_key n_id (db_notes bootstrapped)))
   \<and> follow (\<lambda>offset. ListTags (good_call ''t'') 5 offset bootstrapped) (Suc (length (db_tags bootstrapped))) 0
     = Some (sort_key TagID (db_tags bootstrapped))"
  by (rule pages_cover_everything) (simp_all add: bootstrapped_def)

section \<open>Search\<close>

lemma first_of_each_simps [simp]:
  "set (first_of_each xs) = set xs" "distinct (first_of_each xs)"
  by (simp_all add: first_of_each_def)

text \<open>What the full-text engine documents of a match on an undamaged index: rowids of entries.\<close>

definition fts_sound :: "fts_engine \<Rightarrow> bool" where
  "fts_sound ft \<longleftrightarrow>
     (\<forall>q ix hits. fts_match ft q ix False = Inr hits \<longrightarrow> set hits \<subseteq> f_rowid ` set ix \<and> distinct hits)"

lemma map_filter_all:
  "(\<And>x. x \<in> set xs \<Longrightarrow> f x = Some (g x)) \<Longrightarrow> List.map_filter f xs = map g xs"
  by (induction xs) (simp_all add: List.map_filter_simps)

lemma first_of_each_distinct [simp]: "distinct xs \<Longrightarrow> first_of_each xs = xs"
  by (simp add: first_of_each_def distinct_remdups_id)

text \<open>
  C29: Search drops nothing. On a database whose index is exact and an engine that does not
  fail, \<open>SearchNotes\<close> returns, for the notes the full-text engine matched, best first and at
  most fifty, their ids in that order with their current titles.
\<close>

theorem SearchNotes_exact:
  assumes "engine_ok en" and "schema_ok db" and "fts_synced en db" and "fts_sound ft" and "quiet c"
    and "fts_match ft q (notes_fts db) (fts_malformed db) = Inr hits"
  shows "snd (SearchNotes en ft c q db) = None
    \<and> map ResultID (fst (SearchNotes en ft c q db)) = take 50 hits
    \<and> (\<forall>r \<in> set (fst (SearchNotes en ft c q db)).
         map_option n_title (by_id n_id (ResultID r) (db_notes db)) = Some (ResultTitle r))"
proof -
  let ?row = "\<lambda>k. the (by_id n_id k (db_notes db))"
  have "set (notes_fts db) = fts_entry en db ` set (db_notes db)"
    using assms(3) by (metis fts_synced_def set_mset_mset set_map)
  then have "f_rowid ` set (notes_fts db) = n_id ` set (db_notes db)"
    by (simp add: image_image fts_entry_def)
  then have hits: "set hits \<subseteq> n_id ` set (db_notes db)" "distinct hits"
    using assms(3,4,6) unfolding fts_sound_def fts_synced_def by (metis (full_types))+
  have row: "by_id n_id k (db_notes db) = Some (?row k) \<and> n_id (?row k) = k" if "k \<in> set hits" for k
  proof -
    have "k \<in> n_id ` set (db_notes db)" using hits(1) that by blast
    then obtain n where "by_id n_id k (db_notes db) = Some n"
      using by_id_None [of n_id k "db_notes db"] by fastforce
    then show ?thesis by (auto dest: by_id_Some)
  qed
  have rows: "List.map_filter (\<lambda>k. map_option (search_result en ft q db) (by_id n_id k (db_notes db))) hits
      = map (\<lambda>k. search_result en ft q db (?row k)) hits"
    using row by (intro map_filter_all) (metis option.map(2))
  have id: "ResultID (search_result en ft q db (?row k)) = k" if "k \<in> set hits" for k
    using row [OF that] by (simp add: search_result_def)
  have "inj_on (\<lambda>k. search_result en ft q db (?row k)) (set hits)"
    by (rule inj_on_inverseI [where g = ResultID]) (rule id)
  then have "distinct (map (\<lambda>k. search_result en ft q db (?row k)) hits)"
    using hits(2) by (simp add: distinct_map)
  then have res: "SearchNotes en ft c q db = (map (\<lambda>k. search_result en ft q db (?row k)) (take 50 hits), None)"
    using assms(5,6) by (simp add: SearchNotes_def exec_quiet rows sql_limit_def take_map)
  have "map (\<lambda>k. ResultID (search_result en ft q db (?row k))) (take 50 hits) = take 50 hits"
    by (rule map_idI) (use id in \<open>auto dest: in_set_takeD\<close>)
  moreover have "map_option n_title (by_id n_id (ResultID r) (db_notes db)) = Some (ResultTitle r)"
    if r: "r \<in> (\<lambda>k. search_result en ft q db (?row k)) ` set (take 50 hits)" for r
  proof -
    obtain k where k: "k \<in> set hits" "r = search_result en ft q db (?row k)"
      using r by (blast dest: in_set_takeD)
    then have "by_id n_id (ResultID r) (db_notes db) = Some (?row k)" using row [OF k(1)] id [OF k(1)] by simp
    then show ?thesis by (simp add: k(2) search_result_def)
  qed
  ultimately show ?thesis by (simp add: res comp_def)
qed

section \<open>Rankings\<close>

lemma set_ranked: "engine_ok en \<Longrightarrow> set (ranked_groups en q ks) = set ks"
  by (simp add: ranked_groups_def)

lemma distinct_ranked: "engine_ok en \<Longrightarrow> distinct (ranked_groups en q ks)"
  unfolding ranked_groups_def by (metis distinct_remdups distinct_visit mset_eq_imp_distinct_iff mset_order_desc)

lemma sorted_ranked: "sorted_wrt (\<lambda>a b. group_size ks b \<le> group_size ks a) (ranked_groups en q ks)"
  unfolding ranked_groups_def by (rule sorted_order_desc)

lemma grouped_ids:
  assumes "engine_ok en" and "\<forall>k \<in> set ends. by_id n_id k (db_notes db) \<noteq> None"
  shows "map DetailID (grouped_notes en q limit ends db) = take (nat (positive_limit limit)) (ranked_groups en q ends)"
proof -
  have all: "filter (\<lambda>k. by_id n_id k (db_notes db) \<noteq> None) ends = ends"
    using assms(2) by (simp add: filter_id_conv)
  let ?t = "take (nat (positive_limit limit)) (ranked_groups en q ends)"
  have "map DetailID (List.map_filter (\<lambda>k. map_option detail_of (by_id n_id k (db_notes db))) ?t) = map (\<lambda>k. k) ?t"
  proof (rule map_filter_total)
    fix k assume "k \<in> set ?t"
    then have "k \<in> set ends" using set_ranked [OF assms(1), of q ends] by (auto dest: in_set_takeD)
    then have "k \<in> n_id ` set (db_notes db)" using assms(2) by_id_None by metis
    then show "\<exists>y. map_option detail_of (by_id n_id k (db_notes db)) = Some y \<and> DetailID y = k"
      by (rule note_detail_exists)
  qed
  moreover have "sql_limit (positive_limit limit) 0 (ranked_groups en q ends) = ?t"
    by (simp add: sql_limit_def positive_limit_def defaultLimit_def)
  ultimately show ?thesis unfolding grouped_notes_def all by simp
qed

lemma take_of_sorted:
  assumes "sorted_wrt (\<lambda>a b. f b \<le> (f a :: nat)) xs" and "a \<in> set (take n xs)" and "b \<in> set xs" and "b \<notin> set (take n xs)"
  shows "f b \<le> f a"
proof -
  have "b \<in> set (drop n xs)"
    using assms(3,4) by (metis Un_iff append_take_drop_id set_append)
  moreover have "sorted_wrt (\<lambda>a b. f b \<le> f a) (take n xs @ drop n xs)" using assms(1) by simp
  ultimately show ?thesis using assms(2) unfolding sorted_wrt_append by blast
qed

text \<open>How many references a note receives.\<close>

definition reference_count :: "notes_db \<Rightarrow> int \<Rightarrow> nat" where
  "reference_count db k = length (filter (\<lambda>p. snd p = k) (reference_notes db))"

text \<open>
  \<open>MostReferencedNotes\<close> is a ranking. It lists notes that are referenced, each once, the
  most referenced first, no more than the limit (five when the limit is not positive), and a
  referenced note it leaves out has no more references than any note it lists.
\<close>

theorem MostReferencedNotes_ranks:
  assumes "engine_ok en" and "schema_ok db" and "quiet c"
    and "MostReferencedNotes en c limit db = (ds, err)"
  shows "err = None \<and> distinct (map DetailID ds)
    \<and> int (length ds) \<le> (if limit \<le> 0 then 5 else limit)
    \<and> sorted_wrt (\<lambda>a b. reference_count db (DetailID b) \<le> reference_count db (DetailID a)) ds
    \<and> (\<forall>k. 0 < reference_count db k \<longrightarrow> k \<notin> DetailID ` set ds \<longrightarrow>
         (\<forall>d \<in> set ds. reference_count db k \<le> reference_count db (DetailID d)))"
proof -
  let ?ends = "map snd (reference_notes db)"
  let ?r = "ranked_groups en ''MostReferencedNotes'' ?ends"
  let ?n = "nat (positive_limit limit)"
  have ds: "ds = grouped_notes en ''MostReferencedNotes'' limit ?ends db" "err = None"
    using assms(3,4) by (simp_all add: MostReferencedNotes_def)
  have "\<forall>k \<in> set ?ends. by_id n_id k (db_notes db) \<noteq> None"
    using assms(2) by (auto simp: schema_ok_def by_id_None)
  then have ids: "map DetailID ds = take ?n ?r" using grouped_ids [OF assms(1)] by (simp add: ds)
  have cnt: "group_size ?ends = reference_count db"
    by (simp add: fun_eq_iff group_size_def reference_count_def filter_map comp_def)
  have srt: "sorted_wrt (\<lambda>a b. reference_count db b \<le> reference_count db a) ?r"
    using sorted_ranked [of ?ends] by (simp add: cnt)
  have "sorted_wrt (\<lambda>a b. reference_count db (DetailID b) \<le> reference_count db (DetailID a)) ds"
    using sorted_wrt_take [OF srt, of ?n] unfolding ids [symmetric] by (simp add: sorted_wrt_map)
  moreover have "reference_count db k \<le> reference_count db (DetailID d)"
    if "0 < reference_count db k" "k \<notin> DetailID ` set ds" "d \<in> set ds" for k d
  proof (rule take_of_sorted [OF srt])
    show "DetailID d \<in> set (take ?n ?r)" using that(3) by (metis ids image_eqI set_map)
    show "k \<notin> set (take ?n ?r)" using that(2) by (metis ids set_map)
    show "k \<in> set ?r"
      using that(1) by (auto simp: set_ranked [OF assms(1)] reference_count_def filter_empty_conv)
  qed
  moreover have "int (length ds) \<le> (if limit \<le> 0 then 5 else limit)"
    using arg_cong [OF ids, of length] by (auto simp: positive_limit_def defaultLimit_def)
  ultimately show ?thesis
    using distinct_ranked [OF assms(1)] by (auto simp: ds(2) ids)
qed

text \<open>
  The lists of sections and tags that the forms offer are complete and in alphabetical
  order (of bytes), each row once.
\<close>

theorem lists_sorted_complete:
  assumes "schema_ok db" and "quiet c"
  shows "snd (ListAllSections c db) = None \<and> snd (ListAllTags c db) = None
    \<and> mset (fst (ListAllSections c db)) = mset (db_sections db)
    \<and> mset (fst (ListAllTags c db)) = mset (db_tags db)
    \<and> sorted_wrt (<) (map SectionName (fst (ListAllSections c db)))
    \<and> sorted_wrt (<) (map TagName (fst (ListAllTags c db)))"
proof -
  have "distinct (map f xs) \<Longrightarrow> sorted_wrt (<) (map f (sort_key f xs))" for f :: "'r \<Rightarrow> string" and xs
    by (simp add: strict_sorted_iff distinct_map inj_on_def)
  then show ?thesis
    using assms schema_sections [OF assms(1)] schema_tags [OF assms(1)]
    by (auto simp: ListAllSections_def ListAllTags_def table_ok_def strict_sorted_iff distinct_map)
qed

end
