(* ===== verification/Data_Examples.thy ===== *)
theory Data_Examples
  imports Data_Lists
begin

text \<open>
  Concrete databases and calls at which the properties of the data store apply: two notes in
  one section, the first tagged and referring to the second.
\<close>

definition demo_time :: go_time where
  "demo_time = \<lparr>t_year = 2025, t_mon = 2, t_day = 28, t_hour = 23, t_min = 59, t_sec = 8, t_nsec = 0\<rparr>"

definition demo_call :: call where
  "demo_call = good_call (sqlite_datetime demo_time)"

definition demo_row :: "int \<Rightarrow> string \<Rightarrow> note_row" where
  "demo_row i title = \<lparr>n_id = i, n_title = title, n_content = Some ''text'', n_section = 1,
     n_created = sqlite_datetime demo_time, n_updated = sqlite_datetime demo_time, n_bookmark = False\<rparr>"

definition demo_db :: notes_db where
  "demo_db = \<lparr>db_sections = [\<lparr>SectionID = 1, SectionName = ''01 Inbox''\<rparr>, \<lparr>SectionID = 2, SectionName = ''old''\<rparr>],
     db_tags = [\<lparr>TagID = 1, TagName = ''go''\<rparr>],
     db_notes = [demo_row 1 ''a'', demo_row 2 ''b''], notes_tags = [(1, 1)], reference_notes = [(1, 2)],
     notes_fts = [\<lparr>f_rowid = 1, f_title = ''a'', f_content = Some ''text'', f_tags = ''go''\<rparr>,
                  \<lparr>f_rowid = 2, f_title = ''b'', f_content = Some ''text'', f_tags = []\<rparr>],
     fts_malformed = False\<rparr>"

lemma valid_demo_time [simp]: "valid_time demo_time" "t_nsec demo_time = 0"
  by (simp_all add: demo_time_def valid_time_def days_in_def)

lemma demo_call_simps [simp]: "quiet demo_call" "now_txt demo_call = sqlite_datetime demo_time"
  "begin_fault demo_call = None" "commit_fault demo_call = None" "rollback_fault demo_call = None"
  by (simp_all add: demo_call_def) (simp_all add: good_call_def)

lemma demo_row_simps [simp]:
  "n_id (demo_row i t) = i" "n_title (demo_row i t) = t" "n_content (demo_row i t) = Some ''text''"
  "n_section (demo_row i t) = 1"
  "n_created (demo_row i t) = sqlite_datetime demo_time" "n_updated (demo_row i t) = sqlite_datetime demo_time"
  by (simp_all add: demo_row_def)

lemma demo_db_simps [simp]:
  "db_sections demo_db = [\<lparr>SectionID = 1, SectionName = ''01 Inbox''\<rparr>, \<lparr>SectionID = 2, SectionName = ''old''\<rparr>]"
  "db_tags demo_db = [\<lparr>TagID = 1, TagName = ''go''\<rparr>]"
  "db_notes demo_db = [demo_row 1 ''a'', demo_row 2 ''b'']"
  "notes_tags demo_db = [(1, 1)]" "reference_notes demo_db = [(1, 2)]"
  "notes_fts demo_db = [\<lparr>f_rowid = 1, f_title = ''a'', f_content = Some ''text'', f_tags = ''go''\<rparr>,
     \<lparr>f_rowid = 2, f_title = ''b'', f_content = Some ''text'', f_tags = []\<rparr>]"
  "fts_malformed demo_db = False"
  by (simp_all add: demo_db_def)

lemma demo_schema [simp]: "schema_ok demo_db"
  by (simp add: schema_ok_def table_ok_def)

lemma demo_synced [simp]: "fts_synced std_engine demo_db"
  by (simp add: fts_synced_def fts_entry_def tags_txt_def tags_of_def List.map_filter_simps by_id_def)

lemma std_engine_simps [simp]: "fk_on std_engine = True" "alloc_id std_engine = next_rowid"
  by (simp_all add: std_engine_def)

lemmas run_simps = with_transaction_def wrapped_tx_def exec_quiet insNoteFTSSql_def delNoteFTSSql_def
  delTagFTSSql_def insTagFTSSql_def Let_def

lemma demo_create:
  "fst (CreateNote std_engine demo_call ''c'' ''x'' 1 [1] [2] demo_db) = (3, None)"
  by (simp add: CreateNote_def CreateNote_tx_def run_simps insert_note_def insert_row_def next_rowid_def
      int64_max_def insert_notes_tags_def insert_reference_notes_def insert_pairs_def)

lemma demo_update:
  "fst (UpdateNote std_engine demo_call 1 ''z'' ''x'' 1 [] [2] demo_db) = None"
  by (simp add: UpdateNote_def UpdateNote_tx_def run_simps update_note_def update_row_def set_note_def
      delete_notes_tags_def delete_reference_notes_def insert_reference_notes_def insert_pairs_def)

lemma demo_delete: "fst (DeleteNote std_engine demo_call 2 demo_db) = None"
  by (simp add: DeleteNote_def DeleteNote_tx_def run_simps delete_note_def)

lemma demo_delete_tag: "fst (DeleteTag std_engine demo_call 1 demo_db) = None"
  by (simp add: DeleteTag_def DeleteTag_tx_def run_simps delete_tag_def)

lemma pair_eqs: "fst x = a \<Longrightarrow> x = (a, snd x)"
  by (cases x) simp

theorem reachable_index_exact_witness:
  "fts_synced std_engine (run_cmd std_engine demo_call (Cmd_CreateNote ''t'' ''c'' 1 [] []) bootstrapped)"
  by (rule reachable_index_exact [OF engine_ok_std store_reach.step [OF store_reach.fresh]]) simp

theorem DeleteTag_unindexes_notes_witness:
  "f_rowid ` set (notes_fts (snd (DeleteTag std_engine demo_call 1 demo_db))) = {2}"
  using DeleteTag_unindexes_notes [OF engine_ok_std demo_schema demo_synced pair_eqs [OF demo_delete_tag]]
  by (simp add: Collect_disj_eq conj_disj_distribR Collect_conv_if)

theorem references_are_symmetric_witness:
  "2 \<in> DetailID ` set (ReferenceNotes (fst (FindNoteByID std_engine demo_call 1 demo_db)))
   \<longleftrightarrow> 1 \<in> DetailID ` set (ReferenceByNotes (fst (FindNoteByID std_engine demo_call 2 demo_db)))"
proof (rule references_are_symmetric [OF engine_ok_std demo_schema])
  show "FindNoteByID std_engine demo_call 1 demo_db = (fst (FindNoteByID std_engine demo_call 1 demo_db), None)"
    and "FindNoteByID std_engine demo_call 2 demo_db = (fst (FindNoteByID std_engine demo_call 2 demo_db), None)"
    by (simp_all add: FindNoteByID_def scan_note_def notes_details_def by_id_def parse_time_datetime)
qed

theorem CreateNote_FindNoteByID_witness:
  "\<exists>n. FindNoteByID std_engine demo_call 3 (snd (CreateNote std_engine demo_call ''c'' ''x'' 1 [1] [2] demo_db)) = (n, None)
     \<and> NoteTitle n = ''c'' \<and> NoteCreatedAt n = demo_time \<and> mset (map TagID (NoteTags n)) = {#1#}"
  using CreateNote_FindNoteByID [OF engine_ok_std demo_schema pair_eqs [OF demo_create] demo_call_simps(2)
      valid_demo_time demo_call_simps(1)]
  by (metis mset.simps)

theorem CreateNote_succeeds_iff_witness:
  "snd (fst (CreateNote std_engine demo_call ''c'' ''x'' 1 [1, 1] [2] demo_db)) = None \<longleftrightarrow> False"
  using CreateNote_succeeds_iff [of std_engine demo_db demo_call 3 "''c''" "''x''" 1 "[1, 1]" "[2]"]
  by (simp add: next_rowid_def int64_max_def del: not_None_eq)

theorem UpdateNote_exact_witness:
  "map_option n_title (by_id n_id 1 (db_notes (snd (UpdateNote std_engine demo_call 1 ''z'' ''x'' 1 [] [2] demo_db)))) = Some ''z''"
  using conjunct1 [OF UpdateNote_exact [OF engine_ok_std demo_schema pair_eqs [OF demo_update]], of 1]
  by (simp add: by_id_def)

theorem DeleteNote_exact_witness:
  "FindNoteByID std_engine demo_call 2 (snd (DeleteNote std_engine demo_call 2 demo_db)) = (zero_note, Some ErrNoRows)"
  by (rule conjunct1 [OF DeleteNote_exact [OF engine_ok_std demo_schema pair_eqs [OF demo_delete] demo_call_simps(1)]])

theorem DeleteSection_restricted_witness:
  "fst (DeleteSection std_engine demo_call 1 demo_db) = Some ForeignKeyViolation
   \<and> fst (DeleteSection std_engine demo_call 2 demo_db) = None"
  unfolding DeleteSection_restricted [OF engine_ok_std demo_schema demo_call_simps(1)]
  by simp

theorem DeleteTag_then_UpdateNote_damages_index_witness:
  "fts_malformed (snd (UpdateNote std_engine demo_call 1 ''z'' ''x'' 1 [] []
     (snd (DeleteTag std_engine demo_call 1 demo_db))))"
proof (rule DeleteTag_then_UpdateNote_damages_index
    [OF engine_ok_std demo_schema demo_synced pair_eqs [OF demo_delete_tag], of 1])
  show "(1, 1) \<in> set (notes_tags demo_db)" by simp
  show "UpdateNote std_engine demo_call 1 ''z'' ''x'' 1 [] [] (snd (DeleteTag std_engine demo_call 1 demo_db))
      = (None, snd (UpdateNote std_engine demo_call 1 ''z'' ''x'' 1 [] [] (snd (DeleteTag std_engine demo_call 1 demo_db))))"
    by (rule pair_eqs)
       (simp add: DeleteTag_def DeleteTag_tx_def UpdateNote_def UpdateNote_tx_def run_simps delete_tag_def
        update_note_def update_row_def set_note_def delete_notes_tags_def delete_reference_notes_def)
qed

text \<open>A full-text engine for the examples: it matches the entries whose title is the query.\<close>

definition title_fts :: fts_engine where
  "title_fts = \<lparr>fts_match = (\<lambda>q ix bad. Inr (remdups (map f_rowid (filter (\<lambda>r. f_title r = q) ix)))),
     fts_highlight = (\<lambda>q s. s), fts_snippet = (\<lambda>q s. s)\<rparr>"

lemma title_fts_sound: "fts_sound title_fts"
  by (auto simp: fts_sound_def title_fts_def)

theorem SearchNotes_exact_witness:
  "map ResultID (fst (SearchNotes std_engine title_fts demo_call ''b'' demo_db)) = [2]"
  using SearchNotes_exact [OF engine_ok_std demo_schema demo_synced title_fts_sound demo_call_simps(1), of "''b''" "[2]"]
  by (simp add: title_fts_def)

theorem MostReferencedNotes_ranks_witness:
  "distinct (map DetailID (fst (MostReferencedNotes std_engine demo_call 3 demo_db)))"
  using MostReferencedNotes_ranks [OF engine_ok_std demo_schema demo_call_simps(1), of 3] by (metis prod.collapse)

theorem lists_sorted_complete_witness:
  "mset (fst (ListAllTags demo_call demo_db)) = mset (db_tags demo_db)"
  using lists_sorted_complete [OF demo_schema demo_call_simps(1)] by blast

end
