(* ===== verification/Data_Types.thy ===== *)
theory Data_Types
  imports Data_Examples
begin

text \<open>
  The types of the columns. SQLite checks none of them, so that a row of \<open>notes\<close> can be
  scanned into the struct \<open>Note\<close> is an invariant of the program: every row has a content and
  two time stamps in the layout that \<open>time.ParseInLocation\<close> is given, as long as the engine's
  \<open>datetime('now')\<close> has its documented form.
\<close>

definition clock_call :: "call \<Rightarrow> bool" where
  "clock_call c \<longleftrightarrow> (\<exists>t. valid_time t \<and> t_nsec t = 0 \<and> now_txt c = sqlite_datetime t)"

definition time_column :: "string \<Rightarrow> bool" where
  "time_column v \<longleftrightarrow> (\<exists>t. parse_time v = Inr t \<and> valid_time t)"

definition row_typed :: "note_row \<Rightarrow> bool" where
  "row_typed n \<longleftrightarrow> n_content n \<noteq> None \<and> time_column (n_created n) \<and> time_column (n_updated n)"

definition notes_typed :: "notes_db \<Rightarrow> bool" where
  "notes_typed db \<longleftrightarrow> list_all row_typed (db_notes db)"

lemma clock_column: "clock_call c \<Longrightarrow> time_column (now_txt c)"
  by (auto simp: clock_call_def time_column_def parse_time_datetime)

lemma row_typed_new: "clock_call c \<Longrightarrow> row_typed (new_note (now_txt c) title content sec i)"
  by (simp add: row_typed_def new_note_def clock_column)

lemma row_typed_set: "clock_call c \<Longrightarrow> row_typed n \<Longrightarrow> row_typed (set_note (title, content, sec, now_txt c) n)"
  by (simp add: row_typed_def set_note_def clock_column)

lemma row_typed_bookmark [simp]: "row_typed (n\<lparr>n_bookmark := b\<rparr>) = row_typed n"
  by (simp add: row_typed_def)

text \<open>What decides the property is the list of notes, so an operation that leaves it alone keeps it.\<close>

lemma notes_typed_cong: "db_notes db' = db_notes db \<Longrightarrow> notes_typed db \<Longrightarrow> notes_typed db'"
  by (simp add: notes_typed_def)

lemma notes_typed_sub: "set (db_notes db') \<subseteq> set (db_notes db) \<Longrightarrow> notes_typed db \<Longrightarrow> notes_typed db'"
  by (auto simp: notes_typed_def list_all_iff)

lemma notes_typed_map:
  "db_notes db' = map f (db_notes db) \<Longrightarrow> (\<And>n. row_typed n \<Longrightarrow> row_typed (f n)) \<Longrightarrow> notes_typed db \<Longrightarrow> notes_typed db'"
  by (auto simp: notes_typed_def list_all_iff)

section \<open>Every operation keeps the types\<close>

lemma CreateNote_typed:
  assumes "engine_ok en" and "schema_ok db" and "clock_call c" and "notes_typed db"
  shows "notes_typed (snd (CreateNote en c title content sec tids rids db))"
proof (cases "CreateNote en c title content sec tids rids db")
  case (Pair re db')
  show ?thesis
  proof (cases "snd re")
    case None
    then have "CreateNote en c title content sec tids rids db = ((fst re, None), db')"
      using Pair by (cases re) simp
    from CreateNote_effect [OF assms(1,2) this] show ?thesis
      using Pair assms(3,4) row_typed_new by (simp add: notes_typed_def)
  next
    case (Some e)
    then show ?thesis using Pair CreateNote_errD assms(4) by (cases re) fastforce
  qed
qed

lemma UpdateNote_typed:
  assumes "engine_ok en" and "schema_ok db" and "clock_call c" and "notes_typed db"
  shows "notes_typed (snd (UpdateNote en c nid title content sec tids rids db))"
proof (rule result_cases)
  fix db' assume "UpdateNote en c nid title content sec tids rids db = (None, db')"
  from UpdateNote_effect [OF assms(1,2) this]
  have "db_notes db' = map (\<lambda>n. if n_id n = nid then set_note (title, content, sec, now_txt c) n else n) (db_notes db)"
    by simp
  then show "notes_typed db'"
    by (rule notes_typed_map) (simp_all add: row_typed_set assms(3,4))
qed (use UpdateNote_errD assms(4) in blast)

lemma DeleteNote_typed:
  assumes "engine_ok en" and "notes_typed db"
  shows "notes_typed (snd (DeleteNote en c nid db))"
proof (rule result_cases)
  fix db' assume "DeleteNote en c nid db = (None, db')"
  from delete_note_is [OF assms(1) DeleteNote_okD [OF this]] assms(2) show "notes_typed db'"
    by (intro notes_typed_sub [of db' db]) (auto simp: delete_row_def)
qed (use DeleteNote_errD assms(2) in blast)

lemma UpdateTag_typed: "notes_typed db \<Longrightarrow> notes_typed (snd (UpdateTag en c t db))"
proof (rule result_cases)
  fix db' assume "notes_typed db" and "UpdateTag en c t db = (None, db')"
  then show "notes_typed db'"
    using UpdateTag_okD [of en c t db db'] by (auto dest!: update_tag_okD intro: notes_typed_cong)
qed (use UpdateTag_errD in blast)

lemma DeleteTag_typed: "engine_ok en \<Longrightarrow> notes_typed db \<Longrightarrow> notes_typed (snd (DeleteTag en c tid db))"
proof (rule result_cases)
  fix db' assume "engine_ok en" and "notes_typed db" and "DeleteTag en c tid db = (None, db')"
  then show "notes_typed db'"
    using DeleteTag_okD [of en c tid db db'] by (auto dest!: delete_tag_is intro: notes_typed_cong)
qed (use DeleteTag_errD in blast)

lemma exec_write_typed:
  "notes_typed db \<Longrightarrow> (\<And>d. stm db = Inr d \<Longrightarrow> notes_typed d) \<Longrightarrow> notes_typed (snd (exec_write c stm db))"
  by (auto simp: exec_write_def exec_def split: option.split sum.split)

lemma section_writes_typed:
  assumes "notes_typed db"
  shows "notes_typed (snd (CreateSection en c s db))" and "notes_typed (snd (CreateTag en c t db))"
    and "notes_typed (snd (UpdateSection c s db))" and "notes_typed (snd (DeleteSection en c sid db))"
  using assms
  by (auto simp: CreateSection_def CreateTag_def UpdateSection_def DeleteSection_def exec_write_def
      insert_section_def insert_tag_def update_section_def delete_section_def exec_def
      intro: notes_typed_cong split: option.split sum.split)

lemma SetNoteBookmark_typed:
  assumes "notes_typed db"
  shows "notes_typed (snd (SetNoteBookmark c nid b db))"
  unfolding SetNoteBookmark_def set_bookmark_def
proof (rule exec_write_typed [OF assms])
  fix d assume "Inr (db\<lparr>db_notes := map (\<lambda>n. if n_id n = nid then n\<lparr>n_bookmark := b\<rparr> else n) (db_notes db)\<rparr>) = Inr d"
  then have "db_notes d = map (\<lambda>n. if n_id n = nid then n\<lparr>n_bookmark := b\<rparr> else n) (db_notes db)" by auto
  then show "notes_typed d" by (rule notes_typed_map) (simp_all add: assms)
qed

lemma run_cmd_typed:
  "engine_ok en \<Longrightarrow> schema_ok db \<Longrightarrow> clock_call c \<Longrightarrow> notes_typed db \<Longrightarrow> notes_typed (run_cmd en c cmd db)"
  by (cases cmd)
     (simp_all add: CreateNote_typed UpdateNote_typed DeleteNote_typed UpdateTag_typed DeleteTag_typed
       section_writes_typed SetNoteBookmark_typed)

section \<open>Every note can be read\<close>

inductive clock_reach :: "engine \<Rightarrow> notes_db \<Rightarrow> bool" for en :: engine where
  clock_fresh: "clock_reach en bootstrapped"
| clock_step: "clock_reach en db \<Longrightarrow> clock_call c \<Longrightarrow> clock_reach en (run_cmd en c cmd db)"

lemma clock_reach_typed: "clock_reach en db \<Longrightarrow> engine_ok en \<Longrightarrow> schema_ok db \<and> notes_typed db"
proof (induction rule: clock_reach.induct)
  case clock_fresh
  have "store_reach en any_cmd bootstrapped" by (rule store_reach.fresh)
  with clock_fresh show ?case by (simp add: store_reach_schema notes_typed_def bootstrapped_def)
qed (simp add: run_cmd_schema run_cmd_typed)

text \<open>
  C12: Every stored note can be read. In a database that the data store's operations have made,
  in any order and with any failures on the way, \<open>FindNoteByID\<close> of an id that is in the table
  never fails to convert a column (a \<open>NULL\<close> content, a time stamp that does not parse) and
  returns a note of that id whose times are valid; of any other id it reports exactly
  \<open>sql.ErrNoRows\<close>.
\<close>

theorem every_note_is_readable:
  assumes "engine_ok en" and "clock_reach en db" and "quiet c"
  shows "case FindNoteByID en c nid db of (n, err) \<Rightarrow>
    if nid \<in> n_id ` set (db_notes db)
    then err = None \<and> NoteID n = nid \<and> valid_time (NoteCreatedAt n) \<and> valid_time (NoteLastUpdatedAt n)
    else n = zero_note \<and> err = Some ErrNoRows"
proof (cases "by_id n_id nid (db_notes db)")
  case None
  then show ?thesis using FindNoteByID_missing [OF assms(3)] by (simp add: by_id_None)
next
  case (Some r)
  have ok: "schema_ok db" "notes_typed db" using clock_reach_typed [OF assms(2,1)] by simp_all
  from Some have r: "r \<in> set (db_notes db)" "n_id r = nid" by (auto dest: by_id_Some)
  then obtain content t u where "n_content r = Some content" and t: "parse_time (n_created r) = Inr t" "valid_time t"
      "parse_time (n_updated r) = Inr u" "valid_time u"
    using ok(2) by (auto simp: notes_typed_def list_all_iff row_typed_def time_column_def)
  moreover obtain s where "by_id SectionID (n_section r) (db_sections db) = Some s"
    using schema_section_of [OF ok(1) r(1)] by blast
  ultimately have "FindNoteByID en c nid db = (note_of en db r (SectionName s) content t u, None)"
    using assms(3) Some by (intro FindNoteByID_found)
  moreover have "nid \<in> n_id ` set (db_notes db)" using r by auto
  ultimately show ?thesis using t r(2) by (simp add: note_of_def)
qed

lemma clock_demo_call [simp]: "clock_call demo_call"
  unfolding clock_call_def by (rule exI [of _ demo_time]) simp

theorem every_note_is_readable_witness:
  "case FindNoteByID std_engine demo_call 1 (run_cmd std_engine demo_call (Cmd_CreateNote ''t'' ''c'' 1 [] []) bootstrapped)
   of (n, err) \<Rightarrow> err = None \<and> NoteID n = 1 \<and> valid_time (NoteCreatedAt n)"
proof -
  let ?db = "run_cmd std_engine demo_call (Cmd_CreateNote ''t'' ''c'' 1 [] []) bootstrapped"
  have "clock_reach std_engine ?db" by (intro clock_reach.intros clock_demo_call)
  note every_note_is_readable [OF engine_ok_std this demo_call_simps(1), of 1]
  moreover have "1 \<in> n_id ` set (db_notes ?db)"
    by (simp add: CreateNote_def CreateNote_tx_def run_simps insert_note_def insert_row_def next_rowid_def
        int64_max_def bootstrapped_def fts_insert_rows_def)
  ultimately show ?thesis by (auto split: prod.splits)
qed

end
