(* ===== verification/User_Store.thy ===== *)
theory User_Store
  imports Sql_Tables Go_Time
begin

text \<open>
  The index database: users, the location of each user's notes database, and the operations of
  \<open>user-store/sqlite.go\<close> on them. Password hashing (\<open>golang.org/x/crypto/bcrypt\<close>) is a
  parameter: generating a hash may fail, and comparing yields an error or none.
\<close>

section \<open>Data\<close>

record user_row =
  u_id :: int
  u_name :: string
  u_hash :: string
  u_admin :: bool
  u_created :: "string option"
  u_last_login :: "string option"
  u_theme :: "string option"

record user_database_row =
  d_id :: int
  d_user :: int
  d_path :: string
  d_version :: int

record session_row =
  s_token :: string
  s_data :: string
  s_expiry :: int

record index_db =
  users :: "user_row list"
  user_databases :: "user_database_row list"
  sessions :: "session_row list"

definition empty_index :: index_db where
  "empty_index = \<lparr>users = [], user_databases = [], sessions = []\<rparr>"

text \<open>\<open>user-store/models.go\<close>.\<close>

record User =
  UserID :: int
  UserName :: string
  IsAdmin :: bool
  CreatedAtUTC :: go_time
  LastLoginUTC :: go_time
  Theme :: string

record UserDatabase =
  DatabaseID :: int
  DatabaseUserID :: int
  DatabasePath :: string
  DatabaseVersion :: int

definition zero_user :: User where
  "zero_user = \<lparr>UserID = 0, UserName = [], IsAdmin = False, CreatedAtUTC = zero_time,
     LastLoginUTC = zero_time, Theme = []\<rparr>"

definition zero_user_database :: UserDatabase where
  "zero_user_database = \<lparr>DatabaseID = 0, DatabaseUserID = 0, DatabasePath = [], DatabaseVersion = 0\<rparr>"

record bcrypt =
  GenerateFromPassword :: "string \<Rightarrow> string outcome"
  CompareHashAndPassword :: "string \<Rightarrow> string \<Rightarrow> go_error option"

section \<open>Statements\<close>

definition insert_user ::
    "engine \<Rightarrow> string \<Rightarrow> string \<Rightarrow> string \<Rightarrow> bool \<Rightarrow> index_db \<Rightarrow> (int \<times> index_db) outcome" where
  "insert_user en now nm hash adm db =
     (case insert_row en ''users.name'' u_id u_name
             (\<lambda>i. \<lparr>u_id = i, u_name = nm, u_hash = hash, u_admin = adm, u_created = Some now,
                  u_last_login = None, u_theme = Some ''light''\<rparr>) (users db) of
        Inl e \<Rightarrow> Inl e
      | Inr (i, rows) \<Rightarrow> Inr (i, db\<lparr>users := rows\<rparr>))"

text \<open>\<open>user_id\<close> is unique and a foreign key.\<close>

definition insert_user_database :: "engine \<Rightarrow> int \<Rightarrow> string \<Rightarrow> int \<Rightarrow> index_db \<Rightarrow> index_db outcome" where
  "insert_user_database en uid path ver db =
     (case alloc_id en (map d_id (user_databases db)) of
        None \<Rightarrow> Inl (EngineError ''database or disk is full'')
      | Some i \<Rightarrow>
          if uid \<in> d_user ` set (user_databases db) then Inl (UniqueViolation ''user_databases.user_id'')
          else if fk_on en \<and> uid \<notin> u_id ` set (users db) then Inl ForeignKeyViolation
          else Inr (db\<lparr>user_databases := user_databases db @
                 [\<lparr>d_id = i, d_user = uid, d_path = path, d_version = ver\<rparr>]\<rparr>))"

definition set_db_version :: "int \<Rightarrow> int \<Rightarrow> index_db \<Rightarrow> index_db" where
  "set_db_version ver uid db =
     db\<lparr>user_databases := map (\<lambda>d. if d_user d = uid then d\<lparr>d_version := ver\<rparr> else d) (user_databases db)\<rparr>"

definition set_user_name :: "string \<Rightarrow> user_row \<Rightarrow> user_row" where
  "set_user_name nm u = u\<lparr>u_name := nm\<rparr>"

text \<open>An \<open>UPDATE users SET ... WHERE id = ?\<close> of columns without a constraint.\<close>

definition update_users :: "(user_row \<Rightarrow> user_row) \<Rightarrow> int \<Rightarrow> index_db \<Rightarrow> index_db" where
  "update_users f uid db = db\<lparr>users := map (\<lambda>u. if u_id u = uid then f u else u) (users db)\<rparr>"

text \<open>\<open>ON DELETE CASCADE\<close> on \<open>user_databases\<close>.\<close>

definition delete_user_row :: "engine \<Rightarrow> int \<Rightarrow> index_db \<Rightarrow> index_db" where
  "delete_user_row en uid db =
     (let db = db\<lparr>users := delete_row u_id uid (users db)\<rparr>
      in if fk_on en then db\<lparr>user_databases := filter (\<lambda>d. d_user d \<noteq> uid) (user_databases db)\<rparr> else db)"

section \<open>Operations on user databases\<close>

definition read_user_database :: "user_database_row \<Rightarrow> UserDatabase" where
  "read_user_database d =
     \<lparr>DatabaseID = d_id d, DatabaseUserID = d_user d, DatabasePath = d_path d, DatabaseVersion = d_version d\<rparr>"

definition is_plain_user :: "index_db \<Rightarrow> int \<Rightarrow> bool" where
  "is_plain_user db uid = (case by_id u_id uid (users db) of None \<Rightarrow> False | Some u \<Rightarrow> \<not> u_admin u)"

definition DBVersionBefore :: "engine \<Rightarrow> call \<Rightarrow> int \<Rightarrow> index_db \<Rightarrow> UserDatabase list go_result" where
  "DBVersionBefore en c latestVer db =
     (case stmt_fault c 0 of
        Some err \<Rightarrow> ([], Some err)
      | None \<Rightarrow>
          (case stmt_fault c 1 of
             Some err \<Rightarrow> ([], Some err)
           | None \<Rightarrow>
               (map read_user_database
                 (filter (\<lambda>d. d_version d < latestVer \<and> is_plain_user db (d_user d))
                   (visit en ''DBVersionBefore'' d_id (user_databases db))), None)))"

definition UpdateDBVersion :: "call \<Rightarrow> int \<Rightarrow> int \<Rightarrow> index_db \<Rightarrow> go_error option \<times> index_db" where
  "UpdateDBVersion c userID version db =
     (case with_transaction c 0
             (tx_body (-1) (\<lambda>db. case exec c 0 (\<lambda>db. Inr (set_db_version version userID db)) db of
                                   Inl err \<Rightarrow> Inl err | Inr db' \<Rightarrow> Inr (userID, db'))) db of
        ((_, err), db') \<Rightarrow> (err, db'))"

definition GetUserDB :: "call \<Rightarrow> int \<Rightarrow> index_db \<Rightarrow> UserDatabase go_result" where
  "GetUserDB c userID db =
     (case stmt_fault c 0 of
        Some err \<Rightarrow> (zero_user_database, Some err)
      | None \<Rightarrow>
          (case find (\<lambda>d. d_user d = userID) (user_databases db) of
             None \<Rightarrow> (zero_user_database, Some ErrNoRows)
           | Some d \<Rightarrow> (read_user_database d, None)))"

section \<open>Operations on users\<close>

definition CreateAdminUser :: "engine \<Rightarrow> bcrypt \<Rightarrow> call \<Rightarrow> string \<Rightarrow> string \<Rightarrow> index_db \<Rightarrow> int go_result \<times> index_db" where
  "CreateAdminUser en bc c username password db =
     (case GenerateFromPassword bc password of
        Inl err \<Rightarrow> ((0, Some err), db)
      | Inr hashed \<Rightarrow>
          (case exec c 0 (insert_user en (now_txt c) username hashed True) db of
             Inl err \<Rightarrow> ((0, Some err), db)
           | Inr (lastId, db') \<Rightarrow> ((lastId, stmt_fault c 1), db')))"

text \<open>\<open>filepath.Join(userDBDir, fmt.Sprintf("%v.db", userID))\<close>.\<close>

definition user_db_path :: "int \<Rightarrow> string" where
  "user_db_path userID = ''user-databases/'' @ show_int userID @ ''.db''"

definition CreateUserAndDB_tx :: "engine \<Rightarrow> call \<Rightarrow> string \<Rightarrow> string \<Rightarrow> index_db \<Rightarrow> int go_ret \<times> index_db" where
  "CreateUserAndDB_tx en c userName hashed db =
     (case exec c 0 (insert_user en (now_txt c) userName hashed False) db of
        Inl err \<Rightarrow> (Returns (-1) (Some err), db)
      | Inr (lastId, db1) \<Rightarrow>
     (case exec c 1 (\<lambda>_. Inr lastId) db1 of
        Inl err \<Rightarrow> (Returns 0 (Some err), db1)
      | Inr userID \<Rightarrow>
     (case exec c 2 (insert_user_database en userID (user_db_path userID) 0) db1 of
        Inl err \<Rightarrow> (Returns 0 (Some err), db1)
      | Inr db2 \<Rightarrow> (Returns userID None, db2))))"

definition CreateUserAndDB :: "engine \<Rightarrow> bcrypt \<Rightarrow> call \<Rightarrow> string \<Rightarrow> string \<Rightarrow> index_db \<Rightarrow> int go_result \<times> index_db" where
  "CreateUserAndDB en bc c userName password db =
     (case GenerateFromPassword bc password of
        Inl err \<Rightarrow> ((0, Some err), db)
      | Inr hashed \<Rightarrow> with_transaction c 0 (CreateUserAndDB_tx en c userName hashed) db)"

text \<open>The two nullable time stamps of a user, parsed when they are there.\<close>

definition parse_stamps :: "string option \<Rightarrow> string option \<Rightarrow> User \<Rightarrow> User go_result" where
  "parse_stamps createdStr lastLoginStr user =
     (case (case createdStr of None \<Rightarrow> Inr zero_time | Some s \<Rightarrow> parse_time s) of
        Inl err \<Rightarrow> (zero_user, Some err)
      | Inr createdAt \<Rightarrow>
          (case (case lastLoginStr of None \<Rightarrow> Inr zero_time | Some s \<Rightarrow> parse_time s) of
             Inl err \<Rightarrow> (zero_user, Some err)
           | Inr lastLogin \<Rightarrow> (user\<lparr>CreatedAtUTC := createdAt, LastLoginUTC := lastLogin\<rparr>, None)))"

definition read_user :: "user_row \<Rightarrow> User" where
  "read_user u = zero_user\<lparr>UserID := u_id u, UserName := u_name u, IsAdmin := u_admin u\<rparr>"

text \<open>A row with its theme; a NULL theme cannot be scanned into a string.\<close>

definition scan_user :: "user_row \<Rightarrow> (User \<times> string option \<times> string option) outcome" where
  "scan_user u =
     (case u_theme u of
        None \<Rightarrow> Inl (ScanNull ''theme'')
      | Some th \<Rightarrow> Inr ((read_user u)\<lparr>Theme := th\<rparr>, u_created u, u_last_login u))"

definition no_rows_is_invalid :: "go_error \<Rightarrow> go_error" where
  "no_rows_is_invalid err = (if errors_is err ErrNoRows then ErrInvalidCredentials else err)"

definition user_query_row :: "call \<Rightarrow> user_row option \<Rightarrow> user_row outcome" where
  "user_query_row c row =
     (case stmt_fault c 0 of
        Some err \<Rightarrow> Inl err
      | None \<Rightarrow> (case row of None \<Rightarrow> Inl ErrNoRows | Some u \<Rightarrow> Inr u))"

definition AuthenticateUser :: "bcrypt \<Rightarrow> call \<Rightarrow> string \<Rightarrow> string \<Rightarrow> index_db \<Rightarrow> User go_result" where
  "AuthenticateUser bc c username password db =
     (case user_query_row c (by_name u_name username (users db)) of
        Inl err \<Rightarrow> (zero_user, Some (no_rows_is_invalid err))
      | Inr u \<Rightarrow>
          (case CompareHashAndPassword bc (u_hash u) password of
             Some err \<Rightarrow>
               (zero_user, Some (if errors_is err ErrMismatchedHashAndPassword then ErrInvalidCredentials else err))
           | None \<Rightarrow> parse_stamps (u_created u) (u_last_login u) (read_user u)))"

definition IsAdminUser :: "call \<Rightarrow> int \<Rightarrow> index_db \<Rightarrow> bool go_result" where
  "IsAdminUser c userID db =
     (case user_query_row c (by_id u_id userID (users db)) of
        Inl err \<Rightarrow> (False, Some err) | Inr u \<Rightarrow> (u_admin u, None))"

definition GetUser :: "call \<Rightarrow> int \<Rightarrow> index_db \<Rightarrow> User go_result" where
  "GetUser c uid db =
     (case (case user_query_row c (by_id u_id uid (users db)) of Inl err \<Rightarrow> Inl err | Inr u \<Rightarrow> scan_user u) of
        Inl err \<Rightarrow> (zero_user, Some (no_rows_is_invalid err))
      | Inr (user, createdStr, lastLoginStr) \<Rightarrow> parse_stamps createdStr lastLoginStr user)"

text \<open>
  \<open>UPDATE ... RETURNING\<close>: the engine applies the update before it returns the row, so an
  error of the scan or of the time stamps does not undo it.
\<close>

definition UpdateUser :: "call \<Rightarrow> int \<Rightarrow> string \<Rightarrow> index_db \<Rightarrow> User go_result \<times> index_db" where
  "UpdateUser c uid name db =
     (case exec c 0 (\<lambda>db. update_row ''users.name'' u_id u_name (set_user_name name) uid (users db)) db of
        Inl err \<Rightarrow> ((zero_user, Some (no_rows_is_invalid err)), db)
      | Inr rows \<Rightarrow>
          ((case by_id u_id uid rows of
              None \<Rightarrow> (zero_user, Some ErrInvalidCredentials)
            | Some u \<Rightarrow>
                (case scan_user u of
                   Inl err \<Rightarrow> (zero_user, Some (no_rows_is_invalid err))
                 | Inr (user, createdStr, lastLoginStr) \<Rightarrow> parse_stamps createdStr lastLoginStr user)),
           db\<lparr>users := rows\<rparr>))"

definition exec_index :: "call \<Rightarrow> (index_db \<Rightarrow> index_db) \<Rightarrow> index_db \<Rightarrow> go_error option \<times> index_db" where
  "exec_index c f db = (case stmt_fault c 0 of Some err \<Rightarrow> (Some err, db) | None \<Rightarrow> (None, f db))"

definition UpdateUserPassword :: "bcrypt \<Rightarrow> call \<Rightarrow> int \<Rightarrow> string \<Rightarrow> index_db \<Rightarrow> go_error option \<times> index_db" where
  "UpdateUserPassword bc c uid password db =
     (case GenerateFromPassword bc password of
        Inl err \<Rightarrow> (Some err, db)
      | Inr hashed \<Rightarrow> exec_index c (update_users (\<lambda>u. u\<lparr>u_hash := hashed\<rparr>) uid) db)"

definition UpdateUserLastLoginToNow :: "call \<Rightarrow> int \<Rightarrow> index_db \<Rightarrow> go_error option \<times> index_db" where
  "UpdateUserLastLoginToNow c uid db =
     exec_index c (update_users (\<lambda>u. u\<lparr>u_last_login := Some (now_txt c)\<rparr>) uid) db"

definition UpdateUserTheme :: "call \<Rightarrow> int \<Rightarrow> string \<Rightarrow> index_db \<Rightarrow> go_error option \<times> index_db" where
  "UpdateUserTheme c uid theme db = exec_index c (update_users (\<lambda>u. u\<lparr>u_theme := Some theme\<rparr>) uid) db"

definition DeleteUser :: "engine \<Rightarrow> call \<Rightarrow> int \<Rightarrow> index_db \<Rightarrow> go_error option \<times> index_db" where
  "DeleteUser en c uid db = exec_index c (delete_user_row en uid) db"

text \<open>The loop of \<open>ListUsers\<close> stops at the first row whose time stamps do not parse.\<close>

fun read_users :: "user_row list \<Rightarrow> User list outcome" where
  "read_users [] = Inr []"
| "read_users (u # us) =
     (case parse_stamps (u_created u) (u_last_login u) (read_user u) of
        (_, Some err) \<Rightarrow> Inl err
      | (user, None) \<Rightarrow> (case read_users us of Inl err \<Rightarrow> Inl err | Inr r \<Rightarrow> Inr (user # r)))"

definition ListUsers :: "engine \<Rightarrow> call \<Rightarrow> index_db \<Rightarrow> User list go_result" where
  "ListUsers en c db =
     (case stmt_fault c 0 of
        Some err \<Rightarrow> ([], Some err)
      | None \<Rightarrow>
          (case read_users (visit en ''ListUsers'' u_id (users db)) of
             Inl err \<Rightarrow> ([], Some err)
           | Inr us \<Rightarrow> (case stmt_fault c 1 of Some err \<Rightarrow> ([], Some err) | None \<Rightarrow> (us, None))))"

definition NameExists :: "call \<Rightarrow> string \<Rightarrow> index_db \<Rightarrow> bool go_result" where
  "NameExists c name db =
     (case stmt_fault c 0 of
        Some err \<Rightarrow> (False, Some err)
      | None \<Rightarrow> (name \<in> u_name ` set (users db), None))"

definition InitialSetupNeeded :: "call \<Rightarrow> index_db \<Rightarrow> bool go_result" where
  "InitialSetupNeeded c db =
     (case stmt_fault c 0 of
        Some err \<Rightarrow> (False, Some err)
      | None \<Rightarrow> (\<not> list_ex u_admin (users db), None))"

interpretation users_tbl: keyed_table u_id u_name set_user_name "\<lambda>nm. nm"
  by unfold_locales (simp_all add: set_user_name_def)

end
