(* ===== verification/Session_Store.thy ===== *)
theory Session_Store
  imports User_Store
begin

text \<open>
  \<open>dbx/sqlitex/sessionstore.go\<close>: the sessions table as the store of the session manager
  (\<open>scs.Store\<close>). Times are those at which a statement runs. The engine computes with whole
  milliseconds, and \<open>Commit\<close> writes the expiry with milliseconds, so the table holds
  milliseconds and the expiry handed to \<open>Commit\<close>, in nanoseconds, is cut to them. The contract
  the session manager relies on is the locale \<open>token_store\<close>.
\<close>

section \<open>Operations\<close>

definition ms_of :: "int \<Rightarrow> int" where
  "ms_of ns = ns div 1000000"

text \<open>\<open>julianday('now') < expiry\<close>.\<close>

definition active :: "int \<Rightarrow> session_row \<Rightarrow> bool" where
  "active now s \<longleftrightarrow> ms_of now < s_expiry s"

definition Session_Find :: "call \<Rightarrow> int \<Rightarrow> string \<Rightarrow> index_db \<Rightarrow> (string \<times> bool) go_result" where
  "Session_Find c now token db =
     (case stmt_fault c 0 of
        Some err \<Rightarrow> if err = ErrNoRows then (([], False), None) else (([], False), Some err)
      | None \<Rightarrow>
          (case find (\<lambda>s. s_token s = token \<and> active now s) (sessions db) of
             None \<Rightarrow> (([], False), None)
           | Some s \<Rightarrow> ((s_data s, True), None)))"

text \<open>\<open>REPLACE INTO\<close>: the row with the token, if any, is removed first.\<close>

definition Session_Commit :: "call \<Rightarrow> string \<Rightarrow> string \<Rightarrow> int \<Rightarrow> index_db \<Rightarrow> go_error option \<times> index_db" where
  "Session_Commit c token b expiry db =
     exec_index c (\<lambda>db. db\<lparr>sessions := filter (\<lambda>s. s_token s \<noteq> token) (sessions db)
       @ [\<lparr>s_token = token, s_data = b, s_expiry = ms_of expiry\<rparr>]\<rparr>) db"

definition Session_Delete :: "call \<Rightarrow> string \<Rightarrow> index_db \<Rightarrow> go_error option \<times> index_db" where
  "Session_Delete c token db =
     exec_index c (\<lambda>db. db\<lparr>sessions := filter (\<lambda>s. s_token s \<noteq> token) (sessions db)\<rparr>) db"

text \<open>\<open>All\<close> fills a Go map row by row: of rows with the same token the last one stays.\<close>

definition Session_All :: "engine \<Rightarrow> call \<Rightarrow> int \<Rightarrow> index_db \<Rightarrow> smap go_result" where
  "Session_All en c now db =
     (case stmt_fault c 0 of
        Some err \<Rightarrow> ([], Some err)
      | None \<Rightarrow>
          (case stmt_fault c 1 of
             Some err \<Rightarrow> ([], Some err)
           | None \<Rightarrow>
               (fold (\<lambda>s m. map_set (s_token s) (s_data s) m)
                 (visit en ''sessions'' s_expiry (filter (active now) (sessions db))) [], None)))"

definition Session_deleteExpired :: "call \<Rightarrow> int \<Rightarrow> index_db \<Rightarrow> go_error option \<times> index_db" where
  "Session_deleteExpired c now db =
     exec_index c (\<lambda>db. db\<lparr>sessions := filter (\<lambda>s. \<not> s_expiry s < ms_of now) (sessions db)\<rparr>) db"

text \<open>
  The loop of \<open>startCleanup\<close>: what its \<open>select\<close> receives, in order. A tick deletes the expired
  sessions (an error is only logged); a stop ends the loop.
\<close>

datatype cleanup_event = Tick call int | Stop

fun startCleanup :: "cleanup_event list \<Rightarrow> index_db \<Rightarrow> index_db" where
  "startCleanup [] db = db"
| "startCleanup (Tick c now # es) db = startCleanup es (snd (Session_deleteExpired c now db))"
| "startCleanup (Stop # es) db = db"

text \<open>\<open>NewSessionStoreWithConfig\<close> and its two short forms; intervals in nanoseconds.\<close>

record session_config =
  CleanUpInterval :: int
  TableName :: string

record session_store =
  tableName :: string
  cleanup_interval :: "int option"

definition NewSessionStoreWithConfig :: "session_config \<Rightarrow> session_store" where
  "NewSessionStoreWithConfig config =
     \<lparr>tableName = (if TableName config = [] then ''sessions'' else TableName config),
      cleanup_interval = (if 0 < CleanUpInterval config then Some (CleanUpInterval config) else None)\<rparr>"

definition NewSessionStore :: session_store where
  "NewSessionStore = NewSessionStoreWithConfig \<lparr>CleanUpInterval = 5 * 60 * 1000000000, TableName = []\<rparr>"

definition NewSessionStoreWithCleanupInterval :: "int \<Rightarrow> session_store" where
  "NewSessionStoreWithCleanupInterval interval =
     NewSessionStoreWithConfig \<lparr>CleanUpInterval = interval, TableName = []\<rparr>"

text \<open>\<open>StopCleanup\<close>: what it sends the cleanup goroutine, if there is one; nothing that comes later counts.\<close>

definition StopCleanup :: "session_store \<Rightarrow> cleanup_event list" where
  "StopCleanup st = (if cleanup_interval st \<noteq> None then [Stop] else [])"

lemma StopCleanup_ends:
  "0 < interval \<Longrightarrow>
     startCleanup (es @ StopCleanup (NewSessionStoreWithCleanupInterval interval) @ later) db = startCleanup es db"
  by (induction es db rule: startCleanup.induct)
    (simp_all add: StopCleanup_def NewSessionStoreWithCleanupInterval_def NewSessionStoreWithConfig_def)

section \<open>The contract\<close>

text \<open>
  What a store promises the session manager: a committed token is found with its data until
  it expires, a deleted one is not found, and neither touches other tokens. The client
  lemmas are the patterns the manager builds on it.
\<close>

locale token_store =
  fixes lookup :: "'s \<Rightarrow> int \<Rightarrow> string \<Rightarrow> string option"
    and commit :: "string \<Rightarrow> string \<Rightarrow> int \<Rightarrow> 's \<Rightarrow> 's"
    and delete :: "string \<Rightarrow> 's \<Rightarrow> 's"
    and alive :: "int \<Rightarrow> int \<Rightarrow> bool"
    and valid :: "'s \<Rightarrow> bool"
  assumes lookup_commit: "valid s \<Longrightarrow> lookup (commit tok b e s) now t =
      (if t = tok then (if alive now e then Some b else None) else lookup s now t)"
    and lookup_delete: "valid s \<Longrightarrow> lookup (delete tok s) now t = (if t = tok then None else lookup s now t)"
    and valid_commit: "valid s \<Longrightarrow> valid (commit tok b e s)"
    and valid_delete: "valid s \<Longrightarrow> valid (delete tok s)"
begin

text \<open>A renewed token: the old one is dead, the new one has the data, the others are as before.\<close>

lemma renew:
  assumes "valid s" and "old \<noteq> new"
  shows "lookup (commit new b e (delete old s)) now old = None"
    and "alive now e \<Longrightarrow> lookup (commit new b e (delete old s)) now new = Some b"
    and "t \<noteq> old \<Longrightarrow> t \<noteq> new \<Longrightarrow> lookup (commit new b e (delete old s)) now t = lookup s now t"
  using assms by (simp_all add: lookup_commit lookup_delete valid_delete)

lemma recommit:
  "valid s \<Longrightarrow> lookup (commit tok b2 e2 (commit tok b1 e1 s)) now t = lookup (commit tok b2 e2 s) now t"
  by (simp add: lookup_commit valid_commit)

lemma delete_after_commit:
  "valid s \<Longrightarrow> lookup (delete tok (commit tok b e s)) now t = lookup (delete tok s) now t"
  by (simp add: lookup_commit lookup_delete valid_commit)

end

section \<open>The sessions table keeps the contract\<close>

definition sessions_ok :: "index_db \<Rightarrow> bool" where
  "sessions_ok db \<longleftrightarrow> distinct (map s_token (sessions db))"

text \<open>The abstract store: tokens to data and expiry.\<close>

definition session_map :: "index_db \<Rightarrow> string \<Rightarrow> (string \<times> int) option" where
  "session_map db = map_of (map (\<lambda>s. (s_token s, (s_data s, s_expiry s))) (sessions db))"

definition session_lookup :: "index_db \<Rightarrow> int \<Rightarrow> string \<Rightarrow> string option" where
  "session_lookup db now token =
     (case session_map db token of
        None \<Rightarrow> None | Some (b, e) \<Rightarrow> if ms_of now < e then Some b else None)"

lemma map_of_sessions_filter:
  "map_of (map (\<lambda>s. (s_token s, (s_data s, s_expiry s))) (filter (\<lambda>s. s_token s \<noteq> tok) ss))
   = (map_of (map (\<lambda>s. (s_token s, (s_data s, s_expiry s))) ss))(tok := None)"
  by (induction ss) (auto simp: fun_eq_iff)

lemma session_map_delete:
  "session_map (db\<lparr>sessions := filter (\<lambda>s. s_token s \<noteq> tok) (sessions db)\<rparr>) = (session_map db)(tok := None)"
  by (simp add: session_map_def map_of_sessions_filter)

lemma session_map_replace:
  "session_map (db\<lparr>sessions := filter (\<lambda>s. s_token s \<noteq> tok) (sessions db)
       @ [\<lparr>s_token = tok, s_data = b, s_expiry = e\<rparr>]\<rparr>) = (session_map db)(tok \<mapsto> (b, e))"
  by (auto simp: session_map_def map_of_sessions_filter map_add_def fun_eq_iff split: option.split)

lemma find_session:
  assumes "distinct (map s_token ss)"
  shows "find (\<lambda>s. s_token s = tok \<and> active now s) ss =
    (case find (\<lambda>s. s_token s = tok) ss of None \<Rightarrow> None | Some s \<Rightarrow> if active now s then Some s else None)"
  using assms
proof (induction ss)
  case (Cons s ss)
  have "find (\<lambda>r. s_token r = s_token s) ss = None"
    using Cons.prems by (simp add: find_None_key)
  with Cons show ?case by (cases "s_token s = tok") auto
qed simp

lemma map_of_find_session:
  "map_of (map (\<lambda>s. (s_token s, (s_data s, s_expiry s))) ss) tok
   = map_option (\<lambda>s. (s_data s, s_expiry s)) (find (\<lambda>s. s_token s = tok) ss)"
  by (induction ss) auto

lemma Session_Find_lookup:
  assumes "stmt_fault c 0 = None" and "sessions_ok db"
  shows "Session_Find c now token db =
    (case session_lookup db now token of None \<Rightarrow> (([], False), None) | Some b \<Rightarrow> ((b, True), None))"
proof -
  have "find (\<lambda>s. s_token s = token \<and> active now s) (sessions db) =
      (case find (\<lambda>s. s_token s = token) (sessions db) of None \<Rightarrow> None
       | Some s \<Rightarrow> if active now s then Some s else None)"
    using assms(2) by (intro find_session) (simp add: sessions_ok_def)
  then show ?thesis
    using assms(1)
    by (auto simp: Session_Find_def session_lookup_def session_map_def map_of_find_session active_def
        split: option.split)
qed

interpretation db_sessions: token_store session_lookup
  "\<lambda>tok b e db. snd (Session_Commit (good_call []) tok b e db)"
  "\<lambda>tok db. snd (Session_Delete (good_call []) tok db)"
  "\<lambda>now e. ms_of now < ms_of e" sessions_ok
  by unfold_locales
     (auto simp: Session_Commit_def Session_Delete_def exec_index_def good_call_def session_lookup_def
       session_map_delete session_map_replace sessions_ok_def distinct_map_filter_key)

lemma exec_index_faultless: "stmt_fault c 0 = None \<Longrightarrow> exec_index c f db = (None, f db)"
  by (simp add: exec_index_def)

lemma call_irrelevant:
  assumes "stmt_fault c 0 = None"
  shows "Session_Commit c tok b e db = (None, snd (Session_Commit (good_call []) tok b e db))"
    and "Session_Delete c tok db = (None, snd (Session_Delete (good_call []) tok db))"
  using assms by (simp_all add: Session_Commit_def Session_Delete_def exec_index_def good_call_def)

text \<open>
  C25: The sessions table is a token store. On an engine that does not fail, \<open>Find\<close> after
  \<open>Commit\<close> returns the committed data exactly while the time, in milliseconds, is before the
  expiry; \<open>Find\<close> after \<open>Delete\<close> finds nothing; other tokens are found as before; and when the
  session manager renews a token (\<open>Delete\<close> of the old, \<open>Commit\<close> of the new one) the old token
  is never found again.
\<close>

theorem sessions_are_a_token_store:
  assumes "sessions_ok db" and "stmt_fault c 0 = None" and "stmt_fault c' 0 = None" and "stmt_fault c'' 0 = None"
  shows "Session_Find c' now t (snd (Session_Commit c tok b e db)) =
      (if t = tok then (if ms_of now < ms_of e then ((b, True), None) else (([], False), None))
       else Session_Find c' now t db)
    \<and> Session_Find c' now t (snd (Session_Delete c tok db)) =
      (if t = tok then (([], False), None) else Session_Find c' now t db)
    \<and> (new \<noteq> tok \<longrightarrow>
       Session_Find c' now tok (snd (Session_Commit c'' new b e (snd (Session_Delete c tok db)))) = (([], False), None))"
proof -
  note ok = db_sessions.valid_commit [OF assms(1)] db_sessions.valid_delete [OF assms(1)]
  have ok2: "sessions_ok (snd (Session_Commit (good_call []) new b e (snd (Session_Delete (good_call []) tok db))))"
    using ok db_sessions.valid_commit by blast
  show ?thesis
    using db_sessions.renew(1) [OF assms(1), of tok new b e now]
    by (auto simp: call_irrelevant [OF assms(2)] call_irrelevant [OF assms(4)]
        Session_Find_lookup [OF assms(3,1)] Session_Find_lookup [OF assms(3) ok(1)]
        Session_Find_lookup [OF assms(3) ok(2)] Session_Find_lookup [OF assms(3) ok2]
        db_sessions.lookup_commit [OF assms(1)] db_sessions.lookup_delete [OF assms(1)])
qed

section \<open>Cleaning up\<close>

lemma session_map_filter:
  assumes "sessions_ok db"
  shows "session_map (db\<lparr>sessions := filter (\<lambda>s. P (s_expiry s)) (sessions db)\<rparr>) t =
    (case session_map db t of None \<Rightarrow> None | Some (b, e) \<Rightarrow> if P e then Some (b, e) else None)"
proof -
  have "map_of (map (\<lambda>s. (s_token s, (s_data s, s_expiry s))) (filter (\<lambda>s. P (s_expiry s)) ss)) t =
      (case map_of (map (\<lambda>s. (s_token s, (s_data s, s_expiry s))) ss) t of
         None \<Rightarrow> None | Some (b, e) \<Rightarrow> if P e then Some (b, e) else None)"
    if "distinct (map s_token ss)" for ss
    using that
  proof (induction ss)
    case (Cons s ss)
    then have "map_of (map (\<lambda>s. (s_token s, (s_data s, s_expiry s))) ss) (s_token s) = None"
      by (auto simp: map_of_eq_None_iff)
    with Cons show ?case by (cases "s_token s = t") auto
  qed simp
  then show ?thesis using assms by (simp add: session_map_def sessions_ok_def)
qed

lemma deleteExpired_ok: "sessions_ok db \<Longrightarrow> sessions_ok (snd (Session_deleteExpired c t db))"
  by (simp add: Session_deleteExpired_def exec_index_def sessions_ok_def distinct_map_filter_key split: option.split)

lemma ms_of_mono: "a \<le> b \<Longrightarrow> ms_of a \<le> ms_of b"
  by (simp add: ms_of_def zdiv_mono1)

lemma deleteExpired_lookup:
  assumes "sessions_ok db" and "t \<le> now"
  shows "session_lookup (snd (Session_deleteExpired c t db)) now tok = session_lookup db now tok"
proof -
  have "ms_of t \<le> ms_of now" by (rule ms_of_mono [OF assms(2)])
  then show ?thesis
    using session_map_filter [OF assms(1), of "\<lambda>e. \<not> e < ms_of t"]
    by (auto simp: Session_deleteExpired_def exec_index_def session_lookup_def split: option.split)
qed

fun tick_times :: "cleanup_event list \<Rightarrow> int list" where
  "tick_times [] = []"
| "tick_times (Tick c now # es) = now # tick_times es"
| "tick_times (Stop # es) = []"

lemma startCleanup_lookup:
  "sessions_ok db \<Longrightarrow> list_all (\<lambda>t. t \<le> now) (tick_times es) \<Longrightarrow>
     sessions_ok (startCleanup es db) \<and> session_lookup (startCleanup es db) now tok = session_lookup db now tok"
proof (induction es db rule: startCleanup.induct)
  case (2 c t es db)
  then show ?case by (simp add: deleteExpired_ok deleteExpired_lookup)
qed simp_all

text \<open>
  C33: Cleaning up is invisible. However often the cleanup goroutine has run by some moment, and
  whichever of its statements failed, \<open>Find\<close> answers at that moment as if it had never run.
\<close>

theorem cleanup_is_invisible:
  assumes "sessions_ok db" and "list_all (\<lambda>t. t \<le> now) (tick_times es)" and "stmt_fault c 0 = None"
  shows "Session_Find c now tok (startCleanup es db) = Session_Find c now tok db"
  using startCleanup_lookup [OF assms(1,2), of tok] Session_Find_lookup [OF assms(3)] assms(1) by simp

section \<open>Examples\<close>

lemma sessions_ok_empty [simp]: "sessions_ok empty_index"
  by (simp add: sessions_ok_def empty_index_def)

lemma good_call_fault [simp]: "stmt_fault (good_call t) i = None"
  by (simp add: good_call_def)

theorem sessions_are_a_token_store_witness:
  "Session_Find (good_call []) 1999999 ''tok'' (snd (Session_Commit (good_call []) ''tok'' ''data'' 2500000 empty_index))
     = ((''data'', True), None)
   \<and> Session_Find (good_call []) 2100000 ''tok'' (snd (Session_Commit (good_call []) ''tok'' ''data'' 2500000 empty_index))
     = (([], False), None)"
  using sessions_are_a_token_store [OF sessions_ok_empty good_call_fault good_call_fault good_call_fault,
      of "[]" 1999999 "''tok''" "[]" "''tok''" "''data''" 2500000]
    sessions_are_a_token_store [OF sessions_ok_empty good_call_fault good_call_fault good_call_fault,
      of "[]" 2100000 "''tok''" "[]" "''tok''" "''data''" 2500000]
  by (simp add: ms_of_def)

theorem cleanup_is_invisible_witness:
  "Session_Find (good_call []) 9 ''a'' (startCleanup [Tick (good_call []) 5, Tick (good_call []) 9, Stop] empty_index)
   = Session_Find (good_call []) 9 ''a'' empty_index"
  by (rule cleanup_is_invisible) simp_all

end
