(* ===== verification/User_Accounts.thy ===== *)
theory User_Accounts
  imports User_Store
begin

text \<open>
  Properties of the user store: the integrity of the index database under every operation
  and every failure, the separation of the users' database files, and what authentication
  answers.
\<close>

section \<open>Integrity of the index\<close>

text \<open>
  Users have distinct ids and names; every plain user has exactly one database, at the path
  of its id; nobody else has one.
\<close>

definition index_ok :: "index_db \<Rightarrow> bool" where
  "index_ok db \<longleftrightarrow>
     table_ok u_id u_name (users db)
     \<and> distinct (map d_id (user_databases db)) \<and> distinct (map d_user (user_databases db))
     \<and> (\<forall>d \<in> set (user_databases db). d_path d = user_db_path (d_user d))
     \<and> d_user ` set (user_databases db) = u_id ` {u \<in> set (users db). \<not> u_admin u}"

lemma index_ok_empty [simp]: "index_ok empty_index"
  by (simp add: index_ok_def empty_index_def)

lemma index_users: "index_ok db \<Longrightarrow> table_ok u_id u_name (users db)"
  by (simp add: index_ok_def)

definition new_user :: "string \<Rightarrow> string \<Rightarrow> string \<Rightarrow> bool \<Rightarrow> int \<Rightarrow> user_row" where
  "new_user now nm hash adm i = \<lparr>u_id = i, u_name = nm, u_hash = hash, u_admin = adm, u_created = Some now,
     u_last_login = None, u_theme = Some ''light''\<rparr>"

lemma insert_user_okD:
  assumes "engine_ok en" and "index_ok db" and "insert_user en now nm hash adm db = Inr (i, db')"
  shows "db' = db\<lparr>users := users db @ [new_user now nm hash adm i]\<rparr> \<and> 0 < i
    \<and> i \<notin> u_id ` set (users db) \<and> nm \<notin> u_name ` set (users db) \<and> table_ok u_id u_name (users db')"
proof -
  obtain rows where r: "insert_row en ''users.name'' u_id u_name (new_user now nm hash adm) (users db) = Inr (i, rows)"
    and d: "db' = db\<lparr>users := rows\<rparr>"
    using assms(3) by (auto simp: insert_user_def new_user_def [abs_def] split: sum.splits prod.splits)
  from insert_row_ok [OF assms(1) index_users [OF assms(2)] _ r] d show ?thesis
    by (auto simp: new_user_def)
qed

lemma insert_admin_ok:
  assumes "engine_ok en" and "index_ok db" and "insert_user en now nm hash True db = Inr (i, db')"
  shows "index_ok db'"
proof -
  note i = insert_user_okD [OF assms]
  have "{u. (u = new_user now nm hash True i \<or> u \<in> set (users db)) \<and> \<not> u_admin u} = {u \<in> set (users db). \<not> u_admin u}"
    by (auto simp: new_user_def)
  moreover have "users db' = users db @ [new_user now nm hash True i]" "user_databases db' = user_databases db"
    "table_ok u_id u_name (users db')"
    using i by auto
  ultimately show ?thesis using assms(2) unfolding index_ok_def by simp
qed

lemma insert_user_database_okD:
  assumes "engine_ok en" and "insert_user_database en uid path ver db = Inr db'"
  shows "\<exists>i. i \<notin> d_id ` set (user_databases db) \<and> uid \<notin> d_user ` set (user_databases db)
    \<and> db' = db\<lparr>user_databases := user_databases db @ [\<lparr>d_id = i, d_user = uid, d_path = path, d_version = ver\<rparr>]\<rparr>"
proof (cases "alloc_id en (map d_id (user_databases db))")
  case (Some i)
  then show ?thesis
    using assms(2) engine_ok_alloc [OF assms(1) Some] by (auto simp: insert_user_database_def split: if_splits)
qed (use assms in \<open>simp add: insert_user_database_def\<close>)

lemma CreateUserAndDB_okD:
  assumes "CreateUserAndDB en bc c nm pw db = ((uid, None), db')"
  shows "\<exists>hash db1. GenerateFromPassword bc pw = Inr hash \<and> insert_user en (now_txt c) nm hash False db = Inr (uid, db1)
    \<and> insert_user_database en uid (user_db_path uid) 0 db1 = Inr db'"
proof (cases "GenerateFromPassword bc pw")
  case (Inr hash)
  then have "with_transaction c 0 (CreateUserAndDB_tx en c nm hash) db = ((uid, None), db')"
    using assms by (simp add: CreateUserAndDB_def)
  from with_transaction_ok [OF this] Inr show ?thesis
    by (auto simp: CreateUserAndDB_tx_def exec_def split: sum.splits option.splits)
qed (use assms in \<open>simp add: CreateUserAndDB_def\<close>)

lemma CreateUserAndDB_errD: "CreateUserAndDB en bc c nm pw db = ((r, Some e), db') \<Longrightarrow> db' = db"
  by (auto simp: CreateUserAndDB_def split: sum.splits dest: with_transaction_fail)

lemma CreateUserAndDB_effect:
  assumes "engine_ok en" and "index_ok db" and "CreateUserAndDB en bc c nm pw db = ((uid, None), db')"
  shows "\<exists>hash i. GenerateFromPassword bc pw = Inr hash \<and> 0 < uid
    \<and> uid \<notin> u_id ` set (users db) \<and> nm \<notin> u_name ` set (users db)
    \<and> users db' = users db @ [new_user (now_txt c) nm hash False uid]
    \<and> user_databases db' = user_databases db @ [\<lparr>d_id = i, d_user = uid, d_path = user_db_path uid, d_version = 0\<rparr>]
    \<and> index_ok db'"
proof -
  from CreateUserAndDB_okD [OF assms(3)] obtain hash db1 where
    h: "GenerateFromPassword bc pw = Inr hash" and u: "insert_user en (now_txt c) nm hash False db = Inr (uid, db1)"
    and d: "insert_user_database en uid (user_db_path uid) 0 db1 = Inr db'" by blast
  note i = insert_user_okD [OF assms(1,2) u]
  obtain k where k: "k \<notin> d_id ` set (user_databases db)" "uid \<notin> d_user ` set (user_databases db)"
    "db' = db1\<lparr>user_databases := user_databases db1 @ [\<lparr>d_id = k, d_user = uid, d_path = user_db_path uid, d_version = 0\<rparr>]\<rparr>"
    using insert_user_database_okD [OF assms(1) d] i by auto
  have "u_id ` {u. (u = new_user (now_txt c) nm hash False uid \<or> u \<in> set (users db)) \<and> \<not> u_admin u}
      = insert uid (u_id ` {u \<in> set (users db). \<not> u_admin u})"
    by (simp add: conj_disj_distribR Collect_disj_eq Collect_conv_if new_user_def)
  moreover have "table_ok u_id u_name (users db @ [new_user (now_txt c) nm hash False uid])" using i by auto
  ultimately have "index_ok db'" using i k assms(2) by (simp add: index_ok_def)
  then show ?thesis using h i k by (intro exI [of _ hash] exI [of _ k]) simp
qed

lemma map_databases_ok:
  assumes "index_ok db" and "\<And>d. d_id (f d) = d_id d" "\<And>d. d_user (f d) = d_user d" "\<And>d. d_path (f d) = d_path d"
  shows "index_ok (db\<lparr>user_databases := map f (user_databases db)\<rparr>)"
  using assms by (simp add: index_ok_def comp_def image_image)

lemma set_db_version_ok: "index_ok db \<Longrightarrow> index_ok (set_db_version ver uid db)"
  unfolding set_db_version_def by (rule map_databases_ok) simp_all

lemma filter_image: "(\<And>u. P (f u) = P u) \<Longrightarrow> {u \<in> f ` S. P u} = f ` {u \<in> S. P u}"
  by auto

lemma map_users_ok:
  assumes "index_ok db" and "\<And>u. u_id (f u) = u_id u" and f: "\<And>u. u_admin (f u) = u_admin u"
    and "table_ok u_id u_name (map f (users db))"
  shows "index_ok (db\<lparr>users := map f (users db)\<rparr>)"
proof -
  have "{u \<in> f ` set (users db). \<not> u_admin u} = f ` {u \<in> set (users db). \<not> u_admin u}"
    by (rule filter_image) (simp add: f)
  then show ?thesis using assms by (simp add: index_ok_def image_image)
qed

lemma update_users_ok:
  assumes "index_ok db" and "\<And>u. u_id (f u) = u_id u" "\<And>u. u_name (f u) = u_name u" "\<And>u. u_admin (f u) = u_admin u"
  shows "index_ok (update_users f uid db)"
  unfolding update_users_def using index_users [OF assms(1)]
  by (intro map_users_ok [OF assms(1)]) (auto simp: assms table_ok_def comp_def if_distrib cong: if_cong)

lemma delete_user_ok:
  assumes "engine_ok en" and "index_ok db"
  shows "index_ok (delete_user_row en uid db)"
proof -
  have "d_user ` {d \<in> set (user_databases db). d_user d \<noteq> uid} = d_user ` set (user_databases db) - {uid}"
    by auto
  moreover have "u_id ` {u \<in> set (delete_row u_id uid (users db)). \<not> u_admin u}
      = u_id ` {u \<in> set (users db). \<not> u_admin u} - {uid}"
    by (auto simp: delete_row_def)
  ultimately show ?thesis
    using assms delete_row_ok [OF index_users [OF assms(2)], of uid]
    by (simp add: delete_user_row_def engine_ok_fk index_ok_def distinct_map_filter_key)
qed

lemma UpdateUser_ok:
  assumes ok: "index_ok db"
  shows "index_ok (snd (UpdateUser c uid nm db))"
proof (cases "exec c 0 (\<lambda>db. update_row ''users.name'' u_id u_name (set_user_name nm) uid (users db)) db")
  case (Inr rows)
  have up: "update_row ''users.name'' u_id u_name (set_user_name nm) uid (users db) = Inr rows"
    using Inr by (rule exec_Inr_D)
  have "index_ok (db\<lparr>users := map (\<lambda>u. if u_id u = uid then set_user_name nm u else u) (users db)\<rparr>)"
    using users_tbl.update_ok [OF index_users [OF ok] up] users_tbl.update_is [OF up]
    by (intro map_users_ok [OF ok]) (simp_all add: set_user_name_def)
  then show ?thesis using users_tbl.update_is [OF up] by (simp add: UpdateUser_def Inr)
qed (use ok in \<open>simp add: UpdateUser_def\<close>)

text \<open>The writing operations as commands, and the index databases they can produce.\<close>

datatype user_cmd =
    Cmd_CreateAdminUser string string
  | Cmd_CreateUserAndDB string string
  | Cmd_UpdateDBVersion int int
  | Cmd_UpdateUser int string
  | Cmd_UpdateUserPassword int string
  | Cmd_UpdateUserLastLoginToNow int
  | Cmd_UpdateUserTheme int string
  | Cmd_DeleteUser int

fun run_user_cmd :: "engine \<Rightarrow> bcrypt \<Rightarrow> call \<Rightarrow> user_cmd \<Rightarrow> index_db \<Rightarrow> index_db" where
  "run_user_cmd en bc c (Cmd_CreateAdminUser nm pw) db = snd (CreateAdminUser en bc c nm pw db)"
| "run_user_cmd en bc c (Cmd_CreateUserAndDB nm pw) db = snd (CreateUserAndDB en bc c nm pw db)"
| "run_user_cmd en bc c (Cmd_UpdateDBVersion uid ver) db = snd (UpdateDBVersion c uid ver db)"
| "run_user_cmd en bc c (Cmd_UpdateUser uid nm) db = snd (UpdateUser c uid nm db)"
| "run_user_cmd en bc c (Cmd_UpdateUserPassword uid pw) db = snd (UpdateUserPassword bc c uid pw db)"
| "run_user_cmd en bc c (Cmd_UpdateUserLastLoginToNow uid) db = snd (UpdateUserLastLoginToNow c uid db)"
| "run_user_cmd en bc c (Cmd_UpdateUserTheme uid th) db = snd (UpdateUserTheme c uid th db)"
| "run_user_cmd en bc c (Cmd_DeleteUser uid) db = snd (DeleteUser en c uid db)"

inductive index_reach :: "engine \<Rightarrow> index_db \<Rightarrow> bool" for en :: engine where
  fresh: "index_reach en empty_index"
| step: "index_reach en db \<Longrightarrow> index_reach en (run_user_cmd en bc c cmd db)"

lemma exec_index_ok: "index_ok db \<Longrightarrow> (index_ok db \<Longrightarrow> index_ok (f db)) \<Longrightarrow> index_ok (snd (exec_index c f db))"
  by (simp add: exec_index_def split: option.split)

lemma UpdateDBVersion_cases:
  "snd (UpdateDBVersion c uid ver db) = db \<or> snd (UpdateDBVersion c uid ver db) = set_db_version ver uid db"
proof -
  let ?body = "tx_body (-1) (\<lambda>db. case exec c 0 (\<lambda>db. Inr (set_db_version ver uid db)) db of
                                   Inl err \<Rightarrow> Inl err | Inr db' \<Rightarrow> Inr (uid, db'))"
  obtain r err db' where w: "with_transaction c 0 ?body db = ((r, err), db')"
    by (cases "with_transaction c 0 ?body db") (metis prod.collapse)
  have "db' = db \<or> db' = set_db_version ver uid db"
    using with_transaction_cases [OF w]
    by (auto simp: tx_body_ok exec_def split: option.splits)
  then show ?thesis by (simp add: UpdateDBVersion_def w)
qed

lemma run_user_cmd_ok: "engine_ok en \<Longrightarrow> index_ok db \<Longrightarrow> index_ok (run_user_cmd en bc c cmd db)"
proof (cases cmd)
  case (Cmd_CreateAdminUser nm pw)
  assume "engine_ok en" and "index_ok db"
  then show ?thesis using insert_admin_ok [of en db]
    by (auto simp: Cmd_CreateAdminUser CreateAdminUser_def exec_def split: sum.split option.split)
next
  case (Cmd_CreateUserAndDB nm pw)
  assume ok: "engine_ok en" "index_ok db"
  obtain r err db' where w: "CreateUserAndDB en bc c nm pw db = ((r, err), db')"
    by (metis prod.collapse)
  then show ?thesis
    using CreateUserAndDB_effect [OF ok, of bc c nm pw r db'] CreateUserAndDB_errD [of en bc c nm pw db r _ db'] ok(2)
    by (cases err) (auto simp: Cmd_CreateUserAndDB)
next
  case (Cmd_UpdateDBVersion uid ver)
  assume "index_ok db"
  then show ?thesis using UpdateDBVersion_cases [of c uid ver db] set_db_version_ok
    by (auto simp: Cmd_UpdateDBVersion)
next
  case (Cmd_UpdateUserPassword uid pw)
  assume "index_ok db"
  then show ?thesis
    by (auto simp: Cmd_UpdateUserPassword UpdateUserPassword_def intro!: exec_index_ok update_users_ok split: sum.split)
qed (auto simp: UpdateUser_ok UpdateUserLastLoginToNow_def UpdateUserTheme_def DeleteUser_def
       intro!: exec_index_ok update_users_ok delete_user_ok)

lemma index_reach_ok: "index_reach en db \<Longrightarrow> engine_ok en \<Longrightarrow> index_ok db"
  by (induction rule: index_reach.induct) (simp_all add: run_user_cmd_ok)

section \<open>Separation of the databases\<close>

lemma show_nat_inj: "show_nat m = show_nat n \<Longrightarrow> m = n"
proof (induction m arbitrary: n rule: show_nat.induct)
  case (1 m)
  have dig: "digit_char (a mod 10) = digit_char (b mod 10) \<Longrightarrow> a mod 10 = b mod 10" for a b :: nat
    by (metis digit_char_simps(2) mod_less_divisor zero_less_numeral)
  have last: "digit_char (m mod 10) = digit_char (n mod 10)"
    using arg_cong [OF 1(2), of last] by (simp add: show_nat.simps [of m] show_nat.simps [of n] split: if_splits)
  have len: "(m < 10) = (n < 10)"
    using arg_cong [OF 1(2), of length] show_nat_nonempty
    by (simp add: show_nat.simps [of m] show_nat.simps [of n] split: if_splits)
  show ?case
  proof (cases "m < 10")
    case True
    then show ?thesis using dig [OF last] len by simp
  next
    case False
    then have "show_nat (m div 10) = show_nat (n div 10)"
      using 1(2) len by (simp add: show_nat.simps [of m] show_nat.simps [of n])
    then have "m div 10 = n div 10" using 1(1) [OF False] by blast
    then show ?thesis using dig [OF last] by (metis div_mult_mod_eq)
  qed
qed

lemma show_int_inj: "show_int i = show_int j \<Longrightarrow> i = j"
proof -
  assume eq: "show_int i = show_int j"
  have "show_nat n \<noteq> CHR ''-'' # s" for n s
    using show_nat_hd [of n] digit_not_sign by (metis list.sel(1))
  then show "i = j"
    using eq by (auto simp: show_int_def split: if_splits dest: show_nat_inj) (metis)+
qed

lemma user_db_path_inj: "user_db_path a = user_db_path b \<Longrightarrow> a = b"
  by (simp add: user_db_path_def show_int_inj)

text \<open>
  Every user has a database of its own. In every index database the store can produce, a
  plain user has exactly one notes database and an administrator none, and no two users ever
  share a database file.
\<close>

theorem databases_are_separate:
  assumes "engine_ok en" and "index_reach en db"
  shows "(\<forall>u \<in> set (users db). (\<exists>!d. d \<in> set (user_databases db) \<and> d_user d = u_id u) \<longleftrightarrow> \<not> u_admin u)
    \<and> inj_on d_path (set (user_databases db))"
proof -
  have ok: "index_ok db" using assms index_reach_ok by blast
  have du: "d_user ` set (user_databases db) = u_id ` {u \<in> set (users db). \<not> u_admin u}"
    and inj: "inj_on d_user (set (user_databases db))" and uinj: "inj_on u_id (set (users db))"
    using ok by (auto simp: index_ok_def table_ok_def distinct_map)
  have "(\<exists>!d. d \<in> set (user_databases db) \<and> d_user d = u_id u) \<longleftrightarrow> \<not> u_admin u" if u: "u \<in> set (users db)" for u
  proof
    assume "\<exists>!d. d \<in> set (user_databases db) \<and> d_user d = u_id u"
    then have "u_id u \<in> u_id ` {u \<in> set (users db). \<not> u_admin u}" using du by (metis image_eqI)
    then show "\<not> u_admin u" using u uinj by (auto dest: inj_onD)
  next
    assume "\<not> u_admin u"
    then have "u_id u \<in> d_user ` set (user_databases db)" using du u by blast
    then obtain d where "d \<in> set (user_databases db)" "d_user d = u_id u" by force
    then show "\<exists>!d. d \<in> set (user_databases db) \<and> d_user d = u_id u" using inj by (metis inj_onD)
  qed
  moreover have "inj_on d_path (set (user_databases db))"
    using ok inj by (auto simp: index_ok_def inj_on_def dest!: user_db_path_inj)
  ultimately show ?thesis by blast
qed

section \<open>Authentication\<close>

text \<open>
  What the hash library documents: a hash it generated matches its password, and comparing
  against such a hash yields no error or the mismatch error.
\<close>

definition bcrypt_ok :: "bcrypt \<Rightarrow> bool" where
  "bcrypt_ok bc \<longleftrightarrow>
     (\<forall>pw h. GenerateFromPassword bc pw = Inr h \<longrightarrow> CompareHashAndPassword bc h pw = None
        \<and> (\<forall>q. CompareHashAndPassword bc h q \<in> {None, Some ErrMismatchedHashAndPassword}))"

text \<open>
  C32: A new user can log in. After \<open>CreateUserAndDB\<close> reports an id, \<open>AuthenticateUser\<close> with the
  same name and password returns that user, not an administrator, created at the time of the
  call and never logged in before; \<open>GetUserDB\<close> returns a database of version 0 at the path of
  the id; and with a password the hash does not match it answers \<open>ErrInvalidCredentials\<close>.
\<close>

theorem CreateUserAndDB_login:
  assumes "engine_ok en" and "index_ok db" and "bcrypt_ok bc"
    and "CreateUserAndDB en bc c nm pw db = ((uid, None), db')"
    and "now_txt c = sqlite_datetime t" and "valid_time t" and "t_nsec t = 0" and "quiet c'"
  shows "AuthenticateUser bc c' nm pw db' =
      (\<lparr>UserID = uid, UserName = nm, IsAdmin = False, CreatedAtUTC = t, LastLoginUTC = zero_time, Theme = []\<rparr>, None)
    \<and> (\<exists>i. GetUserDB c' uid db' =
      (\<lparr>DatabaseID = i, DatabaseUserID = uid, DatabasePath = user_db_path uid, DatabaseVersion = 0\<rparr>, None))
    \<and> (\<forall>q. CompareHashAndPassword bc (u_hash (last (users db'))) q \<noteq> None \<longrightarrow>
         AuthenticateUser bc c' nm q db' = (zero_user, Some ErrInvalidCredentials))"
proof -
  from CreateUserAndDB_effect [OF assms(1,2,4)] obtain hash i where
    h: "GenerateFromPassword bc pw = Inr hash" and us: "users db' = users db @ [new_user (now_txt c) nm hash False uid]"
    and ds: "user_databases db' = user_databases db @ [\<lparr>d_id = i, d_user = uid, d_path = user_db_path uid, d_version = 0\<rparr>]"
    and ok: "index_ok db'" by blast
  let ?u = "new_user (now_txt c) nm hash False uid"
  have row: "user_query_row c' (by_name u_name nm (users db')) = Inr ?u"
    using by_name_in [OF index_users [OF ok], of ?u] assms(8)
    by (simp add: us user_query_row_def new_user_def quiet_def)
  have bc: "CompareHashAndPassword bc hash pw = None"
      "CompareHashAndPassword bc hash q \<in> {None, Some ErrMismatchedHashAndPassword}" for q
    using assms(3) h by (auto simp: bcrypt_ok_def)
  have t: "parse_time (now_txt c) = Inr t" using assms by (simp add: parse_time_datetime)
  have d: "find (\<lambda>d. d_user d = uid) (user_databases db')
      = Some \<lparr>d_id = i, d_user = uid, d_path = user_db_path uid, d_version = 0\<rparr>"
    using find_distinct_key [of d_user "user_databases db'" "\<lparr>d_id = i, d_user = uid, d_path = user_db_path uid, d_version = 0\<rparr>"] ok
    by (simp add: ds index_ok_def)
  have wrong: "AuthenticateUser bc c' nm q db' = (zero_user, Some ErrInvalidCredentials)"
    if "CompareHashAndPassword bc hash q \<noteq> None" for q
    using that bc(2) [of q] by (auto simp: AuthenticateUser_def row new_user_def)
  have "u_hash (last (users db')) = hash" by (simp add: us new_user_def)
  moreover have "AuthenticateUser bc c' nm pw db' =
      (\<lparr>UserID = uid, UserName = nm, IsAdmin = False, CreatedAtUTC = t, LastLoginUTC = zero_time, Theme = []\<rparr>, None)"
    by (simp add: AuthenticateUser_def row new_user_def bc(1) parse_stamps_def t read_user_def zero_user_def)
  moreover have "GetUserDB c' uid db' =
      (\<lparr>DatabaseID = i, DatabaseUserID = uid, DatabasePath = user_db_path uid, DatabaseVersion = 0\<rparr>, None)"
    using d assms(8) by (simp add: GetUserDB_def quiet_def read_user_database_def)
  ultimately show ?thesis using wrong by simp
qed

text \<open>
  Authentication admits no one else and does not tell which part was wrong. A user is
  returned only for a name in the table whose stored hash matches the password, and it is
  that user; for a name that is not there, and for a password that does not match, the answer
  is the same \<open>ErrInvalidCredentials\<close>.
\<close>

theorem AuthenticateUser_sound:
  assumes "index_ok db" and "quiet c"
  shows "(snd (AuthenticateUser bc c nm pw db) = None \<longrightarrow>
      (\<exists>u \<in> set (users db). u_name u = nm \<and> CompareHashAndPassword bc (u_hash u) pw = None
         \<and> UserID (fst (AuthenticateUser bc c nm pw db)) = u_id u
         \<and> IsAdmin (fst (AuthenticateUser bc c nm pw db)) = u_admin u))
    \<and> (nm \<notin> u_name ` set (users db) \<longrightarrow>
      AuthenticateUser bc c nm pw db = (zero_user, Some ErrInvalidCredentials))
    \<and> (\<forall>u \<in> set (users db). u_name u = nm \<longrightarrow>
      CompareHashAndPassword bc (u_hash u) pw = Some ErrMismatchedHashAndPassword \<longrightarrow>
      AuthenticateUser bc c nm pw db = (zero_user, Some ErrInvalidCredentials))"
proof -
  have row: "user_query_row c x = (case x of None \<Rightarrow> Inl ErrNoRows | Some u \<Rightarrow> Inr u)" for x
    using assms(2) by (simp add: user_query_row_def quiet_def)
  have 1: "\<exists>u \<in> set (users db). u_name u = nm \<and> CompareHashAndPassword bc (u_hash u) pw = None
         \<and> UserID (fst (AuthenticateUser bc c nm pw db)) = u_id u
         \<and> IsAdmin (fst (AuthenticateUser bc c nm pw db)) = u_admin u"
    if ok: "snd (AuthenticateUser bc c nm pw db) = None"
  proof -
    obtain u where u: "by_name u_name nm (users db) = Some u"
      using ok by (auto simp: AuthenticateUser_def row split: option.splits)
    moreover have "CompareHashAndPassword bc (u_hash u) pw = None"
      using ok u by (cases "CompareHashAndPassword bc (u_hash u) pw") (simp_all add: AuthenticateUser_def row)
    ultimately show ?thesis
      using ok by (intro bexI [of _ u])
        (auto simp: AuthenticateUser_def row parse_stamps_def read_user_def dest: by_name_Some split: sum.splits)
  qed
  have 2: "AuthenticateUser bc c nm pw db = (zero_user, Some ErrInvalidCredentials)"
    if "nm \<notin> u_name ` set (users db)"
    using that by (simp add: AuthenticateUser_def row by_name_None [symmetric] no_rows_is_invalid_def)
  have 3: "AuthenticateUser bc c nm pw db = (zero_user, Some ErrInvalidCredentials)"
    if "u \<in> set (users db)" "u_name u = nm" "CompareHashAndPassword bc (u_hash u) pw = Some ErrMismatchedHashAndPassword" for u
    using by_name_in [OF index_users [OF assms(1)] that(1)] that(2,3) by (simp add: AuthenticateUser_def row)
  show ?thesis using 1 2 3 by blast
qed

section \<open>Deleting a user\<close>

lemma foldr_max_le: "0 \<le> b \<Longrightarrow> \<forall>i \<in> set ids. i \<le> b \<Longrightarrow> foldr max ids 0 \<le> (b::int)"
  by (induction ids) auto

lemma next_rowid_again:
  assumes "\<forall>i \<in> set ids. i \<le> k" and "0 < k" and "k = 1 \<or> k - 1 \<in> set ids" and "next_rowid (filter (\<lambda>i. i \<noteq> k) ids) = Some j"
  shows "j = k"
proof -
  let ?ids = "filter (\<lambda>i. i \<noteq> k) ids"
  have "foldr max ?ids 0 \<le> k - 1" using assms(1,2) by (intro foldr_max_le) force+
  moreover have "k - 1 \<le> foldr max ?ids 0"
    using assms(3) foldr_max_nonneg [of ?ids] foldr_max_ge [of "k - 1" ?ids] by auto
  ultimately show ?thesis using assms(4) by (simp add: next_rowid_def Let_def split: if_splits)
qed

lemma DeleteUser_done:
  assumes "DeleteUser en c k db = (None, db')"
  shows "db' = delete_user_row en k db"
  using assms by (simp add: DeleteUser_def exec_index_def split: option.splits)

lemma delete_user_row_ids: "map u_id (users (delete_user_row en k db)) = filter (\<lambda>i. i \<noteq> k) (map u_id (users db))"
  by (simp add: delete_user_row_def delete_row_def Let_def filter_map comp_def)

lemma user_inserts_keep_sessions:
  "insert_user en now nm hash adm db = Inr (i, db1) \<Longrightarrow> sessions db1 = sessions db"
  "insert_user_database en uid path ver db = Inr db1 \<Longrightarrow> sessions db1 = sessions db"
  by (auto simp: insert_user_def insert_user_database_def split: sum.splits option.splits prod.splits if_splits)

lemma delete_user_row_sessions [simp]: "sessions (delete_user_row en k db) = sessions db"
  by (simp add: delete_user_row_def Let_def)

lemma CreateUserAndDB_sessions:
  "CreateUserAndDB en bc c nm pw db = ((uid, None), db') \<Longrightarrow> sessions db' = sessions db"
  using CreateUserAndDB_okD user_inserts_keep_sessions by metis

lemma CreateUserAndDB_alloc:
  "CreateUserAndDB std_engine bc c nm pw db = ((uid, None), db') \<Longrightarrow> next_rowid (map u_id (users db)) = Some uid"
  by (drule CreateUserAndDB_okD)
    (auto simp: insert_user_def insert_row_def std_engine_def split: option.splits sum.splits prod.splits if_splits)

lemma GetUser_new:
  assumes "index_ok db" and "new_user (sqlite_datetime t) nm hash False k \<in> set (users db)" and "valid_time t" and "t_nsec t = 0" and "quiet c"
  shows "GetUser c k db
    = (\<lparr>UserID = k, UserName = nm, IsAdmin = False, CreatedAtUTC = t, LastLoginUTC = zero_time, Theme = ''light''\<rparr>, None)"
proof -
  let ?u = "new_user (sqlite_datetime t) nm hash False k"
  have "by_id u_id k (users db) = Some ?u"
    using by_id_in [OF index_users [OF assms(1)] assms(2)] by (simp add: new_user_def)
  then show ?thesis
    using assms(3-5) by (simp add: GetUser_def user_query_row_def quiet_def new_user_def scan_user_def parse_stamps_def parse_time_datetime
        read_user_def zero_user_def)
qed

text \<open>
  C36: The id of a deleted user is given out again. The engine gives a new row of \<open>users\<close>, whose key
  is declared without \<open>AUTOINCREMENT\<close>, the number after the largest one there is. So when the user
  with the largest id is deleted, and the number before his is that of a user or his is 1, the next user
  that is created gets his id. The user created last is such a user, for as long as the one who had the
  largest id before him is there. The sessions of the deleted user are still stored: until then \<open>GetUser\<close>,
  which \<open>Authenticate\<close> asks with the id of the session, refuses them, and from then on it takes them
  for sessions of the new user. The notes of the new user are looked for at the path of the deleted one.
\<close>

theorem DeleteUser_id_reused:
  assumes "index_ok db" and "k \<in> u_id ` set (users db)" and "\<forall>u \<in> set (users db). u_id u \<le> k"
    and "k = 1 \<or> k - 1 \<in> u_id ` set (users db)"
    and "DeleteUser std_engine c k db = (None, db1)"
    and "CreateUserAndDB std_engine bc c1 nm pw db1 = ((j, None), db2)"
    and "now_txt c1 = sqlite_datetime t" and "valid_time t" and "t_nsec t = 0" and "quiet c2"
  shows "j = k
    \<and> sessions db1 = sessions db \<and> sessions db2 = sessions db
    \<and> GetUser c2 k db1 = (zero_user, Some ErrInvalidCredentials)
    \<and> GetUser c2 k db2
        = (\<lparr>UserID = k, UserName = nm, IsAdmin = False, CreatedAtUTC = t, LastLoginUTC = zero_time, Theme = ''light''\<rparr>, None)
    \<and> (\<forall>d \<in> set (user_databases db). d_user d = k \<longrightarrow> d_path d = user_db_path k)
    \<and> snd (GetUserDB c2 k db1) = Some ErrNoRows
    \<and> snd (GetUserDB c2 k db2) = None \<and> DatabasePath (fst (GetUserDB c2 k db2)) = user_db_path k"
proof -
  note db1 = DeleteUser_done [OF assms(5)]
  have pos: "0 < k" using assms(1,2) by (auto simp: index_ok_def table_ok_def)
  have jk: "j = k"
    using next_rowid_again [of "map u_id (users db)" k j] CreateUserAndDB_alloc [OF assms(6)] pos assms(3,4)
    by (simp add: db1 delete_user_row_ids)
  have ok1: "index_ok db1" unfolding db1 using delete_user_ok [OF engine_ok_std assms(1)] .
  from CreateUserAndDB_effect [OF engine_ok_std ok1 assms(6)] obtain hash i where
    us: "users db2 = users db1 @ [new_user (now_txt c1) nm hash False k]" and ok2: "index_ok db2"
    and ds: "user_databases db2 = user_databases db1 @ [\<lparr>d_id = i, d_user = k, d_path = user_db_path k, d_version = 0\<rparr>]"
    unfolding jk by blast
  have gone: "by_id u_id k (users db1) = None" "\<forall>d \<in> set (user_databases db1). d_user d \<noteq> k"
    by (auto simp: db1 delete_user_row_def delete_row_def by_id_def find_None_iff std_engine_def Let_def)
  have "find (\<lambda>d. d_user d = k) (user_databases db2) = Some \<lparr>d_id = i, d_user = k, d_path = user_db_path k, d_version = 0\<rparr>"
    using find_distinct_key [of d_user "user_databases db2" "\<lparr>d_id = i, d_user = k, d_path = user_db_path k, d_version = 0\<rparr>"] ok2
    by (simp add: ds index_ok_def)
  then have "snd (GetUserDB c2 k db2) = None \<and> DatabasePath (fst (GetUserDB c2 k db2)) = user_db_path k"
    using assms(10) by (simp add: GetUserDB_def quiet_def read_user_database_def)
  moreover have "snd (GetUserDB c2 k db1) = Some ErrNoRows"
    using gone(2) assms(10) by (simp add: GetUserDB_def quiet_def find_None_iff [THEN iffD2])
  moreover have "GetUser c2 k db1 = (zero_user, Some ErrInvalidCredentials)"
    using gone(1) assms(10) by (simp add: GetUser_def user_query_row_def quiet_def no_rows_is_invalid_def)
  moreover have "\<forall>d \<in> set (user_databases db). d_user d = k \<longrightarrow> d_path d = user_db_path k" using assms(1) by (auto simp: index_ok_def)
  ultimately show ?thesis
    using jk CreateUserAndDB_sessions [OF assms(6)]
      GetUser_new [OF ok2 _ assms(8,9,10), of nm hash k] us assms(7) by (simp add: db1)
qed

section \<open>Examples\<close>

text \<open>A hash for the examples: the password behind a mark.\<close>

definition toy_bcrypt :: bcrypt where
  "toy_bcrypt = \<lparr>GenerateFromPassword = (\<lambda>pw. Inr (CHR ''$'' # pw)),
     CompareHashAndPassword = (\<lambda>h q. if h = CHR ''$'' # q then None else Some ErrMismatchedHashAndPassword)\<rparr>"

definition user_time :: go_time where
  "user_time = \<lparr>t_year = 2024, t_mon = 2, t_day = 29, t_hour = 0, t_min = 7, t_sec = 31, t_nsec = 0\<rparr>"

definition user_call :: call where
  "user_call = good_call (sqlite_datetime user_time)"

lemma user_call_simps [simp]: "quiet user_call" "now_txt user_call = sqlite_datetime user_time"
  "begin_fault user_call = None" "commit_fault user_call = None" "stmt_fault user_call i = None"
  by (simp_all add: user_call_def) (simp_all add: good_call_def)

lemma bcrypt_ok_toy: "bcrypt_ok toy_bcrypt"
  by (simp add: bcrypt_ok_def toy_bcrypt_def)

lemma user_time_valid: "valid_time user_time" "t_nsec user_time = 0"
  by (simp_all add: user_time_def valid_time_def days_in_def is_leap_def)

lemmas user_run_simps = CreateUserAndDB_def CreateUserAndDB_tx_def with_transaction_def wrapped_tx_def exec_quiet
  insert_user_def insert_row_def insert_user_database_def next_rowid_def int64_max_def std_engine_def toy_bcrypt_def
  DeleteUser_def exec_index_def delete_user_row_def delete_row_def Let_def

lemma example_create:
  "CreateUserAndDB std_engine toy_bcrypt user_call ''ann'' ''secret'' empty_index
     = ((1, None), snd (CreateUserAndDB std_engine toy_bcrypt user_call ''ann'' ''secret'' empty_index))"
  by (simp add: user_run_simps empty_index_def)

lemma example_delete:
  "DeleteUser std_engine user_call k db = (None, delete_user_row std_engine k db)"
  by (simp add: DeleteUser_def exec_index_def)

theorem databases_are_separate_witness:
  "inj_on d_path (set (user_databases (run_user_cmd std_engine toy_bcrypt user_call
     (Cmd_CreateUserAndDB ''ann'' ''secret'') empty_index)))"
  by (rule conjunct2 [OF databases_are_separate [OF engine_ok_std index_reach.step [OF index_reach.fresh]]])

theorem CreateUserAndDB_login_witness:
  "UserName (fst (AuthenticateUser toy_bcrypt user_call ''ann'' ''secret''
     (snd (CreateUserAndDB std_engine toy_bcrypt user_call ''ann'' ''secret'' empty_index)))) = ''ann''"
  using conjunct1 [OF CreateUserAndDB_login [OF engine_ok_std index_ok_empty bcrypt_ok_toy example_create
      user_call_simps(2) user_time_valid user_call_simps(1)]]
  by simp

theorem AuthenticateUser_sound_witness:
  "AuthenticateUser toy_bcrypt user_call ''eve'' ''x'' empty_index = (zero_user, Some ErrInvalidCredentials)"
  using AuthenticateUser_sound [OF index_ok_empty user_call_simps(1), of toy_bcrypt "''eve''" "''x''"]
  by (simp add: empty_index_def)

text \<open>Two users and a session; the second one is deleted and another one is created.\<close>

definition reuse_index :: index_db where
  "reuse_index = \<lparr>users = [new_user (sqlite_datetime user_time) ''root'' ''$pw'' True 1, new_user (sqlite_datetime user_time) ''ann'' ''$secret'' False 2],
     user_databases = [\<lparr>d_id = 1, d_user = 2, d_path = user_db_path 2, d_version = 6\<rparr>],
     sessions = [\<lparr>s_token = ''tok'', s_data = ''2'', s_expiry = 100\<rparr>]\<rparr>"

lemma reuse_index_ok: "index_ok reuse_index"
proof -
  have "{u. (u = new_user (sqlite_datetime user_time) ''root'' ''$pw'' True 1 \<or> u = new_user (sqlite_datetime user_time) ''ann'' ''$secret'' False 2)
      \<and> \<not> u_admin u} = {new_user (sqlite_datetime user_time) ''ann'' ''$secret'' False 2}"
    by (auto simp: new_user_def)
  then show ?thesis by (simp add: index_ok_def table_ok_def reuse_index_def) (simp add: new_user_def)
qed

lemma reuse_create:
  "\<exists>db2. CreateUserAndDB std_engine toy_bcrypt user_call ''bob'' ''secret2'' (delete_user_row std_engine 2 reuse_index) = ((2, None), db2)"
  by (simp add: user_run_simps reuse_index_def new_user_def)

lemma path_of_two: "user_db_path 2 = ''user-databases/2.db''"
  by code_simp

theorem DeleteUser_id_reused_witness:
  "\<exists>db2. CreateUserAndDB std_engine toy_bcrypt user_call ''bob'' ''secret2'' (delete_user_row std_engine 2 reuse_index) = ((2, None), db2)
     \<and> UserName (fst (GetUser user_call 2 db2)) = ''bob'' \<and> sessions db2 = [\<lparr>s_token = ''tok'', s_data = ''2'', s_expiry = 100\<rparr>]
     \<and> DatabasePath (fst (GetUserDB user_call 2 db2)) = ''user-databases/2.db''"
proof -
  have "2 \<in> u_id ` set (users reuse_index)" "\<forall>u \<in> set (users reuse_index). u_id u \<le> 2" "(2::int) - 1 \<in> u_id ` set (users reuse_index)"
    by (simp_all add: reuse_index_def new_user_def)
  moreover obtain db2 where run:
    "CreateUserAndDB std_engine toy_bcrypt user_call ''bob'' ''secret2'' (delete_user_row std_engine 2 reuse_index) = ((2, None), db2)"
    using reuse_create by blast
  ultimately have "UserName (fst (GetUser user_call 2 db2)) = ''bob'' \<and> sessions db2 = sessions reuse_index
      \<and> DatabasePath (fst (GetUserDB user_call 2 db2)) = user_db_path 2"
    using DeleteUser_id_reused [OF reuse_index_ok _ _ _ example_delete run user_call_simps(2) user_time_valid user_call_simps(1)] by simp
  then show ?thesis using run by (simp add: reuse_index_def path_of_two)
qed

end
