(* ===== verification/Migrations.thy ===== *)
theory Migrations
  imports Go_Strings
begin

text \<open>
  \<open>dbx/migrations/migrations.go\<close>: the list of schema migrations read from the embedded file
  system (\<open>Load\<close>), the position of a version in it (\<open>First\<close>, \<open>Latest\<close>, \<open>Prev\<close>, \<open>Next\<close>,
  \<open>Curr\<close>), and the walks that bring a database up or down (\<open>StepUp\<close>, \<open>Up\<close>, \<open>Bootstrap\<close>,
  \<open>StepDown\<close>, \<open>Down\<close>) through the interface \<open>MigrationDriver\<close>.

  The embedded file system is built into the binary: its directory listing and its file
  contents are parameters. The loops of \<open>Up\<close> and \<open>Down\<close> need not end, so they take fuel.
\<close>

section \<open>Data\<close>

record migration =
  Version :: nat
  upFile :: string
  downFile :: string
  Name :: string

definition zero_migration :: migration where
  "zero_migration = \<lparr>Version = 0, upFile = [], downFile = [], Name = []\<rparr>"

definition emptyMigration :: migration where
  "emptyMigration = \<lparr>Version = 0, upFile = [], downFile = [], Name = ''Empty Database''\<rparr>"

text \<open>The interface \<open>MigrationDriver\<close>, over a state \<open>'s\<close> that every call may change.\<close>

record 's migration_driver =
  AddVersionTable :: "'s \<Rightarrow> go_error option \<times> 's"
  RunMigration :: "string \<Rightarrow> nat \<Rightarrow> 's \<Rightarrow> go_error option \<times> 's"
  DriverVersion :: "'s \<Rightarrow> nat outcome \<times> 's"
  IsEmpty :: "'s \<Rightarrow> bool outcome \<times> 's"

section \<open>The position of a version\<close>

fun find_version_from :: "int \<Rightarrow> migration list \<Rightarrow> nat \<Rightarrow> int" where
  "find_version_from i [] v = -1"
| "find_version_from i (m # ms) v = (if Version m = v then i else find_version_from (i + 1) ms v)"

definition FindVersionIndex :: "migration list \<Rightarrow> nat \<Rightarrow> int" where
  "FindVersionIndex migs v = find_version_from 0 migs v"

definition First :: "migration list \<Rightarrow> migration outcome" where
  "First migs = (if length migs = 0 then Inl ErrNotExist else Inr (migs ! 0))"

definition Latest :: "migration list \<Rightarrow> migration outcome" where
  "Latest migs = (if length migs = 0 then Inl ErrNotExist else Inr (migs ! (length migs - 1)))"

definition Prev :: "migration list \<Rightarrow> nat \<Rightarrow> migration outcome" where
  "Prev migs cv =
     (let i = FindVersionIndex migs cv
      in if i \<le> 0 then Inl ErrNotExist else Inr (migs ! nat (i - 1)))"

definition Next :: "migration list \<Rightarrow> nat \<Rightarrow> migration outcome" where
  "Next migs cv =
     (if cv = 0 then First migs
      else
        let i = FindVersionIndex migs cv
        in if i = int (length migs) - 1 \<or> i = -1 then Inl ErrNotExist
           else Inr (migs ! nat (i + 1)))"

definition Curr :: "migration list \<Rightarrow> 's migration_driver \<Rightarrow> 's \<Rightarrow> migration outcome \<times> 's" where
  "Curr migs driver s =
     (case DriverVersion driver s of
        (Inl e, s1) \<Rightarrow> (Inl e, s1)
      | (Inr cvn, s1) \<Rightarrow>
          (if cvn = 0 then (Inr emptyMigration, s1)
           else
             let i = FindVersionIndex migs cvn
             in if i = -1 then (Inl ErrNotExist, s1) else (Inr (migs ! nat i), s1)))"

section \<open>Load\<close>

definition strip_suffix :: "string \<Rightarrow> string \<Rightarrow> string option" where
  "strip_suffix suf s =
     (if length suf \<le> length s \<and> drop (length s - length suf) s = suf
      then Some (take (length s - length suf) s) else None)"

text \<open>
  The groups of \<open>^(?<number>\d+)_(?<name>.*)\.(?<direction>up|down)\.sql$\<close>: the digits end at
  the first character that is not one, which must be an underscore, and \<open>.*\<close> matches
  anything but a line feed.
\<close>

definition migration_match :: "string \<Rightarrow> (string \<times> string \<times> string) option" where
  "migration_match fn =
     (let ds = takeWhile is_digit fn
      in case dropWhile is_digit fn of
           [] \<Rightarrow> None
         | c # body \<Rightarrow>
             if ds = [] \<or> c \<noteq> CHR ''_'' then None
             else (case strip_suffix ''.up.sql'' body of
                     Some nm \<Rightarrow> if CHR 0x0A \<in> set nm then None else Some (ds, nm, ''up'')
                   | None \<Rightarrow>
                       (case strip_suffix ''.down.sql'' body of
                          Some nm \<Rightarrow>
                            if CHR 0x0A \<in> set nm then None else Some (ds, nm, ''down'')
                        | None \<Rightarrow> None)))"

text \<open>A visit of \<open>fs.WalkDir\<close>: the path, the base name, and whether it is a directory.\<close>

record dir_entry =
  e_path :: string
  e_name :: string
  e_is_dir :: bool

text \<open>The callback, on the migrations collected so far.\<close>

definition load_entry :: "dir_entry \<Rightarrow> migration list \<Rightarrow> migration list outcome" where
  "load_entry d migs =
     (if e_is_dir d then Inr migs
      else case migration_match (e_name d) of
             None \<Rightarrow> Inr migs
           | Some (number, name, direction) \<Rightarrow>
               (case parse_int64 number of
                  Inl e \<Rightarrow> Inl e
                | Inr version \<Rightarrow>
                    let index0 = FindVersionIndex migs (nat version);
                        migs1 = (if index0 = -1
                                 then migs @ [zero_migration\<lparr>Version := nat version, Name := name\<rparr>]
                                 else migs);
                        index = nat (if index0 = -1 then FindVersionIndex migs1 (nat version) else index0)
                    in if direction = ''up''
                       then Inr (migs1[index := (migs1 ! index)\<lparr>upFile := e_path d\<rparr>])
                       else if direction = ''down''
                       then Inr (migs1[index := (migs1 ! index)\<lparr>downFile := e_path d\<rparr>])
                       else Inl (NewError (''unsupported direction '' @ direction))))"

fun load_entries :: "dir_entry list \<Rightarrow> migration list \<Rightarrow> migration list outcome" where
  "load_entries [] migs = Inr migs"
| "load_entries (d # ds) migs =
     (case load_entry d migs of Inl e \<Rightarrow> Inl e | Inr migs' \<Rightarrow> load_entries ds migs')"

text \<open>
  \<open>walk\<close> lists what \<open>WalkDir\<close> visits under the root; for a root that does not exist the
  callback is called with a nil entry and an error it does not look at, and \<open>d.IsDir()\<close>
  panics. The versions in the list are distinct, so the sort has one possible result.
\<close>

definition Load :: "(string \<Rightarrow> dir_entry list option) \<Rightarrow> string \<Rightarrow> migration list go_ret" where
  "Load walk migPath =
     (case walk migPath of
        None \<Rightarrow> Panics ''invalid memory address or nil pointer dereference''
      | Some entries \<Rightarrow>
          (case load_entries entries [] of
             Inl e \<Rightarrow> Returns [] (Some e)
           | Inr migs \<Rightarrow> Returns (sort_key Version migs) None))"

section \<open>Steps up and down\<close>

definition IsLatest :: "migration list \<Rightarrow> 's migration_driver \<Rightarrow> 's \<Rightarrow> bool outcome \<times> 's" where
  "IsLatest migs driver s =
     (case DriverVersion driver s of
        (Inl e, s1) \<Rightarrow> (Inl (WrapError ''failed to find database version'' e), s1)
      | (Inr dbv, s1) \<Rightarrow>
          (case Latest migs of
             Inl e \<Rightarrow> (Inl (WrapError ''failed to find last configured migration'' e), s1)
           | Inr lv \<Rightarrow> (Inr (dbv = Version lv), s1)))"

text \<open>
  \<open>rf\<close> is \<open>embeddedMigrationsFS.ReadFile\<close>. A failure of the second version read returns the
  zero migration and no error, as the code does.
\<close>

definition readUp :: "(string \<Rightarrow> string outcome) \<Rightarrow> migration \<Rightarrow> string outcome" where
  "readUp rf m = rf (upFile m)"

definition readDown :: "(string \<Rightarrow> string outcome) \<Rightarrow> migration \<Rightarrow> string outcome" where
  "readDown rf m = rf (downFile m)"

definition StepUp ::
    "(string \<Rightarrow> string outcome) \<Rightarrow> migration list \<Rightarrow> 's migration_driver \<Rightarrow> 's \<Rightarrow> migration outcome \<times> 's" where
  "StepUp rf migs driver s =
     (case IsLatest migs driver s of
        (Inl e, s1) \<Rightarrow> (Inl e, s1)
      | (Inr isLatest, s1) \<Rightarrow>
          (if isLatest then (Latest migs, s1)
           else
             (case DriverVersion driver s1 of
                (Inl e, s2) \<Rightarrow> (Inr zero_migration, s2)
              | (Inr cv, s2) \<Rightarrow>
                  (case Next migs cv of
                     Inl e \<Rightarrow> (Inl e, s2)
                   | Inr nm \<Rightarrow>
                       (case readUp rf nm of
                          Inl e \<Rightarrow> (Inl e, s2)
                        | Inr sql \<Rightarrow>
                            (case RunMigration driver sql (Version nm) s2 of
                               (Some e, s3) \<Rightarrow> (Inl e, s3)
                             | (None, s3) \<Rightarrow> (Inr nm, s3)))))))"

fun up_loop ::
    "nat \<Rightarrow> (string \<Rightarrow> string outcome) \<Rightarrow> migration list \<Rightarrow> migration \<Rightarrow> 's migration_driver \<Rightarrow> 's
       \<Rightarrow> (int outcome \<times> 's) option" where
  "up_loop 0 rf migs lv driver s = None"
| "up_loop (Suc fuel) rf migs lv driver s =
     (case StepUp rf migs driver s of
        (Inl e, s1) \<Rightarrow> Some (Inl e, s1)
      | (Inr mig, s1) \<Rightarrow>
          if Version mig = Version lv then Some (Inr (int (Version mig)), s1)
          else up_loop fuel rf migs lv driver s1)"

definition Up ::
    "nat \<Rightarrow> (string \<Rightarrow> string outcome) \<Rightarrow> migration list \<Rightarrow> 's migration_driver \<Rightarrow> 's
       \<Rightarrow> (int outcome \<times> 's) option" where
  "Up fuel rf migs driver s =
     (case Latest migs of
        Inl e \<Rightarrow> Some (Inl e, s)
      | Inr lv \<Rightarrow> up_loop fuel rf migs lv driver s)"

definition Bootstrap ::
    "nat \<Rightarrow> (string \<Rightarrow> string outcome) \<Rightarrow> migration list \<Rightarrow> 's migration_driver \<Rightarrow> 's
       \<Rightarrow> (int outcome \<times> 's) option" where
  "Bootstrap fuel rf migs driver s =
     (case AddVersionTable driver s of
        (Some e, s1) \<Rightarrow> Some (Inl e, s1)
      | (None, s1) \<Rightarrow> Up fuel rf migs driver s1)"

definition StepDown ::
    "(string \<Rightarrow> string outcome) \<Rightarrow> migration list \<Rightarrow> 's migration_driver \<Rightarrow> 's \<Rightarrow> migration outcome \<times> 's" where
  "StepDown rf migs driver s =
     (case Curr migs driver s of
        (Inl e, s1) \<Rightarrow> (Inl e, s1)
      | (Inr currMigration, s1) \<Rightarrow>
          (if Version currMigration = 0
           then (Inl (NewError ''empty database - cannot migrate down any further''), s1)
           else
             (let prev = (case Prev migs (Version currMigration) of
                            Inl e \<Rightarrow> if errors_is e ErrNotExist then Inr emptyMigration else Inl e
                          | Inr p \<Rightarrow> Inr p)
              in case prev of
                   Inl e \<Rightarrow> (Inl e, s1)
                 | Inr prevMigration \<Rightarrow>
                     (case readDown rf currMigration of
                        Inl e \<Rightarrow> (Inl e, s1)
                      | Inr sql \<Rightarrow>
                          (case RunMigration driver sql (Version prevMigration) s1 of
                             (Some e, s2) \<Rightarrow> (Inl e, s2)
                           | (None, s2) \<Rightarrow> (Inr prevMigration, s2))))))"

fun Down ::
    "nat \<Rightarrow> (string \<Rightarrow> string outcome) \<Rightarrow> migration list \<Rightarrow> 's migration_driver \<Rightarrow> 's
       \<Rightarrow> (go_error option \<times> 's) option" where
  "Down 0 rf migs driver s = None"
| "Down (Suc fuel) rf migs driver s =
     (case StepDown rf migs driver s of
        (Inl e, s1) \<Rightarrow> Some (Some e, s1)
      | (Inr mig, s1) \<Rightarrow>
          if Version mig = 0 then Some (None, s1) else Down fuel rf migs driver s1)"

section \<open>Lists of migrations\<close>

text \<open>What \<open>Load\<close> promises of its result: strictly increasing versions.\<close>

definition strict_versions :: "migration list \<Rightarrow> bool" where
  "strict_versions migs \<longleftrightarrow> sorted_wrt (<) (map Version migs)"

lemma find_version_from_bounds:
  "find_version_from i migs v = -1 \<or> (i \<le> find_version_from i migs v \<and> find_version_from i migs v < i + int (length migs))"
  by (induction i migs v rule: find_version_from.induct) auto

lemma find_version_from_none:
  "0 \<le> i \<Longrightarrow> find_version_from i migs v = -1 \<longleftrightarrow> v \<notin> Version ` set migs"
  by (induction i migs v rule: find_version_from.induct) auto

lemma find_version_from_nth:
  "distinct (map Version migs) \<Longrightarrow> k < length migs \<Longrightarrow>
     find_version_from i migs (Version (migs ! k)) = i + int k"
proof (induction migs arbitrary: i k)
  case Nil
  then show ?case by simp
next
  case (Cons m ms)
  show ?case
  proof (cases k)
    case 0
    then show ?thesis by simp
  next
    case (Suc j)
    with Cons.prems have j: "j < length ms" by simp
    then have "Version (ms ! j) \<in> Version ` set ms" by simp
    with Cons.prems have "Version m \<noteq> Version (ms ! j)" by (metis distinct.simps(2) list.set_map list.simps(9))
    with Cons.IH [of j "i + 1"] Cons.prems j Suc show ?thesis by simp
  qed
qed

lemma FindVersionIndex_none: "FindVersionIndex migs v = -1 \<longleftrightarrow> v \<notin> Version ` set migs"
  by (simp add: FindVersionIndex_def find_version_from_none)

lemma FindVersionIndex_nth:
  "strict_versions migs \<Longrightarrow> k < length migs \<Longrightarrow> FindVersionIndex migs (Version (migs ! k)) = int k"
  using find_version_from_nth [of migs k 0]
  by (simp add: FindVersionIndex_def strict_versions_def strict_sorted_iff)

lemma strict_versions_less:
  "strict_versions migs \<Longrightarrow> i < j \<Longrightarrow> j < length migs \<Longrightarrow> Version (migs ! i) < Version (migs ! j)"
  using sorted_wrt_nth_less [of "(<)" "map Version migs" i j] by (simp add: strict_versions_def)

lemma strict_versions_eq_iff:
  "strict_versions migs \<Longrightarrow> i < length migs \<Longrightarrow> j < length migs \<Longrightarrow>
     Version (migs ! i) = Version (migs ! j) \<longleftrightarrow> i = j"
  by (metis linorder_neqE_nat nat_neq_iff strict_versions_less)

lemma Next_nth:
  assumes "strict_versions migs" "Suc k < length migs" "Version (migs ! k) \<noteq> 0"
  shows "Next migs (Version (migs ! k)) = Inr (migs ! Suc k)"
  using assms FindVersionIndex_nth [of migs k]
  by (simp add: Next_def Let_def nat_add_distrib)

lemma Next_last:
  assumes "strict_versions migs" "Suc k = length migs" "Version (migs ! k) \<noteq> 0"
  shows "Next migs (Version (migs ! k)) = Inl ErrNotExist"
  using assms FindVersionIndex_nth [of migs k] by (simp add: Next_def Let_def)

lemma Next_unknown: "v \<notin> Version ` set migs \<Longrightarrow> v \<noteq> 0 \<Longrightarrow> Next migs v = Inl ErrNotExist"
  by (simp add: Next_def FindVersionIndex_none [THEN iffD2] Let_def)

lemma Prev_nth:
  assumes "strict_versions migs" "k < length migs"
  shows "Prev migs (Version (migs ! k)) = (if k = 0 then Inl ErrNotExist else Inr (migs ! (k - 1)))"
  using assms FindVersionIndex_nth [of migs k] by (auto simp: Prev_def Let_def nat_diff_distrib)

lemma Latest_nth: "migs \<noteq> [] \<Longrightarrow> Latest migs = Inr (last migs)"
  by (simp add: Latest_def last_conv_nth)

end
