(* ===== verification/Migration_Walk.thy ===== *)
theory Migration_Walk
  imports Migrations Transactions
begin

text \<open>
  The walks \<open>Up\<close> and \<open>Down\<close> over any driver that keeps its promises (the locale
  \<open>migration_store\<close>, the contract of the Go interface \<open>MigrationDriver\<close>), and the driver of
  \<open>dbx/sqlitex/migrations.go\<close>, which keeps them. A walk ends after at most one step per
  migration; when a migration fails it stops at the version of the last one that committed.
\<close>

section \<open>Positions and scripts\<close>

text \<open>Version \<open>v\<close> is the state after the first \<open>k\<close> migrations.\<close>

definition at_step :: "migration list \<Rightarrow> nat \<Rightarrow> nat \<Rightarrow> bool" where
  "at_step migs v k \<longleftrightarrow> k \<le> length migs \<and> v = (if k = 0 then 0 else Version (migs ! (k - 1)))"

definition wf_migrations :: "migration list \<Rightarrow> bool" where
  "wf_migrations migs \<longleftrightarrow> migs \<noteq> [] \<and> strict_versions migs \<and> 0 \<notin> Version ` set migs"

definition script :: "string outcome \<Rightarrow> string" where
  "script r = (case r of Inl _ \<Rightarrow> [] | Inr sql \<Rightarrow> sql)"

text \<open>The scripts of the migrations \<open>k, \<dots>, j - 1\<close>, each with the version it leaves.\<close>

definition up_scripts ::
    "(string \<Rightarrow> string outcome) \<Rightarrow> migration list \<Rightarrow> nat \<Rightarrow> nat \<Rightarrow> (string \<times> nat) list" where
  "up_scripts rf migs k j = map (\<lambda>i. (script (readUp rf (migs ! i)), Version (migs ! i))) [k..<j]"

definition down_scripts ::
    "(string \<Rightarrow> string outcome) \<Rightarrow> migration list \<Rightarrow> nat \<Rightarrow> nat \<Rightarrow> (string \<times> nat) list" where
  "down_scripts rf migs j k =
     map (\<lambda>i. (script (readDown rf (migs ! i)), if i = 0 then 0 else Version (migs ! (i - 1))))
       (rev [j..<k])"

lemma up_scripts_Cons: "k < j \<Longrightarrow>
    up_scripts rf migs k j = (script (readUp rf (migs ! k)), Version (migs ! k)) # up_scripts rf migs (Suc k) j"
  by (simp add: up_scripts_def upt_conv_Cons)

lemma up_scripts_Nil [simp]: "up_scripts rf migs k k = []"
  by (simp add: up_scripts_def)

lemma down_scripts_snoc: "j \<le> k \<Longrightarrow>
    down_scripts rf migs j (Suc k) =
      (script (readDown rf (migs ! k)), if k = 0 then 0 else Version (migs ! (k - 1)))
      # down_scripts rf migs j k"
  by (simp add: down_scripts_def)

lemma down_scripts_Nil [simp]: "down_scripts rf migs k k = []"
  by (simp add: down_scripts_def)

lemma wf_Version_pos: "wf_migrations migs \<Longrightarrow> i < length migs \<Longrightarrow> Version (migs ! i) \<noteq> 0"
  unfolding wf_migrations_def by (metis image_eqI nth_mem)

lemma wf_strict: "wf_migrations migs \<Longrightarrow> strict_versions migs"
  by (simp add: wf_migrations_def)

lemma wf_nonempty: "wf_migrations migs \<Longrightarrow> 0 < length migs"
  by (simp add: wf_migrations_def)

lemma at_step_last:
  assumes "wf_migrations migs" "at_step migs v k"
  shows "v = Version (last migs) \<longleftrightarrow> k = length migs"
proof (cases k)
  case 0
  with assms wf_Version_pos [OF assms(1), of "length migs - 1"] wf_nonempty [OF assms(1)]
  show ?thesis by (auto simp: at_step_def last_conv_nth)
next
  case (Suc j)
  with assms have j: "j < length migs" "v = Version (migs ! j)" by (auto simp: at_step_def)
  have "last migs = migs ! (length migs - 1)" using j by (intro last_conv_nth) auto
  moreover have "length migs - 1 < length migs" using j by simp
  ultimately have "v = Version (last migs) \<longleftrightarrow> j = length migs - 1"
    using strict_versions_eq_iff [OF wf_strict [OF assms(1)] j(1)] j(2) by metis
  with Suc j show ?thesis by auto
qed

lemma at_step_Next:
  assumes "wf_migrations migs" "at_step migs v k" "k < length migs"
  shows "Next migs v = Inr (migs ! k)"
proof (cases k)
  case 0
  with assms show ?thesis by (simp add: at_step_def Next_def First_def)
next
  case (Suc j)
  with assms have v: "v = Version (migs ! j)" "Suc j < length migs" by (auto simp: at_step_def)
  with Next_nth [OF wf_strict [OF assms(1)]] wf_Version_pos [OF assms(1), of j] Suc
  show ?thesis by simp
qed

section \<open>The contract of a migration driver\<close>

text \<open>
  \<open>ver\<close> is the version the store holds, \<open>hist\<close> the scripts it has committed with the version
  each left, \<open>ok\<close> the states in which the version can be read, \<open>fits\<close> the version numbers the
  store can hold. Running a migration commits the script and the version together or has
  no effect.
\<close>

locale migration_store =
  fixes d :: "'s migration_driver"
    and ver :: "'s \<Rightarrow> nat"
    and hist :: "'s \<Rightarrow> (string \<times> nat) list"
    and ok :: "'s \<Rightarrow> bool"
    and fits :: "nat \<Rightarrow> bool"
  assumes version_law: "ok s \<Longrightarrow>
      \<exists>s'. DriverVersion d s = (Inr (ver s), s') \<and> ok s' \<and> ver s' = ver s \<and> hist s' = hist s"
    and run_ok: "ok s \<Longrightarrow> fits v \<Longrightarrow> RunMigration d sql v s = (None, s') \<Longrightarrow>
      ok s' \<and> ver s' = v \<and> hist s' = hist s @ [(sql, v)]"
    and run_err: "ok s \<Longrightarrow> RunMigration d sql v s = (Some e, s') \<Longrightarrow>
      ok s' \<and> ver s' = ver s \<and> hist s' = hist s"
    and table_law: "ok s \<Longrightarrow>
      \<exists>s'. AddVersionTable d s = (None, s') \<and> ok s' \<and> ver s' = ver s \<and> hist s' = hist s"
begin

lemma IsLatest_ok:
  assumes "ok s" "migs \<noteq> []"
  shows "\<exists>s'. IsLatest migs d s = (Inr (ver s = Version (last migs)), s')
    \<and> ok s' \<and> ver s' = ver s \<and> hist s' = hist s"
  using version_law [OF assms(1)] assms(2) by (auto simp: IsLatest_def Latest_nth)

lemma StepUp_at_latest:
  assumes "ok s" "wf_migrations migs" "at_step migs (ver s) (length migs)"
  shows "\<exists>s'. StepUp rf migs d s = (Inr (last migs), s') \<and> ok s' \<and> ver s' = ver s \<and> hist s' = hist s"
proof -
  have ne: "migs \<noteq> []" using assms(2) by (simp add: wf_migrations_def)
  obtain s' where "IsLatest migs d s = (Inr (ver s = Version (last migs)), s')"
    "ok s'" "ver s' = ver s" "hist s' = hist s"
    using IsLatest_ok [OF assms(1) ne] by blast
  moreover have "ver s = Version (last migs)" using at_step_last [OF assms(2,3)] by simp
  ultimately show ?thesis using ne by (auto simp: StepUp_def Latest_nth)
qed

lemma StepUp_before_latest:
  assumes ok: "ok s" and wf: "wf_migrations migs" and at: "at_step migs (ver s) k"
    and k: "k < length migs" and fits: "fits (Version (migs ! k))"
  shows "\<exists>s'. ok s' \<and>
    ((\<exists>e. StepUp rf migs d s = (Inl e, s') \<and> ver s' = ver s \<and> hist s' = hist s)
     \<or> (StepUp rf migs d s = (Inr (migs ! k), s') \<and> ver s' = Version (migs ! k) \<and>
         hist s' = hist s @ [(script (readUp rf (migs ! k)), Version (migs ! k))]))"
proof -
  have ne: "migs \<noteq> []" using k by auto
  have nl: "ver s \<noteq> Version (last migs)" using at_step_last [OF wf at] k by simp
  obtain s1 where s1: "IsLatest migs d s = (Inr False, s1)"
    "ok s1" "ver s1 = ver s" "hist s1 = hist s"
    using IsLatest_ok [OF ok ne] nl by auto
  obtain s2 where s2: "DriverVersion d s1 = (Inr (ver s), s2)"
    "ok s2" "ver s2 = ver s" "hist s2 = hist s"
    using version_law [OF s1(2)] s1(3,4) by auto
  have nx: "Next migs (ver s) = Inr (migs ! k)" by (rule at_step_Next [OF wf at k])
  show ?thesis
  proof (cases "readUp rf (migs ! k)")
    case (Inl e)
    with s1 s2 nx show ?thesis by (auto simp: StepUp_def)
  next
    case (Inr sql)
    obtain r s3 where r: "RunMigration d sql (Version (migs ! k)) s2 = (r, s3)" by fastforce
    show ?thesis
    proof (cases r)
      case None
      with run_ok [OF s2(2) fits] r have
        "ok s3 \<and> ver s3 = Version (migs ! k) \<and> hist s3 = hist s2 @ [(sql, Version (migs ! k))]" by simp
      with None r s1 s2 nx Inr show ?thesis
        by (intro exI [of _ s3]) (simp add: StepUp_def script_def)
    next
      case (Some e)
      with run_err [OF s2(2)] r have "ok s3 \<and> ver s3 = ver s2 \<and> hist s3 = hist s2" by simp
      with Some r s1 s2 nx Inr show ?thesis
        by (intro exI [of _ s3]) (simp add: StepUp_def)
    qed
  qed
qed

lemma up_loop_ends:
  assumes "ok s" "wf_migrations migs" "at_step migs (ver s) k" "length migs - k < fuel"
    and "\<forall>m \<in> set migs. fits (Version m)"
  shows "\<exists>r s' j. up_loop fuel rf migs (last migs) d s = Some (r, s') \<and> ok s'
    \<and> k \<le> j \<and> at_step migs (ver s') j \<and> hist s' = hist s @ up_scripts rf migs k j
    \<and> (case r of Inl e \<Rightarrow> j < length migs | Inr v \<Rightarrow> j = length migs \<and> v = int (Version (last migs)))"
  using assms(1,3,4)
proof (induction fuel arbitrary: s k)
  case 0
  then show ?case by simp
next
  case (Suc fuel)
  have wf: "wf_migrations migs" by (rule assms(2))
  show ?case
  proof (cases "k < length migs")
    case False
    with Suc.prems have k: "k = length migs" by (simp add: at_step_def)
    with StepUp_at_latest [OF Suc.prems(1) wf] Suc.prems(2) obtain s' where
      "StepUp rf migs d s = (Inr (last migs), s')" "ok s'" "ver s' = ver s" "hist s' = hist s" by blast
    with Suc.prems k show ?thesis
      by (intro exI [of _ "Inr (int (Version (last migs)))"] exI [of _ s'] exI [of _ k]) simp
  next
    case True
    have fk: "fits (Version (migs ! k))" using assms(5) True by simp
    from StepUp_before_latest [OF Suc.prems(1) wf Suc.prems(2) True fk]
    obtain s1 where s1: "ok s1"
      and alt: "(\<exists>e. StepUp rf migs d s = (Inl e, s1) \<and> ver s1 = ver s \<and> hist s1 = hist s)
     \<or> (StepUp rf migs d s = (Inr (migs ! k), s1) \<and> ver s1 = Version (migs ! k) \<and>
         hist s1 = hist s @ [(script (readUp rf (migs ! k)), Version (migs ! k))])" by blast
    from alt show ?thesis
    proof (elim disjE exE conjE)
      fix e assume "StepUp rf migs d s = (Inl e, s1)" "ver s1 = ver s" "hist s1 = hist s"
      with s1 True Suc.prems(2) show ?thesis
        by (intro exI [of _ "Inl e"] exI [of _ s1] exI [of _ k]) simp
    next
      assume st: "StepUp rf migs d s = (Inr (migs ! k), s1)" and v1: "ver s1 = Version (migs ! k)"
        and h1: "hist s1 = hist s @ [(script (readUp rf (migs ! k)), Version (migs ! k))]"
      have at1: "at_step migs (ver s1) (Suc k)" using v1 True by (simp add: at_step_def)
      show ?thesis
      proof (cases "Suc k = length migs")
        case True
        then have l: "last migs = migs ! k" by (metis diff_Suc_1 last_conv_nth length_0_conv nat.distinct(1))
        with st True have "up_loop (Suc fuel) rf migs (last migs) d s
            = Some (Inr (int (Version (last migs))), s1)" by simp
        with s1 at1 h1 True show ?thesis
          by (intro exI [of _ "Inr (int (Version (last migs)))"] exI [of _ s1] exI [of _ "Suc k"])
            (simp add: up_scripts_Cons)
      next
        case False
        then have ne: "Version (migs ! k) \<noteq> Version (last migs)"
          using at_step_last [OF wf at1] v1 by simp
        have "length migs - Suc k < fuel" using Suc.prems(3) True by simp
        from Suc.IH [OF s1 at1 this] obtain r s' j where
          R: "up_loop fuel rf migs (last migs) d s1 = Some (r, s')" "ok s'" "Suc k \<le> j"
            "at_step migs (ver s') j" "hist s' = hist s1 @ up_scripts rf migs (Suc k) j"
            "case r of Inl e \<Rightarrow> j < length migs | Inr v \<Rightarrow> j = length migs \<and> v = int (Version (last migs))"
          by blast
        have "hist s' = hist s @ up_scripts rf migs k j"
          using R(3,5) h1 up_scripts_Cons [of k j rf migs] by simp
        with R st ne show ?thesis
          by (intro exI [of _ r] exI [of _ s'] exI [of _ j]) simp
      qed
    qed
  qed
qed

lemma Up_ends:
  assumes "ok s" "wf_migrations migs" "at_step migs (ver s) k" "length migs - k < fuel"
    and "\<forall>m \<in> set migs. fits (Version m)"
  shows "\<exists>r s' j. Up fuel rf migs d s = Some (r, s') \<and> ok s'
    \<and> k \<le> j \<and> at_step migs (ver s') j \<and> hist s' = hist s @ up_scripts rf migs k j
    \<and> (case r of Inl e \<Rightarrow> j < length migs | Inr v \<Rightarrow> j = length migs \<and> v = int (Version (last migs)))"
  using up_loop_ends [OF assms] assms(2) by (simp add: Up_def Latest_nth wf_migrations_def)

lemma Bootstrap_ends:
  assumes "ok s" "wf_migrations migs" "at_step migs (ver s) k" "length migs - k < fuel"
    and "\<forall>m \<in> set migs. fits (Version m)"
  shows "\<exists>r s' j. Bootstrap fuel rf migs d s = Some (r, s') \<and> ok s'
    \<and> k \<le> j \<and> at_step migs (ver s') j \<and> hist s' = hist s @ up_scripts rf migs k j
    \<and> (case r of Inl e \<Rightarrow> j < length migs | Inr v \<Rightarrow> j = length migs \<and> v = int (Version (last migs)))"
proof -
  obtain s1 where s1: "AddVersionTable d s = (None, s1)" "ok s1" "ver s1 = ver s" "hist s1 = hist s"
    using table_law [OF assms(1)] by blast
  have "at_step migs (ver s1) k" using assms(3) s1(3) by simp
  from Up_ends [OF s1(2) assms(2) this assms(4,5), of rf] show ?thesis
    using s1 by (simp add: Bootstrap_def)
qed

text \<open>A version the list does not know stops the walk before anything runs.\<close>

lemma Up_unknown:
  assumes "ok s" "migs \<noteq> []" "ver s \<notin> Version ` set migs" "ver s \<noteq> 0"
  shows "\<exists>s'. Up (Suc fuel) rf migs d s = Some (Inl ErrNotExist, s')
    \<and> ver s' = ver s \<and> hist s' = hist s"
proof -
  have "ver s \<noteq> Version (last migs)" using assms(2,3) by (metis image_eqI last_in_set)
  then obtain s1 where s1: "IsLatest migs d s = (Inr False, s1)"
    "ok s1" "ver s1 = ver s" "hist s1 = hist s"
    using IsLatest_ok [OF assms(1,2)] by auto
  obtain s2 where s2: "DriverVersion d s1 = (Inr (ver s), s2)"
    "ok s2" "ver s2 = ver s" "hist s2 = hist s"
    using version_law [OF s1(2)] s1(3,4) by auto
  have "Next migs (ver s) = Inl ErrNotExist" using assms(3,4) by (rule Next_unknown)
  with s1 s2 have "StepUp rf migs d s = (Inl ErrNotExist, s2)" by (simp add: StepUp_def)
  with s2 assms(2) show ?thesis by (auto simp: Up_def Latest_nth)
qed

lemma StepDown_at:
  assumes ok: "ok s" and wf: "wf_migrations migs" and at: "at_step migs (ver s) (Suc k)"
    and fits: "\<forall>m \<in> set migs. fits (Version m)" "fits 0"
  shows "\<exists>s'. ok s' \<and>
    ((\<exists>e. StepDown rf migs d s = (Inl e, s') \<and> ver s' = ver s \<and> hist s' = hist s)
     \<or> (\<exists>p. StepDown rf migs d s = (Inr p, s') \<and> (Version p = 0 \<longleftrightarrow> k = 0) \<and>
          at_step migs (ver s') k \<and>
          hist s' = hist s @ [(script (readDown rf (migs ! k)), if k = 0 then 0 else Version (migs ! (k - 1)))]))"
proof -
  from at have k: "k < length migs" and v: "ver s = Version (migs ! k)" by (auto simp: at_step_def)
  have v0: "ver s \<noteq> 0" using wf_Version_pos [OF wf k] v by simp
  have st: "strict_versions migs" using wf by (rule wf_strict)
  obtain s1 where s1: "DriverVersion d s = (Inr (ver s), s1)" "ok s1" "ver s1 = ver s" "hist s1 = hist s"
    using version_law [OF ok] by blast
  have cur: "Curr migs d s = (Inr (migs ! k), s1)"
    using s1 v0 FindVersionIndex_nth [OF st k] v by (simp add: Curr_def)
  define p where "p = (if k = 0 then emptyMigration else migs ! (k - 1))"
  have vp: "Version p = (if k = 0 then 0 else Version (migs ! (k - 1)))"
    by (simp add: p_def emptyMigration_def)
  have vp0: "Version p = 0 \<longleftrightarrow> k = 0"
    using wf_Version_pos [OF wf, of "k - 1"] k by (auto simp: vp)
  have fp: "fits (Version p)"
  proof (cases k)
    case 0
    with fits(2) show ?thesis by (simp add: vp)
  next
    case (Suc j)
    with k have "j < length migs" by simp
    with fits(1) Suc show ?thesis by (simp add: vp)
  qed
  have prev: "(case Prev migs (Version (migs ! k)) of
        Inl e \<Rightarrow> if errors_is e ErrNotExist then Inr emptyMigration else Inl e
      | Inr p \<Rightarrow> Inr p) = (Inr p :: migration outcome)"
    using Prev_nth [OF st k] by (simp add: p_def)
  show ?thesis
  proof (cases "readDown rf (migs ! k)")
    case (Inl e)
    with cur v v0 s1 prev show ?thesis by (auto simp: StepDown_def Let_def)
  next
    case (Inr sql)
    obtain r s2 where r: "RunMigration d sql (Version p) s1 = (r, s2)" by fastforce
    show ?thesis
    proof (cases r)
      case None
      with run_ok [OF s1(2) fp] r have R: "ok s2" "ver s2 = Version p"
        "hist s2 = hist s1 @ [(sql, Version p)]" by simp_all
      have "StepDown rf migs d s = (Inr p, s2)"
        using None r cur v v0 prev Inr by (simp add: StepDown_def Let_def)
      moreover have "at_step migs (ver s2) k" using R(2) vp k by (simp add: at_step_def)
      ultimately show ?thesis using R s1(4) Inr vp vp0 by (auto simp: script_def)
    next
      case (Some e)
      with run_err [OF s1(2)] r have "ok s2" "ver s2 = ver s1" "hist s2 = hist s1" by simp_all
      with Some r cur v v0 s1 prev Inr show ?thesis by (auto simp: StepDown_def Let_def)
    qed
  qed
qed

lemma Down_ends:
  assumes "ok s" "wf_migrations migs" "at_step migs (ver s) (Suc k)" "k < fuel"
    and "\<forall>m \<in> set migs. fits (Version m)" "fits 0"
  shows "\<exists>r s' j. Down fuel rf migs d s = Some (r, s') \<and> ok s' \<and> j \<le> Suc k
    \<and> at_step migs (ver s') j \<and> hist s' = hist s @ down_scripts rf migs j (Suc k)
    \<and> (r = None \<longleftrightarrow> j = 0)"
  using assms(1,3,4)
proof (induction fuel arbitrary: s k)
  case 0
  then show ?case by simp
next
  case (Suc fuel)
  from StepDown_at [OF Suc.prems(1) assms(2) Suc.prems(2) assms(5,6), of rf]
  obtain s1 where s1: "ok s1"
    and alt: "(\<exists>e. StepDown rf migs d s = (Inl e, s1) \<and> ver s1 = ver s \<and> hist s1 = hist s)
     \<or> (\<exists>p. StepDown rf migs d s = (Inr p, s1) \<and> (Version p = 0 \<longleftrightarrow> k = 0) \<and>
          at_step migs (ver s1) k \<and>
          hist s1 = hist s @ [(script (readDown rf (migs ! k)), if k = 0 then 0 else Version (migs ! (k - 1)))])"
    by (elim exE conjE) (rule that)
  from alt show ?case
  proof (elim disjE exE conjE)
    fix e assume "StepDown rf migs d s = (Inl e, s1)" "ver s1 = ver s" "hist s1 = hist s"
    with s1 Suc.prems(2) show ?thesis
      by (intro exI [of _ "Some e"] exI [of _ s1] exI [of _ "Suc k"]) simp
  next
    fix p assume st: "StepDown rf migs d s = (Inr p, s1)" and p0: "Version p = 0 \<longleftrightarrow> k = 0"
      and at1: "at_step migs (ver s1) k"
      and h1: "hist s1 = hist s @ [(script (readDown rf (migs ! k)), if k = 0 then 0 else Version (migs ! (k - 1)))]"
    show ?thesis
    proof (cases k)
      case 0
      with st p0 s1 at1 h1 show ?thesis
        by (intro exI [of _ None] exI [of _ s1] exI [of _ 0]) (simp add: down_scripts_snoc)
    next
      case (Suc j0)
      with Suc.prems(3) have "j0 < fuel" by simp
      from Suc.IH [OF s1 _ this] at1 Suc obtain r s' j where
        R: "Down fuel rf migs d s1 = Some (r, s')" "ok s'" "j \<le> k" "at_step migs (ver s') j"
          "hist s' = hist s1 @ down_scripts rf migs j k" "r = None \<longleftrightarrow> j = 0" by auto
      have "hist s' = hist s @ down_scripts rf migs j (Suc k)"
        using R(3,5) h1 down_scripts_snoc [of j k rf migs] by simp
      with R st p0 Suc show ?thesis
        by (intro exI [of _ r] exI [of _ s'] exI [of _ j]) simp
    qed
  qed
qed

end

end
