(* ===== verification/Migration_Load.thy ===== *)
theory Migration_Load
  imports Migrations
begin

text \<open>
  What \<open>Load\<close> computes: strictly increasing versions, one migration per version that some
  file names, and in it the last up file and the last down file of that version in the
  order of the walk; and its value on the files the repository ships.
\<close>

section \<open>Files that are migrations\<close>

text \<open>The version and the direction a visited file stands for.\<close>

definition entry_key :: "dir_entry \<Rightarrow> (nat \<times> string) option" where
  "entry_key d =
     (if e_is_dir d then None
      else case migration_match (e_name d) of
             None \<Rightarrow> None
           | Some (number, name, direction) \<Rightarrow>
               (case parse_int64 number of Inl _ \<Rightarrow> None | Inr v \<Rightarrow> Some (nat v, direction)))"

definition last_path :: "dir_entry list \<Rightarrow> nat \<Rightarrow> string \<Rightarrow> string" where
  "last_path es v dir =
     (let ms = filter (\<lambda>d. entry_key d = Some (v, dir)) es
      in if ms = [] then [] else e_path (last ms))"

definition set_file :: "string \<Rightarrow> string \<Rightarrow> migration \<Rightarrow> migration" where
  "set_file dir path m = (if dir = ''up'' then m\<lparr>upFile := path\<rparr> else m\<lparr>downFile := path\<rparr>)"

lemma set_file_Version [simp]: "Version (set_file dir path m) = Version m"
  by (simp add: set_file_def)

lemma migration_match_direction:
  "migration_match fn = Some (ds, nm, dir) \<Longrightarrow> dir = ''up'' \<or> dir = ''down''"
  by (auto simp: migration_match_def Let_def split: list.splits if_splits option.splits)

lemma update_found:
  assumes "distinct (map Version migs)" and "v \<in> Version ` set migs"
  shows "migs[nat (FindVersionIndex migs v) := f (migs ! nat (FindVersionIndex migs v))]
    = map (\<lambda>m. if Version m = v then f m else m) migs"
proof -
  obtain k where k: "k < length migs" "Version (migs ! k) = v"
    using assms(2) by (auto simp: in_set_conv_nth)
  have i: "nat (FindVersionIndex migs v) = k"
    using find_version_from_nth [OF assms(1) k(1), of 0] k(2) by (simp add: FindVersionIndex_def)
  show ?thesis
  proof (rule nth_equalityI)
    fix j assume j: "j < length (migs[nat (FindVersionIndex migs v)
      := f (migs ! nat (FindVersionIndex migs v))])"
    then have "Version (migs ! j) = v \<longleftrightarrow> j = k"
      using k assms(1) by (auto simp: distinct_conv_nth)
    with j k show "migs[nat (FindVersionIndex migs v) := f (migs ! nat (FindVersionIndex migs v))] ! j
      = map (\<lambda>m. if Version m = v then f m else m) migs ! j"
      by (auto simp: i nth_list_update)
  qed simp
qed

text \<open>The list after one file, written without indices.\<close>

definition with_version :: "nat \<Rightarrow> string \<Rightarrow> migration list \<Rightarrow> migration list" where
  "with_version v nm migs =
     (if v \<in> Version ` set migs then migs
      else migs @ [zero_migration\<lparr>Version := v, Name := nm\<rparr>])"

lemma load_entry_cases:
  assumes "load_entry d migs = Inr migs'" and "distinct (map Version migs)"
  shows "(entry_key d = None \<and> migs' = migs)
    \<or> (\<exists>v dir nm. entry_key d = Some (v, dir) \<and> (dir = ''up'' \<or> dir = ''down'') \<and>
         migs' = map (\<lambda>m. if Version m = v then set_file dir (e_path d) m else m)
                   (with_version v nm migs))"
proof (cases "e_is_dir d \<or> migration_match (e_name d) = None")
  case True
  with assms show ?thesis by (auto simp: load_entry_def entry_key_def)
next
  case False
  then obtain ds nm dir where m: "migration_match (e_name d) = Some (ds, nm, dir)"
    and nd: "\<not> e_is_dir d" by (metis option.exhaust prod_cases3)
  from m have dir: "dir = ''up'' \<or> dir = ''down''" by (rule migration_match_direction)
  from assms(1) m nd obtain i where i: "parse_int64 ds = Inr i"
    by (auto simp: load_entry_def split: sum.splits)
  let ?v = "nat i" and ?w = "with_version (nat i) nm migs"
  have key: "entry_key d = Some (?v, dir)" using m nd i by (simp add: entry_key_def)
  have dw: "distinct (map Version ?w)" and vw: "?v \<in> Version ` set ?w"
    using assms(2) by (auto simp: with_version_def zero_migration_def)
  have "migs' = ?w[nat (FindVersionIndex ?w ?v) :=
      set_file dir (e_path d) (?w ! nat (FindVersionIndex ?w ?v))]"
  proof (cases "?v \<in> Version ` set migs")
    case True
    then have "FindVersionIndex migs ?v \<noteq> -1" by (simp add: FindVersionIndex_none)
    with True assms(1) m nd i dir show ?thesis
      by (auto simp: load_entry_def Let_def with_version_def set_file_def split: if_splits)
  next
    case False
    then have "FindVersionIndex migs ?v = -1" by (simp add: FindVersionIndex_none)
    with False assms(1) m nd i dir show ?thesis
      by (auto simp: load_entry_def Let_def with_version_def set_file_def split: if_splits)
  qed
  then have "migs' = map (\<lambda>m. if Version m = ?v then set_file dir (e_path d) m else m) ?w"
    using update_found [OF dw vw] by simp
  with key dir show ?thesis by blast
qed

section \<open>The invariant of the walk\<close>

definition loaded :: "dir_entry list \<Rightarrow> migration list \<Rightarrow> bool" where
  "loaded es migs \<longleftrightarrow>
     distinct (map Version migs)
     \<and> Version ` set migs = {v. \<exists>d \<in> set es. \<exists>dir. entry_key d = Some (v, dir)}
     \<and> (\<forall>m \<in> set migs. upFile m = last_path es (Version m) ''up''
                     \<and> downFile m = last_path es (Version m) ''down'')"

lemma loaded_Nil: "loaded [] []"
  by (simp add: loaded_def)

lemma last_path_snoc:
  "last_path (es @ [d]) v dir = (if entry_key d = Some (v, dir) then e_path d else last_path es v dir)"
  by (auto simp: last_path_def Let_def)

lemma last_path_absent:
  "\<forall>d \<in> set es. \<forall>dir. entry_key d \<noteq> Some (v, dir) \<Longrightarrow> last_path es v dir = []"
  by (auto simp: last_path_def Let_def filter_empty_conv)

lemma with_version_simps:
  "Version ` set (with_version v nm migs) = insert v (Version ` set migs)"
  "distinct (map Version migs) \<Longrightarrow> distinct (map Version (with_version v nm migs))"
  by (auto simp: with_version_def zero_migration_def)

lemma with_version_files:
  assumes "loaded es migs" and "m \<in> set (with_version v nm migs)"
  shows "upFile m = last_path es (Version m) ''up'' \<and> downFile m = last_path es (Version m) ''down''"
proof (cases "m \<in> set migs")
  case True
  with assms(1) show ?thesis by (simp add: loaded_def)
next
  case False
  with assms(2) have m: "v \<notin> Version ` set migs" "m = zero_migration\<lparr>Version := v, Name := nm\<rparr>"
    by (auto simp: with_version_def split: if_splits)
  with assms(1) have "\<forall>d \<in> set es. \<forall>dir. entry_key d \<noteq> Some (v, dir)"
    unfolding loaded_def by blast
  with m show ?thesis by (simp add: last_path_absent zero_migration_def)
qed

lemma loaded_step:
  assumes "loaded es migs" and "load_entry d migs = Inr migs'"
  shows "loaded (es @ [d]) migs'"
proof -
  have dist: "distinct (map Version migs)" using assms(1) by (simp add: loaded_def)
  from load_entry_cases [OF assms(2) dist] show ?thesis
  proof (rule disjE)
    assume "entry_key d = None \<and> migs' = migs"
    with assms(1) show ?thesis by (simp add: loaded_def last_path_snoc)
  next
    assume "\<exists>v dir nm. entry_key d = Some (v, dir) \<and> (dir = ''up'' \<or> dir = ''down'') \<and>
         migs' = map (\<lambda>m. if Version m = v then set_file dir (e_path d) m else m)
                   (with_version v nm migs)"
    then obtain v dir nm
      where key: "entry_key d = Some (v, dir)" and dir: "dir = ''up'' \<or> dir = ''down''"
      and migs': "migs' = map (\<lambda>m. if Version m = v then set_file dir (e_path d) m else m)
                   (with_version v nm migs)"
      by blast
    have vs: "map Version migs' = map Version (with_version v nm migs)" using migs' by auto
    then have "distinct (map Version migs')" using dist by (simp add: with_version_simps)
    moreover have "Version ` set migs' = insert v (Version ` set migs)"
      using vs by (metis list.set_map with_version_simps(1))
    then have "Version ` set migs' = {v. \<exists>d' \<in> set (es @ [d]). \<exists>dir. entry_key d' = Some (v, dir)}"
      using assms(1) key by (auto simp: loaded_def)
    moreover have "\<forall>m \<in> set migs'. upFile m = last_path (es @ [d]) (Version m) ''up''
        \<and> downFile m = last_path (es @ [d]) (Version m) ''down''"
    proof
      fix m assume "m \<in> set migs'"
      then obtain m0 where m0: "m0 \<in> set (with_version v nm migs)"
        and m: "m = (if Version m0 = v then set_file dir (e_path d) m0 else m0)"
        by (auto simp: migs')
      have "Version m = Version m0" by (simp add: m)
      with with_version_files [OF assms(1) m0] dir show
        "upFile m = last_path (es @ [d]) (Version m) ''up''
           \<and> downFile m = last_path (es @ [d]) (Version m) ''down''"
        by (elim disjE) (simp_all add: m key last_path_snoc set_file_def)
    qed
    ultimately show ?thesis by (simp add: loaded_def)
  qed
qed

lemma load_entries_append:
  "load_entries (xs @ ys) migs =
     (case load_entries xs migs of Inl e \<Rightarrow> Inl e | Inr migs' \<Rightarrow> load_entries ys migs')"
  by (induction xs migs rule: load_entries.induct) (auto split: sum.splits)

lemma load_entries_loaded: "load_entries es [] = Inr migs \<Longrightarrow> loaded es migs"
proof (induction es arbitrary: migs rule: rev_induct)
  case Nil
  then show ?case by (simp add: loaded_Nil)
next
  case (snoc d es)
  then obtain ms where "load_entries es [] = Inr ms" and "load_entry d ms = Inr migs"
    by (auto simp: load_entries_append split: sum.splits)
  with snoc.IH show ?case by (blast intro: loaded_step)
qed

lemma Load_loaded:
  assumes "Load walk p = Returns migs None" and "walk p = Some es"
  shows "strict_versions migs \<and> loaded es migs"
proof -
  from assms obtain ms where ms: "load_entries es [] = Inr ms" and migs: "migs = sort_key Version ms"
    by (auto simp: Load_def split: sum.splits)
  have l: "loaded es ms" using ms by (rule load_entries_loaded)
  have "mset (map Version migs) = mset (map Version ms)" by (simp add: migs)
  then have d: "distinct (map Version migs)"
    using l by (metis loaded_def mset_eq_imp_distinct_iff)
  moreover have "sorted (map Version migs)" by (simp add: migs)
  ultimately have "strict_versions migs" by (simp add: strict_versions_def strict_sorted_iff)
  moreover have "loaded es migs" using l d by (simp add: loaded_def migs)
  ultimately show ?thesis ..
qed

section \<open>The files of the repository\<close>

definition sql_file :: "string \<Rightarrow> string \<Rightarrow> dir_entry" where
  "sql_file dir nm = \<lparr>e_path = dir @ ''/'' @ nm, e_name = nm, e_is_dir = False\<rparr>"

text \<open>The walk of \<open>sql/notes-db\<close> and of \<open>sql/index-db\<close>, in lexical order.\<close>

definition notes_db_walk :: "dir_entry list" where
  "notes_db_walk =
     \<lparr>e_path = ''sql/notes-db'', e_name = ''notes-db'', e_is_dir = True\<rparr> #
     map (sql_file ''sql/notes-db'')
       [''0001_bootstrap.down.sql'', ''0001_bootstrap.up.sql'',
        ''0002_note-view.down.sql'', ''0002_note-view.up.sql'',
        ''0003_notes_fts.down.sql'', ''0003_notes_fts.up.sql'',
        ''0004_reference-notes.down.sql'', ''0004_reference-notes.up.sql'',
        ''0005_bookmarks.down.sql'', ''0005_bookmarks.up.sql'',
        ''0006_notes-details-v2.down.sql'', ''0006_notes-details-v2.up.sql'']"

definition index_db_walk :: "dir_entry list" where
  "index_db_walk =
     \<lparr>e_path = ''sql/index-db'', e_name = ''index-db'', e_is_dir = True\<rparr> #
     map (sql_file ''sql/index-db'')
       [''0001_user.down.sql'', ''0001_user.up.sql'', ''0002_theme.down.sql'', ''0002_theme.up.sql'']"

definition embedded_walk :: "string \<Rightarrow> dir_entry list option" where
  "embedded_walk p =
     (if p = ''sql/notes-db'' then Some notes_db_walk
      else if p = ''sql/index-db'' then Some index_db_walk
      else None)"

definition index_db_migrations :: "migration list" where
  "index_db_migrations =
     [\<lparr>Version = 1, upFile = ''sql/index-db/0001_user.up.sql'',
       downFile = ''sql/index-db/0001_user.down.sql'', Name = ''user''\<rparr>,
      \<lparr>Version = 2, upFile = ''sql/index-db/0002_theme.up.sql'',
       downFile = ''sql/index-db/0002_theme.down.sql'', Name = ''theme''\<rparr>]"

lemma migration_match_up:
  assumes "ds \<noteq> []" "list_all is_digit ds" "CHR 0x0A \<notin> set nm"
  shows "migration_match (ds @ CHR ''_'' # nm @ ''.up.sql'') = Some (ds, nm, ''up'')"
proof -
  have u: "\<not> is_digit (CHR ''_'')" by (simp add: is_digit_def)
  have "takeWhile is_digit (ds @ CHR ''_'' # nm @ ''.up.sql'') = ds"
    and "dropWhile is_digit (ds @ CHR ''_'' # nm @ ''.up.sql'') = CHR ''_'' # nm @ ''.up.sql''"
    using assms(2) u by (induction ds) (simp_all add: list_all_iff)
  moreover have "strip_suffix ''.up.sql'' (nm @ ''.up.sql'') = Some nm"
    by (simp add: strip_suffix_def)
  ultimately show ?thesis using assms by (simp add: migration_match_def)
qed

lemma migration_match_down:
  assumes "ds \<noteq> []" "list_all is_digit ds" "CHR 0x0A \<notin> set nm"
  shows "migration_match (ds @ CHR ''_'' # nm @ ''.down.sql'') = Some (ds, nm, ''down'')"
proof -
  have u: "\<not> is_digit (CHR ''_'')" by (simp add: is_digit_def)
  have "takeWhile is_digit (ds @ CHR ''_'' # nm @ ''.down.sql'') = ds"
    and "dropWhile is_digit (ds @ CHR ''_'' # nm @ ''.down.sql'') = CHR ''_'' # nm @ ''.down.sql''"
    using assms(2) u by (induction ds) (simp_all add: list_all_iff)
  moreover have "strip_suffix ''.up.sql'' (nm @ ''.down.sql'') = None"
    by (simp add: strip_suffix_def)
  moreover have "strip_suffix ''.down.sql'' (nm @ ''.down.sql'') = Some nm"
    by (simp add: strip_suffix_def)
  ultimately show ?thesis using assms by (simp add: migration_match_def)
qed

lemma index_db_matches:
  "migration_match ''0001_user.up.sql'' = Some (''0001'', ''user'', ''up'')"
  "migration_match ''0001_user.down.sql'' = Some (''0001'', ''user'', ''down'')"
  "migration_match ''0002_theme.up.sql'' = Some (''0002'', ''theme'', ''up'')"
  "migration_match ''0002_theme.down.sql'' = Some (''0002'', ''theme'', ''down'')"
  using migration_match_up [of "''0001''" "''user''"] migration_match_down [of "''0001''" "''user''"]
    migration_match_up [of "''0002''" "''theme''"] migration_match_down [of "''0002''" "''theme''"]
  by (simp_all add: is_digit_def)

lemma index_db_numbers:
  "parse_int64 ''0001'' = Inr 1" "parse_int64 ''0002'' = Inr 2"
  by (simp_all add: parse_int64_def parse_uint64_def is_digit_def digit_val_def)

lemma Load_index_db: "Load embedded_walk ''sql/index-db'' = Returns index_db_migrations None"
  by (simp add: Load_def embedded_walk_def index_db_walk_def sql_file_def load_entry_def
      index_db_matches index_db_numbers FindVersionIndex_def zero_migration_def
      index_db_migrations_def Let_def)

section \<open>Load\<close>

text \<open>
  C27: the migrations \<open>Load\<close> returns are strictly increasing in version; there is one for each
  version that a file of the walk names, and no other; its up file and its down file are the
  last ones of that version in the walk, and empty when there is none.
\<close>

theorem Load_correct:
  assumes "Load walk p = Returns migs None" and "walk p = Some es"
  shows "sorted_wrt (<) (map Version migs)
    \<and> Version ` set migs = {v. \<exists>d \<in> set es. \<exists>dir. entry_key d = Some (v, dir)}
    \<and> (\<forall>m \<in> set migs. upFile m = last_path es (Version m) ''up''
                    \<and> downFile m = last_path es (Version m) ''down'')"
  using Load_loaded [OF assms] by (simp add: loaded_def strict_versions_def)

theorem Load_correct_witness:
  "Load embedded_walk ''sql/index-db'' = Returns index_db_migrations None
   \<and> embedded_walk ''sql/index-db'' = Some index_db_walk
   \<and> sorted_wrt (<) (map Version index_db_migrations)"
proof -
  have w: "embedded_walk ''sql/index-db'' = Some index_db_walk" by (simp add: embedded_walk_def)
  show ?thesis using Load_correct [OF Load_index_db w] Load_index_db w by blast
qed

end
