(* ===== verification/Migration_Driver.thy ===== *)
theory Migration_Driver
  imports Migration_Walk Migration_Load
begin

text \<open>
  \<open>dbx/sqlitex/migrations.go\<close>: the driver over one database file, and the properties of the
  walks on it. The file keeps its schema version in the pragma \<open>user_version\<close>; a migration
  script and the new version are committed in one transaction.

  What the engine does with a script, how many tables a schema has, and which number the
  pragma keeps for a version are parameters (\<open>engine\<close>); a sequence of calls, one per
  operation of the driver, says which statements fail.
\<close>

section \<open>The driver\<close>

record 'sch sqlite_file =
  user_version :: nat
  schema :: 'sch
  committed :: "(string \<times> nat) list"  \<comment> \<open>the scripts committed so far, for the statements below\<close>

record 'sch sql_engine =
  run_script :: "string \<Rightarrow> 'sch \<Rightarrow> 'sch outcome"
  table_count :: "'sch \<Rightarrow> int outcome"
  stored_version :: "nat \<Rightarrow> nat"

type_synonym 'sch mig_state = "'sch sqlite_file \<times> nat"

definition sqlite_IsEmpty ::
    "(nat \<Rightarrow> call) \<Rightarrow> 'sch sql_engine \<Rightarrow> 'sch mig_state \<Rightarrow> bool outcome \<times> 'sch mig_state" where
  "sqlite_IsEmpty oc en st =
     (case st of (f, n) \<Rightarrow>
        ((case exec (oc n) 0 (\<lambda>g. table_count en (schema g)) f of
            Inl e \<Rightarrow> Inl e | Inr cnt \<Rightarrow> Inr (cnt = 0)), (f, Suc n)))"

definition sqlite_AddVersionTable :: "'sch mig_state \<Rightarrow> go_error option \<times> 'sch mig_state" where
  "sqlite_AddVersionTable st = (None, st)"

definition run_migration_tx ::
    "call \<Rightarrow> 'sch sql_engine \<Rightarrow> string \<Rightarrow> nat \<Rightarrow> 'sch sqlite_file \<Rightarrow> (unit \<times> 'sch sqlite_file) outcome" where
  "run_migration_tx c en sqlMig version f =
     (case exec c 1 (\<lambda>g. run_script en sqlMig (schema g)) f of
        Inl e \<Rightarrow> Inl e
      | Inr sch \<Rightarrow>
          (case exec c 2 (\<lambda>g. Inr (stored_version en version)) f of
             Inl e \<Rightarrow> Inl e
           | Inr v \<Rightarrow> Inr ((), f\<lparr>schema := sch, user_version := v,
                                   committed := committed f @ [(sqlMig, v)]\<rparr>)))"

definition sqlite_RunMigration ::
    "(nat \<Rightarrow> call) \<Rightarrow> 'sch sql_engine \<Rightarrow> string \<Rightarrow> nat \<Rightarrow> 'sch mig_state
       \<Rightarrow> go_error option \<times> 'sch mig_state" where
  "sqlite_RunMigration oc en sqlMig version st =
     (case st of (f, n) \<Rightarrow>
        (case with_transaction (oc n) () (tx_body () (run_migration_tx (oc n) en sqlMig version)) f of
           ((_, err), f') \<Rightarrow> (err, (f', Suc n))))"

definition sqlite_Version :: "(nat \<Rightarrow> call) \<Rightarrow> 'sch mig_state \<Rightarrow> nat outcome \<times> 'sch mig_state" where
  "sqlite_Version oc st =
     (case st of (f, n) \<Rightarrow> (exec (oc n) 0 (\<lambda>g. Inr (user_version g)) f, (f, Suc n)))"

definition sqlite_driver :: "(nat \<Rightarrow> call) \<Rightarrow> 'sch sql_engine \<Rightarrow> 'sch mig_state migration_driver" where
  "sqlite_driver oc en =
     \<lparr>AddVersionTable = sqlite_AddVersionTable,
      RunMigration = sqlite_RunMigration oc en,
      DriverVersion = sqlite_Version oc,
      IsEmpty = sqlite_IsEmpty oc en\<rparr>"

section \<open>The driver keeps the contract\<close>

text \<open>
  Reads of the version do not fail (statement 0 of every call); the statements of a
  migration, its \<open>BEGIN\<close>, \<open>COMMIT\<close> and \<open>ROLLBACK\<close> may. A version fits when the pragma keeps it
  (it is a signed 32-bit number in the file).
\<close>

definition reads_succeed :: "(nat \<Rightarrow> call) \<Rightarrow> bool" where
  "reads_succeed oc \<longleftrightarrow> (\<forall>n. stmt_fault (oc n) 0 = None)"

definition version_fits :: "'sch sql_engine \<Rightarrow> nat \<Rightarrow> bool" where
  "version_fits en v \<longleftrightarrow> stored_version en v = v"

lemma sqlite_Version_reads:
  "reads_succeed oc \<Longrightarrow> sqlite_Version oc (f, n) = (Inr (user_version f), (f, Suc n))"
  by (simp add: sqlite_Version_def exec_def reads_succeed_def)

lemma sqlite_RunMigration_ok:
  assumes "sqlite_RunMigration oc en sql v (f, n) = (None, (f', n'))"
  shows "user_version f' = stored_version en v
    \<and> committed f' = committed f @ [(sql, stored_version en v)]"
proof -
  from assms have "with_transaction (oc n) () (tx_body () (run_migration_tx (oc n) en sql v)) f
      = (((), None), f')"
    by (auto simp: sqlite_RunMigration_def split: prod.splits)
  then have "run_migration_tx (oc n) en sql v f = Inr ((), f')"
    using with_transaction_ok tx_body_ok by metis
  then show ?thesis by (auto simp: run_migration_tx_def exec_def split: sum.splits option.splits)
qed

lemma sqlite_RunMigration_err:
  assumes "sqlite_RunMigration oc en sql v (f, n) = (Some e, (f', n'))"
  shows "f' = f"
  using assms with_transaction_fail
  by (fastforce simp: sqlite_RunMigration_def split: prod.splits)

interpretation sqlite_mig: migration_store "sqlite_driver oc en" "\<lambda>st. user_version (fst st)"
  "\<lambda>st. committed (fst st)" "\<lambda>st. reads_succeed oc" "version_fits en" for oc en
proof (unfold_locales, goal_cases)
  case (1 s)
  then show ?case by (cases s) (simp add: sqlite_driver_def sqlite_Version_reads)
next
  case (2 s v sql s')
  then show ?case
    by (cases s; cases s') (auto simp: sqlite_driver_def version_fits_def dest: sqlite_RunMigration_ok)
next
  case (3 s sql v e s')
  then show ?case
    by (cases s; cases s') (auto simp: sqlite_driver_def dest: sqlite_RunMigration_err)
next
  case (4 s)
  then show ?case by (simp add: sqlite_driver_def sqlite_AddVersionTable_def)
qed

section \<open>Properties of the walks\<close>

text \<open>A two-step list, an engine and a file for the witnesses below.\<close>

definition demo_engine :: "nat sql_engine" where
  "demo_engine = \<lparr>run_script = (\<lambda>sql k. Inr (k + length sql)), table_count = (\<lambda>k. Inr (int k)),
                  stored_version = (\<lambda>v. v)\<rparr>"

definition demo_read :: "string \<Rightarrow> string outcome" where
  "demo_read p = (if p = [] then Inl (EngineError ''open : invalid argument'') else Inr p)"

definition fresh_file :: "nat sqlite_file" where
  "fresh_file = \<lparr>user_version = 0, schema = 0, committed = []\<rparr>"

lemma index_db_wf: "wf_migrations index_db_migrations"
  by (simp add: wf_migrations_def strict_versions_def index_db_migrations_def)

lemma reads_good [simp]: "reads_succeed (\<lambda>_. good_call t)"
  by (simp add: reads_succeed_def good_call_def)

lemma demo_fits [simp]: "version_fits demo_engine v"
  by (simp add: version_fits_def demo_engine_def)

text \<open>
  C14: \<open>Up\<close> ends. From a database that has the first \<open>k\<close> migrations it takes at most one step
  per remaining migration, commits the up scripts \<open>k, k+1, \<dots>\<close> in this order and each
  once, and either reports the latest version with all of them committed or reports an
  error with the database at the version of the last script that was committed, however
  the statements, commits and rollbacks of the migrations fail.
\<close>

theorem Up_terminates_in_order:
  assumes "reads_succeed oc" "wf_migrations migs" "at_step migs (user_version f) k"
    and "length migs - k < fuel" "\<forall>m \<in> set migs. version_fits en (Version m)"
  shows "\<exists>r f' n' j. Up fuel rf migs (sqlite_driver oc en) (f, n) = Some (r, (f', n'))
    \<and> k \<le> j \<and> at_step migs (user_version f') j
    \<and> committed f' = committed f @ up_scripts rf migs k j
    \<and> (case r of Inl e \<Rightarrow> j < length migs
               | Inr v \<Rightarrow> j = length migs \<and> v = int (Version (last migs)))"
proof -
  have "at_step migs (user_version (fst (f, n))) k" using assms(3) by simp
  from sqlite_mig.Up_ends [OF assms(1,2) this assms(4,5), of rf] show ?thesis by fastforce
qed

theorem Up_terminates_in_order_witness:
  "\<exists>r f' n' j. Up 3 demo_read index_db_migrations (sqlite_driver (\<lambda>_. good_call ''now'') demo_engine)
      (fresh_file, 0) = Some (r, (f', n'))
    \<and> at_step index_db_migrations (user_version f') j
    \<and> committed f' = up_scripts demo_read index_db_migrations 0 j"
proof -
  have a: "at_step index_db_migrations (user_version fresh_file) 0"
    by (simp add: at_step_def fresh_file_def)
  have l: "length index_db_migrations - 0 < 3" by (simp add: index_db_migrations_def)
  from Up_terminates_in_order [OF reads_good index_db_wf a l, of demo_engine demo_read "''now''" 0]
  show ?thesis by (fastforce simp: fresh_file_def)
qed

text \<open>
  \<open>Down\<close> ends. From a database with \<open>k + 1\<close> migrations it commits the down scripts
  \<open>k, k-1, \<dots>\<close> in this order, and reports no error exactly when it reached the empty database.
\<close>

theorem Down_terminates_in_order:
  assumes "reads_succeed oc" "wf_migrations migs" "at_step migs (user_version f) (Suc k)"
    and "k < fuel" "\<forall>m \<in> set migs. version_fits en (Version m)" "version_fits en 0"
  shows "\<exists>r f' n' j. Down fuel rf migs (sqlite_driver oc en) (f, n) = Some (r, (f', n'))
    \<and> j \<le> Suc k \<and> at_step migs (user_version f') j
    \<and> committed f' = committed f @ down_scripts rf migs j (Suc k)
    \<and> (r = None \<longleftrightarrow> j = 0)"
proof -
  have "at_step migs (user_version (fst (f, n))) (Suc k)" using assms(3) by simp
  from sqlite_mig.Down_ends [OF assms(1,2) this assms(4,5,6), of rf] show ?thesis by fastforce
qed

theorem Down_terminates_in_order_witness:
  "\<exists>r f' n' j. Down 2 demo_read index_db_migrations (sqlite_driver (\<lambda>_. good_call ''now'') demo_engine)
      (fresh_file\<lparr>user_version := 2\<rparr>, 0) = Some (r, (f', n'))
    \<and> at_step index_db_migrations (user_version f') j
    \<and> committed f' = down_scripts demo_read index_db_migrations j 2"
proof -
  have a: "at_step index_db_migrations (user_version (fresh_file\<lparr>user_version := 2\<rparr>)) (Suc 1)"
    by (simp add: at_step_def fresh_file_def index_db_migrations_def)
  from Down_terminates_in_order [OF reads_good index_db_wf a, of 2 demo_engine demo_read "''now''" 0]
  show ?thesis by (fastforce simp: fresh_file_def numeral_2_eq_2)
qed

text \<open>
  a database whose version is neither 0 nor a version of the list (one written by a newer
  program) is left alone: \<open>Up\<close> reports that the migration does not exist and commits nothing.
\<close>

theorem Up_refuses_unknown_version:
  assumes "reads_succeed oc" "migs \<noteq> []" "user_version f \<notin> Version ` set migs" "user_version f \<noteq> 0"
  shows "\<exists>n'. Up (Suc fuel) rf migs (sqlite_driver oc en) (f, n) = Some (Inl ErrNotExist, (f, n'))"
proof -
  have v1: "sqlite_Version oc (f, i) = (Inr (user_version f), (f, Suc i))" for i
    by (rule sqlite_Version_reads [OF assms(1)])
  have "user_version f \<noteq> Version (last migs)" using assms(2,3) by (metis image_eqI last_in_set)
  with assms(2) v1 Next_unknown [OF assms(3,4)] show ?thesis
    by (simp add: Up_def Latest_nth StepUp_def IsLatest_def sqlite_driver_def)
qed

theorem Up_refuses_unknown_version_witness:
  "\<exists>n'. Up (Suc 0) demo_read index_db_migrations (sqlite_driver (\<lambda>_. good_call ''now'') demo_engine)
      (fresh_file\<lparr>user_version := 7\<rparr>, 0) = Some (Inl ErrNotExist, (fresh_file\<lparr>user_version := 7\<rparr>, n'))"
  by (rule Up_refuses_unknown_version [OF reads_good])
    (simp_all add: index_db_migrations_def)

text \<open>
  A driver on which every second read of the version fails: \<open>StepUp\<close> reads it twice and
  drops the error of the second read.
\<close>

definition flaky_driver :: "go_error \<Rightarrow> bool migration_driver" where
  "flaky_driver err =
     \<lparr>AddVersionTable = (\<lambda>b. (None, b)),
      RunMigration = (\<lambda>sql v b. (None, b)),
      DriverVersion = (\<lambda>b. if b then (Inl err, False) else (Inr 0, True)),
      IsEmpty = (\<lambda>b. (Inr True, b))\<rparr>"

lemma flaky_StepUp:
  assumes "wf_migrations migs"
  shows "StepUp rf migs (flaky_driver err) False = (Inr zero_migration, False)"
proof -
  have "Version (last migs) \<noteq> 0" using assms
    by (metis image_eqI last_in_set wf_migrations_def)
  with assms show ?thesis
    by (simp add: StepUp_def IsLatest_def flaky_driver_def Latest_nth wf_migrations_def)
qed

lemma flaky_loop:
  assumes "wf_migrations migs"
  shows "up_loop fuel rf migs (last migs) (flaky_driver err) False = None"
proof (induction fuel)
  case 0
  show ?case by simp
next
  case (Suc fuel)
  have "Version (last migs) \<noteq> 0" using assms
    by (metis image_eqI last_in_set wf_migrations_def)
  with Suc flaky_StepUp [OF assms] show ?case by (simp add: zero_migration_def)
qed

text \<open>
  C31: \<open>StepUp\<close> drops the error of its second read of the version: it reports success with the
  zero migration, so \<open>Up\<close> keeps calling it. On a driver whose second reads fail \<open>Up\<close> never
  returns, whatever the number of rounds, instead of reporting the error.
\<close>

theorem Up_spins_on_dropped_error:
  assumes "wf_migrations migs"
  shows "StepUp rf migs (flaky_driver err) False = (Inr zero_migration, False)
    \<and> Up fuel rf migs (flaky_driver err) False = None"
  using flaky_StepUp [OF assms] flaky_loop [OF assms] assms
  by (simp add: Up_def Latest_nth wf_migrations_def)

theorem Up_spins_on_dropped_error_witness:
  "Up 1000 demo_read index_db_migrations (flaky_driver (EngineError ''database is locked'')) False = None"
  using Up_spins_on_dropped_error [OF index_db_wf] by blast

end
