(* ===== verification/Conn_Cache.thy ===== *)
theory Conn_Cache
  imports User_Accounts Migration_Driver
begin

text \<open>
  \<open>user-store/sqliteconncache.go\<close> and \<open>chanutil/chanutil.go\<close>: the manager that owns the
  connections to the users' notes databases. One goroutine serves commands from a channel, one
  after the other; an operation that sends two commands (\<open>DeleteDB\<close>) can have commands of
  other goroutines served in between, so a run of the manager is a list of commands in the
  order they are served.

  The file system is a map from paths to file identities and from these to contents: a
  connection stays on the file it opened when the path is unlinked. Opening, closing and
  unlinking may fail, as may every statement on the index database; all of it is in the
  environment of a command (\<open>conn_env\<close>).
\<close>

section \<open>State\<close>

record cached_conn =
  cc_conn :: nat
  cc_expiry :: int

record 'sch manager =
  connections :: "(int \<times> cached_conn) list"
  index :: index_db
  index_file :: "'sch sqlite_file"
  dir_entries :: "(string \<times> nat) list"
  file_data :: "nat \<Rightarrow> 'sch sqlite_file"
  open_conns :: "(nat \<times> nat) list"  \<comment> \<open>open connections and the file each is on\<close>
  next_number :: nat

record conn_conf =
  DBDirectory :: string
  IndexDBFileName :: string
  NotesDBMigrations :: "migration list"
  IndexDBMigrations :: "migration list"

record 'sch conn_env =
  row_engine :: engine
  index_call :: "nat \<Rightarrow> call"
  open_fault :: "nat \<Rightarrow> go_error option"
  close_fault :: "nat \<Rightarrow> go_error option"
  unlink_fault :: "go_error option"
  clock :: int
  mig_call :: "nat \<Rightarrow> nat \<Rightarrow> call"
  script_engine :: "'sch sql_engine"
  read_script :: "string \<Rightarrow> string outcome"
  new_file :: "'sch sqlite_file"
  rounds :: nat
  key_order :: "int list \<Rightarrow> int list"

text \<open>\<open>ttl: 8 * time.Hour\<close>, in nanoseconds.\<close>

definition ttl :: int where "ttl = 8 * 3600 * 1000000000"

definition db_file :: "conn_conf \<Rightarrow> string \<Rightarrow> string" where
  "db_file conf path = DBDirectory conf @ ''/'' @ path"

section \<open>Connections\<close>

text \<open>\<open>sqlitex.NewSQLiteDB\<close>, as far as the manager sees it: a file that is not there is created.\<close>

definition open_db :: "'sch conn_env \<Rightarrow> nat \<Rightarrow> string \<Rightarrow> 'sch manager \<Rightarrow> nat outcome \<times> 'sch manager" where
  "open_db env i path m =
     (case open_fault env i of
        Some err \<Rightarrow> (Inl err, m)
      | None \<Rightarrow>
          (let h = next_number m
           in case map_of (dir_entries m) path of
                Some ino \<Rightarrow>
                  (Inr h, m\<lparr>open_conns := (h, ino) # open_conns m, next_number := h + 1\<rparr>)
              | None \<Rightarrow>
                  (Inr h, m\<lparr>open_conns := (h, h + 1) # open_conns m, next_number := h + 2,
                            dir_entries := (path, h + 1) # dir_entries m,
                            file_data := (file_data m)(h + 1 := new_file env)\<rparr>)))"

text \<open>
  \<open>SQLiteDB.Close\<close>: the pools of \<open>database/sql\<close> are closed also when closing reports an error, and
  closing them again reports none.
\<close>

definition close_db :: "'sch conn_env \<Rightarrow> nat \<Rightarrow> 'sch manager \<Rightarrow> go_error option \<times> 'sch manager" where
  "close_db env h m =
     (if h \<notin> fst ` set (open_conns m) then (None, m)
      else (close_fault env h, m\<lparr>open_conns := filter (\<lambda>p. fst p \<noteq> h) (open_conns m)\<rparr>))"

definition createNewConnection ::
    "conn_conf \<Rightarrow> 'sch conn_env \<Rightarrow> int \<Rightarrow> 'sch manager \<Rightarrow> nat outcome \<times> 'sch manager" where
  "createNewConnection conf env key m =
     (case GetUserDB (index_call env 0) key (index m) of
        (_, Some err) \<Rightarrow> (Inl err, m)
      | (userDB, None) \<Rightarrow> open_db env 0 (db_file conf (DatabasePath userDB)) m)"

definition getNotesStore ::
    "conn_conf \<Rightarrow> 'sch conn_env \<Rightarrow> int \<Rightarrow> 'sch manager \<Rightarrow> nat outcome \<times> 'sch manager" where
  "getNotesStore conf env key m =
     (let (opened, m1) =
        (case map_of (connections m) key of
           Some cc \<Rightarrow> (Inr (cc_conn cc), m)
         | None \<Rightarrow> createNewConnection conf env key m)
      in case opened of
           Inl err \<Rightarrow> (Inl err, m1)
         | Inr h \<Rightarrow>
             (Inr h, m1\<lparr>connections :=
                AList.update key \<lparr>cc_conn = h, cc_expiry = clock env + ttl\<rparr> (connections m1)\<rparr>))"

definition removeConnection :: "'sch conn_env \<Rightarrow> int \<Rightarrow> 'sch manager \<Rightarrow> go_error option \<times> 'sch manager" where
  "removeConnection env key m =
     (case map_of (connections m) key of
        None \<Rightarrow> (None, m)
      | Some cc \<Rightarrow>
          (case close_db env (cc_conn cc) m of
             (Some err, m1) \<Rightarrow> (Some err, m1)
           | (None, m1) \<Rightarrow> (None, m1\<lparr>connections := AList.delete key (connections m1)\<rparr>)))"

text \<open>The loop of \<open>removeExpired\<close>, over the keys in the order the map yields them.\<close>

fun remove_expired_loop :: "'sch conn_env \<Rightarrow> int list \<Rightarrow> 'sch manager \<Rightarrow> go_error option \<times> 'sch manager" where
  "remove_expired_loop env [] m = (None, m)"
| "remove_expired_loop env (key # ks) m =
     (case map_of (connections m) key of
        None \<Rightarrow> remove_expired_loop env ks m
      | Some cc \<Rightarrow>
          if \<not> clock env > cc_expiry cc then remove_expired_loop env ks m
          else (case removeConnection env key m of
                  (Some err, m1) \<Rightarrow> (Some err, m1)
                | (None, m1) \<Rightarrow> remove_expired_loop env ks m1))"

definition removeExpired :: "'sch conn_env \<Rightarrow> 'sch manager \<Rightarrow> go_error option \<times> 'sch manager" where
  "removeExpired env m = remove_expired_loop env (key_order env (map fst (connections m))) m"

section \<open>Databases\<close>

text \<open>Run a walk of the migrations on the file a connection is on.\<close>

definition migrate_conn ::
    "(migration list \<Rightarrow> 'sch mig_state migration_driver \<Rightarrow> 'sch mig_state \<Rightarrow> (int outcome \<times> 'sch mig_state) option)
       \<Rightarrow> 'sch conn_env \<Rightarrow> nat \<Rightarrow> migration list \<Rightarrow> nat \<Rightarrow> 'sch manager \<Rightarrow> (int outcome \<times> 'sch manager) option" where
  "migrate_conn walk env k migs h m =
     (let ino = the (map_of (open_conns m) h)
      in case walk migs (sqlite_driver (mig_call env k) (script_engine env)) (file_data m ino, 0) of
           None \<Rightarrow> None
         | Some (r, (f, _)) \<Rightarrow> Some (r, m\<lparr>file_data := (file_data m)(ino := f)\<rparr>))"

definition createDatabase ::
    "conn_conf \<Rightarrow> 'sch conn_env \<Rightarrow> int \<Rightarrow> 'sch manager \<Rightarrow> (go_error option \<times> 'sch manager) option" where
  "createDatabase conf env key m =
     (case createNewConnection conf env key m of
        (Inl err, m1) \<Rightarrow> Some (Some err, m1)
      | (Inr h, m1) \<Rightarrow>
          (case migrate_conn (Bootstrap (rounds env) (read_script env)) env 0 (NotesDBMigrations conf) h m1 of
             None \<Rightarrow> None
           | Some (Inl err, m2) \<Rightarrow> Some (Some err, m2)
           | Some (Inr ver, m2) \<Rightarrow>
               (case UpdateDBVersion (index_call env 1) key ver (index m2) of
                  (err, ix) \<Rightarrow> Some (err, m2\<lparr>index := ix\<rparr>))))"

definition deleteDatabase ::
    "conn_conf \<Rightarrow> 'sch conn_env \<Rightarrow> int \<Rightarrow> 'sch manager \<Rightarrow> go_error option \<times> 'sch manager" where
  "deleteDatabase conf env key m =
     (case GetUserDB (index_call env 0) key (index m) of
        (_, Some err) \<Rightarrow> (Some err, m)
      | (userDB, None) \<Rightarrow>
          (case unlink_fault env of
             Some err \<Rightarrow> (Some err, m)
           | None \<Rightarrow>
               if map_of (dir_entries m) (db_file conf (DatabasePath userDB)) = None then (Some ErrNotExist, m)
               else (None, m\<lparr>dir_entries := AList.delete (db_file conf (DatabasePath userDB)) (dir_entries m)\<rparr>)))"

text \<open>The loop over the databases to upgrade; the k-th uses the call \<open>k + 2\<close> on the index.\<close>

fun upgrade_loop ::
    "conn_conf \<Rightarrow> 'sch conn_env \<Rightarrow> nat \<Rightarrow> UserDatabase list \<Rightarrow> 'sch manager
       \<Rightarrow> (go_error option \<times> 'sch manager) option" where
  "upgrade_loop conf env k [] m = Some (None, m)"
| "upgrade_loop conf env k (userDB # rest) m =
     (case open_db env k (db_file conf (DatabasePath userDB)) m of
        (Inl err, m1) \<Rightarrow> Some (Some err, m1)
      | (Inr h, m1) \<Rightarrow>
          (case migrate_conn (Up (rounds env) (read_script env)) env (Suc k) (NotesDBMigrations conf) h m1 of
             None \<Rightarrow> None
           | Some (Inl err, m2) \<Rightarrow> Some (Some err, m2)
           | Some (Inr ver, m2) \<Rightarrow>
               (case UpdateDBVersion (index_call env (k + 2)) (DatabaseUserID userDB) ver (index m2) of
                  (Some err, ix) \<Rightarrow> Some (Some err, m2\<lparr>index := ix\<rparr>)
                | (None, ix) \<Rightarrow> upgrade_loop conf env (Suc k) rest (m2\<lparr>index := ix\<rparr>))))"

text \<open>The first half of \<open>runMigrations\<close>: the index database itself.\<close>

definition migrate_index ::
    "conn_conf \<Rightarrow> 'sch conn_env \<Rightarrow> 'sch manager \<Rightarrow> (go_error option \<times> 'sch manager) option" where
  "migrate_index conf env m =
     (let drv = sqlite_driver (mig_call env 0) (script_engine env)
      in case IsEmpty drv (index_file m, 0) of
           (Inl err, (f, _)) \<Rightarrow> Some (Some err, m\<lparr>index_file := f\<rparr>)
         | (Inr isEmpty, s1) \<Rightarrow>
             (if isEmpty
              then (case Bootstrap (rounds env) (read_script env) (IndexDBMigrations conf) drv s1 of
                      None \<Rightarrow> None
                    | Some (Inl err, (f, _)) \<Rightarrow> Some (Some err, m\<lparr>index_file := f\<rparr>)
                    | Some (Inr _, (f, _)) \<Rightarrow> Some (None, m\<lparr>index_file := f\<rparr>))
              else (case IsLatest (IndexDBMigrations conf) drv s1 of
                      (Inl err, (f, _)) \<Rightarrow> Some (Some err, m\<lparr>index_file := f\<rparr>)
                    | (Inr isLatest, s2) \<Rightarrow>
                        (if isLatest then Some (None, m\<lparr>index_file := fst s2\<rparr>)
                         else (case Up (rounds env) (read_script env) (IndexDBMigrations conf) drv s2 of
                                 None \<Rightarrow> None
                               | Some (Inl err, (f, _)) \<Rightarrow> Some (Some err, m\<lparr>index_file := f\<rparr>)
                               | Some (Inr _, (f, _)) \<Rightarrow> Some (None, m\<lparr>index_file := f\<rparr>))))))"

definition runMigrations ::
    "conn_conf \<Rightarrow> 'sch conn_env \<Rightarrow> 'sch manager \<Rightarrow> (go_error option \<times> 'sch manager) option" where
  "runMigrations conf env m =
     (case migrate_index conf env m of
        None \<Rightarrow> None
      | Some (Some err, m1) \<Rightarrow> Some (Some err, m1)
      | Some (None, m1) \<Rightarrow>
          (case Latest (NotesDBMigrations conf) of
             Inl err \<Rightarrow> Some (Some err, m1)
           | Inr latestNotesVer \<Rightarrow>
               (case DBVersionBefore (row_engine env) (index_call env 1) (int (Version latestNotesVer)) (index m1) of
                  (_, Some err) \<Rightarrow> Some (Some err, m1)
                | (dbsToUpgrade, None) \<Rightarrow> upgrade_loop conf env 0 dbsToUpgrade m1)))"

section \<open>The public state and the end\<close>

record cache_state =
  Connections :: "(int \<times> int) list"
  TimeToLive :: int
  StateDBDirectory :: string
  StateIndexDBFileName :: string

definition getState :: "conn_conf \<Rightarrow> 'sch manager \<Rightarrow> cache_state" where
  "getState conf m =
     \<lparr>Connections = map (\<lambda>(key, cc). (key, cc_expiry cc)) (connections m), TimeToLive = ttl,
      StateDBDirectory = DBDirectory conf, StateIndexDBFileName = IndexDBFileName conf\<rparr>"

text \<open>
  \<open>Stop\<close>: the index database (connection 0 here), then the cached connections; the channel of
  commands is closed only when nothing failed. The last component says whether it was.
\<close>

fun close_all :: "'sch conn_env \<Rightarrow> nat list \<Rightarrow> 'sch manager \<Rightarrow> go_error option \<times> 'sch manager" where
  "close_all env [] m = (None, m)"
| "close_all env (h # hs) m =
     (case close_db env h m of (Some err, m1) \<Rightarrow> (Some err, m1) | (None, m1) \<Rightarrow> close_all env hs m1)"

definition Stop_manager :: "'sch conn_env \<Rightarrow> 'sch manager \<Rightarrow> go_error option \<times> 'sch manager \<times> bool" where
  "Stop_manager env m =
     (case close_db env 0 m of
        (Some err, m1) \<Rightarrow> (Some err, m1, False)
      | (None, m1) \<Rightarrow>
          (case close_all env (map (cc_conn \<circ> snd) (connections m1)) m1 of
             (Some err, m2) \<Rightarrow> (Some err, m2, False)
           | (None, m2) \<Rightarrow> (None, m2, True)))"

section \<open>Commands and replies\<close>

datatype conn_cmd =
    CmdGetConn int
  | CmdRemoveConn int
  | CmdCreateDB int
  | CmdDeleteDB int
  | CmdCheckMigrations
  | CmdGetState
  | CmdRemoveExpired

text \<open>What the serving goroutine sends back before it closes the reply channel; \<open>nil\<close> is a value.\<close>

datatype reply = ReplyError go_error | ReplyNil | ReplyStore nat | ReplyState cache_state

definition reply_err :: "go_error option \<Rightarrow> reply" where
  "reply_err err = (case err of None \<Rightarrow> ReplyNil | Some e \<Rightarrow> ReplyError e)"

text \<open>One turn of the loop in \<open>Start\<close>; \<open>None\<close> is a turn that does not end.\<close>

fun serve :: "conn_conf \<Rightarrow> 'sch conn_env \<Rightarrow> conn_cmd \<Rightarrow> 'sch manager \<Rightarrow> (reply \<times> 'sch manager) option" where
  "serve conf env (CmdGetConn key) m =
     (case getNotesStore conf env key m of
        (Inl err, m1) \<Rightarrow> Some (ReplyError err, m1) | (Inr h, m1) \<Rightarrow> Some (ReplyStore h, m1))"
| "serve conf env (CmdRemoveConn key) m =
     (case removeConnection env key m of (err, m1) \<Rightarrow> Some (reply_err err, m1))"
| "serve conf env (CmdCreateDB key) m =
     map_option (\<lambda>(err, m1). (reply_err err, m1)) (createDatabase conf env key m)"
| "serve conf env (CmdDeleteDB key) m =
     (case deleteDatabase conf env key m of (err, m1) \<Rightarrow> Some (reply_err err, m1))"
| "serve conf env CmdCheckMigrations m =
     map_option (\<lambda>(err, m1). (reply_err err, m1)) (runMigrations conf env m)"
| "serve conf env CmdGetState m = Some (ReplyState (getState conf m), m)"
| "serve conf env CmdRemoveExpired m =
     (case removeExpired env m of (err, m1) \<Rightarrow> Some (reply_err err, m1))"

text \<open>
  \<open>chanutil.SendReceive\<close> and \<open>SendReceiveError\<close>: a send on a closed channel panics, which is
  recovered as \<open>io.EOF\<close>; an error value is the error; a value of another type is dropped.
\<close>

definition SendReceive :: "(reply \<Rightarrow> 'k option) \<Rightarrow> 'k \<Rightarrow> bool \<Rightarrow> reply \<Rightarrow> 'k go_result" where
  "SendReceive sel zero closed rep =
     (if closed then (zero, Some ErrEOF)
      else case rep of
             ReplyError e \<Rightarrow> (zero, Some e)
           | _ \<Rightarrow> (case sel rep of Some v \<Rightarrow> (v, None) | None \<Rightarrow> (zero, None)))"

definition SendReceiveError :: "bool \<Rightarrow> reply \<Rightarrow> go_error option" where
  "SendReceiveError closed rep =
     (if closed then Some ErrEOF else case rep of ReplyError e \<Rightarrow> Some e | _ \<Rightarrow> None)"

definition GetNotesStore :: "bool \<Rightarrow> reply \<Rightarrow> nat go_result" where
  "GetNotesStore closed rep = SendReceive (\<lambda>r. case r of ReplyStore h \<Rightarrow> Some h | _ \<Rightarrow> None) 0 closed rep"

text \<open>\<open>GetState\<close> drops the error.\<close>

definition GetState :: "bool \<Rightarrow> reply \<Rightarrow> cache_state" where
  "GetState closed rep =
     fst (SendReceive (\<lambda>r. case r of ReplyState st \<Rightarrow> Some st | _ \<Rightarrow> None)
            \<lparr>Connections = [], TimeToLive = 0, StateDBDirectory = [], StateIndexDBFileName = []\<rparr> closed rep)"

text \<open>
  A run of the manager: the commands in the order they are served, each with its environment.
  The poller is one more sender, of \<open>CmdRemoveExpired\<close>.
\<close>

inductive serves ::
    "conn_conf \<Rightarrow> 'sch manager \<Rightarrow> ('sch conn_env \<times> conn_cmd \<times> reply) list \<Rightarrow> 'sch manager \<Rightarrow> bool"
  for conf :: conn_conf where
  serves_none: "serves conf m [] m"
| serves_cmd: "serve conf env cmd m = Some (rep, m1) \<Longrightarrow> serves conf m1 rest m2 \<Longrightarrow>
     serves conf m ((env, cmd, rep) # rest) m2"

inductive_simps serves_Cons: "serves conf m ((env, cmd, rep) # rest) m2"
inductive_simps serves_Nil: "serves conf m [] m2"

text \<open>\<open>DeleteDB\<close> sends two commands; \<open>between\<close> is what other goroutines got served meanwhile.\<close>

definition DeleteDB_run ::
    "conn_conf \<Rightarrow> int \<Rightarrow> 'sch conn_env \<Rightarrow> 'sch conn_env \<Rightarrow> ('sch conn_env \<times> conn_cmd \<times> reply) list
       \<Rightarrow> 'sch manager \<Rightarrow> 'sch manager \<Rightarrow> bool" where
  "DeleteDB_run conf key env1 env2 between m m' \<longleftrightarrow>
     serves conf m ((env1, CmdRemoveConn key, ReplyNil) # between @ [(env2, CmdDeleteDB key, ReplyNil)]) m'"

end
