(* ===== verification/Conn_Safety.thy ===== *)
theory Conn_Safety
  imports Conn_Cache
begin

text \<open>
  Safety of the connection manager over every run, whatever fails in it: the cache never mixes
  up users. The ghost \<open>org\<close> of the invariant remembers the path each file was created under,
  also after the path is unlinked.
\<close>

section \<open>The invariant\<close>

definition conn_inv :: "conn_conf \<Rightarrow> bool \<Rightarrow> (nat \<Rightarrow> string) \<Rightarrow> 'sch manager \<Rightarrow> bool" where
  "conn_inv conf calm org m \<longleftrightarrow>
     index_ok (index m)
     \<and> distinct (map fst (connections m))
     \<and> distinct (map (cc_conn \<circ> snd) (connections m))
     \<and> distinct (map fst (open_conns m)) \<and> distinct (map fst (dir_entries m))
     \<and> (\<forall>p \<in> set (open_conns m). fst p < next_number m \<and> snd p < next_number m)
     \<and> (\<forall>p \<in> set (dir_entries m). snd p < next_number m \<and> org (snd p) = fst p)
     \<and> (\<forall>p \<in> set (connections m). cc_conn (snd p) < next_number m
          \<and> (calm \<longrightarrow> cc_conn (snd p) \<in> fst ` set (open_conns m))
          \<and> (\<forall>ino. (cc_conn (snd p), ino) \<in> set (open_conns m) \<longrightarrow> org ino = db_file conf (user_db_path (fst p))))"

lemma conn_inv_index: "conn_inv conf calm org m \<Longrightarrow> index_ok (index m)"
  by (simp add: conn_inv_def)

lemma conn_inv_entry:
  assumes "conn_inv conf calm org m" and "p \<in> set (connections m)"
  shows "cc_conn (snd p) < next_number m \<and> (calm \<longrightarrow> cc_conn (snd p) \<in> fst ` set (open_conns m))
    \<and> (\<forall>ino. (cc_conn (snd p), ino) \<in> set (open_conns m) \<longrightarrow> org ino = db_file conf (user_db_path (fst p)))"
  using assms by (simp add: conn_inv_def)

lemma conn_inv_cached:
  assumes "conn_inv conf calm org m" and "(key, cc) \<in> set (connections m)"
  shows "cc_conn cc < next_number m"
    and "calm \<Longrightarrow> cc_conn cc \<in> fst ` set (open_conns m)"
    and "(cc_conn cc, ino) \<in> set (open_conns m) \<Longrightarrow> org ino = db_file conf (user_db_path key)"
  using conn_inv_entry [OF assms] by simp_all

lemma cached_conn_unique:
  assumes "conn_inv conf calm org m" and "(cc_conn \<circ> snd) x = (cc_conn \<circ> snd) y"
    and "x \<in> set (connections m)" and "y \<in> set (connections m)"
  shows "x = y"
proof -
  have "inj_on (cc_conn \<circ> snd) (set (connections m))" using assms(1) by (simp add: conn_inv_def distinct_map)
  then show ?thesis using assms(2-4) by (rule inj_onD)
qed

lemma alist_delete_filter: "AList.delete k xs = filter (\<lambda>p. fst p \<noteq> k) xs"
  unfolding AList.delete_eq by (rule filter_cong) auto

lemma open_db_okD:
  assumes inv: "conn_inv conf calm org m" and op: "open_db env i path m = (Inr h, m')"
  shows "\<exists>org' ino. conn_inv conf calm org' m' \<and> open_conns m' = (h, ino) # open_conns m \<and> org' ino = path
    \<and> h \<notin> cc_conn ` snd ` set (connections m) \<and> h \<notin> fst ` set (open_conns m) \<and> connections m' = connections m
    \<and> index m' = index m"
proof -
  let ?n = "next_number m"
  have bound: "cc_conn (snd p) < ?n" if "p \<in> set (connections m)" for p
    using inv that by (simp add: conn_inv_def)
  then have new: "?n \<notin> cc_conn ` snd ` set (connections m)" by force
  have below: "fst p < ?n" "snd p < ?n" if "p \<in> set (open_conns m)" for p
    using inv that by (simp_all add: conn_inv_def)
  then have fresh: "?n \<notin> fst ` set (open_conns m)" by force
  show ?thesis
  proof (cases "map_of (dir_entries m) path")
    case (Some ino)
    have ino: "(path, ino) \<in> set (dir_entries m)" using Some by (rule map_of_SomeD)
    then have p: "org ino = path" "ino < ?n" using inv by (auto simp: conn_inv_def)
    have m': "m' = m\<lparr>open_conns := (?n, ino) # open_conns m, next_number := ?n + 1\<rparr>" "h = ?n"
      using op Some by (auto simp: open_db_def Let_def split: option.splits)
    have "conn_inv conf calm org m'"
      using inv fresh new p(2) unfolding conn_inv_def m'(1) by (auto simp: image_iff less_SucI)
    then show ?thesis using new fresh p(1) m' by (intro exI [of _ org] exI [of _ ino]) simp
  next
    case None
    let ?org = "org(?n + 1 := path)"
    have m': "m' = m\<lparr>open_conns := (?n, ?n + 1) # open_conns m, next_number := ?n + 2,
        dir_entries := (path, ?n + 1) # dir_entries m, file_data := (file_data m)(?n + 1 := new_file env)\<rparr>"
      "h = ?n"
      using op None by (auto simp: open_db_def Let_def split: option.splits)
    have unused: "path \<notin> fst ` set (dir_entries m)" using None by (simp add: map_of_eq_None_iff)
    have old: "?org (snd p) = org (snd p)" if "p \<in> set (dir_entries m)" for p
      using that inv by (fastforce simp: conn_inv_def)
    have "(k, Suc ?n) \<notin> set (open_conns m)" for k using below(2) [of "(k, Suc ?n)"] by auto
    then have "conn_inv conf calm ?org m'"
      using inv fresh new unused old below unfolding conn_inv_def m'(1)
      by (auto simp: image_iff less_SucI)
    then show ?thesis using new fresh m' by (intro exI [of _ ?org] exI [of _ "?n + 1"]) simp
  qed
qed

lemma open_db_errD: "open_db env i path m = (Inl e, m') \<Longrightarrow> m' = m"
  by (auto simp: open_db_def Let_def split: option.splits)

lemma GetUserDB_path:
  assumes "index_ok ix" and "GetUserDB c key ix = (udb, None)"
  shows "DatabasePath udb = user_db_path key \<and> key \<in> d_user ` set (user_databases ix)"
proof -
  obtain d where "find (\<lambda>d. d_user d = key) (user_databases ix) = Some d" "udb = read_user_database d"
    using assms(2) by (auto simp: GetUserDB_def split: option.splits)
  then show ?thesis
    using find_map_id [of d_user key "user_databases ix" d] assms(1)
    by (auto simp: index_ok_def read_user_database_def)
qed

lemma createNewConnection_okD:
  assumes inv: "conn_inv conf calm org m" and op: "createNewConnection conf env key m = (Inr h, m')"
  shows "\<exists>org' ino. conn_inv conf calm org' m' \<and> open_conns m' = (h, ino) # open_conns m
    \<and> org' ino = db_file conf (user_db_path key)
    \<and> h \<notin> cc_conn ` snd ` set (connections m) \<and> h \<notin> fst ` set (open_conns m) \<and> connections m' = connections m
    \<and> index m' = index m"
proof -
  obtain udb where g: "GetUserDB (index_call env 0) key (index m) = (udb, None)"
    and o: "open_db env 0 (db_file conf (DatabasePath udb)) m = (Inr h, m')"
    using op by (auto simp: createNewConnection_def split: prod.splits option.splits)
  have "DatabasePath udb = user_db_path key"
    using GetUserDB_path [OF conn_inv_index [OF inv] g] by blast
  with open_db_okD [OF inv o] show ?thesis by metis
qed

lemma createNewConnection_file:
  assumes inv: "conn_inv conf calm org m" and op: "createNewConnection conf env key m = (Inr h, m')"
  shows "h \<notin> fst ` set (open_conns m) \<and> (\<exists>ino. map_of (dir_entries m') (db_file conf (user_db_path key)) = Some ino
    \<and> open_conns m' = (h, ino) # open_conns m)"
proof -
  obtain udb where g: "GetUserDB (index_call env 0) key (index m) = (udb, None)"
    and o: "open_db env 0 (db_file conf (DatabasePath udb)) m = (Inr h, m')"
    using op by (auto simp: createNewConnection_def split: prod.splits option.splits)
  have "DatabasePath udb = user_db_path key"
    using GetUserDB_path [OF conn_inv_index [OF inv] g] by blast
  moreover have "next_number m \<notin> fst ` set (open_conns m)" using inv by (force simp: conn_inv_def)
  ultimately show ?thesis using o
    by (auto simp: open_db_def Let_def simp del: map_of_eq_Some_iff split: option.splits)
qed

lemma createNewConnection_errD: "createNewConnection conf env key m = (Inl e, m') \<Longrightarrow> m' = m"
  by (auto simp: createNewConnection_def dest: open_db_errD split: prod.splits option.splits)

section \<open>Every command keeps the invariant\<close>

lemma update_cache_inv:
  assumes inv: "conn_inv conf calm org m"
    and h: "h < next_number m" "calm \<Longrightarrow> h \<in> fst ` set (open_conns m)"
      "\<And>ino. (h, ino) \<in> set (open_conns m) \<Longrightarrow> org ino = db_file conf (user_db_path key)"
    and new: "\<And>k cc. (k, cc) \<in> set (connections m) \<Longrightarrow> k \<noteq> key \<Longrightarrow> cc_conn cc \<noteq> h"
  shows "conn_inv conf calm org (m\<lparr>connections := AList.update key \<lparr>cc_conn = h, cc_expiry = e\<rparr> (connections m)\<rparr>)"
proof -
  let ?cs = "AList.update key \<lparr>cc_conn = h, cc_expiry = e\<rparr> (connections m)"
  have d: "distinct (map fst ?cs)" using inv by (simp add: conn_inv_def distinct_update)
  have mem: "(k, cc) \<in> set ?cs \<longleftrightarrow> (if k = key then cc = \<lparr>cc_conn = h, cc_expiry = e\<rparr> else (k, cc) \<in> set (connections m))" for k cc
  proof -
    have "(k, cc) \<in> set ?cs \<longleftrightarrow> map_of ?cs k = Some cc" using d by simp
    also have "\<dots> \<longleftrightarrow> (if k = key then cc = \<lparr>cc_conn = h, cc_expiry = e\<rparr> else map_of (connections m) k = Some cc)"
      by (auto simp: update_conv')
    finally show ?thesis using inv by (simp add: conn_inv_def)
  qed
  have "inj_on (cc_conn \<circ> snd) (set ?cs)"
  proof (rule inj_onI)
    fix x y assume xy: "x \<in> set ?cs" "y \<in> set ?cs" "(cc_conn \<circ> snd) x = (cc_conn \<circ> snd) y"
    obtain k cc j dd where p: "x = (k, cc)" "y = (j, dd)" by (cases x; cases y)
    have old: "k = j \<and> cc = dd" if "k \<noteq> key" "j \<noteq> key"
      using cached_conn_unique [OF inv, of x y] xy that unfolding p mem by simp
    have m: "k \<noteq> key \<Longrightarrow> (k, cc) \<in> set (connections m)" "j \<noteq> key \<Longrightarrow> (j, dd) \<in> set (connections m)"
      "k = key \<Longrightarrow> cc_conn cc = h" "j = key \<Longrightarrow> cc_conn dd = h" "k = key \<Longrightarrow> j = key \<Longrightarrow> cc = dd"
      and same: "cc_conn cc = cc_conn dd"
      using xy unfolding p mem by (auto split: if_splits)
    show "x = y"
      using old m(5) new [OF m(1)] new [OF m(2)] m(3,4) same unfolding p by (cases "k = key"; cases "j = key") auto
  qed
  moreover have "distinct ?cs" using d by (simp add: distinct_map)
  ultimately have "distinct (map (cc_conn \<circ> snd) ?cs)" by (simp add: distinct_map)
  then show ?thesis using d h inv unfolding conn_inv_def
    by (auto simp: mem split: if_splits)
qed

lemma getNotesStore_inv:
  assumes inv: "conn_inv conf calm org m" and op: "getNotesStore conf env key m = (Inr h, m')"
  shows "\<exists>org'. conn_inv conf calm org' m'
    \<and> map_of (connections m') = (map_of (connections m))(key \<mapsto> \<lparr>cc_conn = h, cc_expiry = clock env + ttl\<rparr>)"
proof (cases "map_of (connections m) key")
  case None
  then obtain m1 where c: "createNewConnection conf env key m = (Inr h, m1)"
    and m': "m' = m1\<lparr>connections := AList.update key \<lparr>cc_conn = h, cc_expiry = clock env + ttl\<rparr> (connections m1)\<rparr>"
    using op by (auto simp: getNotesStore_def Let_def split: prod.splits sum.splits)
  from createNewConnection_okD [OF inv c] obtain org' ino where
    o: "conn_inv conf calm org' m1" "open_conns m1 = (h, ino) # open_conns m" "org' ino = db_file conf (user_db_path key)"
    "h \<notin> cc_conn ` snd ` set (connections m)" "h \<notin> fst ` set (open_conns m)" "connections m1 = connections m" by blast
  have "h < next_number m1" using o(1,2) by (simp add: conn_inv_def)
  then have "conn_inv conf calm org' m'"
    unfolding m' using o(2-6) by (intro update_cache_inv [OF o(1)]) force+
  then show ?thesis using o(6) by (auto simp: m' update_conv')
next
  case (Some cc)
  then have m': "m' = m\<lparr>connections := AList.update key \<lparr>cc_conn = h, cc_expiry = clock env + ttl\<rparr> (connections m)\<rparr>"
    and h: "h = cc_conn cc"
    using op by (auto simp: getNotesStore_def Let_def)
  have cc: "(key, cc) \<in> set (connections m)" using Some by (rule map_of_SomeD)
  note hh = conn_inv_cached [OF inv cc, folded h]
  have "cc_conn dd \<noteq> h" if "(k, dd) \<in> set (connections m)" "k \<noteq> key" for k dd
  proof
    assume "cc_conn dd = h"
    then have "(cc_conn \<circ> snd) (k, dd) = (cc_conn \<circ> snd) (key, cc)" using h by simp
    from cached_conn_unique [OF inv this that(1) cc] show False using that(2) by simp
  qed
  then have "conn_inv conf calm org m'" unfolding m' using hh by (intro update_cache_inv [OF inv]) auto
  then show ?thesis by (auto simp: m' update_conv')
qed

lemma getNotesStore_errD: "getNotesStore conf env key m = (Inl e, m') \<Longrightarrow> m' = m"
  by (auto simp: getNotesStore_def Let_def dest: createNewConnection_errD split: prod.splits sum.splits option.splits)

lemma map_of_filter_key: "map_of (filter (\<lambda>p. fst p \<noteq> h) xs) k = (if k = h then None else map_of xs k)"
  by (induction xs) auto

lemma close_db_is: "close_db env h m = (if h \<in> fst ` set (open_conns m) then close_fault env h else None,
    m\<lparr>open_conns := filter (\<lambda>p. fst p \<noteq> h) (open_conns m)\<rparr>)"
proof (cases "h \<in> fst ` set (open_conns m)")
  case False
  then have "filter (\<lambda>p. fst p \<noteq> h) (open_conns m) = open_conns m" by (force simp: filter_id_conv)
  then show ?thesis using False by (simp add: close_db_def)
qed (simp add: close_db_def)

lemma fst_minus: "fst ` {p \<in> S. fst p \<noteq> h} = fst ` S - {h}"
  by auto

lemma close_other_inv:
  assumes "conn_inv conf calm org m" and "\<And>p. p \<in> set (connections m) \<Longrightarrow> calm \<Longrightarrow> cc_conn (snd p) \<noteq> h"
  shows "conn_inv conf calm org (m\<lparr>open_conns := filter (\<lambda>p. fst p \<noteq> h) (open_conns m)\<rparr>)"
  using assms unfolding conn_inv_def by (auto simp: distinct_map_filter_key fst_minus)

lemma drop_entry_inv:
  assumes "conn_inv conf calm org m"
  shows "conn_inv conf calm org (m\<lparr>connections := filter P (connections m)\<rparr>)"
  using assms unfolding conn_inv_def by (simp add: distinct_map_filter_key)

lemma removeConnection_inv:
  assumes inv: "conn_inv conf calm org m" and faults: "calm \<Longrightarrow> \<forall>h. close_fault env h = None"
  shows "conn_inv conf calm org (snd (removeConnection env key m))"
proof (cases "map_of (connections m) key")
  case None
  then show ?thesis using inv by (simp add: removeConnection_def)
next
  case (Some cc)
  have cc: "(key, cc) \<in> set (connections m)" using Some by (rule map_of_SomeD)
  let ?close = "\<lambda>m. m\<lparr>open_conns := filter (\<lambda>p. fst p \<noteq> cc_conn cc) (open_conns m)\<rparr>"
  let ?drop = "m\<lparr>connections := filter (\<lambda>p. fst p \<noteq> key) (connections m)\<rparr>"
  have other: "cc_conn (snd p) \<noteq> cc_conn cc" if "p \<in> set (connections m)" "fst p \<noteq> key" for p
    using cached_conn_unique [OF inv _ that(1) cc] that(2) by auto
  have dropped: "conn_inv conf calm org (?close ?drop)"
    using other by (intro close_other_inv drop_entry_inv [OF inv]) auto
  show ?thesis
  proof (cases calm)
    case True
    then have "snd (removeConnection env key m) = ?close ?drop"
      using Some faults by (simp add: removeConnection_def close_db_is alist_delete_filter)
    then show ?thesis using dropped by simp
  next
    case False
    then have "conn_inv conf calm org (?close m)" by (intro close_other_inv [OF inv]) simp
    moreover have "snd (removeConnection env key m) \<in> {?close m, ?close ?drop}"
      using Some by (simp add: removeConnection_def close_db_is alist_delete_filter split: option.split)
    ultimately show ?thesis using dropped by auto
  qed
qed

lemma remove_expired_inv:
  "conn_inv conf calm org m \<Longrightarrow> (calm \<Longrightarrow> \<forall>h. close_fault env h = None) \<Longrightarrow>
     conn_inv conf calm org (snd (remove_expired_loop env ks m))"
proof (induction env ks m rule: remove_expired_loop.induct)
  case (2 env key ks m)
  then show ?case
    using removeConnection_inv [OF "2.prems", of key]
    by (auto split: option.split prod.split)
qed simp

lemma conn_inv_frame:
  assumes "conn_inv conf calm org m" and "index_ok ix"
  shows "conn_inv conf calm org (m\<lparr>index := ix\<rparr>)" and "conn_inv conf calm org (m\<lparr>file_data := fd\<rparr>)"
    and "conn_inv conf calm org (m\<lparr>index_file := f\<rparr>)"
  using assms unfolding conn_inv_def by simp_all

lemma UpdateDBVersion_index_ok: "index_ok ix \<Longrightarrow> index_ok (snd (UpdateDBVersion c uid ver ix))"
  using UpdateDBVersion_cases [of c uid ver ix] set_db_version_ok by auto

lemma migrate_conn_is:
  "migrate_conn walk env k migs h m = Some (r, m') \<Longrightarrow> \<exists>fd. m' = m\<lparr>file_data := fd\<rparr>"
  by (auto simp: migrate_conn_def Let_def split: option.splits prod.splits)

lemma createDatabase_inv:
  assumes inv: "conn_inv conf calm org m" and op: "createDatabase conf env key m = Some (err, m')"
  shows "\<exists>org'. conn_inv conf calm org' m' \<and> connections m' = connections m"
proof (cases "createNewConnection conf env key m")
  case (Pair r m1)
  show ?thesis
  proof (cases r)
    case (Inl e)
    then show ?thesis using op Pair inv createNewConnection_errD by (fastforce simp: createDatabase_def)
  next
    case (Inr h)
    from createNewConnection_okD [OF inv Pair [unfolded Inr]] obtain org' where
      i1: "conn_inv conf calm org' m1" "connections m1 = connections m" by blast
    obtain r2 m2 where mg: "migrate_conn (Bootstrap (rounds env) (read_script env)) env 0 (NotesDBMigrations conf) h m1 = Some (r2, m2)"
      using op Pair Inr by (auto simp: createDatabase_def split: option.splits)
    obtain fd where m2: "m2 = m1\<lparr>file_data := fd\<rparr>" using migrate_conn_is [OF mg] by blast
    have i2: "conn_inv conf calm org' m2" "connections m2 = connections m"
      unfolding m2 using i1 conn_inv_frame(2) [OF i1(1) conn_inv_index [OF i1(1)]] by simp_all
    have "m' = m2 \<or> (\<exists>ver. m' = m2\<lparr>index := snd (UpdateDBVersion (index_call env 1) key ver (index m2))\<rparr>)"
      using op Pair Inr mg by (auto simp: createDatabase_def simp del: One_nat_def split: sum.splits prod.splits) (metis snd_conv)
    moreover have "conn_inv conf calm org' (m2\<lparr>index := snd (UpdateDBVersion (index_call env 1) key ver (index m2))\<rparr>)" for ver
      by (rule conn_inv_frame(1) [OF i2(1) UpdateDBVersion_index_ok [OF conn_inv_index [OF i2(1)]]])
    ultimately show ?thesis using i2 by auto
  qed
qed

lemma deleteDatabase_inv:
  assumes inv: "conn_inv conf calm org m"
  shows "conn_inv conf calm org (snd (deleteDatabase conf env key m))"
proof -
  have del: "AList.delete p (dir_entries m) = filter (\<lambda>q. fst q \<noteq> p) (dir_entries m)" for p
    by (rule alist_delete_filter)
  have "conn_inv conf calm org (m\<lparr>dir_entries := filter (\<lambda>q. fst q \<noteq> p) (dir_entries m)\<rparr>)" for p
    using inv by (auto simp: conn_inv_def distinct_map_filter_key)
  then show ?thesis using inv
    by (auto simp: deleteDatabase_def del split: prod.split option.split)
qed

lemma upgrade_loop_inv:
  "conn_inv conf calm org m \<Longrightarrow> upgrade_loop conf env k ds m = Some (err, m') \<Longrightarrow>
     \<exists>org'. conn_inv conf calm org' m' \<and> connections m' = connections m"
proof (induction ds arbitrary: k m org)
  case (Cons udb ds)
  show ?case
  proof (cases "open_db env k (db_file conf (DatabasePath udb)) m")
    case (Pair r m1)
    show ?thesis
    proof (cases r)
      case (Inl e)
      then show ?thesis using Cons.prems Pair open_db_errD by fastforce
    next
      case (Inr h)
      from open_db_okD [OF Cons.prems(1) Pair [unfolded Inr]] obtain org' where
        i1: "conn_inv conf calm org' m1" "connections m1 = connections m" by blast
      obtain r2 m2 where mg: "migrate_conn (Up (rounds env) (read_script env)) env (Suc k) (NotesDBMigrations conf) h m1 = Some (r2, m2)"
        using Cons.prems Pair Inr by (auto split: option.splits)
      obtain fd where m2: "m2 = m1\<lparr>file_data := fd\<rparr>" using migrate_conn_is [OF mg] by blast
      have i2: "conn_inv conf calm org' m2" "connections m2 = connections m"
        unfolding m2 using i1 conn_inv_frame(2) [OF i1(1) conn_inv_index [OF i1(1)]] by simp_all
      let ?ix = "\<lambda>ver. snd (UpdateDBVersion (index_call env (k + 2)) (DatabaseUserID udb) ver (index m2))"
      have i3: "conn_inv conf calm org' (m2\<lparr>index := ?ix ver\<rparr>)" for ver
        by (rule conn_inv_frame(1) [OF i2(1) UpdateDBVersion_index_ok [OF conn_inv_index [OF i2(1)]]])
      have "m' = m2 \<or> (\<exists>ver. m' = m2\<lparr>index := ?ix ver\<rparr>)
          \<or> (\<exists>ver. upgrade_loop conf env (Suc k) ds (m2\<lparr>index := ?ix ver\<rparr>) = Some (err, m'))"
        using Cons.prems(2) Pair Inr mg by (auto split: sum.splits prod.splits option.splits) (metis snd_conv)+
      then show ?thesis
      proof (elim disjE exE)
        fix ver assume u: "upgrade_loop conf env (Suc k) ds (m2\<lparr>index := ?ix ver\<rparr>) = Some (err, m')"
        from Cons.IH [OF i3 u] show ?thesis using i2(2) by simp
      qed (use i2 i3 in auto)
    qed
  qed
qed auto

lemma migrate_index_is: "migrate_index conf env m = Some (err, m') \<Longrightarrow> \<exists>f. m' = m\<lparr>index_file := f\<rparr>"
  by (auto simp: migrate_index_def Let_def split: prod.splits sum.splits option.splits if_splits)

lemma runMigrations_inv:
  assumes inv: "conn_inv conf calm org m" and op: "runMigrations conf env m = Some (err, m')"
  shows "\<exists>org'. conn_inv conf calm org' m'"
proof -
  obtain e1 m1 where mi: "migrate_index conf env m = Some (e1, m1)"
    using op by (auto simp: runMigrations_def split: option.splits)
  obtain f where m1: "m1 = m\<lparr>index_file := f\<rparr>" using migrate_index_is [OF mi] by blast
  have i1: "conn_inv conf calm org m1" unfolding m1 by (rule conn_inv_frame(3) [OF inv conn_inv_index [OF inv]])
  have "m' = m1 \<or> (\<exists>ds. upgrade_loop conf env 0 ds m1 = Some (err, m'))"
    using op mi by (auto simp: runMigrations_def split: option.splits sum.splits prod.splits)
  then show ?thesis using i1 upgrade_loop_inv by blast
qed

lemma serve_inv:
  assumes inv: "conn_inv conf calm org m" and faults: "calm \<Longrightarrow> \<forall>h. close_fault env h = None" and op: "serve conf env cmd m = Some (rep, m')"
  shows "\<exists>org'. conn_inv conf calm org' m'"
proof (cases cmd)
  case (CmdGetConn key)
  then show ?thesis
    using op getNotesStore_inv [OF inv] getNotesStore_errD inv by (auto split: prod.splits sum.splits) blast+
next
  case (CmdRemoveConn key)
  then show ?thesis using op removeConnection_inv [OF inv faults, of key] by (auto split: prod.splits)
next
  case (CmdCreateDB key)
  then show ?thesis using op createDatabase_inv [OF inv] by fastforce
next
  case (CmdDeleteDB key)
  then show ?thesis using op deleteDatabase_inv [OF inv, of env key] by (auto split: prod.splits)
next
  case CmdCheckMigrations
  then show ?thesis using op runMigrations_inv [OF inv] by fastforce
next
  case CmdRemoveExpired
  then show ?thesis
    using op remove_expired_inv [OF inv faults, of "key_order env (map fst (connections m))"]
    by (auto simp: removeExpired_def split: prod.splits)
qed (use op inv in auto)

section \<open>Runs from the start\<close>

text \<open>
  The manager after \<open>NewSQLiteConnManager\<close>: an empty cache over an index and a directory whose
  files are numbered below the counter; the index database itself is connection 0.
\<close>

definition start_manager :: "index_db \<Rightarrow> 'sch sqlite_file \<Rightarrow> (string \<times> 'sch sqlite_file) list \<Rightarrow> 'sch manager" where
  "start_manager ix ixf files =
     \<lparr>connections = [], index = ix, index_file = ixf,
      dir_entries = zip (map fst files) [0..<length files],
      file_data = (\<lambda>i. if i < length files then snd (files ! i) else ixf),
      open_conns = [(0, length files)], next_number = Suc (length files)\<rparr>"

lemma start_inv:
  assumes "index_ok ix" and "distinct (map fst files)"
  shows "\<exists>org. conn_inv conf calm org (start_manager ix ixf files :: 'sch manager)"
proof -
  let ?org = "\<lambda>i. map fst files ! i"
  have "?org i = p" "i < length files" if "(p, i) \<in> set (zip (map fst files) [0..<length files])" for p i
    using that by (auto simp: set_zip)
  then have "conn_inv conf calm ?org (start_manager ix ixf files)"
    using assms by (auto simp: conn_inv_def start_manager_def less_Suc_eq)
  then show ?thesis by blast
qed

text \<open>
  The states of the manager, \<open>calm\<close> when no connection failed to close: commands are served one
  by one, and between two of them other goroutines change the index through the same
  \<open>UserStore\<close>, the session store changes its table, and the content of the files changes.
\<close>

inductive conn_reach :: "engine \<Rightarrow> conn_conf \<Rightarrow> bool \<Rightarrow> 'sch manager \<Rightarrow> bool" for en conf calm where
  conn_start: "index_ok ix \<Longrightarrow> distinct (map fst files) \<Longrightarrow> conn_reach en conf calm (start_manager ix ixf files)"
| conn_served: "conn_reach en conf calm m \<Longrightarrow> (calm \<Longrightarrow> \<forall>h. close_fault env h = None) \<Longrightarrow>
     serve conf env cmd m = Some (rep, m') \<Longrightarrow> conn_reach en conf calm m'"
| conn_user: "conn_reach en conf calm m \<Longrightarrow> conn_reach en conf calm (m\<lparr>index := run_user_cmd en bc c ucmd (index m)\<rparr>)"
| conn_sessions: "conn_reach en conf calm m \<Longrightarrow> conn_reach en conf calm (m\<lparr>index := (index m)\<lparr>sessions := ss\<rparr>\<rparr>)"
| conn_content: "conn_reach en conf calm m \<Longrightarrow> conn_reach en conf calm (m\<lparr>file_data := fd\<rparr>)"

lemma index_ok_sessions: "index_ok ix \<Longrightarrow> index_ok (ix\<lparr>sessions := ss\<rparr>)"
  by (simp add: index_ok_def)

lemma conn_inv_calm: "conn_inv conf calm org m \<Longrightarrow> conn_inv conf False org m"
  by (simp add: conn_inv_def)

lemma conn_reach_inv: "conn_reach en conf calm m \<Longrightarrow> engine_ok en \<Longrightarrow> \<exists>org. conn_inv conf calm org m"
proof (induction rule: conn_reach.induct)
  case (conn_served m env cmd rep m')
  then obtain org where "conn_inv conf calm org m" by blast
  from serve_inv [OF this conn_served.hyps(2,3)] show ?case .
next
  case (conn_user m bc c ucmd)
  then obtain org where inv: "conn_inv conf calm org m" by blast
  from conn_inv_frame(1) [OF inv run_user_cmd_ok [OF conn_user.prems conn_inv_index [OF inv]]]
  show ?case by blast
next
  case (conn_sessions m ss)
  then obtain org where inv: "conn_inv conf calm org m" by blast
  from conn_inv_frame(1) [OF inv index_ok_sessions [OF conn_inv_index [OF inv]]]
  show ?case by blast
next
  case (conn_content m fd)
  then obtain org where inv: "conn_inv conf calm org m" by blast
  from conn_inv_frame(2) [OF inv conn_inv_index [OF inv]] show ?case by blast
qed (auto dest: start_inv)

text \<open>
  The connection cache never mixes up users. In every state, whatever
  commands were served, user accounts changed and operations failed before, each user has at
  most one cached connection; if it is open and its file is still in the directory, it is the
  file of that very user; and the connections of two users are never on the same file. Unless a
  connection failed to close before, every cached connection is open.
\<close>

theorem cached_connections_are_separate:
  assumes "engine_ok en" and "conn_reach en conf calm m"
  shows "distinct (map fst (connections m))
    \<and> (calm \<longrightarrow> (\<forall>(key, cc) \<in> set (connections m). map_of (open_conns m) (cc_conn cc) \<noteq> None))
    \<and> (\<forall>(key, cc) \<in> set (connections m). \<forall>ino path. map_of (open_conns m) (cc_conn cc) = Some ino
         \<and> (path, ino) \<in> set (dir_entries m) \<longrightarrow> path = db_file conf (user_db_path key))
    \<and> (\<forall>(k1, c1) \<in> set (connections m). \<forall>(k2, c2) \<in> set (connections m). \<forall>i1 i2. k1 \<noteq> k2 \<longrightarrow>
         map_of (open_conns m) (cc_conn c1) = Some i1 \<and> map_of (open_conns m) (cc_conn c2) = Some i2 \<longrightarrow> i1 \<noteq> i2)"
proof -
  obtain org where inv: "conn_inv conf calm org m"
    using conn_reach_inv [OF assms(2,1)] by blast
  have org: "org ino = path" if "(path, ino) \<in> set (dir_entries m)" for path ino
    using inv that by (auto simp: conn_inv_def)
  have on_file: "org ino = db_file conf (user_db_path key)"
    if "(key, cc) \<in> set (connections m)" "map_of (open_conns m) (cc_conn cc) = Some ino" for key cc ino
    using conn_inv_cached(3) [OF inv that(1) map_of_SomeD [OF that(2)]] .
  have 1: "map_of (open_conns m) (cc_conn cc) \<noteq> None" if "(key, cc) \<in> set (connections m)" calm for key cc
    using conn_inv_cached(2) [OF inv that] by (simp add: map_of_eq_None_iff)
  have 2: "i1 \<noteq> i2"
    if "(k1, c1) \<in> set (connections m)" "(k2, c2) \<in> set (connections m)" "k1 \<noteq> k2"
      "map_of (open_conns m) (cc_conn c1) = Some i1" "map_of (open_conns m) (cc_conn c2) = Some i2" for k1 c1 k2 c2 i1 i2
    using on_file [OF that(1,4)] on_file [OF that(2,5)] that(3) by (auto simp: db_file_def user_db_path_inj)
  have "distinct (map fst (connections m))" using inv by (simp add: conn_inv_def)
  moreover have "\<forall>(key, cc) \<in> set (connections m). \<forall>ino path. map_of (open_conns m) (cc_conn cc) = Some ino
         \<and> (path, ino) \<in> set (dir_entries m) \<longrightarrow> path = db_file conf (user_db_path key)"
    using on_file org by blast
  moreover have "\<forall>(k1, c1) \<in> set (connections m). \<forall>(k2, c2) \<in> set (connections m). \<forall>i1 i2. k1 \<noteq> k2 \<longrightarrow>
         map_of (open_conns m) (cc_conn c1) = Some i1 \<and> map_of (open_conns m) (cc_conn c2) = Some i2 \<longrightarrow> i1 \<noteq> i2"
    using 2 by blast
  ultimately show ?thesis using 1 by blast
qed

end
