(* ===== verification/Conn_Props.thy ===== *)
theory Conn_Props
  imports Conn_Safety
begin

text \<open>
  What each command of the connection manager does, command by command, and the sequences of
  commands that go wrong: a connection that is never closed, and a deleted database that a
  cached connection still writes to.
\<close>

section \<open>An environment for the witnesses\<close>

definition calm_env :: "int \<Rightarrow> unit conn_env" where
  "calm_env t = \<lparr>row_engine = std_engine, index_call = (\<lambda>_. user_call), open_fault = (\<lambda>_. None),
     close_fault = (\<lambda>_. None), unlink_fault = None, clock = t, mig_call = (\<lambda>_ _. user_call),
     script_engine = \<lparr>run_script = (\<lambda>_ _. Inr ()), table_count = (\<lambda>_. Inr 0), stored_version = (\<lambda>v. v)\<rparr>,
     read_script = Inr, new_file = \<lparr>user_version = 0, schema = (), committed = []\<rparr>, rounds = 10,
     key_order = (\<lambda>ks. ks)\<rparr>"

definition demo_conf :: conn_conf where
  "demo_conf = \<lparr>DBDirectory = ''data'', IndexDBFileName = ''index.db'',
     NotesDBMigrations = [\<lparr>Version = 1, upFile = ''1.up'', downFile = ''1.down'', Name = ''bootstrap''\<rparr>],
     IndexDBMigrations = []\<rparr>"

definition demo_index :: index_db where
  "demo_index = \<lparr>users = [new_user ''t'' ''ann'' ''h'' False 1],
     user_databases = [\<lparr>d_id = 1, d_user = 1, d_path = user_db_path 1, d_version = 0\<rparr>], sessions = []\<rparr>"

definition demo_manager :: "unit manager" where
  "demo_manager = start_manager demo_index \<lparr>user_version = 0, schema = (), committed = []\<rparr> []"

lemma demo_index_ok: "index_ok demo_index"
  by (simp add: index_ok_def demo_index_def new_user_def table_ok_def Collect_conv_if)

lemma demo_reach: "conn_reach std_engine demo_conf True demo_manager"
  unfolding demo_manager_def by (rule conn_start) (simp_all add: demo_index_ok)

section \<open>Looking up a connection\<close>

text \<open>
  A user's request gets the cached connection of that user, or else a new one on the user's
  own database file, which is created when it is missing; the entry then lives for eight more
  hours. No other entry changes, and a request that fails changes nothing at all.
\<close>

theorem GetConn_exact:
  assumes "engine_ok en" and "conn_reach en conf calm m" and "serve conf env (CmdGetConn key) m = Some (rep, m')"
  shows "case rep of
      ReplyStore h \<Rightarrow>
        map_of (connections m') = (map_of (connections m))(key \<mapsto> \<lparr>cc_conn = h, cc_expiry = clock env + ttl\<rparr>)
        \<and> (case map_of (connections m) key of
             Some cc \<Rightarrow> h = cc_conn cc \<and> open_conns m' = open_conns m \<and> dir_entries m' = dir_entries m
           | None \<Rightarrow> h \<notin> fst ` set (open_conns m) \<and>
               (\<exists>ino. map_of (dir_entries m') (db_file conf (user_db_path key)) = Some ino
                  \<and> open_conns m' = (h, ino) # open_conns m))
    | ReplyError e \<Rightarrow> m' = m \<and> map_of (connections m) key = None
    | _ \<Rightarrow> False"
proof -
  obtain org where inv: "conn_inv conf calm org m" using conn_reach_inv [OF assms(2,1)] by blast
  show ?thesis
  proof (cases "getNotesStore conf env key m")
    case (Pair r m1)
    show ?thesis
    proof (cases r)
      case (Inl e)
      then have "m1 = m" using Pair getNotesStore_errD by fast
      moreover have "map_of (connections m) key = None"
        using Pair Inl by (cases "map_of (connections m) key") (auto simp: getNotesStore_def Let_def)
      ultimately show ?thesis using assms(3) Pair Inl by auto
    next
      case (Inr h)
      have rep: "rep = ReplyStore h" "m' = m1" using assms(3) Pair Inr by auto
      have upd: "map_of (connections m1) = (map_of (connections m))(key \<mapsto> \<lparr>cc_conn = h, cc_expiry = clock env + ttl\<rparr>)"
        using getNotesStore_inv [OF inv Pair [unfolded Inr]] by blast
      show ?thesis
      proof (cases "map_of (connections m) key")
        case None
        obtain m2 where c: "createNewConnection conf env key m = (Inr h, m2)"
          and same: "open_conns m1 = open_conns m2" "dir_entries m1 = dir_entries m2"
          using Pair Inr None by (auto simp: getNotesStore_def Let_def split: prod.splits sum.splits)
        have "h \<notin> fst ` set (open_conns m) \<and> (\<exists>ino. map_of (dir_entries m2) (db_file conf (user_db_path key)) = Some ino
                  \<and> open_conns m2 = (h, ino) # open_conns m)"
          by (rule createNewConnection_file [OF inv c])
        then show ?thesis using None upd same by (simp add: rep)
      next
        case (Some cc)
        then have "h = cc_conn cc \<and> open_conns m1 = open_conns m \<and> dir_entries m1 = dir_entries m"
          using Pair Inr by (auto simp: getNotesStore_def Let_def)
        then show ?thesis using Some upd by (simp add: rep)
      qed
    qed
  qed
qed

section \<open>Expiry\<close>

definition expired :: "'sch conn_env \<Rightarrow> int \<times> cached_conn \<Rightarrow> bool" where
  "expired env p \<longleftrightarrow> clock env > cc_expiry (snd p)"

text \<open>What is left of the cache and of the open connections once the keys \<open>ks\<close> were looked at.\<close>

definition swept :: "'sch conn_env \<Rightarrow> int set \<Rightarrow> 'sch manager \<Rightarrow> 'sch manager" where
  "swept env ks m = m\<lparr>
     connections := filter (\<lambda>p. \<not> (fst p \<in> ks \<and> expired env p)) (connections m),
     open_conns := filter (\<lambda>x. \<forall>p \<in> set (connections m). fst p \<in> ks \<and> expired env p \<longrightarrow> fst x \<noteq> cc_conn (snd p))
       (open_conns m)\<rparr>"

lemma swept_skip:
  assumes "\<And>cc. (key, cc) \<in> set (connections m) \<Longrightarrow> \<not> expired env (key, cc)"
  shows "swept env (insert key ks) m = swept env ks m"
proof -
  have same: "(fst p \<in> insert key ks \<and> expired env p) = (fst p \<in> ks \<and> expired env p)" if "p \<in> set (connections m)" for p
    using assms that by (cases p) auto
  show ?thesis
    unfolding swept_def using same by (simp cong: filter_cong ball_cong)
qed

lemma removeConnection_closes:
  assumes "\<forall>h. close_fault env h = None" and "map_of (connections m) key = Some cc"
  shows "removeConnection env key m = (None, m\<lparr>connections := filter (\<lambda>p. fst p \<noteq> key) (connections m),
    open_conns := filter (\<lambda>x. fst x \<noteq> cc_conn cc) (open_conns m)\<rparr>)"
  using assms by (simp add: removeConnection_def close_db_is alist_delete_filter)

lemma swept_remove:
  assumes "distinct (map fst (connections m))" and "(key, cc) \<in> set (connections m)" and "expired env (key, cc)"
  shows "swept env (insert key ks) m = swept env ks (m\<lparr>connections := filter (\<lambda>p. fst p \<noteq> key) (connections m),
    open_conns := filter (\<lambda>x. fst x \<noteq> cc_conn cc) (open_conns m)\<rparr>)"
proof -
  have key: "p = (key, cc)" if "p \<in> set (connections m)" "fst p = key" for p
    using assms(1,2) that by (metis eq_key_imp_eq_value prod.collapse)
  have "(\<not> (fst p \<in> insert key ks \<and> expired env p)) = (fst p \<noteq> key \<and> \<not> (fst p \<in> ks \<and> expired env p))"
    if "p \<in> set (connections m)" for p
    using key [OF that] assms(3) by auto
  then have c: "filter (\<lambda>p. \<not> (fst p \<in> insert key ks \<and> expired env p)) (connections m)
      = filter (\<lambda>p. \<not> (fst p \<in> ks \<and> expired env p)) (filter (\<lambda>p. fst p \<noteq> key) (connections m))"
    unfolding filter_filter by (intro filter_cong) auto
  have q: "(\<forall>p \<in> set (connections m). fst p \<in> insert key ks \<and> expired env p \<longrightarrow> h \<noteq> cc_conn (snd p))
      = (h \<noteq> cc_conn cc \<and> (\<forall>p \<in> set (filter (\<lambda>p. fst p \<noteq> key) (connections m)).
           fst p \<in> ks \<and> expired env p \<longrightarrow> h \<noteq> cc_conn (snd p)))" for h
  proof
    assume l: "\<forall>p \<in> set (connections m). fst p \<in> insert key ks \<and> expired env p \<longrightarrow> h \<noteq> cc_conn (snd p)"
    then have "h \<noteq> cc_conn cc" using bspec [OF l assms(2)] assms(3) by simp
    then show "h \<noteq> cc_conn cc \<and> (\<forall>p \<in> set (filter (\<lambda>p. fst p \<noteq> key) (connections m)).
           fst p \<in> ks \<and> expired env p \<longrightarrow> h \<noteq> cc_conn (snd p))" using l by simp
  next
    assume r: "h \<noteq> cc_conn cc \<and> (\<forall>p \<in> set (filter (\<lambda>p. fst p \<noteq> key) (connections m)).
           fst p \<in> ks \<and> expired env p \<longrightarrow> h \<noteq> cc_conn (snd p))"
    show "\<forall>p \<in> set (connections m). fst p \<in> insert key ks \<and> expired env p \<longrightarrow> h \<noteq> cc_conn (snd p)"
    proof
      fix p assume p: "p \<in> set (connections m)"
      show "fst p \<in> insert key ks \<and> expired env p \<longrightarrow> h \<noteq> cc_conn (snd p)"
      proof (cases "fst p = key")
        case True
        then show ?thesis using r key [OF p] by simp
      next
        case False
        then have "p \<in> set (filter (\<lambda>p. fst p \<noteq> key) (connections m))" using p by simp
        with r have "fst p \<in> ks \<and> expired env p \<longrightarrow> h \<noteq> cc_conn (snd p)" by blast
        then show ?thesis using False by blast
      qed
    qed
  qed
  show ?thesis unfolding swept_def c q by (simp del: filter_filter) (simp add: conj_commute)
qed

lemma remove_expired_loop_is:
  "\<forall>h. close_fault env h = None \<Longrightarrow> distinct (map fst (connections m)) \<Longrightarrow>
     remove_expired_loop env ks m = (None, swept env (set ks) m)"
proof (induction env ks m rule: remove_expired_loop.induct)
  case (1 env m)
  show ?case by (simp add: swept_def)
next
  case (2 env key ks m)
  show ?case
  proof (cases "map_of (connections m) key")
    case None
    then have "swept env (insert key (set ks)) m = swept env (set ks) m"
      by (intro swept_skip) (force simp: map_of_eq_None_iff)
    then show ?thesis using "2.IH"(1) [OF None "2.prems"] None by simp
  next
    case (Some cc)
    then have mem: "(key, cc) \<in> set (connections m)" by (rule map_of_SomeD)
    show ?thesis
    proof (cases "clock env > cc_expiry cc")
      case False
      have "swept env (insert key (set ks)) m = swept env (set ks) m"
        using "2.prems"(2) mem False by (intro swept_skip) (auto simp: expired_def dest: eq_key_imp_eq_value)
      then show ?thesis using "2.IH"(2) [OF Some False "2.prems"] Some False by simp
    next
      case True
      let ?m = "m\<lparr>connections := filter (\<lambda>p. fst p \<noteq> key) (connections m),
        open_conns := filter (\<lambda>x. fst x \<noteq> cc_conn cc) (open_conns m)\<rparr>"
      note rc = removeConnection_closes [OF "2.prems"(1) Some]
      have "distinct (map fst (connections ?m))" using "2.prems"(2) by (simp add: distinct_map_filter_key)
      moreover have "\<not> \<not> clock env > cc_expiry cc" using True by simp
      ultimately have "remove_expired_loop env ks ?m = (None, swept env (set ks) ?m)"
        using "2.IH"(3) [OF Some _ rc [symmetric] refl "2.prems"(1)] by blast
      moreover have "swept env (insert key (set ks)) m = swept env (set ks) ?m"
        using swept_remove [OF "2.prems"(2) mem] True by (simp add: expired_def)
      ultimately show ?thesis using Some True rc by simp
    qed
  qed
qed

text \<open>
  A sweep closes and forgets exactly the expired connections, in whatever order Go visits the
  map while entries are deleted from it; a connection that is used within eight hours stays.
\<close>

theorem removeExpired_exact:
  assumes "engine_ok en" and "conn_reach en conf calm m" and "\<forall>h. close_fault env h = None"
    and "set (key_order env (map fst (connections m))) = fst ` set (connections m)"
  shows "removeExpired env m = (None, m\<lparr>
     connections := filter (\<lambda>p. \<not> clock env > cc_expiry (snd p)) (connections m),
     open_conns := filter (\<lambda>x. \<forall>p \<in> set (connections m). clock env > cc_expiry (snd p) \<longrightarrow> fst x \<noteq> cc_conn (snd p))
       (open_conns m)\<rparr>)"
proof -
  obtain org where "conn_inv conf calm org m" using conn_reach_inv [OF assms(2,1)] by blast
  then have "distinct (map fst (connections m))" by (simp add: conn_inv_def)
  from remove_expired_loop_is [OF assms(3) this] have
    "removeExpired env m = (None, swept env (fst ` set (connections m)) m)"
    by (simp add: removeExpired_def assms(4))
  also have "swept env (fst ` set (connections m)) m = m\<lparr>
     connections := filter (\<lambda>p. \<not> clock env > cc_expiry (snd p)) (connections m),
     open_conns := filter (\<lambda>x. \<forall>p \<in> set (connections m). clock env > cc_expiry (snd p) \<longrightarrow> fst x \<noteq> cc_conn (snd p))
       (open_conns m)\<rparr>"
    unfolding swept_def expired_def by (simp cong: filter_cong ball_cong)
  finally show ?thesis .
qed

section \<open>Deleting a database\<close>

lemma reply_nil: "reply_err err = ReplyNil \<longleftrightarrow> err = None"
  by (simp add: reply_err_def split: option.split)

lemma serve_nil:
  "serve conf env (CmdRemoveConn key) m = Some (ReplyNil, m1) \<longleftrightarrow> removeConnection env key m = (None, m1)"
  "serve conf env (CmdDeleteDB key) m = Some (ReplyNil, m1) \<longleftrightarrow> deleteDatabase conf env key m = (None, m1)"
  "serve conf env (CmdGetConn key) m = Some (ReplyStore h, m1) \<longleftrightarrow> getNotesStore conf env key m = (Inr h, m1)"
  by (auto simp: reply_nil split: prod.splits sum.splits)

lemmas DeleteDB_steps = DeleteDB_run_def serves_Cons serves_Nil serve_nil

lemma removeConnection_nilD:
  assumes "removeConnection env key m = (None, m1)"
  shows "connections m1 = filter (\<lambda>p. fst p \<noteq> key) (connections m) \<and> index m1 = index m \<and> dir_entries m1 = dir_entries m
    \<and> open_conns m1 = (case map_of (connections m) key of None \<Rightarrow> open_conns m
         | Some cc \<Rightarrow> filter (\<lambda>x. fst x \<noteq> cc_conn cc) (open_conns m))"
proof (cases "map_of (connections m) key")
  case None
  then have "filter (\<lambda>p. fst p \<noteq> key) (connections m) = connections m"
    by (force simp: map_of_eq_None_iff filter_id_conv)
  then show ?thesis using assms None by (simp add: removeConnection_def)
next
  case (Some cc)
  then show ?thesis using assms
    by (auto simp: removeConnection_def close_db_is alist_delete_filter split: option.splits)
qed

lemma deleteDatabase_nilD:
  assumes "index_ok (index m)" and "deleteDatabase conf env key m = (None, m')"
  shows "m' = m\<lparr>dir_entries := filter (\<lambda>p. fst p \<noteq> db_file conf (user_db_path key)) (dir_entries m)\<rparr>
    \<and> db_file conf (user_db_path key) \<in> fst ` set (dir_entries m)"
proof -
  obtain udb where g: "GetUserDB (index_call env 0) key (index m) = (udb, None)"
    using assms(2) by (auto simp: deleteDatabase_def split: prod.splits option.splits)
  have "DatabasePath udb = user_db_path key" using GetUserDB_path [OF assms(1) g] by blast
  then show ?thesis using assms(2) g
    by (auto simp: deleteDatabase_def alist_delete_filter map_of_eq_None_iff split: option.splits if_splits)
qed

text \<open>
  \<open>DeleteDB\<close>, when nothing is served between its two commands, takes exactly the user's
  connection out of the cache, closes it, and unlinks exactly the user's file.
\<close>

theorem DeleteDB_exact:
  assumes "engine_ok en" and "conn_reach en conf calm m" and "DeleteDB_run conf key env1 env2 [] m m'"
  shows "connections m' = filter (\<lambda>p. fst p \<noteq> key) (connections m)
    \<and> dir_entries m' = filter (\<lambda>p. fst p \<noteq> db_file conf (user_db_path key)) (dir_entries m)
    \<and> db_file conf (user_db_path key) \<in> fst ` set (dir_entries m)
    \<and> open_conns m' = (case map_of (connections m) key of None \<Rightarrow> open_conns m
         | Some cc \<Rightarrow> filter (\<lambda>x. fst x \<noteq> cc_conn cc) (open_conns m))
    \<and> index m' = index m"
proof -
  obtain org where inv: "conn_inv conf calm org m" using conn_reach_inv [OF assms(2,1)] by blast
  obtain m1 where r: "removeConnection env1 key m = (None, m1)" and d: "deleteDatabase conf env2 key m1 = (None, m')"
    using assms(3) by (auto simp: DeleteDB_steps simp del: serve.simps)
  note r = removeConnection_nilD [OF r]
  have "index_ok (index m1)" using r conn_inv_index [OF inv] by simp
  from deleteDatabase_nilD [OF this d] r show ?thesis by simp
qed

text \<open>
  C35: but a request of the same user that is served between the two commands reopens the
  database: afterwards the cache holds an open connection on a file that no path leads to, and
  until the entry expires the user's requests read and write this lost file.
\<close>

theorem DeleteDB_race:
  assumes "engine_ok en" and "conn_reach en conf calm m"
    and "DeleteDB_run conf key env1 env2 [(env3, CmdGetConn key, ReplyStore h)] m m'"
  shows "map_of (connections m') key = Some \<lparr>cc_conn = h, cc_expiry = clock env3 + ttl\<rparr>
    \<and> (\<exists>ino. map_of (open_conns m') h = Some ino \<and> ino \<notin> snd ` set (dir_entries m'))"
proof -
  obtain org where inv: "conn_inv conf calm org m" using conn_reach_inv [OF assms(2,1)] by blast
  obtain m1 m2 where r: "removeConnection env1 key m = (None, m1)"
    and g: "getNotesStore conf env3 key m1 = (Inr h, m2)" and d: "deleteDatabase conf env2 key m2 = (None, m')"
    using assms(3) by (auto simp: DeleteDB_steps simp del: serve.simps)
  have gone: "map_of (connections m1) key = None"
    using removeConnection_nilD [OF r] by (auto simp: map_of_eq_None_iff)
  have "conn_inv conf False org m" using inv by (simp add: conn_inv_def)
  then have inv1: "conn_inv conf False org m1" using removeConnection_inv [of conf False org m env1 key] r by simp
  from getNotesStore_inv [OF inv1 g] obtain org2 where inv2: "conn_inv conf False org2 m2"
    and cs: "map_of (connections m2) key = Some \<lparr>cc_conn = h, cc_expiry = clock env3 + ttl\<rparr>" by auto
  obtain m3 where c: "createNewConnection conf env3 key m1 = (Inr h, m3)" and "open_conns m2 = open_conns m3"
    using g gone by (auto simp: getNotesStore_def Let_def split: prod.splits sum.splits)
  then obtain ino where ino: "map_of (open_conns m2) h = Some ino"
    using createNewConnection_file [OF inv1 c] by auto
  have "org2 ino = db_file conf (user_db_path key)"
    using conn_inv_cached(3) [OF inv2 map_of_SomeD [OF cs]] map_of_SomeD [OF ino] by simp
  moreover have "org2 (snd p) = fst p" if "p \<in> set (dir_entries m2)" for p
    using inv2 that by (simp add: conn_inv_def)
  ultimately have "ino \<notin> snd ` set (dir_entries m')"
    using deleteDatabase_nilD [OF conn_inv_index [OF inv2] d] by force
  then show ?thesis using deleteDatabase_nilD [OF conn_inv_index [OF inv2] d] cs ino by simp
qed

section \<open>Creating a database\<close>

lemma createNewConnection_new_file:
  assumes inv: "conn_inv conf calm org m" and op: "createNewConnection conf env key m = (Inr h, m')"
    and new: "db_file conf (user_db_path key) \<notin> fst ` set (dir_entries m)"
  shows "file_data m' (the (map_of (open_conns m') h)) = new_file env"
proof -
  obtain udb where g: "GetUserDB (index_call env 0) key (index m) = (udb, None)"
    and o: "open_db env 0 (db_file conf (DatabasePath udb)) m = (Inr h, m')"
    using op by (auto simp: createNewConnection_def split: prod.splits option.splits)
  have "DatabasePath udb = user_db_path key" using GetUserDB_path [OF conn_inv_index [OF inv] g] by blast
  moreover have "map_of (dir_entries m) (db_file conf (user_db_path key)) = None"
    using new by (simp add: map_of_eq_None_iff)
  ultimately show ?thesis using o by (auto simp: open_db_def Let_def split: option.splits)
qed

lemma createDatabase_steps:
  assumes "createNewConnection conf env key m = (Inr h, m1)"
    and "migrate_conn (Bootstrap (rounds env) (read_script env)) env 0 (NotesDBMigrations conf) h m1 = Some (r, m2)"
  shows "createDatabase conf env key m =
    (case r of Inl err \<Rightarrow> Some (Some err, m2)
     | Inr ver \<Rightarrow> (case UpdateDBVersion (index_call env 1) key ver (index m2) of (err, ix) \<Rightarrow> Some (err, m2\<lparr>index := ix\<rparr>)))"
  using assms by (simp add: createDatabase_def split: sum.split)

lemma UpdateDBVersion_okD: "UpdateDBVersion c uid ver db = (None, db') \<Longrightarrow> db' = set_db_version ver uid db"
  by (auto simp: UpdateDBVersion_def tx_body_ok exec_def dest!: with_transaction_ok split: prod.splits option.splits)


section \<open>The end\<close>

lemma close_all_cases:
  "close_all env hs m = (err, m') \<Longrightarrow>
     (err = None \<longleftrightarrow> (\<forall>h \<in> set hs \<inter> fst ` set (open_conns m). close_fault env h = None))
     \<and> (err = None \<longrightarrow> m' = m\<lparr>open_conns := filter (\<lambda>x. fst x \<notin> set hs) (open_conns m)\<rparr>)"
proof (induction env hs m arbitrary: m' rule: close_all.induct)
  case (2 env h hs m)
  let ?m = "m\<lparr>open_conns := filter (\<lambda>x. fst x \<noteq> h) (open_conns m)\<rparr>"
  have rest: "fst ` set (open_conns ?m) = fst ` set (open_conns m) - {h}" by (auto simp: fst_minus)
  show ?case
  proof (cases "h \<in> fst ` set (open_conns m) \<and> close_fault env h \<noteq> None")
    case False
    then have h: "close_db env h m = (None, ?m)" by (auto simp: close_db_is)
    from "2.prems" h have "close_all env hs ?m = (err, m')" by simp
    note ih = "2.IH" [OF h [symmetric] refl this, unfolded rest]
    have "m' = m\<lparr>open_conns := filter (\<lambda>x. fst x \<notin> set (h # hs)) (open_conns m)\<rparr>" if "err = None"
      using ih that by (auto intro: arg_cong [of _ _ "\<lambda>xs. m\<lparr>open_conns := xs\<rparr>"] filter_cong)
    moreover have "(\<forall>k \<in> set hs \<inter> (fst ` set (open_conns m) - {h}). close_fault env k = None)
        = (\<forall>k \<in> set (h # hs) \<inter> fst ` set (open_conns m). close_fault env k = None)"
      using False by (simp add: Ball_def del: split_paired_All) metis
    ultimately show ?thesis using ih by simp
  next
    case True
    then obtain e where e: "close_fault env h = Some e" by blast
    then have "err = Some e" using True "2.prems" by (simp add: close_db_is)
    then show ?thesis using True e by auto
  qed
qed simp

text \<open>
  \<open>Stop\<close> closes the index database and every cached connection, and nothing else; then every
  later request is answered with \<open>io.EOF\<close>. When closing one of them reports an error it returns
  that error and the channel stays open, so the serving goroutine, and whoever waits for it, goes
  on.
\<close>

theorem Stop_closes:
  "\<exists>err m' closed. Stop_manager env m = (err, m', closed) \<and> (closed \<longleftrightarrow> err = None)
    \<and> (closed \<longleftrightarrow> (\<forall>h \<in> insert 0 (cc_conn ` snd ` set (connections m)) \<inter> fst ` set (open_conns m). close_fault env h = None))
    \<and> (closed \<longrightarrow> m' = m\<lparr>open_conns := filter (\<lambda>x. fst x \<notin> insert 0 (cc_conn ` snd ` set (connections m))) (open_conns m)\<rparr>
         \<and> (\<forall>rep. GetNotesStore closed rep = (0, Some ErrEOF) \<and> SendReceiveError closed rep = Some ErrEOF))"
proof -
  let ?hs = "map (cc_conn \<circ> snd) (connections m)"
  obtain err m' where c: "close_all env (0 # ?hs) m = (err, m')" by fastforce
  have stop: "Stop_manager env m = (err, m', err = None)"
  proof (cases "close_db env 0 m")
    case (Pair e m1)
    then have "connections m1 = connections m" by (auto simp: close_db_is split: if_splits)
    then show ?thesis using c Pair by (cases e; cases err) (simp_all add: Stop_manager_def)
  qed
  have "set (0 # ?hs) = insert 0 (cc_conn ` snd ` set (connections m))" by (simp add: image_comp)
  note res = close_all_cases [OF c, unfolded this]
  have eof: "GetNotesStore True rep = (0, Some ErrEOF) \<and> SendReceiveError True rep = Some ErrEOF" for rep
    by (simp add: GetNotesStore_def SendReceive_def SendReceiveError_def)
  show ?thesis
    by (intro exI [of _ err] exI [of _ m'] exI [of _ "err = None"]) (use stop res eof in simp)
qed

section \<open>Witnesses\<close>

lemma calm_env_simps [simp]:
  "open_fault (calm_env t) i = None" "close_fault (calm_env t) h = None" "unlink_fault (calm_env t) = None"
  "index_call (calm_env t) i = user_call" "clock (calm_env t) = t" "key_order (calm_env t) ks = ks"
  "mig_call (calm_env t) i = (\<lambda>_. user_call)" "rounds (calm_env t) = 10" "read_script (calm_env t) = Inr"
  "stored_version (script_engine (calm_env t)) v = v" "run_script (script_engine (calm_env t)) sql sch = Inr ()"
  "new_file (calm_env t) = \<lparr>user_version = 0, schema = (), committed = []\<rparr>"
  by (simp_all add: calm_env_def)

lemma user_call_faults [simp]: "stmt_fault user_call i = None" "begin_fault user_call = None" "commit_fault user_call = None"
  using user_call_simps(1) by (simp_all add: quiet_def)

lemma demo_fields [simp]: "connections demo_manager = []" "dir_entries demo_manager = []"
  "open_conns demo_manager = [(0, 0)]" "next_number demo_manager = 1" "index demo_manager = demo_index"
  by (simp_all add: demo_manager_def start_manager_def)

lemma demo_user_db [simp]:
  "GetUserDB user_call 1 demo_index = (\<lparr>DatabaseID = 1, DatabaseUserID = 1, DatabasePath = user_db_path 1, DatabaseVersion = 0\<rparr>, None)"
  by (simp add: GetUserDB_def demo_index_def read_user_database_def)

definition demo_open :: "unit manager" where
  "demo_open = demo_manager\<lparr>open_conns := [(1, 2), (0, 0)], next_number := 3,
     dir_entries := [(db_file demo_conf (user_db_path 1), 2)],
     file_data := (file_data demo_manager)(2 := new_file (calm_env 0)),
     connections := [(1, \<lparr>cc_conn = 1, cc_expiry = ttl\<rparr>)]\<rparr>"

lemma demo_get: "serve demo_conf (calm_env 0) (CmdGetConn 1) demo_manager = Some (ReplyStore 1, demo_open)"
  by (simp add: getNotesStore_def createNewConnection_def open_db_def demo_open_def numeral_2_eq_2 numeral_3_eq_3)

lemma demo_open_reach: "conn_reach std_engine demo_conf True demo_open"
  by (rule conn_served [OF demo_reach _ demo_get]) simp

lemma demo_open_fields [simp]: "connections demo_open = [(1, \<lparr>cc_conn = 1, cc_expiry = ttl\<rparr>)]"
  "open_conns demo_open = [(1, 2), (0, 0)]" "dir_entries demo_open = [(db_file demo_conf (user_db_path 1), 2)]"
  "index demo_open = demo_index"
  by (simp_all add: demo_open_def)

theorem cached_connections_are_separate_witness:
  "map_of (open_conns demo_open) 1 = Some 2
   \<and> {path. (path, 2) \<in> set (dir_entries demo_open)} = {db_file demo_conf (user_db_path 1)}"
  using cached_connections_are_separate [OF engine_ok_std demo_open_reach] by auto

theorem GetConn_exact_witness:
  "map_of (connections demo_open) = [1 \<mapsto> \<lparr>cc_conn = 1, cc_expiry = 0 + ttl\<rparr>] \<and> 1 \<notin> fst ` set (open_conns demo_manager)"
  using GetConn_exact [OF engine_ok_std demo_reach demo_get] by simp

theorem removeExpired_exact_witness:
  "connections (snd (removeExpired (calm_env (ttl + 1)) demo_open)) = []
   \<and> open_conns (snd (removeExpired (calm_env (ttl + 1)) demo_open)) = [(0, 0)]"
  using removeExpired_exact [OF engine_ok_std demo_open_reach, of "calm_env (ttl + 1)"] by simp

theorem Stop_closes_witness:
  "\<exists>m'. Stop_manager (calm_env 0) demo_open = (None, m', True) \<and> open_conns m' = []"
  using Stop_closes [of "calm_env 0" demo_open] by auto

lemma demo_delete_run: "DeleteDB_run demo_conf 1 (calm_env 1) (calm_env 2) [] demo_open
    (demo_open\<lparr>connections := [], open_conns := [(0, 0)], dir_entries := []\<rparr>)"
  by (simp add: DeleteDB_steps removeConnection_def close_db_is deleteDatabase_def del: serve.simps)

theorem DeleteDB_exact_witness:
  "filter (\<lambda>p. fst p \<noteq> 1) (connections demo_open) = []
   \<and> filter (\<lambda>p. fst p \<noteq> db_file demo_conf (user_db_path 1)) (dir_entries demo_open) = []"
  using DeleteDB_exact [OF engine_ok_std demo_open_reach demo_delete_run] by simp

lemma demo_race_run: "\<exists>m'. DeleteDB_run demo_conf 1 (calm_env 1) (calm_env 3)
    [(calm_env 2, CmdGetConn 1, ReplyStore 3)] demo_open m'"
  by (simp add: DeleteDB_steps removeConnection_def close_db_is deleteDatabase_def getNotesStore_def
      createNewConnection_def open_db_def demo_open_def del: serve.simps)

theorem DeleteDB_race_witness:
  "\<exists>m' :: unit manager. (\<exists>ino. map_of (open_conns m') 3 = Some ino \<and> ino \<notin> snd ` set (dir_entries m'))
     \<and> map_of (connections m') 1 = Some \<lparr>cc_conn = 3, cc_expiry = 2 + ttl\<rparr>"
proof -
  obtain m' where "DeleteDB_run demo_conf 1 (calm_env 1) (calm_env 3) [(calm_env 2, CmdGetConn 1, ReplyStore 3)] demo_open m'"
    using demo_race_run by blast
  from DeleteDB_race [OF engine_ok_std demo_open_reach this] show ?thesis
    unfolding calm_env_simps by blast
qed

lemma demo_migrate_db: "Bootstrap (rounds (calm_env 0)) (read_script (calm_env 0)) (NotesDBMigrations demo_conf)
    (sqlite_driver (mig_call (calm_env 0) 0) (script_engine (calm_env 0))) (new_file (calm_env 0), 0)
  = Some (Inr 1, \<lparr>user_version = 1, schema = (), committed = [(''1.up'', 1)]\<rparr>, 3)"
  by (simp add: Bootstrap_def Up_def up_loop.simps demo_conf_def Latest_def sqlite_driver_def sqlite_AddVersionTable_def StepUp_def
      IsLatest_def sqlite_Version_def exec_def Next_def First_def readUp_def sqlite_RunMigration_def
      with_transaction_def wrapped_tx_def tx_body_def run_migration_tx_def eval_nat_numeral)

lemma demo_create_db: "map_option fst (serve demo_conf (calm_env 0) (CmdCreateDB 1) demo_manager) = Some ReplyNil"
proof -
  let ?m1 = "demo_manager\<lparr>open_conns := [(1, 2), (0, 0)], next_number := 3,
     dir_entries := [(db_file demo_conf (user_db_path 1), 2)],
     file_data := (file_data demo_manager)(2 := new_file (calm_env 0))\<rparr>"
  have c: "createNewConnection demo_conf (calm_env 0) 1 demo_manager = (Inr 1, ?m1)"
    by (simp add: createNewConnection_def open_db_def numeral_2_eq_2 numeral_3_eq_3)
  have "file_data ?m1 2 = new_file (calm_env 0)" by (simp del: calm_env_simps)
  then have "migrate_conn (Bootstrap (rounds (calm_env 0)) (read_script (calm_env 0))) (calm_env 0) 0
      (NotesDBMigrations demo_conf) 1 ?m1 = Some (Inr 1, ?m1\<lparr>file_data := (file_data ?m1)(2 :=
        \<lparr>user_version = 1, schema = (), committed = [(''1.up'', 1)]\<rparr>)\<rparr>)"
    unfolding migrate_conn_def using demo_migrate_db by simp
  from createDatabase_steps [OF c this] show ?thesis
    by (simp add: UpdateDBVersion_def with_transaction_def wrapped_tx_def tx_body_def exec_def reply_err_def)
qed


end
