(* ===== verification/Web_Base.thy ===== *)
theory Web_Base
  imports Slug Data_Queries Conn_Cache
begin

text \<open>
  What the handlers of \<open>web/handlers\<close> share: requests and responses, the state a request is
  served in, \<open>web/handlers/helpers.go\<close>, \<open>web/handlers/validator\<close>, the renderer of \<open>web/assets\<close>,
  and access to a user's notes through the connection manager.

  A request is what \<open>net/http\<close> hands to a handler: the method, the path and the escaped path, the segments
  of the path, the values of the wildcards of the matched pattern, the parsed form, the headers
  by the names the code looks them up with, and the values of its context. Templates, Markdown
  and the session manager (\<open>github.com/alexedwards/scs\<close>) are parameters.
\<close>

section \<open>Requests\<close>

text \<open>The four context keys of \<open>web/handlers/context.go\<close>; \<open>None\<close> is a key that is not set.\<close>

record req_context =
  isAuthenticatedKey :: "bool option"
  userIDKey :: "int option"
  isAdminKey :: "bool option"
  userThemeKey :: "string option"

record request =
  Method :: string
  Path :: string
  EscapedPath :: string
  Segments :: "string list"
  Host :: string
  PathID :: string
  PathSlug :: string
  FormErr :: "go_error option"
  PostForm :: smap  \<comment> \<open>every value of every field, in order\<close>
  Query :: smap
  ReqHeader :: smap
  SessionToken :: string
  Ctx :: req_context

definition no_context :: req_context where
  "no_context = \<lparr>isAuthenticatedKey = None, userIDKey = None, isAdminKey = None, userThemeKey = None\<rparr>"

text \<open>\<open>url.Values\<close>: \<open>Get\<close> is the first value or the empty string, an index gives all values.\<close>

definition form_values :: "smap \<Rightarrow> string \<Rightarrow> string list" where
  "form_values f k = map snd (filter (\<lambda>p. fst p = k) f)"

definition form_get :: "smap \<Rightarrow> string \<Rightarrow> string" where
  "form_get f k = (case map_of f k of None \<Rightarrow> [] | Some v \<Rightarrow> v)"

section \<open>Template data\<close>

record base_data =
  BaseIsAuthenticated :: bool
  BaseIsAdmin :: bool
  BaseUserId :: int
  BaseTheme :: string

record noteForm =
  FormID :: int
  FormTitle :: string
  FormContent :: string
  FormTagIds :: "int list"
  FormSectionID :: int
  FormReferenceNoteIds :: "int list"
  FormReferencedByNoteIds :: "int list"
  FormErrors :: smap

record renderedNote =
  RenderedOf :: "Note option"  \<comment> \<open>\<open>None\<close> for the zero note\<close>
  RenderedHTML :: string
  IsPreview :: bool

text \<open>\<open>sectionForm\<close> and \<open>tagForm\<close> have the same fields.\<close>

record nameForm =
  NameMethod :: string
  NameID :: int
  NameText :: string
  NameErrors :: smap

record userEditForm =
  EditID :: int
  EditUserName :: string
  EditErrors :: smap

record changePasswordForm =
  ChangeID :: int
  ChangeName :: string
  ChangePassword :: string
  ChangeConfirmed :: string
  ChangeErrors :: smap

record newUserForm =
  NewName :: string
  NewPassword :: string
  NewIsAdmin :: bool
  NewErrors :: smap

record setupUserForm =
  SetupUsername :: string
  SetupPassword :: string
  SetupConfirm :: string
  SetupErrors :: smap

record loginForm =
  LoginName :: string
  LoginPassword :: string
  LoginErrors :: smap

datatype view =
    NoteCreateView base_data noteForm "Tag list" "Section list" bool "NoteDetail list" "NoteDetail list"
  | RenderedNoteView renderedNote
  | NotePageView base_data renderedNote
  | SearchResultsView "NoteSearchResult list"
  | SearchPageView base_data "NoteSearchResult list" string
  | SelectedReferenceView string int
  | BookmarkView int bool
  | SectionListView base_data "Section list"
  | NameFormView nameForm
  | SectionPageView base_data Section "NoteDetail list"
  | TagListView base_data "Tag list"
  | TagPageView base_data Tag "NoteDetail list"
  | TagEditView int string
  | TagNewView string string "Tag option"
  | HomeView base_data "NoteDetail list" "NoteDetail list" "NoteDetail list" "NoteDetail list" "NoteDetail list" "Section list"
  | NoView
  | NewUserView newUserForm
  | AdminView base_data "User list"
  | UserEditErrorView base_data userEditForm User
  | UserView User
  | ChangePasswordView changePasswordForm
  | UserEditView base_data User userEditForm changePasswordForm
  | SetupView base_data setupUserForm
  | LoginView base_data loginForm

section \<open>Responses\<close>

datatype body =
    TextBody string
  | ErrorBody go_error  \<comment> \<open>the text of an error; in debug mode with a stack trace\<close>
  | TemplateBody string "string list" view
  | StateBody cache_state
  | FileBody string

record log_entry =
  LogMethod :: string
  LogPath :: string
  LogStatus :: nat

text \<open>
  The state a request is served in: the response as far as it is written (headers, the status
  once \<open>WriteHeader\<close> was called, the body), the status the logging wrapper saw, the session of
  the request, the connection manager with the index, the flag of the initial setup, and the log
  of the router.
\<close>

record 'ses web =
  rw_header :: smap
  rw_status :: "nat option"
  rw_body :: "body list"
  lw_status :: nat
  lw_wrote :: bool
  w_session :: "'ses option"
  w_cookie :: "string option"  \<comment> \<open>the session token sent to the client\<close>
  w_manager :: "notes_db manager"
  w_stopped :: bool
  w_setup :: bool
  w_log :: "log_entry list"

text \<open>What serving does: it ends, it panics, or it never ends.\<close>

datatype 'ses served = Served "'ses web" | Panicked string "'ses web" | Hangs

type_synonym 'ses handler = "request \<Rightarrow> 'ses web \<Rightarrow> 'ses served"

definition set_header :: "string \<Rightarrow> string \<Rightarrow> 'ses web \<Rightarrow> 'ses web" where
  "set_header k v w =
     (if rw_status w = None then w\<lparr>rw_header := filter (\<lambda>p. fst p \<noteq> k) (rw_header w) @ [(k, v)]\<rparr> else w)"

definition add_header :: "string \<Rightarrow> string \<Rightarrow> 'ses web \<Rightarrow> 'ses web" where
  "add_header k v w = (if rw_status w = None then w\<lparr>rw_header := rw_header w @ [(k, v)]\<rparr> else w)"

text \<open>
  \<open>responseWriter.WriteHeader\<close> of the logging wrapper, then the one of \<open>net/http\<close>: the first call
  decides, and headers set later are not sent.
\<close>

definition write_header :: "nat \<Rightarrow> 'ses web \<Rightarrow> 'ses web" where
  "write_header code w =
     (if lw_wrote w then w
      else (let w1 = w\<lparr>lw_status := code\<rparr>;
                w2 = (if rw_status w1 = None then w1\<lparr>rw_status := Some code\<rparr> else w1)
            in w2\<lparr>lw_wrote := True\<rparr>))"

text \<open>A write before any \<open>WriteHeader\<close> sends the status 200, past the wrapper.\<close>

definition write_body :: "body \<Rightarrow> 'ses web \<Rightarrow> 'ses web" where
  "write_body b w =
     w\<lparr>rw_status := (if rw_status w = None then Some 200 else rw_status w), rw_body := rw_body w @ [b]\<rparr>"

definition http_error :: "body \<Rightarrow> nat \<Rightarrow> 'ses web \<Rightarrow> 'ses web" where
  "http_error b code w =
     write_body b (write_header code
       (set_header ''X-Content-Type-Options'' ''nosniff''
         (set_header ''Content-Type'' ''text/plain; charset=utf-8'' w)))"

definition http_not_found :: "'ses web \<Rightarrow> 'ses web" where
  "http_not_found w = http_error (TextBody ''404 page not found'') 404 w"

text \<open>
  \<open>http.Redirect\<close>: the header and the status. The short text with a link that \<open>net/http\<close> adds for a
  browser that does not follow a redirect, and its content type, are not modelled.
\<close>

definition http_redirect :: "string \<Rightarrow> nat \<Rightarrow> 'ses web \<Rightarrow> 'ses web" where
  "http_redirect url code w = write_header code (set_header ''Location'' url w)"

definition internal_error_text :: string where "internal_error_text = ''Internal Server Error''"

section \<open>The environment of a request\<close>

text \<open>
  The session manager \<open>github.com/alexedwards/scs\<close>: reading, setting and removing a number of
  the session of the request, the renewal of its token, and the session its store has for a token.
  \<open>LoadAndSave\<close>, its middleware, is \<open>we_load_and_save\<close>.
\<close>

record 'ses scs =
  scs_get :: "string \<Rightarrow> 'ses \<Rightarrow> int"
  scs_put :: "string \<Rightarrow> int \<Rightarrow> 'ses \<Rightarrow> 'ses"
  scs_remove :: "string \<Rightarrow> 'ses \<Rightarrow> 'ses"
  scs_renew :: "call \<Rightarrow> 'ses \<Rightarrow> index_db \<Rightarrow> (go_error + 'ses) \<times> index_db"
  scs_session :: "string \<Rightarrow> index_db \<Rightarrow> 'ses"

record 'ses web_env =
  we_conf :: conn_conf
  we_conn :: "nat \<Rightarrow> notes_db conn_env"  \<comment> \<open>of the k-th command a handler sends\<close>
  we_call :: "nat \<Rightarrow> call"  \<comment> \<open>of the k-th operation of a handler on a database\<close>
  we_engine :: engine
  we_fts :: fts_engine
  we_bcrypt :: bcrypt
  we_scs :: "'ses scs"
  we_load_and_save :: "'ses handler \<Rightarrow> 'ses handler"
  we_markdown :: "bool \<Rightarrow> string \<Rightarrow> string outcome"  \<comment> \<open>dark or light\<close>
  we_render :: "string \<Rightarrow> string list \<Rightarrow> view \<Rightarrow> go_error option"
  we_debug :: bool
  we_build_info :: "string option"
  we_json :: "cache_state \<Rightarrow> go_error option"
  we_write :: "go_error option"
  we_static :: "request \<Rightarrow> nat \<times> body"  \<comment> \<open>the file server over the embedded files\<close>
  we_etags :: smap
  we_origin_host :: "string \<Rightarrow> string option"  \<comment> \<open>the host of a URL, if it parses\<close>
  we_compile :: "string \<Rightarrow> (string \<Rightarrow> bool) option"  \<comment> \<open>\<open>regexp.Compile\<close>\<close>
  we_ignore :: "string list"

text \<open>\<open>HTMLRenderer.Render\<close>: nothing is written unless the template was executed.\<close>

definition Render ::
    "'ses web_env \<Rightarrow> nat \<Rightarrow> view \<Rightarrow> string \<Rightarrow> string list \<Rightarrow> 'ses web \<Rightarrow> go_error option \<times> 'ses web" where
  "Render env code data templateName additionalTemplateFiles w =
     (case we_render env templateName additionalTemplateFiles data of
        Some err \<Rightarrow> (Some err, w)
      | None \<Rightarrow> (None, write_body (TemplateBody templateName additionalTemplateFiles data) (write_header code w)))"

definition RenderError :: "'ses web_env \<Rightarrow> go_error \<Rightarrow> 'ses web \<Rightarrow> 'ses web" where
  "RenderError env err w =
     (if we_debug env then http_error (ErrorBody err) 500 w
      else http_error (TextBody internal_error_text) 500 w)"

text \<open>The block that follows almost every call: log the error, render it and return.\<close>

definition or_error ::
    "'ses web_env \<Rightarrow> 'r outcome \<times> 'ses web \<Rightarrow> ('r \<Rightarrow> 'ses web \<Rightarrow> 'ses served) \<Rightarrow> 'ses served" where
  "or_error env rw k =
     (case rw of (Inl err, w) \<Rightarrow> Served (RenderError env err w) | (Inr x, w) \<Rightarrow> k x w)"

definition render_page :: "'ses web_env \<Rightarrow> nat \<Rightarrow> view \<Rightarrow> string \<Rightarrow> string list \<Rightarrow> 'ses web \<Rightarrow> 'ses served" where
  "render_page env code data templateName files w =
     (case Render env code data templateName files w of
        (Some err, w1) \<Rightarrow> Served (RenderError env err w1)
      | (None, w1) \<Rightarrow> Served w1)"

text \<open>The same without looking at the error of \<open>Render\<close>.\<close>

definition render_unchecked :: "'ses web_env \<Rightarrow> nat \<Rightarrow> view \<Rightarrow> string \<Rightarrow> string list \<Rightarrow> 'ses web \<Rightarrow> 'ses served" where
  "render_unchecked env code data templateName files w = Served (snd (Render env code data templateName files w))"

definition hx_redirect :: "string \<Rightarrow> nat \<Rightarrow> 'ses web \<Rightarrow> 'ses served" where
  "hx_redirect url code w = Served (write_header code (set_header ''HX-Redirect'' url w))"

section \<open>The validator\<close>

definition NotBlank :: "string \<Rightarrow> bool" where
  "NotBlank v \<longleftrightarrow> trim_space v \<noteq> []"

definition MaxChars :: "string \<Rightarrow> int \<Rightarrow> bool" where
  "MaxChars v n \<longleftrightarrow> rune_count v \<le> n"

definition MinChars :: "string \<Rightarrow> int \<Rightarrow> bool" where
  "MinChars v n \<longleftrightarrow> rune_count v \<ge> n"

definition PermittedValue :: "'a \<Rightarrow> 'a list \<Rightarrow> bool" where
  "PermittedValue v permittedValues \<longleftrightarrow> v \<in> set permittedValues"

definition Equals :: "'a \<Rightarrow> 'a \<Rightarrow> bool" where
  "Equals v x \<longleftrightarrow> v = x"

text \<open>\<open>Validator\<close>: the map of errors is allocated with the first one, and the first one stays.\<close>

record Validator =
  FieldErrors :: "smap option"

definition Valid :: "Validator \<Rightarrow> bool" where
  "Valid v \<longleftrightarrow> (case FieldErrors v of None \<Rightarrow> True | Some m \<Rightarrow> length m = 0)"

definition AddFieldError :: "string \<Rightarrow> string \<Rightarrow> Validator \<Rightarrow> Validator" where
  "AddFieldError key message v =
     (let m = (case FieldErrors v of None \<Rightarrow> [] | Some m \<Rightarrow> m)
      in v\<lparr>FieldErrors := Some (if map_of m key = None then map_set key message m else m)\<rparr>)"

definition CheckField :: "bool \<Rightarrow> string \<Rightarrow> string \<Rightarrow> Validator \<Rightarrow> Validator" where
  "CheckField ok key message v = (if \<not> ok then AddFieldError key message v else v)"

section \<open>Helpers\<close>

definition parseIDFromPath :: "request \<Rightarrow> int outcome" where
  "parseIDFromPath r =
     (if PathID r = [] then Inl (NewError ''no id found in path'')
      else case parse_int64 (PathID r) of
             Inl err \<Rightarrow> Inl (NewError (''id '' @ PathID r @ '' is not a valid int''))
           | Inr i \<Rightarrow> Inr i)"

definition isAuthenticated :: "request \<Rightarrow> bool" where
  "isAuthenticated r = (case isAuthenticatedKey (Ctx r) of None \<Rightarrow> False | Some b \<Rightarrow> b)"

definition isAdmin :: "request \<Rightarrow> bool" where
  "isAdmin r = (case isAdminKey (Ctx r) of None \<Rightarrow> False | Some b \<Rightarrow> b)"

definition getUserIDFromRequest :: "request \<Rightarrow> int" where
  "getUserIDFromRequest r = (case userIDKey (Ctx r) of None \<Rightarrow> 0 | Some i \<Rightarrow> i)"

definition getUserThemeFromRequest :: "request \<Rightarrow> string" where
  "getUserThemeFromRequest r = (case userThemeKey (Ctx r) of None \<Rightarrow> [] | Some t \<Rightarrow> t)"

definition extractBaseDataFromRequest :: "request \<Rightarrow> base_data" where
  "extractBaseDataFromRequest r =
     (let theme = (if getUserThemeFromRequest r = [] then ''light'' else getUserThemeFromRequest r)
      in \<lparr>BaseIsAuthenticated = isAuthenticated r, BaseIsAdmin = isAdmin r,
          BaseUserId = getUserIDFromRequest r, BaseTheme = theme\<rparr>)"

section \<open>Commands and databases\<close>

text \<open>Send the \<open>k\<close>-th command of the handler and wait for the reply; \<open>None\<close> when it never comes.\<close>

definition send_cmd :: "'ses web_env \<Rightarrow> nat \<Rightarrow> conn_cmd \<Rightarrow> 'ses web \<Rightarrow> (reply \<times> 'ses web) option" where
  "send_cmd env k cmd w =
     (if w_stopped w then Some (ReplyNil, w)
      else case serve (we_conf env) (we_conn env k) cmd (w_manager w) of
             None \<Rightarrow> None
           | Some (rep, m) \<Rightarrow> Some (rep, w\<lparr>w_manager := m\<rparr>))"

text \<open>A command that only reports an error.\<close>

definition cmd_error ::
    "'ses web_env \<Rightarrow> nat \<Rightarrow> conn_cmd \<Rightarrow> 'ses web \<Rightarrow> ('ses web \<Rightarrow> 'ses served) \<Rightarrow> 'ses served" where
  "cmd_error env k cmd w rest =
     (case send_cmd env k cmd w of
        None \<Rightarrow> Hangs
      | Some (rep, w1) \<Rightarrow>
          (case SendReceiveError (w_stopped w) rep of
             Some err \<Rightarrow> Served (RenderError env err w1)
           | None \<Rightarrow> rest w1))"

text \<open>\<open>Remove\<close> and \<open>CreateDB\<close> of the manager send one command each.\<close>

definition Remove :: "'ses web_env \<Rightarrow> nat \<Rightarrow> int \<Rightarrow> 'ses web \<Rightarrow> ('ses web \<Rightarrow> 'ses served) \<Rightarrow> 'ses served" where
  "Remove env k key w rest = cmd_error env k (CmdRemoveConn key) w rest"

definition CreateDB :: "'ses web_env \<Rightarrow> nat \<Rightarrow> int \<Rightarrow> 'ses web \<Rightarrow> ('ses web \<Rightarrow> 'ses served) \<Rightarrow> 'ses served" where
  "CreateDB env k key w rest = cmd_error env k (CmdCreateDB key) w rest"

declare Remove_def [simp] CreateDB_def [simp]

text \<open>\<open>SQLiteConnManager.DeleteDB\<close> as one handler runs it: \<open>Remove\<close> and, unless it fails, the unlinking.\<close>

definition DeleteDB :: "'ses web_env \<Rightarrow> nat \<Rightarrow> int \<Rightarrow> 'ses web \<Rightarrow> ('ses web \<Rightarrow> 'ses served) \<Rightarrow> 'ses served" where
  "DeleteDB env k key w rest =
     Remove env k key w (\<lambda>w1. cmd_error env (Suc k) (CmdDeleteDB key) w1 rest)"

definition GetNotesDataStore :: "'ses web_env \<Rightarrow> request \<Rightarrow> 'ses web \<Rightarrow> nat outcome \<times> 'ses web" where
  "GetNotesDataStore env r w =
     (case userIDKey (Ctx r) of
        None \<Rightarrow> (Inl ErrUserIDNotFound, w)
      | Some userID \<Rightarrow>
          (case send_cmd env 0 (CmdGetConn userID) w of
             None \<Rightarrow> (Inl ErrEOF, w)  \<comment> \<open>not possible: a lookup is always answered\<close>
           | Some (rep, w1) \<Rightarrow>
               (case GetNotesStore (w_stopped w) rep of
                  (_, Some err) \<Rightarrow> (Inl err, w1)
                | (h, None) \<Rightarrow> (Inr h, w1))))"

text \<open>On a closed pool every statement fails.\<close>

definition closed_call :: call where
  "closed_call = (let e = EngineError ''sql: database is closed''
     in \<lparr>begin_fault = Some e, stmt_fault = (\<lambda>_. Some e), commit_fault = Some e, rollback_fault = Some e, now_txt = []\<rparr>)"

definition pool_call :: "'ses web_env \<Rightarrow> nat \<Rightarrow> nat \<Rightarrow> 'ses web \<Rightarrow> call" where
  "pool_call env k h w = (if h \<in> fst ` set (open_conns (w_manager w)) then we_call env k else closed_call)"

text \<open>The notes database an open handle is on: the content of its file.\<close>

definition notes_of :: "notes_db manager \<Rightarrow> nat \<Rightarrow> notes_db" where
  "notes_of m h =
     (case map_of (open_conns m) h of None \<Rightarrow> bootstrapped | Some ino \<Rightarrow> schema (file_data m ino))"

definition put_notes :: "nat \<Rightarrow> notes_db \<Rightarrow> notes_db manager \<Rightarrow> notes_db manager" where
  "put_notes h db m =
     (case map_of (open_conns m) h of
        None \<Rightarrow> m
      | Some ino \<Rightarrow> m\<lparr>file_data := (file_data m)(ino := (file_data m ino)\<lparr>schema := db\<rparr>)\<rparr>)"

text \<open>An operation that reads the notes, as the pair of results Go has and with the error apart.\<close>

definition notes_go ::
    "'ses web_env \<Rightarrow> nat \<Rightarrow> nat \<Rightarrow> (call \<Rightarrow> notes_db \<Rightarrow> 'r go_result) \<Rightarrow> 'ses web \<Rightarrow> 'r go_result" where
  "notes_go env k h op w = op (pool_call env k h w) (notes_of (w_manager w) h)"

definition outcome_of :: "'r go_result \<Rightarrow> 'r outcome" where
  "outcome_of res = (case res of (x, None) \<Rightarrow> Inr x | (_, Some err) \<Rightarrow> Inl err)"

definition notes_read ::
    "'ses web_env \<Rightarrow> nat \<Rightarrow> nat \<Rightarrow> (call \<Rightarrow> notes_db \<Rightarrow> 'r go_result) \<Rightarrow> 'ses web \<Rightarrow> 'r outcome \<times> 'ses web" where
  "notes_read env k h op w = (outcome_of (notes_go env k h op w), w)"

definition notes_write ::
    "'ses web_env \<Rightarrow> nat \<Rightarrow> nat \<Rightarrow> (call \<Rightarrow> notes_db \<Rightarrow> 'r go_result \<times> notes_db) \<Rightarrow> 'ses web \<Rightarrow> 'r outcome \<times> 'ses web" where
  "notes_write env k h op w =
     (case op (pool_call env k h w) (notes_of (w_manager w) h) of
        (res, db) \<Rightarrow> (outcome_of res, w\<lparr>w_manager := put_notes h db (w_manager w)\<rparr>))"

text \<open>An operation with only an error as its result.\<close>

definition no_value :: "go_error option \<times> 'd \<Rightarrow> unit go_result \<times> 'd" where
  "no_value p = (((), fst p), snd p)"

text \<open>The index database is connection 0 of the manager.\<close>

definition index_read :: "'ses web_env \<Rightarrow> nat \<Rightarrow> (call \<Rightarrow> index_db \<Rightarrow> 'r go_result) \<Rightarrow> 'ses web \<Rightarrow> 'r outcome \<times> 'ses web" where
  "index_read env k op w = (outcome_of (op (pool_call env k 0 w) (index (w_manager w))), w)"

definition index_write ::
    "'ses web_env \<Rightarrow> nat \<Rightarrow> (call \<Rightarrow> index_db \<Rightarrow> 'r go_result \<times> index_db) \<Rightarrow> 'ses web \<Rightarrow> 'r outcome \<times> 'ses web" where
  "index_write env k op w =
     (case op (pool_call env k 0 w) (index (w_manager w)) of
        (res, ix) \<Rightarrow> (outcome_of res, w\<lparr>w_manager := (w_manager w)\<lparr>index := ix\<rparr>\<rparr>))"

text \<open>
  The session of the request. Outside \<open>LoadAndSave\<close> there is none, and then the session manager
  panics.
\<close>

definition no_session :: string where "no_session = ''scs: no session data in context''"

definition with_session :: "'ses web \<Rightarrow> ('ses \<Rightarrow> 'ses served) \<Rightarrow> 'ses served" where
  "with_session w k = (case w_session w of None \<Rightarrow> Panicked no_session w | Some ses \<Rightarrow> k ses)"

definition RenewToken :: "'ses web_env \<Rightarrow> nat \<Rightarrow> 'ses web \<Rightarrow> ('ses web \<Rightarrow> 'ses served) \<Rightarrow> 'ses served" where
  "RenewToken env k w rest =
     with_session w (\<lambda>ses.
       case scs_renew (we_scs env) (pool_call env k 0 w) ses (index (w_manager w)) of
         (Inl err, ix) \<Rightarrow> Served (RenderError env err (w\<lparr>w_manager := (w_manager w)\<lparr>index := ix\<rparr>\<rparr>))
       | (Inr ses', ix) \<Rightarrow> rest (w\<lparr>w_manager := (w_manager w)\<lparr>index := ix\<rparr>, w_session := Some ses'\<rparr>))"

end
