(* ===== verification/Web_Notes.thy ===== *)
theory Web_Notes
  imports Web_Base
begin

text \<open>
  \<open>web/handlers/note.go\<close>: the form of a note, its validation against the notes database, and
  the handlers for notes, search and bookmarks. Operations on a database are numbered in the
  order a handler performs them, so that each can fail on its own.
\<close>

section \<open>The form\<close>

fun parse_ids :: "string list \<Rightarrow> int list outcome" where
  "parse_ids [] = Inr []"
| "parse_ids (t # ts) =
     (case parse_int64 t of
        Inl err \<Rightarrow> Inl err
      | Inr i \<Rightarrow> (case parse_ids ts of Inl err \<Rightarrow> Inl err | Inr is \<Rightarrow> Inr (i # is)))"

text \<open>An optional number: the empty string leaves the zero value.\<close>

definition parse_optional :: "string \<Rightarrow> int outcome" where
  "parse_optional s = (if s = [] then Inr 0 else parse_int64 s)"

definition parseNoteForm :: "request \<Rightarrow> noteForm outcome" where
  "parseNoteForm r =
     (case FormErr r of
        Some err \<Rightarrow> Inl err
      | None \<Rightarrow>
     (case parse_optional (PathID r) of
        Inl err \<Rightarrow> Inl err
      | Inr pid \<Rightarrow>
     (case parse_ids (form_values (PostForm r) ''tags'') of
        Inl err \<Rightarrow> Inl err
      | Inr tagIds \<Rightarrow>
     (case parse_optional (form_get (PostForm r) ''section'') of
        Inl err \<Rightarrow> Inl err
      | Inr sid \<Rightarrow>
     (case parse_ids (form_values (PostForm r) ''reference-notes'') of
        Inl err \<Rightarrow> Inl err
      | Inr refNoteIds \<Rightarrow>
     (case parse_ids (form_values (PostForm r) ''referenced-by-notes'') of
        Inl err \<Rightarrow> Inl err
      | Inr refByNoteIds \<Rightarrow>
          Inr \<lparr>FormID = pid, FormTitle = form_get (PostForm r) ''title'',
               FormContent = form_get (PostForm r) ''note-content'', FormTagIds = tagIds,
               FormSectionID = sid, FormReferenceNoteIds = refNoteIds,
               FormReferencedByNoteIds = refByNoteIds, FormErrors = []\<rparr>))))))"

section \<open>Validation\<close>

text \<open>\<open>fmt\<close> prints a slice as its elements in brackets.\<close>

definition show_ids :: "int list \<Rightarrow> string" where
  "show_ids is = ''['' @ join '' '' (map show_int is) @ '']''"

definition validate_title :: "noteForm \<Rightarrow> int go_result \<Rightarrow> smap outcome" where
  "validate_title nf existing =
     (let fe = (if \<not> NotBlank (FormTitle nf) then map_set ''title'' ''title cannot be empty'' [] else []);
          fe = (if \<not> MaxChars (FormTitle nf) 100
                then map_set ''title'' ''title cannot be more than 100 characters'' fe else fe)
      in case existing of
           (nid, Some err) \<Rightarrow> if \<not> errors_is err ErrNoRows then Inl err else Inr fe
         | (nid, None) \<Rightarrow>
             Inr (if nid \<noteq> FormID nf
                  then map_set ''title'' (''title '' @ FormTitle nf @ '' exists'') fe else fe))"

definition validate_section :: "noteForm \<Rightarrow> Section go_result \<Rightarrow> smap \<Rightarrow> smap outcome" where
  "validate_section nf found fe =
     (if FormSectionID nf \<le> 0 then Inr (map_set ''section'' ''section does not exist'' fe)
      else case found of
             (_, None) \<Rightarrow> Inr fe
           | (_, Some err) \<Rightarrow>
               if \<not> errors_is err ErrNoRows then Inl err
               else Inr (map_set ''section'' ''section does not exist'' fe))"

text \<open>The loop over the ids only runs when a tag is missing; the last missing one is reported.\<close>

definition missing_tag :: "Tag list \<Rightarrow> int \<Rightarrow> smap \<Rightarrow> smap" where
  "missing_tag tags tid fe =
     (if list_ex (\<lambda>t. TagID t = tid) tags then fe
      else map_set ''tags'' (''tags '' @ show_int tid @ '' does not exist'') fe)"

definition validate_tags :: "noteForm \<Rightarrow> Tag list go_result \<Rightarrow> smap \<Rightarrow> smap outcome" where
  "validate_tags nf found fe =
     (if length (FormTagIds nf) = 0 then Inr fe
      else case found of
             (tags, err) \<Rightarrow>
               (case (case err of
                        None \<Rightarrow> Inr fe
                      | Some e \<Rightarrow>
                          if \<not> errors_is e ErrNoRows then Inl e
                          else Inr (map_set ''tags'' (''tag '' @ show_ids (FormTagIds nf) @ '' does not exist'') fe)) of
                  Inl e \<Rightarrow> Inl e
                | Inr fe \<Rightarrow>
                    Inr (if length tags \<noteq> length (FormTagIds nf)
                         then fold (missing_tag tags) (FormTagIds nf) fe else fe)))"

text \<open>
  The operations 1 to 4 of the handler. When the note of the id does not exist the code fills in
  a field error and then returns the error instead of the map.
\<close>

definition validateNoteForm :: "'ses web_env \<Rightarrow> nat \<Rightarrow> noteForm \<Rightarrow> 'ses web \<Rightarrow> smap outcome" where
  "validateNoteForm env h nf w =
     (case (if FormID nf > 0
            then snd (notes_go env 1 h (\<lambda>c. FindNoteByID (we_engine env) c (FormID nf)) w) else None) of
        Some err \<Rightarrow> Inl err
      | None \<Rightarrow>
     (case validate_title nf (notes_go env 2 h (\<lambda>c. NoteExists c (FormTitle nf)) w) of
        Inl err \<Rightarrow> Inl err
      | Inr fe \<Rightarrow>
     (case validate_section nf (notes_go env 3 h (\<lambda>c. FindSectionByID c (FormSectionID nf)) w) fe of
        Inl err \<Rightarrow> Inl err
      | Inr fe \<Rightarrow>
          validate_tags nf (notes_go env 4 h (\<lambda>c. QueryTags (we_engine env) c (FormTagIds nf)) w) fe)))"

section \<open>Handlers\<close>

definition renderNote :: "'ses web_env \<Rightarrow> string \<Rightarrow> string \<Rightarrow> string outcome" where
  "renderNote env markdownContent theme = we_markdown env (theme = ''dark'') markdownContent"

definition empty_noteForm :: noteForm where
  "empty_noteForm = \<lparr>FormID = 0, FormTitle = [], FormContent = [], FormTagIds = [], FormSectionID = 0,
     FormReferenceNoteIds = [], FormReferencedByNoteIds = [], FormErrors = []\<rparr>"

definition note_path :: "int \<Rightarrow> string \<Rightarrow> string" where
  "note_path i title = ''/note/'' @ show_int i @ ''/'' @ slugify title"

definition NoteNewGet :: "'ses web_env \<Rightarrow> 'ses handler" where
  "NoteNewGet env r w =
     or_error env (GetNotesDataStore env r w) (\<lambda>h w.
     or_error env (notes_read env 1 h ListAllSections w) (\<lambda>sec w.
     or_error env (notes_read env 2 h ListAllTags w) (\<lambda>tags w.
       render_page env 200
         (NoteCreateView (extractBaseDataFromRequest r) (empty_noteForm\<lparr>FormSectionID := 1\<rparr>) tags sec True [] [])
         ''base'' [''pages/note-create.gohtml''] w)))"

text \<open>The form once more, with its errors.\<close>

definition note_form_again :: "'ses web_env \<Rightarrow> nat \<Rightarrow> noteForm \<Rightarrow> 'ses handler" where
  "note_form_again env h nf r w =
     or_error env (notes_read env 5 h ListAllTags w) (\<lambda>allTags w.
     or_error env (notes_read env 6 h ListAllSections w) (\<lambda>secs w.
       render_unchecked env 422
         (NoteCreateView (extractBaseDataFromRequest r) nf allTags secs False [] [])
         ''base'' [''pages/note-create.gohtml''] w))"

definition NotePost :: "'ses web_env \<Rightarrow> 'ses handler" where
  "NotePost env r w =
     or_error env (parseNoteForm r, w) (\<lambda>nf w.
     or_error env (GetNotesDataStore env r w) (\<lambda>h w.
     or_error env (validateNoteForm env h nf w, w) (\<lambda>fe w.
       if length fe > 0 then note_form_again env h (nf\<lparr>FormErrors := fe\<rparr>) r w
       else
         or_error env (notes_write env 7 h (\<lambda>c. CreateNote (we_engine env) c (FormTitle nf) (FormContent nf)
             (FormSectionID nf) (FormTagIds nf) (FormReferenceNoteIds nf)) w) (\<lambda>i w.
           hx_redirect (note_path i (FormTitle nf)) 200 w))))"

text \<open>The ids of the tags and one zero more, as \<open>make([]int64, len(n.Tags)+1)\<close> has it.\<close>

definition NoteEditGet :: "'ses web_env \<Rightarrow> 'ses handler" where
  "NoteEditGet env r w =
     (case parse_int64 (PathID r) of
        Inl err \<Rightarrow> Served (http_not_found w)
      | Inr i \<Rightarrow>
          if i < 1 then Served (http_not_found w)
          else
            or_error env (GetNotesDataStore env r w) (\<lambda>h w.
              case notes_go env 1 h (\<lambda>c. FindNoteByID (we_engine env) c i) w of
                (_, Some err) \<Rightarrow>
                  if errors_is err ErrNoRows then Served (http_not_found w) else Served (RenderError env err w)
              | (n, None) \<Rightarrow>
                  or_error env (notes_read env 2 h ListAllSections w) (\<lambda>sec w.
                  or_error env (notes_read env 3 h ListAllTags w) (\<lambda>tags w.
                    render_page env 200
                      (NoteCreateView (extractBaseDataFromRequest r)
                        (empty_noteForm\<lparr>FormID := i, FormTitle := NoteTitle n, FormContent := NoteContent n,
                           FormTagIds := map TagID (NoteTags n) @ [0], FormSectionID := SectionID (NoteSection n)\<rparr>)
                        tags sec True (ReferenceNotes n) (ReferenceByNotes n))
                      ''base'' [''pages/note-create.gohtml''] w))))"

definition NotePut :: "'ses web_env \<Rightarrow> 'ses handler" where
  "NotePut env r w =
     or_error env (parseNoteForm r, w) (\<lambda>nf w.
     or_error env (GetNotesDataStore env r w) (\<lambda>h w.
     or_error env (validateNoteForm env h nf w, w) (\<lambda>fe w.
       if FormID nf \<le> 0 then Served (write_header 400 w)
       else if length fe > 0 then note_form_again env h (nf\<lparr>FormErrors := fe\<rparr>) r w
       else
         or_error env (notes_write env 7 h (\<lambda>c db. no_value (UpdateNote (we_engine env) c (FormID nf) (FormTitle nf)
             (FormContent nf) (FormSectionID nf) (FormTagIds nf) (FormReferenceNoteIds nf) db)) w) (\<lambda>_ w.
           hx_redirect (note_path (FormID nf) (FormTitle nf)) 200 w))))"

definition zero_tag :: Tag where "zero_tag = \<lparr>TagID = 0, TagName = []\<rparr>"

text \<open>A tag that cannot be found is logged and left zero; the look-ups are the operations from 10 on.\<close>

fun preview_tags :: "'ses web_env \<Rightarrow> nat \<Rightarrow> nat \<Rightarrow> int list \<Rightarrow> 'ses web \<Rightarrow> Tag list" where
  "preview_tags env h k [] w = []"
| "preview_tags env h k (tid # tids) w =
     (case notes_go env k h (\<lambda>c. FindTagByID c tid) w of
        (et, None) \<Rightarrow> et | (_, Some err) \<Rightarrow> zero_tag) # preview_tags env h (Suc k) tids w"

definition NotePreviewPost :: "'ses web_env \<Rightarrow> 'ses handler" where
  "NotePreviewPost env r w =
     or_error env (parseNoteForm r, w) (\<lambda>nf w.
     or_error env (GetNotesDataStore env r w) (\<lambda>h w.
     or_error env (notes_read env 1 h (\<lambda>c. GetNoteDetailByIds (we_engine env) c (FormReferenceNoteIds nf)) w) (\<lambda>refNotes w.
     or_error env (notes_read env 2 h (\<lambda>c. GetNoteDetailByIds (we_engine env) c (FormReferencedByNoteIds nf)) w) (\<lambda>refByNotes w.
       let ts = preview_tags env h 10 (FormTagIds nf) w;
           secName = (case notes_go env 3 h (\<lambda>c. FindSectionByID c (FormSectionID nf)) w of
                        (sec, None) \<Rightarrow> SectionName sec | (_, Some err) \<Rightarrow> []);
           n = \<lparr>NoteID = FormID nf, NoteTitle = FormTitle nf, NoteContent = FormContent nf,
                NoteSection = \<lparr>SectionID = FormSectionID nf, SectionName = secName\<rparr>, NoteTags = ts,
                NoteCreatedAt = zero_time, NoteLastUpdatedAt = zero_time, ReferenceNotes = refNotes,
                ReferenceByNotes = refByNotes, NoteBookmark = False\<rparr>;
           userTheme = getUserThemeFromRequest r
       in if userTheme = [] then Served (RenderError env (NewError ''user theme not set in request'') w)
          else
            or_error env (renderNote env (NoteContent n) userTheme, w) (\<lambda>rHTML w.
              render_page env 200 (RenderedNoteView \<lparr>RenderedOf = Some n, RenderedHTML = rHTML, IsPreview = True\<rparr>)
                ''partial:note:rendered'' [] w)))))"

definition NoteViewGet :: "'ses web_env \<Rightarrow> 'ses handler" where
  "NoteViewGet env r w =
     (case parse_int64 (PathID r) of
        Inl err \<Rightarrow> Served (http_not_found w)
      | Inr i \<Rightarrow>
          if i < 1 then Served (http_not_found w)
          else
            or_error env (GetNotesDataStore env r w) (\<lambda>h w.
              case notes_go env 1 h (\<lambda>c. FindNoteByID (we_engine env) c i) w of
                (_, Some err) \<Rightarrow>
                  if errors_is err ErrNoRows then Served (http_not_found w) else Served (RenderError env err w)
              | (n, None) \<Rightarrow>
                  let userTheme = getUserThemeFromRequest r
                  in if slugify (NoteTitle n) \<noteq> PathSlug r
                     then Served (http_redirect (note_path i (NoteTitle n)) 301 w)
                     else if userTheme = []
                     then Served (RenderError env (NewError ''user theme not set in request'') w)
                     else
                       or_error env (renderNote env (NoteContent n) userTheme, w) (\<lambda>rHTML w.
                         render_page env 200
                           (NotePageView (extractBaseDataFromRequest r)
                             \<lparr>RenderedOf = Some n, RenderedHTML = rHTML, IsPreview = False\<rparr>)
                           ''base'' [''pages/note-view.gohtml''] w)))"

definition quoted :: "string \<Rightarrow> string" where
  "quoted q = [CHR 0x22] @ q @ [CHR 0x22]"

text \<open>What is rendered depends on the element that sent the request.\<close>

definition render_search :: "'ses web_env \<Rightarrow> NoteSearchResult list \<Rightarrow> string \<Rightarrow> 'ses handler" where
  "render_search env srs q r w =
     (let source = form_get (ReqHeader r) ''Hx-Source''
      in if source = ''input#search'' \<or> source = ''form#search-dialog''
         then render_page env 200 (SearchResultsView srs) ''partial:search:results-table'' [] w
         else if source = ''input#ref-notes-search''
         then render_page env 200 (SearchResultsView srs) ''partial:note:reference-search-results'' [] w
         else render_page env 200 (SearchPageView (extractBaseDataFromRequest r) srs q)
                ''base'' [''pages/search.gohtml''] w)"

definition NoteSearchGet :: "'ses web_env \<Rightarrow> 'ses handler" where
  "NoteSearchGet env r w =
     (let q = form_get (Query r) ''q''
      in if q \<noteq> []
         then
           or_error env (GetNotesDataStore env r w) (\<lambda>h w.
           or_error env (notes_read env 1 h (\<lambda>c. SearchNotes (we_engine env) (we_fts env) c (quoted q)) w) (\<lambda>srs w.
             render_search env srs q r w))
         else render_search env [] [] r w)"

definition NoteDelete :: "'ses web_env \<Rightarrow> 'ses handler" where
  "NoteDelete env r w =
     (case parse_int64 (PathID r) of
        Inl err \<Rightarrow> Served (http_not_found w)
      | Inr i \<Rightarrow>
          if i < 1 then Served (http_not_found w)
          else
            or_error env (GetNotesDataStore env r w) (\<lambda>h w.
            or_error env (notes_write env 1 h (\<lambda>c db. no_value (DeleteNote (we_engine env) c i db)) w) (\<lambda>_ w.
              hx_redirect ''/'' 200 w)))"

definition ReferenceNoteSelectPost :: "'ses web_env \<Rightarrow> 'ses handler" where
  "ReferenceNoteSelectPost env r w =
     or_error env (parseIDFromPath r, w) (\<lambda>i w.
     or_error env (case FormErr r of Some err \<Rightarrow> Inl err | None \<Rightarrow> Inr (), w) (\<lambda>_ w.
       let title = form_get (PostForm r) ''title''
       in if title = [] then Served (RenderError env (NewError ''hx-vals title is an empty string'') w)
          else render_page env 200 (SelectedReferenceView title i) ''partial:note:selected-reference'' [] w))"

definition NoteBookmarkPutDelete :: "'ses web_env \<Rightarrow> bool \<Rightarrow> 'ses handler" where
  "NoteBookmarkPutDelete env setBookmark r w =
     (case parse_int64 (PathID r) of
        Inl err \<Rightarrow> Served (http_not_found w)
      | Inr i \<Rightarrow>
          if i < 1 then Served (http_not_found w)
          else
            or_error env (GetNotesDataStore env r w) (\<lambda>h w.
            or_error env (notes_write env 1 h (\<lambda>c db. no_value (SetNoteBookmark c i setBookmark db)) w) (\<lambda>_ w.
              render_page env 200 (BookmarkView i setBookmark) ''partial:note:bookmark-button'' [] w)))"

end
