(* ===== verification/Web_Lists.thy ===== *)
theory Web_Lists
  imports Web_Base
begin

text \<open>
  \<open>web/handlers/section.go\<close>, \<open>web/handlers/tag.go\<close> and \<open>web/handlers/home.go\<close>: the forms with
  one name, their validation, and the handlers for sections, tags and the home page.
\<close>

section \<open>Sections\<close>

definition parseNameForm :: "string \<Rightarrow> request \<Rightarrow> nameForm outcome" where
  "parseNameForm field r =
     (case FormErr r of
        Some err \<Rightarrow> Inl err
      | None \<Rightarrow>
          (let form = \<lparr>NameMethod = Method r, NameID = 0, NameText = form_get (PostForm r) field, NameErrors = []\<rparr>
           in if Method r = ''PUT''
              then (case parseIDFromPath r of Inl err \<Rightarrow> Inl err | Inr i \<Rightarrow> Inr (form\<lparr>NameID := i\<rparr>))
              else Inr form))"

definition parseSectionFormFromRequest :: "request \<Rightarrow> nameForm outcome" where
  "parseSectionFormFromRequest r = parseNameForm ''section-name'' r"

definition validateSectionForm :: "nameForm \<Rightarrow> nameForm" where
  "validateSectionForm form =
     (let fe = NameErrors form;
          fe = (if NameText form = [] then map_set ''name'' ''Cannot be empty'' fe else fe);
          fe = (if \<not> MaxChars (NameText form) 25 then map_set ''name'' ''Cannot be more than 25 characters'' fe else fe);
          fe = (if NameMethod form = ''PUT'' \<and> NameID form = 0 then map_set ''id'' ''Id cannot be empty'' fe else fe)
      in form\<lparr>NameErrors := fe\<rparr>)"

definition SectionGet :: "'ses web_env \<Rightarrow> 'ses handler" where
  "SectionGet env r w =
     or_error env (GetNotesDataStore env r w) (\<lambda>h w.
     or_error env (notes_read env 1 h ListAllSections w) (\<lambda>secs w.
       render_page env 200 (SectionListView (extractBaseDataFromRequest r) secs)
         ''base'' [''pages/section-list.gohtml''] w))"

definition SectionPost :: "'ses web_env \<Rightarrow> 'ses handler" where
  "SectionPost env r w =
     (case parseSectionFormFromRequest r of
        Inl err \<Rightarrow> Served (http_error (TextBody ''failed to parse form'') 422 w)
      | Inr form0 \<Rightarrow>
          let form = validateSectionForm form0
          in if length (NameErrors form) > 0
             then render_page env 422 (NameFormView form) ''partial:section:new'' [] w
             else
               or_error env (GetNotesDataStore env r w) (\<lambda>h w.
               or_error env (notes_write env 1 h (\<lambda>c. CreateSection (we_engine env) c
                   \<lparr>SectionID = 0, SectionName = NameText form\<rparr>) w) (\<lambda>_ w.
                 Served (write_header 303 (add_header ''HX-Redirect'' ''/section'' w)))))"

definition SectionNewGet :: "'ses web_env \<Rightarrow> 'ses handler" where
  "SectionNewGet env r w =
     render_page env 200 (NameFormView \<lparr>NameMethod = [], NameID = 0, NameText = [], NameErrors = []\<rparr>)
       ''partial:section:new'' [] w"

definition text_of :: "go_error \<Rightarrow> body" where
  "text_of err = ErrorBody err"

definition SectionDelete :: "'ses web_env \<Rightarrow> 'ses handler" where
  "SectionDelete env r w =
     (case parseIDFromPath r of
        Inl err \<Rightarrow> Served (http_error (text_of err) 400 w)
      | Inr sectionID \<Rightarrow>
          or_error env (GetNotesDataStore env r w) (\<lambda>h w.
          or_error env (notes_write env 1 h (\<lambda>c db. no_value (DeleteSection (we_engine env) c sectionID db)) w) (\<lambda>_ w.
            Served (write_header 303 (add_header ''HX-Redirect'' ''/section'' w)))))"

definition section_path :: "int \<Rightarrow> string \<Rightarrow> string" where
  "section_path i name = ''/section/'' @ show_int i @ ''/'' @ slugify name"

definition SectionPut :: "'ses web_env \<Rightarrow> 'ses handler" where
  "SectionPut env r w =
     (case parseSectionFormFromRequest r of
        Inl err \<Rightarrow> Served (http_error (text_of err) 400 w)
      | Inr form0 \<Rightarrow>
          let form = validateSectionForm form0
          in if length (NameErrors form) > 0
             then render_unchecked env 200 (NameFormView form) ''partial:section:update'' [] w
             else
               or_error env (GetNotesDataStore env r w) (\<lambda>h w.
               or_error env (notes_write env 1 h (\<lambda>c db. no_value (UpdateSection c
                   \<lparr>SectionID = NameID form, SectionName = NameText form\<rparr> db)) w) (\<lambda>_ w.
                 Served (write_header 303 (add_header ''HX-Redirect'' (section_path (NameID form) (NameText form)) w)))))"

definition SectionEditGet :: "'ses web_env \<Rightarrow> 'ses handler" where
  "SectionEditGet env r w =
     (case parseIDFromPath r of
        Inl err \<Rightarrow> Served (http_error (text_of err) 400 w)
      | Inr sectionID \<Rightarrow>
          or_error env (GetNotesDataStore env r w) (\<lambda>h w.
            case notes_go env 1 h (\<lambda>c. FindSectionByID c sectionID) w of
              (_, Some err) \<Rightarrow>
                if errors_is err ErrNoRows
                then Served (http_error (TextBody (''section '' @ show_int sectionID @ '' not found'')) 404 w)
                else Served (RenderError env err w)
            | (sec, None) \<Rightarrow>
                render_page env 200
                  (NameFormView \<lparr>NameMethod = [], NameID = SectionID sec, NameText = SectionName sec, NameErrors = []\<rparr>)
                  ''partial:section:update'' [] w))"

definition SectionViewGet :: "'ses web_env \<Rightarrow> 'ses handler" where
  "SectionViewGet env r w =
     (if PathID r = [] then Served (http_error (TextBody ''section id not found'') 404 w)
      else case parse_int64 (PathID r) of
        Inl err \<Rightarrow> Served (http_error (text_of err) 400 w)
      | Inr i \<Rightarrow>
          or_error env (GetNotesDataStore env r w) (\<lambda>h w.
            case notes_go env 1 h (\<lambda>c. FindSectionByID c i) w of
              (_, Some err) \<Rightarrow>
                if errors_is err ErrNoRows
                then Served (http_error (TextBody ''section not found'') 404 w)
                else Served (RenderError env err w)
            | (sec, None) \<Rightarrow>
                or_error env (notes_read env 2 h (\<lambda>c. NotesInSection c i) w) (\<lambda>nds w.
                  render_page env 200 (SectionPageView (extractBaseDataFromRequest r) sec nds)
                    ''base'' [''pages/section-view.gohtml''] w)))"

section \<open>Tags\<close>

definition parseTagFormFromRequest :: "request \<Rightarrow> nameForm outcome" where
  "parseTagFormFromRequest r = parseNameForm ''tag-name'' r"

text \<open>The error, and the form with its field errors: the caller sees both.\<close>

definition validateTagForm ::
    "'ses web_env \<Rightarrow> nat \<Rightarrow> nat \<Rightarrow> nameForm \<Rightarrow> 'ses web \<Rightarrow> go_error option \<times> nameForm" where
  "validateTagForm env k h tf w =
     (let fe = NameErrors tf;
          fe = (if \<not> NotBlank (NameText tf) then map_set ''name'' ''Cannot be empty'' fe else fe);
          fe = (if \<not> MaxChars (NameText tf) 25 then map_set ''name'' ''Cannot be more than 25 characters'' fe else fe)
      in case notes_go env k h (\<lambda>c. FindTagByName c (NameText tf)) w of
           (_, None) \<Rightarrow> (None, tf\<lparr>NameErrors := map_set ''name'' ''Tag already exists'' fe\<rparr>)
         | (_, Some err) \<Rightarrow>
             (if \<not> errors_is err ErrNoRows then Some err else None, tf\<lparr>NameErrors := fe\<rparr>))"

definition TagGet :: "'ses web_env \<Rightarrow> 'ses handler" where
  "TagGet env r w =
     or_error env (GetNotesDataStore env r w) (\<lambda>h w.
     or_error env (notes_read env 1 h ListAllTags w) (\<lambda>allTags w.
       render_page env 200 (TagListView (extractBaseDataFromRequest r) allTags)
         ''base'' [''pages/tags-list.gohtml''] w))"

definition TagViewGet :: "'ses web_env \<Rightarrow> 'ses handler" where
  "TagViewGet env r w =
     (case parseIDFromPath r of
        Inl err \<Rightarrow> Served (http_error (text_of err) 400 w)
      | Inr tagID \<Rightarrow>
          or_error env (GetNotesDataStore env r w) (\<lambda>h w.
          or_error env (notes_read env 1 h (\<lambda>c. FindTagByID c tagID) w) (\<lambda>tag w.
          or_error env (notes_read env 2 h (\<lambda>c. NotesWithTag (we_engine env) c tagID) w) (\<lambda>noteDetails w.
            render_page env 200 (TagPageView (extractBaseDataFromRequest r) tag noteDetails)
              ''base'' [''pages/tag-view.gohtml''] w))))"

definition TagEditGet :: "'ses web_env \<Rightarrow> 'ses handler" where
  "TagEditGet env r w =
     (case parseIDFromPath r of
        Inl err \<Rightarrow> Served (http_error (text_of err) 400 w)
      | Inr tagID \<Rightarrow>
          or_error env (GetNotesDataStore env r w) (\<lambda>h w.
          or_error env (notes_read env 1 h (\<lambda>c. FindTagByID c tagID) w) (\<lambda>tag w.
            render_page env 200 (TagEditView (TagID tag) (TagName tag)) ''partial:tag:put'' [] w)))"

definition tag_path :: "int \<Rightarrow> string \<Rightarrow> string" where
  "tag_path i name = ''/tag/'' @ show_int i @ ''/'' @ slugify name"

text \<open>\<open>TagPut\<close> drops the error of \<open>validateTagForm\<close>.\<close>

definition TagPut :: "'ses web_env \<Rightarrow> 'ses handler" where
  "TagPut env r w =
     or_error env (GetNotesDataStore env r w) (\<lambda>h w.
       case parseTagFormFromRequest r of
         Inl err \<Rightarrow> Served (http_error (text_of err) 400 w)
       | Inr form0 \<Rightarrow>
           let form = snd (validateTagForm env 1 h form0 w)
           in if length (NameErrors form) > 0
              then render_page env 200 (NameFormView form) ''partial:tag:put'' [] w
              else
                or_error env (notes_write env 2 h (\<lambda>c db. no_value (UpdateTag (we_engine env) c
                    \<lparr>TagID = NameID form, TagName = NameText form\<rparr> db)) w) (\<lambda>_ w.
                  Served (write_header 303 (add_header ''HX-Redirect'' (tag_path (NameID form) (NameText form)) w))))"

definition TagDelete :: "'ses web_env \<Rightarrow> 'ses handler" where
  "TagDelete env r w =
     (case parseIDFromPath r of
        Inl err \<Rightarrow> Served (http_error (text_of err) 400 w)
      | Inr tagID \<Rightarrow>
          or_error env (GetNotesDataStore env r w) (\<lambda>h w.
          or_error env (notes_write env 1 h (\<lambda>c db. no_value (DeleteTag (we_engine env) c tagID db)) w) (\<lambda>_ w.
            Served (write_header 303 (add_header ''HX-Redirect'' ''/index'' w)))))"

definition newline :: string where "newline = [CHR 0x0A]"

definition error_paragraphs :: "smap \<Rightarrow> string" where
  "error_paragraphs fe = concat (map (\<lambda>p. ''<p>'' @ snd p @ ''</p>'' @ newline) fe)"

definition TagPost :: "'ses web_env \<Rightarrow> 'ses handler" where
  "TagPost env r w =
     (case parseTagFormFromRequest r of
        Inl err \<Rightarrow> Served (http_error (text_of err) 422 w)
      | Inr form0 \<Rightarrow>
          or_error env (GetNotesDataStore env r w) (\<lambda>h w.
            case validateTagForm env 1 h form0 w of
              (Some err, _) \<Rightarrow> Served (RenderError env err w)
            | (None, form) \<Rightarrow>
                if length (NameErrors form) > 0
                then render_page env 422 (TagNewView (error_paragraphs (NameErrors form)) [] None) ''partial:tag:new'' [] w
                else
                  or_error env (notes_write env 2 h (\<lambda>c. CreateTag (we_engine env) c
                      \<lparr>TagID = 0, TagName = NameText form\<rparr>) w) (\<lambda>i w.
                    render_page env 201
                      (TagNewView [] (''Tag '' @ NameText form @ '' created'') (Some \<lparr>TagID = i, TagName = NameText form\<rparr>))
                      ''partial:tag:new'' [] w)))"

section \<open>Home\<close>

definition HomeGet :: "'ses web_env \<Rightarrow> 'ses handler" where
  "HomeGet env r w =
     or_error env (GetNotesDataStore env r w) (\<lambda>h w.
     or_error env (notes_read env 1 h (\<lambda>c. RecentlyModifiedNotes (we_engine env) c 10) w) (\<lambda>mn w.
     or_error env (notes_read env 2 h (\<lambda>c. BookmarkedNotes (we_engine env) c 10) w) (\<lambda>bn w.
     or_error env (notes_read env 3 h (\<lambda>c. MostReferencedNotes (we_engine env) c 10) w) (\<lambda>rn w.
     or_error env (notes_read env 4 h (\<lambda>c. NoteWithMostReferences (we_engine env) c 10) w) (\<lambda>hn w.
     or_error env (notes_read env 5 h (\<lambda>c. NotesWithNoContent (we_engine env) c 10) w) (\<lambda>needCare w.
     or_error env (notes_read env 6 h (\<lambda>c. RecentlyActiveSections (we_engine env) c 10) w) (\<lambda>secs w.
       render_page env 200 (HomeView (extractBaseDataFromRequest r) mn bn rn hn needCare secs)
         ''base'' [''pages/home.gohtml''] w)))))))"

end
