(* ===== verification/Web_Users.thy ===== *)
theory Web_Users
  imports Web_Base
begin

text \<open>
  \<open>web/handlers/users.go\<close>, \<open>web/handlers/admin.go\<close> and \<open>web/handlers/debug.go\<close>: login and
  logout, themes, the administration of users, the initial setup, and the debug pages. The
  handlers have the names of operations of the user store in places; those end in \<open>_handler\<close>.
\<close>

section \<open>Login\<close>

definition GetUserLogin :: "'ses web_env \<Rightarrow> 'ses handler" where
  "GetUserLogin env r w =
     render_page env 200
       (LoginView (extractBaseDataFromRequest r) \<lparr>LoginName = [], LoginPassword = [], LoginErrors = []\<rparr>)
       ''base'' [''pages/login.gohtml''] w"

definition userIDSessionKey :: string where "userIDSessionKey = ''authenticatedUserId''"

definition put_session :: "'ses web_env \<Rightarrow> string \<Rightarrow> int \<Rightarrow> 'ses web \<Rightarrow> ('ses web \<Rightarrow> 'ses served) \<Rightarrow> 'ses served" where
  "put_session env k v w rest =
     with_session w (\<lambda>ses. rest (w\<lparr>w_session := Some (scs_put (we_scs env) k v ses)\<rparr>))"

text \<open>The second half of \<open>PostUserLogin\<close>, with the user that was authenticated.\<close>

definition login_user :: "'ses web_env \<Rightarrow> User \<Rightarrow> 'ses web \<Rightarrow> 'ses served" where
  "login_user env user w =
     or_error env (index_write env 2 (\<lambda>c ix. no_value (UpdateUserLastLoginToNow c (UserID user) ix)) w) (\<lambda>_ w.
     RenewToken env 3 w (\<lambda>w.
     put_session env userIDSessionKey (UserID user) w (\<lambda>w.
       Served (http_redirect (if IsAdmin user then ''/admin'' else ''/'') 303 w))))"

definition PostUserLogin :: "'ses web_env \<Rightarrow> 'ses handler" where
  "PostUserLogin env r w =
     or_error env (case FormErr r of Some err \<Rightarrow> Inl err | None \<Rightarrow> Inr (), w) (\<lambda>_ w.
       let name = form_get (PostForm r) ''name'';
           password = form_get (PostForm r) ''password'';
           fe = (if name = [] then map_set ''error'' ''username cannot be empty'' [] else []);
           fe = (if password = [] then map_set ''error'' ''password cannot be empty'' fe else fe);
           lf = \<lparr>LoginName = name, LoginPassword = password, LoginErrors = fe\<rparr>
       in if length fe > 0
          then render_page env 422 (LoginView (extractBaseDataFromRequest r) lf) ''base'' [''pages/login.gohtml''] w
          else
            (case AuthenticateUser (we_bcrypt env) (pool_call env 1 0 w) name password (index (w_manager w)) of
               (_, Some err) \<Rightarrow>
                 if errors_is err ErrInvalidCredentials
                 then render_page env 403
                        (LoginView (extractBaseDataFromRequest r)
                          (lf\<lparr>LoginErrors := map_set ''error'' ''username or password is incorrect'' fe\<rparr>))
                        ''base'' [''pages/login.gohtml''] w
                 else Served (RenderError env err w)
             | (user, None) \<Rightarrow>
                 login_user env user w))"

definition PostUserLogout :: "'ses web_env \<Rightarrow> 'ses handler" where
  "PostUserLogout env r w =
     RenewToken env 1 w (\<lambda>w.
     with_session w (\<lambda>ses.
       hx_redirect ''/login'' 200 (w\<lparr>w_session := Some (scs_remove (we_scs env) userIDSessionKey ses)\<rparr>)))"

definition PutUserTheme :: "'ses web_env \<Rightarrow> 'ses handler" where
  "PutUserTheme env r w =
     or_error env (parseIDFromPath r, w) (\<lambda>userID w.
       let ctxUserID = getUserIDFromRequest r; userTheme = getUserThemeFromRequest r
       in if ctxUserID = 0 then Served (RenderError env (NewError ''user id missing from request context'') w)
          else if userID \<noteq> ctxUserID
          then Served (RenderError env (NewError ''authenticated user id does not match path user id'') w)
          else if userTheme = [] then Served (RenderError env (NewError ''user theme not set in request'') w)
          else
            or_error env (index_write env 1 (\<lambda>c ix. no_value (UpdateUserTheme c ctxUserID
                (if userTheme = ''dark'' then ''light'' else ''dark'') ix)) w) (\<lambda>_ w.
              let currentURL = form_get (ReqHeader r) ''HX-Current-URL''
              in if currentURL = []
                 then Served (RenderError env (NewError ''HX-Current-URL request header not set'') w)
                 else hx_redirect currentURL 200 w))"

section \<open>Administration\<close>

definition validatePassword :: "string \<Rightarrow> string \<Rightarrow> smap \<Rightarrow> smap" where
  "validatePassword password confirmedPassword fe =
     (if password = [] then map_set ''password'' ''password cannot be empty'' fe
      else if \<not> MinChars password 8 then map_set ''password'' ''password must be at least 8 characters'' fe
      else if password \<noteq> confirmedPassword then map_set ''password'' ''passwords must match'' fe
      else fe)"

definition parseUserEditFormFromRequest :: "request \<Rightarrow> userEditForm outcome" where
  "parseUserEditFormFromRequest r =
     (case FormErr r of
        Some err \<Rightarrow> Inl err
      | None \<Rightarrow>
          (let idStr = form_get (PostForm r) ''id''
           in if idStr = [] then Inl (NewError ''missing user id from form'')
              else case parse_int64 idStr of
                     Inl err \<Rightarrow> Inl err
                   | Inr i \<Rightarrow> Inr \<lparr>EditID = i, EditUserName = form_get (PostForm r) ''username'', EditErrors = []\<rparr>))"

definition DeleteUser_handler :: "'ses web_env \<Rightarrow> 'ses handler" where
  "DeleteUser_handler env r w =
     or_error env (parseIDFromPath r, w) (\<lambda>userID w.
     or_error env (index_read env 1 (\<lambda>c. GetUser c userID) w) (\<lambda>user w.
       let delete_row = (\<lambda>w.
         or_error env (index_write env 2 (\<lambda>c ix. no_value (DeleteUser (we_engine env) c userID ix)) w) (\<lambda>_ w.
           hx_redirect ''/admin'' 200 w))
       in if IsAdmin user then Remove env 0 (UserID user) w delete_row
          else DeleteDB env 0 userID w delete_row))"

definition GetUserCreate :: "'ses web_env \<Rightarrow> 'ses handler" where
  "GetUserCreate env r w = render_page env 200 NoView ''partial:user:new'' [] w"

definition new_user_errors :: "string \<Rightarrow> string \<Rightarrow> smap" where
  "new_user_errors name password =
     (let fe = (if name = [] then map_set ''name'' ''username cannot be blank'' [] else [])
      in if password = [] then map_set ''password'' ''password cannot be blank'' fe
         else if \<not> MinChars password 8 then map_set ''password'' ''password must be at least 8 characters'' fe
         else fe)"

definition see_admin :: "'ses web \<Rightarrow> 'ses served" where
  "see_admin w = Served (write_header 303 (add_header ''HX-Redirect'' ''/admin'' w))"

definition PostUser :: "'ses web_env \<Rightarrow> 'ses handler" where
  "PostUser env r w =
     or_error env (case FormErr r of Some err \<Rightarrow> Inl err | None \<Rightarrow> Inr (), w) (\<lambda>_ w.
       let name = form_get (PostForm r) ''username'';
           password = form_get (PostForm r) ''password'';
           fe = new_user_errors name password;
           nuf = \<lparr>NewName = name, NewPassword = password,
                  NewIsAdmin = (form_get (PostForm r) ''is-admin'' = ''on''), NewErrors = fe\<rparr>
       in if length fe > 0 then render_unchecked env 422 (NewUserView nuf) ''partial:user:new'' [] w
          else
            or_error env (index_read env 1 (\<lambda>c. NameExists c name) w) (\<lambda>exists w.
              if exists
              then render_unchecked env 422
                     (NewUserView (nuf\<lparr>NewErrors := map_set ''name'' ''username already exists'' fe\<rparr>))
                     ''partial:user:new'' [] w
              else if NewIsAdmin nuf
              then or_error env (index_write env 2 (\<lambda>c. CreateAdminUser (we_engine env) (we_bcrypt env) c name password) w)
                     (\<lambda>_ w. see_admin w)
              else
                or_error env (index_write env 2 (\<lambda>c. CreateUserAndDB (we_engine env) (we_bcrypt env) c name password) w)
                  (\<lambda>userID w. CreateDB env 0 userID w see_admin)))"

definition GetAdmin :: "'ses web_env \<Rightarrow> 'ses handler" where
  "GetAdmin env r w =
     or_error env (index_read env 1 (ListUsers (we_engine env)) w) (\<lambda>us w.
       render_page env 200 (AdminView (extractBaseDataFromRequest r) us) ''base'' [''pages/admin.gohtml''] w)"

text \<open>A name that is in the table is refused, also when it is the user's own.\<close>

definition PutUser :: "'ses web_env \<Rightarrow> 'ses handler" where
  "PutUser env r w =
     or_error env (parseIDFromPath r, w) (\<lambda>pathUserID w.
     or_error env (parseUserEditFormFromRequest r, w) (\<lambda>form w.
       if EditID form \<noteq> pathUserID then Served (RenderError env (NewError ''form id does not match path id'') w)
       else
         or_error env
           (if EditUserName form = [] then (Inr (map_set ''username'' ''username cannot be empty'' []), w)
            else (case index_read env 1 (\<lambda>c. NameExists c (EditUserName form)) w of
                    (Inl err, w) \<Rightarrow> (Inl err, w)
                  | (Inr exists, w) \<Rightarrow>
                      (Inr (if exists then map_set ''username'' ''name already exists'' [] else []), w)))
           (\<lambda>fe w.
             if length fe > 0
             then
               or_error env (index_read env 2 (\<lambda>c. GetUser c (EditID form)) w) (\<lambda>user w.
                 render_unchecked env 422
                   (UserEditErrorView (extractBaseDataFromRequest r) (form\<lparr>EditErrors := fe\<rparr>) user)
                   ''partial:user:edit'' [] w)
             else
               or_error env (index_write env 3 (\<lambda>c. UpdateUser c (EditID form) (EditUserName form)) w) (\<lambda>user w.
                 render_page env 200 (UserView user) ''partial:user:updated'' [] w))))"

definition change_password_errors :: "string \<Rightarrow> string \<Rightarrow> smap" where
  "change_password_errors password confirmed =
     (if password = [] then map_set ''error'' ''password cannot be empty'' []
      else if confirmed = [] then map_set ''error'' ''confirmed password cannot be empty'' []
      else if \<not> MinChars password 8 then map_set ''error'' ''password must be at least 8 characters'' []
      else if password \<noteq> confirmed then map_set ''error'' ''passwords do not match'' []
      else [])"

text \<open>The id is the one of the form; the one of the path is not looked at.\<close>

definition PutUserPassword :: "'ses web_env \<Rightarrow> 'ses handler" where
  "PutUserPassword env r w =
     or_error env (case FormErr r of Some err \<Rightarrow> Inl err | None \<Rightarrow> Inr (), w) (\<lambda>_ w.
       let password = form_get (PostForm r) ''password'';
           confirmed = form_get (PostForm r) ''confirmed-password'';
           idStr = form_get (PostForm r) ''id''
       in or_error env
            (if idStr = [] then Inl (NewError ''id missing from form'') else parse_int64 idStr, w) (\<lambda>i w.
          let fe = change_password_errors password confirmed
          in if length fe > 0
             then render_unchecked env 422
                    (ChangePasswordView \<lparr>ChangeID = i, ChangeName = form_get (PostForm r) ''name'',
                       ChangePassword = password, ChangeConfirmed = confirmed, ChangeErrors = fe\<rparr>)
                    ''partial:user:change-password-form'' [] w
             else
               or_error env (index_write env 1 (\<lambda>c ix. no_value (UpdateUserPassword (we_bcrypt env) c i password ix)) w)
                 (\<lambda>_ w. see_admin w)))"

definition bad_request :: "'ses web \<Rightarrow> 'ses web" where
  "bad_request w = http_error (TextBody ''Bad Request'') 400 w"

definition GetUserEdit :: "'ses web_env \<Rightarrow> 'ses handler" where
  "GetUserEdit env r w =
     (case parseIDFromPath r of
        Inl err \<Rightarrow> Served (bad_request w)
      | Inr userID \<Rightarrow>
          or_error env (index_read env 1 (\<lambda>c. GetUser c userID) w) (\<lambda>user w.
            render_page env 200
              (UserEditView (extractBaseDataFromRequest r) user
                \<lparr>EditID = userID, EditUserName = UserName user, EditErrors = []\<rparr>
                \<lparr>ChangeID = UserID user, ChangeName = UserName user, ChangePassword = [], ChangeConfirmed = [],
                 ChangeErrors = []\<rparr>)
              ''partial:user:edit'' [] w))"

definition GetUser_handler :: "'ses web_env \<Rightarrow> 'ses handler" where
  "GetUser_handler env r w =
     (case parseIDFromPath r of
        Inl err \<Rightarrow> Served (bad_request w)
      | Inr userID \<Rightarrow>
          or_error env (index_read env 1 (\<lambda>c. GetUser c userID) w) (\<lambda>user w.
            render_page env 200 (UserView user) ''partial:user:replace-edit-form'' [] w))"

section \<open>Initial setup\<close>

definition GetSetup :: "'ses web_env \<Rightarrow> 'ses handler" where
  "GetSetup env r w =
     (if \<not> w_setup w then Served (http_redirect ''/'' 303 w)
      else render_page env 200
             (SetupView (extractBaseDataFromRequest r)
               \<lparr>SetupUsername = [], SetupPassword = [], SetupConfirm = [], SetupErrors = []\<rparr>)
             ''base'' [''pages/setup.gohtml''] w)"

definition PostSetup :: "'ses web_env \<Rightarrow> 'ses handler" where
  "PostSetup env r w =
     (if \<not> w_setup w then Served (http_redirect ''/'' 303 w)
      else
        or_error env (case FormErr r of Some err \<Rightarrow> Inl err | None \<Rightarrow> Inr (), w) (\<lambda>_ w.
          let username = form_get (PostForm r) ''username'';
              password = form_get (PostForm r) ''password'';
              confirm = form_get (PostForm r) ''confirm-password'';
              fe = (if username = [] then map_set ''username'' ''username cannot be empty'' [] else []);
              fe = validatePassword password confirm fe
          in if length fe > 0
             then render_unchecked env 200
                    (SetupView (extractBaseDataFromRequest r)
                      \<lparr>SetupUsername = username, SetupPassword = password, SetupConfirm = confirm, SetupErrors = fe\<rparr>)
                    ''base'' [''pages/setup.gohtml''] w
             else
               or_error env (index_write env 1 (\<lambda>c. CreateAdminUser (we_engine env) (we_bcrypt env) c username password) w) (\<lambda>userID w.
               or_error env (index_write env 2 (\<lambda>c ix. no_value (UpdateUserLastLoginToNow c userID ix)) w) (\<lambda>_ w.
               RenewToken env 3 w (\<lambda>w.
               put_session env userIDSessionKey userID (w\<lparr>w_setup := False\<rparr>) (\<lambda>w.
                 Served (http_redirect ''/admin'' 303 w)))))))"

section \<open>Debug pages\<close>

definition ConnCacheStateGet :: "'ses web_env \<Rightarrow> 'ses handler" where
  "ConnCacheStateGet env r w =
     (case send_cmd env 0 CmdGetState w of
        None \<Rightarrow> Hangs
      | Some (rep, w) \<Rightarrow>
          (let st = GetState (w_stopped w) rep
           in case we_json env st of
                Some err \<Rightarrow> Served (RenderError env err w)
              | None \<Rightarrow>
                  (let w = write_header 200 (add_header ''Content-Type'' ''application/json'' w)
                   in case we_write env of
                        Some err \<Rightarrow> Served (RenderError env err w)
                      | None \<Rightarrow> Served (write_body (StateBody st) w))))"

definition GetDebugBuildInfo :: "'ses web_env \<Rightarrow> 'ses handler" where
  "GetDebugBuildInfo env r w =
     (case we_build_info env of
        None \<Rightarrow> Served (write_body (TextBody ''failed to read build info'') w)
      | Some bi \<Rightarrow> Served (write_body (TextBody bi) (write_header 200 w)))"

end
