(* ===== verification/Web_Routes.thy ===== *)
theory Web_Routes
  imports Web_Notes Web_Lists Web_Users
begin

text \<open>
  \<open>web/handlers/middleware.go\<close> and \<open>web/routes.go\<close>: the middleware, the chains of it, the table
  of routes and the multiplexer of \<open>net/http\<close> that selects one, down to the handler of the whole
  site. Requests have clean paths (\<open>net/http\<close> redirects others before it looks at the table).
\<close>

section \<open>Middleware\<close>

type_synonym 'ses middleware = "'ses handler \<Rightarrow> 'ses handler"

text \<open>\<open>Chain.Then\<close>: the first of the chain is the outermost.\<close>

definition chain_Then :: "'ses middleware list \<Rightarrow> 'ses handler \<Rightarrow> 'ses handler" where
  "chain_Then c h = fold (\<lambda>mw h. mw h) (rev c) h"

text \<open>
  \<open>compile\<close> is \<open>regexp.Compile\<close> with \<open>MatchString\<close>: patterns that do not compile are left out.
  A request whose handler panics is not logged.
\<close>

definition RequestLogger :: "(string \<Rightarrow> (string \<Rightarrow> bool) option) \<Rightarrow> string list \<Rightarrow> 'ses middleware" where
  "RequestLogger compile ignoreRE next r w =
     (let ignore = List.map_filter compile ignoreRE
      in case next r (w\<lparr>lw_status := 0, lw_wrote := False\<rparr>) of
           Served w1 \<Rightarrow>
             Served (if list_ex (\<lambda>regex. regex (Path r)) ignore then w1
                     else w1\<lparr>w_log := w_log w1 @ [\<lparr>LogMethod = Method r, LogPath = EscapedPath r, LogStatus = lw_status w1\<rparr>]\<rparr>)
         | Panicked pv w1 \<Rightarrow> Panicked pv w1
         | Hangs \<Rightarrow> Hangs)"

definition RecoverPanic :: "'ses middleware" where
  "RecoverPanic next r w =
     (case next r w of
        Panicked pv w1 \<Rightarrow>
          Served (http_error (TextBody internal_error_text) 500 (set_header ''Connection'' ''close'' w1))
      | done \<Rightarrow> done)"

definition set_ctx :: "req_context \<Rightarrow> request \<Rightarrow> request" where
  "set_ctx ctx r = r\<lparr>Ctx := ctx\<rparr>"

definition Authenticate :: "'ses web_env \<Rightarrow> 'ses middleware" where
  "Authenticate env next r w =
     with_session w (\<lambda>ses.
       let authUserID = scs_get (we_scs env) userIDSessionKey ses
       in if authUserID = 0
          then next (set_ctx ((Ctx r)\<lparr>isAuthenticatedKey := Some False, isAdminKey := Some False,
                                     userThemeKey := Some ''light''\<rparr>) r)
                 (add_header ''Cache-Control'' ''no-store'' w)
          else (case GetUser (pool_call env 20 0 w) authUserID (index (w_manager w)) of
                  (_, Some err) \<Rightarrow> Served (http_error (TextBody internal_error_text) 500 w)
                | (user, None) \<Rightarrow>
                    next (set_ctx ((Ctx r)\<lparr>isAuthenticatedKey := Some True, isAdminKey := Some (IsAdmin user),
                                          userIDKey := Some (UserID user), userThemeKey := Some (Theme user)\<rparr>) r)
                      (add_header ''Cache-Control'' ''no-store'' w)))"

definition server_error :: "'ses web \<Rightarrow> 'ses web" where
  "server_error w = http_error (TextBody internal_error_text) 500 w"

definition RequireAuth :: "'ses middleware" where
  "RequireAuth next r w =
     (case isAuthenticatedKey (Ctx r) of
        None \<Rightarrow> Served (server_error w)
      | Some auth \<Rightarrow> if \<not> auth then Served (http_redirect ''/login'' 303 w) else next r w)"

definition RedirectAdmin :: "'ses middleware" where
  "RedirectAdmin next r w =
     (case isAdminKey (Ctx r) of
        None \<Rightarrow> Served (server_error w)
      | Some adm \<Rightarrow> if adm then Served (http_redirect ''/admin'' 303 w) else next r w)"

definition RequireAdmin :: "'ses middleware" where
  "RequireAdmin next r w =
     (case isAuthenticatedKey (Ctx r) of
        None \<Rightarrow> Served (server_error w)
      | Some auth \<Rightarrow>
          if \<not> auth then Served (http_redirect ''/login'' 303 w)
          else (case isAdminKey (Ctx r) of
                  None \<Rightarrow> Served (server_error w)
                | Some adm \<Rightarrow> if \<not> adm then Served (http_redirect ''/login'' 303 w) else next r w))"

definition InitialSetup :: "'ses middleware" where
  "InitialSetup next r w =
     (if w_setup w \<and> EscapedPath r \<noteq> ''/setup'' \<and> \<not> contains (EscapedPath r) ''/static/''
      then Served (http_redirect ''/setup'' 303 w)
      else next r w)"

definition single_quoted :: "string \<Rightarrow> string" where
  "single_quoted s = [CHR 0x27] @ s @ [CHR 0x27]"

definition content_security_policy :: string where
  "content_security_policy =
     (let self = single_quoted ''self''
      in ''default-src '' @ self @ ''; script-src '' @ self @ '' '' @ single_quoted ''unsafe-eval'' @ ''; img-src '' @ self
         @ ''; font-src '' @ self @ ''; style-src '' @ self)"

definition CommonHeaders :: "'ses middleware" where
  "CommonHeaders next r w =
     next r
       (set_header ''X-XSS-Protection'' ''0''
       (set_header ''X-Frame-Options'' ''deny''
       (set_header ''X-Content-Type-Options'' ''nosniff''
       (set_header ''Referrer-Policy'' ''origin-when-cross-origin''
       (set_header ''Content-Security-Policy'' content_security_policy w)))))"

text \<open>\<open>http.NewCrossOriginProtection\<close> without trusted origins.\<close>

definition safe_method :: "string \<Rightarrow> bool" where
  "safe_method m \<longleftrightarrow> m = ''GET'' \<or> m = ''HEAD'' \<or> m = ''OPTIONS''"

definition cross_origin_check :: "'ses web_env \<Rightarrow> request \<Rightarrow> string option" where
  "cross_origin_check env r =
     (let site = form_get (ReqHeader r) ''Sec-Fetch-Site''; origin = form_get (ReqHeader r) ''Origin''
      in if safe_method (Method r) then None
         else if site = ''same-origin'' \<or> site = ''none'' then None
         else if site \<noteq> [] then Some ''cross-origin request detected from Sec-Fetch-Site header''
         else if origin = [] then None
         else if we_origin_host env origin = Some (Host r) then None
         else Some ''cross-origin request detected, and/or browser is out of date: Sec-Fetch-Site is missing, and Origin does not match Host'')"

definition CrossOriginProtection :: "'ses web_env \<Rightarrow> 'ses middleware" where
  "CrossOriginProtection env next r w =
     (case cross_origin_check env r of
        Some msg \<Rightarrow> Served (http_error (TextBody msg) 403 w)
      | None \<Rightarrow> next r w)"

definition CheckFileCacheHeaders :: "'ses web_env \<Rightarrow> 'ses middleware" where
  "CheckFileCacheHeaders env next r w =
     (case map_of (we_etags env) (EscapedPath r) of
        None \<Rightarrow> next r w
      | Some cacheETag \<Rightarrow>
          next r (set_header ''ETag'' cacheETag
                   (set_header ''Cache-Control'' ''public, max-age=0, must-revalidate'' w)))"

section \<open>Patterns\<close>

datatype seg = Lit string | Wild string

text \<open>\<open>p_prefix\<close> is a pattern that ends in a slash; \<open>/{$}\<close> is the empty list of segments.\<close>

record pattern =
  p_method :: string
  p_segs :: "seg list"
  p_prefix :: bool

fun match_segs :: "seg list \<Rightarrow> bool \<Rightarrow> string list \<Rightarrow> smap option" where
  "match_segs [] prefix ss = (if prefix = (ss \<noteq> []) then Some [] else None)"
| "match_segs (p # ps) prefix [] = None"
| "match_segs (Lit l # ps) prefix (s # ss) = (if s = l then match_segs ps prefix ss else None)"
| "match_segs (Wild n # ps) prefix (s # ss) =
     (if s \<noteq> [] then map_option (\<lambda>b. (n, s) # b) (match_segs ps prefix ss) else None)"

text \<open>A pattern for \<open>GET\<close> also matches \<open>HEAD\<close>.\<close>

definition method_ok :: "string \<Rightarrow> string \<Rightarrow> bool" where
  "method_ok pm m \<longleftrightarrow> pm = m \<or> (pm = ''GET'' \<and> m = ''HEAD'')"

definition match_pattern :: "request \<Rightarrow> pattern \<Rightarrow> smap option" where
  "match_pattern r p = (if method_ok (p_method p) (Method r) then match_segs (p_segs p) (p_prefix p) (Segments r) else None)"

fun seg_le :: "seg \<Rightarrow> seg \<Rightarrow> bool" where
  "seg_le s (Wild n) = True"
| "seg_le (Lit a) (Lit b) = (a = b)"
| "seg_le (Wild n) (Lit b) = False"

text \<open>The order of precedence among patterns of the same method that are not prefixes.\<close>

definition more_specific :: "pattern \<Rightarrow> pattern \<Rightarrow> bool" where
  "more_specific p q \<longleftrightarrow> p_method p = p_method q \<and> \<not> p_prefix p \<and> \<not> p_prefix q
     \<and> list_all2 seg_le (p_segs p) (p_segs q) \<and> \<not> list_all2 seg_le (p_segs q) (p_segs p)"

type_synonym 'ses route = "pattern \<times> 'ses handler"

definition select_route :: "request \<Rightarrow> 'ses route list \<Rightarrow> 'ses route option" where
  "select_route r rts =
     (let ms = filter (\<lambda>rt. match_pattern r (fst rt) \<noteq> None) rts
      in find (\<lambda>rt. list_all (\<lambda>other. fst other = fst rt \<or> more_specific (fst rt) (fst other)) ms) ms)"

text \<open>\<open>PathValue\<close> of the two wildcards the patterns use.\<close>

definition with_path_values :: "smap \<Rightarrow> request \<Rightarrow> request" where
  "with_path_values b r = r\<lparr>PathID := form_get b ''id'', PathSlug := form_get b ''slug''\<rparr>"

text \<open>
  \<open>ServeMux\<close>. When no pattern matches the path, but one that ends in a slash matches it with a slash put
  behind, the answer is a redirect to that path (307, since Go 1.26; the query, which is kept, is not
  modelled). Otherwise no pattern matches the path, or none with the method.
\<close>

definition path_matches :: "pattern \<Rightarrow> string list \<Rightarrow> bool" where
  "path_matches p ss \<longleftrightarrow> match_segs (p_segs p) (p_prefix p) ss \<noteq> None"

definition slash_matches :: "pattern \<Rightarrow> string list \<Rightarrow> bool" where
  "slash_matches p ss \<longleftrightarrow> p_prefix p \<and> match_segs (p_segs p) False ss \<noteq> None"

definition mux_handler :: "'ses route list \<Rightarrow> 'ses handler" where
  "mux_handler rts r w =
     (case select_route r rts of
        Some (p, h) \<Rightarrow>
          h (with_path_values (case match_pattern r p of None \<Rightarrow> [] | Some b \<Rightarrow> b) r) w
      | None \<Rightarrow>
          if list_ex (\<lambda>rt. method_ok (p_method (fst rt)) (Method r) \<and> slash_matches (fst rt) (Segments r)) rts
          then Served (http_redirect (EscapedPath r @ ''/'') 307 w)
          else if list_ex (\<lambda>rt. path_matches (fst rt) (Segments r) \<or> slash_matches (fst rt) (Segments r)) rts
          then Served (http_error (TextBody ''Method Not Allowed'') 405 w)
          else Served (http_not_found w))"

section \<open>The table of routes\<close>

definition publicWithSession :: "'ses web_env \<Rightarrow> 'ses middleware list" where
  "publicWithSession env = [we_load_and_save env]"

definition authReq :: "'ses web_env \<Rightarrow> 'ses middleware list" where
  "authReq env = [we_load_and_save env, Authenticate env, RequireAuth, RedirectAdmin]"

definition authReqNoRedirect :: "'ses web_env \<Rightarrow> 'ses middleware list" where
  "authReqNoRedirect env = [we_load_and_save env, Authenticate env, RequireAuth]"

definition adminReq :: "'ses web_env \<Rightarrow> 'ses middleware list" where
  "adminReq env = [we_load_and_save env, Authenticate env, RequireAdmin]"

definition route :: "string \<Rightarrow> seg list \<Rightarrow> 'ses handler \<Rightarrow> 'ses route" where
  "route m segs h = (\<lparr>p_method = m, p_segs = segs, p_prefix = False\<rparr>, h)"

definition wild_id :: seg where "wild_id = Wild ''id''"
definition wild_slug :: seg where "wild_slug = Wild ''slug''"

definition static_files :: "'ses web_env \<Rightarrow> 'ses handler" where
  "static_files env r w = (case we_static env r of (code, b) \<Rightarrow> Served (write_body b (write_header code w)))"

definition static_routes :: "'ses web_env \<Rightarrow> 'ses route list" where
  "static_routes env =
     [(\<lparr>p_method = ''GET'', p_segs = [Lit ''static''], p_prefix = True\<rparr>, CheckFileCacheHeaders env (static_files env))]"

text \<open>The handlers behind \<open>authReq\<close>: notes, sections, tags, search and the home page.\<close>

definition notes_table :: "'ses web_env \<Rightarrow> (string \<times> seg list \<times> 'ses handler) list" where
  "notes_table env =
     [(''GET'', [Lit ''note'', wild_id, wild_slug], NoteViewGet env),
      (''GET'', [Lit ''note'', Lit ''new''], NoteNewGet env),
      (''POST'', [Lit ''note'', Lit ''preview'', wild_id], NotePreviewPost env),
      (''POST'', [Lit ''note''], NotePost env),
      (''PUT'', [Lit ''note'', wild_id, wild_slug], NotePut env),
      (''DELETE'', [Lit ''note'', wild_id, wild_slug], NoteDelete env),
      (''GET'', [Lit ''edit'', wild_id, wild_slug], NoteEditGet env),
      (''PUT'', [Lit ''note'', Lit ''bookmark'', wild_id], NoteBookmarkPutDelete env True),
      (''DELETE'', [Lit ''note'', Lit ''bookmark'', wild_id], NoteBookmarkPutDelete env False),
      (''POST'', [Lit ''ref-notes'', Lit ''select'', wild_id], ReferenceNoteSelectPost env),
      (''GET'', [Lit ''section''], SectionGet env),
      (''POST'', [Lit ''section''], SectionPost env),
      (''PUT'', [Lit ''section'', wild_id], SectionPut env),
      (''DELETE'', [Lit ''section'', wild_id], SectionDelete env),
      (''GET'', [Lit ''section'', Lit ''new''], SectionNewGet env),
      (''GET'', [Lit ''section'', wild_id, wild_slug], SectionViewGet env),
      (''GET'', [Lit ''section'', wild_id, Lit ''edit''], SectionEditGet env),
      (''GET'', [Lit ''search''], NoteSearchGet env),
      (''GET'', [Lit ''index''], TagGet env),
      (''POST'', [Lit ''tag''], TagPost env),
      (''PUT'', [Lit ''tag'', wild_id], TagPut env),
      (''DELETE'', [Lit ''tag'', wild_id], TagDelete env),
      (''GET'', [Lit ''tag'', wild_id, wild_slug], TagViewGet env),
      (''GET'', [Lit ''tag'', wild_id, Lit ''edit''], TagEditGet env),
      (''GET'', [], HomeGet env)]"

definition admin_table :: "'ses web_env \<Rightarrow> (string \<times> seg list \<times> 'ses handler) list" where
  "admin_table env =
     [(''GET'', [Lit ''admin''], GetAdmin env),
      (''GET'', [Lit ''user'', Lit ''new''], GetUserCreate env),
      (''POST'', [Lit ''user''], PostUser env),
      (''GET'', [Lit ''user'', wild_id], GetUser_handler env),
      (''GET'', [Lit ''user'', wild_id, Lit ''edit''], GetUserEdit env),
      (''DELETE'', [Lit ''user'', wild_id], DeleteUser_handler env),
      (''PUT'', [Lit ''user'', wild_id], PutUser env),
      (''PUT'', [Lit ''user'', wild_id, Lit ''password''], PutUserPassword env)]"

definition behind :: "'ses middleware list \<Rightarrow> (string \<times> seg list \<times> 'ses handler) list \<Rightarrow> 'ses route list" where
  "behind c table = map (\<lambda>(m, segs, h). route m segs (chain_Then c h)) table"

definition routes :: "'ses web_env \<Rightarrow> 'ses route list" where
  "routes env =
     static_routes env
     @ behind (authReq env) (notes_table env)
     @ [route ''GET'' [Lit ''login''] (GetUserLogin env),
        route ''POST'' [Lit ''login''] (chain_Then (publicWithSession env) (PostUserLogin env)),
        route ''DELETE'' [Lit ''session''] (chain_Then (authReqNoRedirect env) (PostUserLogout env))]
     @ behind (adminReq env) (admin_table env)
     @ [route ''GET'' [Lit ''setup''] (GetSetup env),
        route ''POST'' [Lit ''setup''] (chain_Then (publicWithSession env) (PostSetup env)),
        route ''PUT'' [Lit ''user'', wild_id, Lit ''theme''] (chain_Then (authReqNoRedirect env) (PutUserTheme env))]
     @ (if we_debug env
        then [route ''GET'' [Lit ''debug'', Lit ''conn-cache-state''] (chain_Then (adminReq env) (ConnCacheStateGet env)),
              route ''GET'' [Lit ''debug'', Lit ''build-info''] (chain_Then (authReq env) (GetDebugBuildInfo env))]
        else [])"

definition baseChain :: "'ses web_env \<Rightarrow> 'ses middleware list" where
  "baseChain env =
     [RecoverPanic, RequestLogger (we_compile env) (we_ignore env), CommonHeaders, CrossOriginProtection env, InitialSetup]"

definition site :: "'ses web_env \<Rightarrow> 'ses handler" where
  "site env = chain_Then (baseChain env) (mux_handler (routes env))"

end
