(* ===== verification/Web_Frame.thy ===== *)
theory Web_Frame
  imports Web_Routes Conn_Safety
begin

text \<open>
  What the handlers for notes may do to the state. A handler reaches the notes only through the
  handle that \<open>GetNotesDataStore\<close> gives it for the user of the request; the locales state this
  as a contract of access to the store, for handlers that only read and for those that write,
  and prove once for each handler that it answers and keeps what the contract keeps.
\<close>

section \<open>Writing a response leaves the data alone\<close>

text \<open>Two states with the same data: they differ in the response and the log only.\<close>

definition same_data :: "'ses web \<Rightarrow> 'ses web \<Rightarrow> bool" where
  "same_data w w' \<longleftrightarrow> w_manager w' = w_manager w \<and> w_stopped w' = w_stopped w"

lemma same_data_refl [simp]: "same_data w w"
  by (simp add: same_data_def)

lemma same_data_trans: "same_data w w1 \<Longrightarrow> same_data w1 w2 \<Longrightarrow> same_data w w2"
  by (simp add: same_data_def)

lemma response_same_data [simp]:
  "same_data w (set_header k v w1) = same_data w w1"
  "same_data w (add_header k v w1) = same_data w w1"
  "same_data w (write_header code w1) = same_data w w1"
  "same_data w (write_body b w1) = same_data w w1"
  by (simp_all add: same_data_def set_header_def add_header_def write_header_def write_body_def Let_def)

lemma error_same_data [simp]:
  "same_data w (http_error b code w1) = same_data w w1"
  "same_data w (http_not_found w1) = same_data w w1"
  "same_data w (http_redirect url code w1) = same_data w w1"
  "same_data w (RenderError env err w1) = same_data w w1"
  "same_data w (server_error w1) = same_data w w1"
  "same_data w (bad_request w1) = same_data w w1"
  by (simp_all add: http_error_def http_not_found_def http_redirect_def RenderError_def server_error_def bad_request_def)

text \<open>
  How a handler ends: in a state that satisfies \<open>P\<close>, with a response or a panic; if \<open>fin\<close> holds it
  also has to end.
\<close>

definition ends :: "bool \<Rightarrow> ('ses web \<Rightarrow> bool) \<Rightarrow> 'ses served \<Rightarrow> bool" where
  "ends fin P res \<longleftrightarrow> (case res of Served w \<Rightarrow> P w | Panicked pv w \<Rightarrow> P w | Hangs \<Rightarrow> \<not> fin)"

lemma ends_simps [simp]:
  "ends fin P (Served w) = P w" "ends fin P (Panicked pv w) = P w" "ends fin P Hangs = (\<not> fin)"
  by (simp_all add: ends_def)

section \<open>The contracts\<close>

text \<open>What only answers: \<open>good\<close> is about the data.\<close>

locale responder =
  fixes env :: "'ses web_env" and fin :: bool and good :: "'ses web \<Rightarrow> bool"
  assumes data_law: "good w \<Longrightarrow> same_data w w' \<Longrightarrow> good w'"
begin

lemma good_response [simp]:
  assumes "good w"
  shows "good (set_header k v w)" "good (add_header k v w)" "good (write_header code w)" "good (write_body b w)"
    "good (http_error b code w)" "good (http_not_found w)" "good (http_redirect url code w)"
    "good (RenderError env err w)" "good (server_error w)" "good (bad_request w)"
  by (rule data_law [OF assms], simp)+

lemma good_flags [simp]:
  assumes "good w"
  shows "good (w\<lparr>w_session := ses\<rparr>)" "good (w\<lparr>w_setup := b\<rparr>)" "good (w\<lparr>w_log := l\<rparr>)"
    "good (w\<lparr>lw_status := i, lw_wrote := b\<rparr>)"
  by (rule data_law [OF assms], simp add: same_data_def)+

lemma served_good [intro]: "good w \<Longrightarrow> ends fin good (Served w)"
  by simp

lemma or_error_plain:
  "good w \<Longrightarrow> (\<And>x. res = Inr x \<Longrightarrow> ends fin good (k x w)) \<Longrightarrow> ends fin good (or_error env (res, w) k)"
  by (cases res) (auto simp: or_error_def)

lemma or_error_read:
  "good w \<Longrightarrow> (\<And>x. ends fin good (k x w)) \<Longrightarrow> ends fin good (or_error env (notes_read env i h op w) k)"
  by (simp add: notes_read_def or_error_plain)

lemma or_error_index_read:
  "good w \<Longrightarrow> (\<And>x. ends fin good (k x w)) \<Longrightarrow> ends fin good (or_error env (index_read env i op w) k)"
  by (simp add: index_read_def or_error_plain)

lemma page_good [intro]: "good w \<Longrightarrow> ends fin good (render_page env code data name files w)"
  by (auto simp: render_page_def Render_def split: option.splits)

lemma unchecked_good [intro]: "good w \<Longrightarrow> ends fin good (render_unchecked env code data name files w)"
  by (auto simp: render_unchecked_def Render_def split: option.splits)

lemma redirect_good [intro]: "good w \<Longrightarrow> ends fin good (hx_redirect url code w)"
  by (auto simp: hx_redirect_def)

lemma with_session_good: "good w \<Longrightarrow> (\<And>ses. ends fin good (k ses)) \<Longrightarrow> ends fin good (with_session w k)"
  by (simp add: with_session_def split: option.split)

lemmas responding = page_good unchecked_good redirect_good
lemmas answering = or_error_read or_error_index_read or_error_plain

lemma index_readers:
  assumes "good w"
  shows "ends fin good (GetUserLogin env r w)" "ends fin good (GetUserCreate env r w)" "ends fin good (GetAdmin env r w)"
    "ends fin good (GetUserEdit env r w)" "ends fin good (GetUser_handler env r w)" "ends fin good (GetSetup env r w)"
    "ends fin good (GetDebugBuildInfo env r w)" "ends fin good (ConnCacheStateGet env r w)"
    "ends fin good (CheckFileCacheHeaders env (static_files env) r w)"
proof -
  show "ends fin good (GetUserLogin env r w)" unfolding GetUserLogin_def using assms by auto
  show "ends fin good (GetUserCreate env r w)" unfolding GetUserCreate_def using assms by auto
  show "ends fin good (GetAdmin env r w)" unfolding GetAdmin_def using assms by (intro answering) auto
  show "ends fin good (GetUserEdit env r w)" unfolding GetUserEdit_def using assms
    by (auto split: sum.split intro!: answering)
  show "ends fin good (GetUser_handler env r w)" unfolding GetUser_handler_def using assms
    by (auto split: sum.split intro!: answering)
  show "ends fin good (GetSetup env r w)" unfolding GetSetup_def using assms by auto
  show "ends fin good (GetDebugBuildInfo env r w)" unfolding GetDebugBuildInfo_def using assms
    by (auto split: option.split)
  show "ends fin good (ConnCacheStateGet env r w)"
    unfolding ConnCacheStateGet_def send_cmd_def Let_def using assms by (auto split: option.split)
  show "ends fin good (CheckFileCacheHeaders env (static_files env) r w)"
    unfolding CheckFileCacheHeaders_def static_files_def using assms by (auto split: option.split prod.split)
qed

end

text \<open>A handler that reads the notes of the user of the request.\<close>

locale store_reader = responder +
  fixes user :: "int option" and own :: "nat \<Rightarrow> 'a web \<Rightarrow> bool"
  assumes access_law: "good w \<Longrightarrow> userIDKey (Ctx r) = user \<Longrightarrow> GetNotesDataStore env r w = (res, w') \<Longrightarrow>
      good w' \<and> (\<forall>h. res = Inr h \<longrightarrow> own h w')"
begin

lemma or_error_store:
  assumes "good w" "userIDKey (Ctx r) = user"
    and "\<And>h w1. good w1 \<Longrightarrow> own h w1 \<Longrightarrow> ends fin good (k h w1)"
  shows "ends fin good (or_error env (GetNotesDataStore env r w) k)"
proof (cases "GetNotesDataStore env r w")
  case (Pair res w1)
  then show ?thesis using access_law [OF assms(1,2) Pair] assms(3)
    by (cases res) (auto simp: or_error_def)
qed

lemmas reading = or_error_store answering

lemma note_form_again_good: "good w \<Longrightarrow> ends fin good (note_form_again env h nf r w)"
  unfolding note_form_again_def by (intro reading) auto

lemma render_search_good: "good w \<Longrightarrow> ends fin good (render_search env srs q r w)"
  by (auto simp: render_search_def Let_def)

lemma note_readers:
  assumes "good w" "userIDKey (Ctx r) = user"
  shows "ends fin good (NoteNewGet env r w)" "ends fin good (NoteEditGet env r w)"
    "ends fin good (NotePreviewPost env r w)" "ends fin good (NoteViewGet env r w)"
    "ends fin good (NoteSearchGet env r w)" "ends fin good (ReferenceNoteSelectPost env r w)"
proof -
  show "ends fin good (NoteNewGet env r w)"
    unfolding NoteNewGet_def using assms by (intro reading) auto
  show "ends fin good (NoteEditGet env r w)"
    unfolding NoteEditGet_def using assms
    by (auto split: sum.split prod.split option.split intro!: reading)
  show "ends fin good (NotePreviewPost env r w)"
    unfolding NotePreviewPost_def Let_def using assms
    by (auto intro!: reading)
  show "ends fin good (NoteViewGet env r w)"
    unfolding NoteViewGet_def Let_def using assms
    by (auto split: sum.split prod.split option.split intro!: reading)
  show "ends fin good (NoteSearchGet env r w)"
    unfolding NoteSearchGet_def Let_def using assms
    by (auto intro!: reading render_search_good)
  show "ends fin good (ReferenceNoteSelectPost env r w)"
    unfolding ReferenceNoteSelectPost_def Let_def using assms
    by (auto intro!: reading)
qed

lemma list_readers:
  assumes "good w" "userIDKey (Ctx r) = user"
  shows "ends fin good (SectionGet env r w)" "ends fin good (SectionNewGet env r w)"
    "ends fin good (SectionEditGet env r w)" "ends fin good (SectionViewGet env r w)"
    "ends fin good (TagGet env r w)" "ends fin good (TagViewGet env r w)"
    "ends fin good (TagEditGet env r w)" "ends fin good (HomeGet env r w)"
proof -
  show "ends fin good (SectionGet env r w)" unfolding SectionGet_def using assms by (intro reading) auto
  show "ends fin good (SectionNewGet env r w)" unfolding SectionNewGet_def using assms by auto
  show "ends fin good (SectionEditGet env r w)" unfolding SectionEditGet_def using assms
    by (auto split: sum.split prod.split option.split intro!: reading)
  show "ends fin good (SectionViewGet env r w)" unfolding SectionViewGet_def using assms
    by (auto split: sum.split prod.split option.split intro!: reading)
  show "ends fin good (TagGet env r w)" unfolding TagGet_def using assms by (intro reading) auto
  show "ends fin good (TagViewGet env r w)" unfolding TagViewGet_def using assms
    by (auto split: sum.split intro!: reading)
  show "ends fin good (TagEditGet env r w)" unfolding TagEditGet_def using assms
    by (auto split: sum.split intro!: reading)
  show "ends fin good (HomeGet env r w)" unfolding HomeGet_def using assms by (intro reading) auto
qed

end

locale store_writer = store_reader +
  assumes write_law: "good w \<Longrightarrow> own h w \<Longrightarrow> good (w\<lparr>w_manager := put_notes h db (w_manager w)\<rparr>)"
begin

lemma or_error_write:
  assumes "good w" "own h w" "\<And>x w1. good w1 \<Longrightarrow> ends fin good (k x w1)"
  shows "ends fin good (or_error env (notes_write env i h op w) k)"
proof -
  obtain res db where "op (pool_call env i h w) (notes_of (w_manager w) h) = (res, db)" by fastforce
  then show ?thesis using write_law [OF assms(1,2), of db] assms(3)
    by (cases "outcome_of res") (auto simp: notes_write_def or_error_def)
qed

lemmas writing = reading or_error_write

lemma note_writers:
  assumes "good w" "userIDKey (Ctx r) = user"
  shows "ends fin good (NotePost env r w)" "ends fin good (NotePut env r w)"
    "ends fin good (NoteDelete env r w)" "ends fin good (NoteBookmarkPutDelete env b r w)"
proof -
  show "ends fin good (NotePost env r w)"
    unfolding NotePost_def using assms by (auto intro!: writing note_form_again_good)
  show "ends fin good (NotePut env r w)"
    unfolding NotePut_def using assms by (auto intro!: writing note_form_again_good)
  show "ends fin good (NoteDelete env r w)"
    unfolding NoteDelete_def using assms by (auto split: sum.split intro!: writing)
  show "ends fin good (NoteBookmarkPutDelete env b r w)"
    unfolding NoteBookmarkPutDelete_def using assms by (auto split: sum.split intro!: writing)
qed

lemma list_writers:
  assumes "good w" "userIDKey (Ctx r) = user"
  shows "ends fin good (SectionPost env r w)" "ends fin good (SectionPut env r w)"
    "ends fin good (SectionDelete env r w)" "ends fin good (TagPost env r w)"
    "ends fin good (TagPut env r w)" "ends fin good (TagDelete env r w)"
proof -
  show "ends fin good (SectionPost env r w)"
    unfolding SectionPost_def Let_def using assms by (auto split: sum.split intro!: writing)
  show "ends fin good (SectionPut env r w)"
    unfolding SectionPut_def Let_def using assms by (auto split: sum.split intro!: writing)
  show "ends fin good (SectionDelete env r w)"
    unfolding SectionDelete_def using assms by (auto split: sum.split intro!: writing)
  show "ends fin good (TagPost env r w)"
    unfolding TagPost_def using assms by (auto split: sum.split prod.split option.split intro!: writing)
  show "ends fin good (TagPut env r w)"
    unfolding TagPut_def Let_def using assms by (auto split: sum.split intro!: writing)
  show "ends fin good (TagDelete env r w)"
    unfolding TagDelete_def using assms by (auto split: sum.split intro!: writing)
qed

end

text \<open>A handler that changes the index by the changes allowed to it.\<close>

locale index_client = responder +
  fixes change :: "index_db \<Rightarrow> index_db \<Rightarrow> bool"
  assumes index_law: "good w \<Longrightarrow> change (index (w_manager w)) ix \<Longrightarrow> good (w\<lparr>w_manager := (w_manager w)\<lparr>index := ix\<rparr>\<rparr>)"
    and renew_law: "change ix (snd (scs_renew (we_scs env) c ses ix))"
begin

lemma or_error_index_write:
  assumes "good w" "\<And>c ix. change ix (snd (op c ix))" "\<And>x w1. good w1 \<Longrightarrow> ends fin good (k x w1)"
  shows "ends fin good (or_error env (index_write env i op w) k)"
proof -
  obtain res ix where op: "op (pool_call env i 0 w) (index (w_manager w)) = (res, ix)" by fastforce
  have "good (w\<lparr>w_manager := (w_manager w)\<lparr>index := ix\<rparr>\<rparr>)"
    using index_law [OF assms(1) assms(2)] by (metis op snd_conv)
  then show ?thesis using assms(3) op
    by (cases "outcome_of res") (auto simp: index_write_def or_error_def)
qed

lemma RenewToken_good:
  assumes "good w" "\<And>w1. good w1 \<Longrightarrow> ends fin good (k w1)"
  shows "ends fin good (RenewToken env i w k)"
  unfolding RenewToken_def
proof (rule with_session_good [OF assms(1)])
  fix ses
  obtain res ix where op: "scs_renew (we_scs env) (pool_call env i 0 w) ses (index (w_manager w)) = (res, ix)" by fastforce
  have "good (w\<lparr>w_manager := (w_manager w)\<lparr>index := ix\<rparr>\<rparr>)"
    using index_law [OF assms(1) renew_law] by (metis op snd_conv)
  then have "good (w\<lparr>w_manager := (w_manager w)\<lparr>index := ix\<rparr>\<rparr>)"
    "good (w\<lparr>w_manager := (w_manager w)\<lparr>index := ix\<rparr>, w_session := s\<rparr>)" for s
    using good_flags(1) [of "w\<lparr>w_manager := (w_manager w)\<lparr>index := ix\<rparr>\<rparr>" s] by simp_all
  then show "ends fin good (case scs_renew (we_scs env) (pool_call env i 0 w) ses (index (w_manager w)) of
      (Inl err, ix) \<Rightarrow> Served (RenderError env err (w\<lparr>w_manager := (w_manager w)\<lparr>index := ix\<rparr>\<rparr>))
    | (Inr ses', ix) \<Rightarrow> k (w\<lparr>w_manager := (w_manager w)\<lparr>index := ix\<rparr>, w_session := Some ses'\<rparr>))"
    using assms(2) by (auto simp: op split: sum.split)
qed

lemma put_session_good:
  "good w \<Longrightarrow> (\<And>w1. good w1 \<Longrightarrow> ends fin good (k w1)) \<Longrightarrow> ends fin good (put_session env key i w k)"
  by (auto simp: put_session_def intro!: with_session_good)

lemma logout_good: "good w \<Longrightarrow> ends fin good (PostUserLogout env r w)"
  unfolding PostUserLogout_def by (rule RenewToken_good) (auto intro!: with_session_good redirect_good)

lemma theme_good:
  assumes "good w" and "\<And>c t ix. change ix (snd (UpdateUserTheme c (getUserIDFromRequest r) t ix))"
  shows "ends fin good (PutUserTheme env r w)"
  unfolding PutUserTheme_def Let_def using assms
  by (auto intro!: answering or_error_index_write responding simp: no_value_def)

end

text \<open>A handler of the administration: any change of accounts, any command to the connection manager.\<close>

locale commander = index_client +
  assumes user_law: "change ix (run_user_cmd (we_engine env) (we_bcrypt env) c cmd ix)"
    and cmd_law: "good w \<Longrightarrow> send_cmd env k ccmd w = Some (rep, w') \<Longrightarrow> good w'"
    and may_hang: "\<not> fin"
begin

lemmas account_laws = user_law [of _ _ "Cmd_CreateAdminUser nm pw" for nm pw, simplified]
  user_law [of _ _ "Cmd_CreateUserAndDB nm pw" for nm pw, simplified]
  user_law [of _ _ "Cmd_UpdateUser i nm" for i nm, simplified]
  user_law [of _ _ "Cmd_UpdateUserPassword i pw" for i pw, simplified]
  user_law [of _ _ "Cmd_UpdateUserLastLoginToNow i" for i, simplified]
  user_law [of _ _ "Cmd_UpdateUserTheme i th" for i th, simplified]
  user_law [of _ _ "Cmd_DeleteUser i" for i, simplified]

lemma cmd_error_good:
  "good w \<Longrightarrow> (\<And>w1. good w1 \<Longrightarrow> ends fin good (k w1)) \<Longrightarrow> ends fin good (cmd_error env i cmd w k)"
  using cmd_law may_hang by (auto simp: cmd_error_def split: option.split prod.split)

lemmas administering = answering responding or_error_index_write RenewToken_good put_session_good cmd_error_good

lemma login_good: "good w \<Longrightarrow> ends fin good (PostUserLogin env r w)"
  unfolding PostUserLogin_def login_user_def Let_def
  by (auto simp: no_value_def account_laws intro!: administering split: prod.split option.split)

lemma setup_good: "good w \<Longrightarrow> ends fin good (PostSetup env r w)"
  unfolding PostSetup_def Let_def
  by (auto simp: no_value_def account_laws intro!: administering)

lemma administration:
  assumes "good w"
  shows "ends fin good (DeleteUser_handler env r w)" "ends fin good (PostUser env r w)"
    "ends fin good (PutUser env r w)" "ends fin good (PutUserPassword env r w)" "ends fin good (PutUserTheme env r w)"
proof -
  show "ends fin good (DeleteUser_handler env r w)" unfolding DeleteUser_handler_def DeleteDB_def Let_def using assms
    by (auto simp: no_value_def account_laws intro!: administering)
  show "ends fin good (PostUser env r w)" unfolding PostUser_def see_admin_def Let_def using assms
    by (auto simp: account_laws intro!: administering)
  show "ends fin good (PutUser env r w)" unfolding PutUser_def index_read_def Let_def using assms
    by (auto simp: account_laws intro!: administering split: sum.split)
  show "ends fin good (PutUserPassword env r w)" unfolding PutUserPassword_def see_admin_def Let_def using assms
    by (auto simp: no_value_def account_laws intro!: administering)
  show "ends fin good (PutUserTheme env r w)" using assms by (rule theme_good) (rule account_laws)
qed

end

end
