(* ===== verification/Web_Site.thy ===== *)
theory Web_Site
  imports Web_Frame
begin

text \<open>
  The middleware and the site as a whole under the contracts of \<open>Web_Frame\<close>: what holds of the
  handler of the selected route, for the user of the session, holds of the answer to the request.
\<close>

section \<open>The session manager\<close>

text \<open>Two states that differ in the table of sessions and in the response only.\<close>

definition only_sessions :: "'ses web \<Rightarrow> 'ses web \<Rightarrow> bool" where
  "only_sessions w w' \<longleftrightarrow>
     (\<exists>ss. w_manager w' = (w_manager w)\<lparr>index := (index (w_manager w))\<lparr>sessions := ss\<rparr>\<rparr>) \<and> w_stopped w' = w_stopped w"

text \<open>
  The documented behaviour of \<open>LoadAndSave\<close>: it answers by itself when the session cannot be
  loaded; otherwise the next handler is called once, with the session of the token of the request,
  and then the session is saved.
\<close>

definition loaded_and_saved :: "'ses web_env \<Rightarrow> 'ses handler \<Rightarrow> request \<Rightarrow> 'ses web \<Rightarrow> 'ses served \<Rightarrow> bool" where
  "loaded_and_saved env next r w res \<longleftrightarrow>
     (\<exists>w'. res = Served w' \<and> only_sessions w w')
     \<or> (\<exists>w1. only_sessions w w1
          \<and> w_session w1 = Some (scs_session (we_scs env) (SessionToken r) (index (w_manager w)))
          \<and> (case next r w1 of
               Served w2 \<Rightarrow> \<exists>w3. res = Served w3 \<and> only_sessions w2 w3
             | Panicked pv w2 \<Rightarrow> \<exists>w3. res = Panicked pv w3 \<and> only_sessions w2 w3
             | Hangs \<Rightarrow> res = Hangs))"

definition session_manager_ok :: "'ses web_env \<Rightarrow> bool" where
  "session_manager_ok env \<longleftrightarrow>
     (\<forall>c ses ix. \<exists>ss. snd (scs_renew (we_scs env) c ses ix) = ix\<lparr>sessions := ss\<rparr>)
     \<and> (\<forall>next r w. loaded_and_saved env next r w (we_load_and_save env next r w))"

text \<open>The user the session of a request is of, zero for none.\<close>

definition session_user :: "'ses web_env \<Rightarrow> request \<Rightarrow> index_db \<Rightarrow> int" where
  "session_user env r ix = scs_get (we_scs env) userIDSessionKey (scs_session (we_scs env) (SessionToken r) ix)"

lemma session_user_path_values [simp]: "session_user env (with_path_values b r) ix = session_user env r ix"
  by (simp add: session_user_def with_path_values_def)

lemma GetUser_okD:
  assumes "GetUser c uid ix = (user, None)"
  shows "UserID user = uid \<and> (\<exists>row \<in> set (users ix). u_id row = uid \<and> u_admin row = IsAdmin user)"
proof -
  obtain row where row: "by_id u_id uid (users ix) = Some row"
    and p: "parse_stamps (u_created row) (u_last_login row) ((read_user row)\<lparr>Theme := the (u_theme row)\<rparr>) = (user, None)"
    using assms by (auto simp: GetUser_def user_query_row_def scan_user_def split: option.splits sum.splits)
  have "UserID user = u_id row \<and> IsAdmin user = u_admin row"
    using p by (auto simp: parse_stamps_def read_user_def split: option.splits sum.splits prod.splits)
  then show ?thesis using row find_map_id [of u_id uid "users ix" row] by (auto simp: by_id_def)
qed

section \<open>Middleware\<close>

text \<open>What a handler behind the authentication is called with.\<close>

definition known :: "int \<Rightarrow> bool \<Rightarrow> request \<Rightarrow> 'ses web \<Rightarrow> bool" where
  "known uid adm r w \<longleftrightarrow> uid \<noteq> 0 \<and> userIDKey (Ctx r) = Some uid
     \<and> (\<exists>row \<in> set (users (index (w_manager w))). u_id row = uid \<and> u_admin row = adm)"

locale session_client = responder +
  assumes session_law: "good w \<Longrightarrow> only_sessions w w' \<Longrightarrow> good w'"
    and manager_law: "good w \<Longrightarrow> session_manager_ok env"
begin

lemma load_and_save_ends:
  assumes "good w"
    and "\<And>w1. good w1 \<Longrightarrow> only_sessions w w1
      \<Longrightarrow> w_session w1 = Some (scs_session (we_scs env) (SessionToken r) (index (w_manager w)))
      \<Longrightarrow> ends fin good (next r w1)"
  shows "ends fin good (we_load_and_save env next r w)"
proof -
  have "loaded_and_saved env next r w (we_load_and_save env next r w)"
    using manager_law [OF assms(1)] by (simp add: session_manager_ok_def)
  then show ?thesis unfolding loaded_and_saved_def
  proof (elim disjE exE conjE)
    fix w' assume "we_load_and_save env next r w = Served w'" "only_sessions w w'"
    then show ?thesis using session_law [OF assms(1)] by simp
  next
    fix w1
    assume w1: "only_sessions w w1" "w_session w1 = Some (scs_session (we_scs env) (SessionToken r) (index (w_manager w)))"
      and res: "case next r w1 of
               Served w2 \<Rightarrow> \<exists>w3. we_load_and_save env next r w = Served w3 \<and> only_sessions w2 w3
             | Panicked pv w2 \<Rightarrow> \<exists>w3. we_load_and_save env next r w = Panicked pv w3 \<and> only_sessions w2 w3
             | Hangs \<Rightarrow> we_load_and_save env next r w = Hangs"
    have "ends fin good (next r w1)" using assms(2) session_law [OF assms(1)] w1 by blast
    then show ?thesis using res by (cases "next r w1") (auto intro: session_law)
  qed
qed

lemma Authenticate_ends:
  assumes "good w" and ses: "w_session w = Some ses" "scs_get (we_scs env) userIDSessionKey ses = uid"
    and anon: "\<And>r' w'. uid = 0 \<Longrightarrow> isAuthenticatedKey (Ctx r') = Some False \<Longrightarrow> good w' \<Longrightarrow> ends fin good (next r' w')"
    and user: "\<And>ctx adm w'. known uid adm (set_ctx ctx r) w' \<Longrightarrow> isAuthenticatedKey ctx = Some True
      \<Longrightarrow> isAdminKey ctx = Some adm \<Longrightarrow> good w' \<Longrightarrow> ends fin good (next (set_ctx ctx r) w')"
  shows "ends fin good (Authenticate env next r w)"
proof (cases "uid = 0")
  case True
  then show ?thesis using assms(1) ses
    by (auto simp: Authenticate_def with_session_def Let_def set_ctx_def intro!: anon)
next
  case False
  let ?get = "GetUser (pool_call env 20 0 w) uid (index (w_manager w))"
  show ?thesis
  proof (cases "snd ?get")
    case (Some err)
    then obtain u where "?get = (u, Some err)" by (cases ?get) auto
    then show ?thesis using False assms(1) ses by (simp add: Authenticate_def with_session_def Let_def)
  next
    case None
    then obtain u where u: "?get = (u, None)" by (cases ?get) auto
    let ?ctx = "(Ctx r)\<lparr>isAuthenticatedKey := Some True, isAdminKey := Some (IsAdmin u), userIDKey := Some uid,
      userThemeKey := Some (Theme u)\<rparr>"
    let ?w = "add_header ''Cache-Control'' ''no-store'' w"
    have "w_manager ?w = w_manager w" by (simp add: add_header_def)
    then have "known uid (IsAdmin u) (set_ctx ?ctx r) ?w"
      using False GetUser_okD [OF u] by (auto simp: known_def set_ctx_def)
    then have "ends fin good (next (set_ctx ?ctx r) ?w)" using assms(1) by (intro user) simp_all
    moreover have "UserID u = uid" using GetUser_okD [OF u] by simp
    ultimately show ?thesis using False ses u by (simp add: Authenticate_def with_session_def Let_def)
  qed
qed

text \<open>The chains: who gets through to the handler.\<close>

lemma authenticated_ends:
  assumes "good w"
    and anon: "\<And>r' w'. isAuthenticatedKey (Ctx r') = Some False \<Longrightarrow> good w' \<Longrightarrow> ends fin good (guard r' w')"
    and user: "\<And>ctx adm w'. known (session_user env r (index (w_manager w))) adm (set_ctx ctx r) w'
      \<Longrightarrow> isAuthenticatedKey ctx = Some True \<Longrightarrow> isAdminKey ctx = Some adm \<Longrightarrow> good w' \<Longrightarrow> ends fin good (guard (set_ctx ctx r) w')"
  shows "ends fin good (we_load_and_save env (Authenticate env guard) r w)"
  using assms(1)
  by (intro load_and_save_ends Authenticate_ends [where uid = "session_user env r (index (w_manager w))"])
    (simp_all add: session_user_def anon user [unfolded session_user_def])

lemma authReq_ends:
  assumes "good w"
    and "\<And>ctx w'. known (session_user env r (index (w_manager w))) False (set_ctx ctx r) w' \<Longrightarrow> good w' \<Longrightarrow> ends fin good (h (set_ctx ctx r) w')"
  shows "ends fin good (chain_Then (authReq env) h r w)"
  unfolding chain_Then_def authReq_def using assms(2)
  by (auto simp: RequireAuth_def RedirectAdmin_def set_ctx_def intro!: authenticated_ends [OF assms(1)])

lemma authReqNoRedirect_ends:
  assumes "good w"
    and "\<And>ctx adm w'. known (session_user env r (index (w_manager w))) adm (set_ctx ctx r) w' \<Longrightarrow> good w' \<Longrightarrow> ends fin good (h (set_ctx ctx r) w')"
  shows "ends fin good (chain_Then (authReqNoRedirect env) h r w)"
  unfolding chain_Then_def authReqNoRedirect_def using assms(2)
  by (auto simp: RequireAuth_def set_ctx_def intro!: authenticated_ends [OF assms(1)])

lemma adminReq_ends:
  assumes "good w"
    and "\<And>ctx w'. known (session_user env r (index (w_manager w))) True (set_ctx ctx r) w' \<Longrightarrow> good w' \<Longrightarrow> ends fin good (h (set_ctx ctx r) w')"
  shows "ends fin good (chain_Then (adminReq env) h r w)"
  unfolding chain_Then_def adminReq_def using assms(2)
  by (auto simp: RequireAdmin_def set_ctx_def intro!: authenticated_ends [OF assms(1)])

lemma publicWithSession_ends:
  "good w \<Longrightarrow> (\<And>w'. good w' \<Longrightarrow> ends fin good (h r w')) \<Longrightarrow> ends fin good (chain_Then (publicWithSession env) h r w)"
  by (simp add: chain_Then_def publicWithSession_def load_and_save_ends)

text \<open>The outer chain: every panic becomes a response.\<close>

lemma mux_ends:
  assumes "good w"
    and "\<And>p h b. select_route r rts = Some (p, h) \<Longrightarrow> ends fin good (h (with_path_values b r) w)"
  shows "ends fin good (mux_handler rts r w)"
  using assms by (auto simp: mux_handler_def split: option.split)

lemma site_ends:
  assumes "good w"
    and "\<And>p h b w1. select_route r (routes env) = Some (p, h) \<Longrightarrow> good w1 \<Longrightarrow> w_manager w1 = w_manager w
      \<Longrightarrow> ends fin good (h (with_path_values b r) w1)"
  shows "(\<exists>w'. site env r w = Served w' \<and> good w') \<or> \<not> fin \<and> site env r w = Hangs"
proof -
  let ?reset = "w\<lparr>lw_status := 0, lw_wrote := False\<rparr>"
  have keep [simp]: "w_manager (set_header k v x) = w_manager x" for k v and x :: "'a web"
    by (simp add: set_header_def)
  have "ends fin good (CommonHeaders (CrossOriginProtection env (InitialSetup (mux_handler (routes env)))) r ?reset)"
    using assms(1)
    by (auto simp: CommonHeaders_def CrossOriginProtection_def InitialSetup_def intro!: mux_ends assms(2)
        split: option.split)
  then have "ends fin good (RequestLogger (we_compile env) (we_ignore env)
      (CommonHeaders (CrossOriginProtection env (InitialSetup (mux_handler (routes env))))) r w)"
    by (auto simp: RequestLogger_def Let_def ends_def split: served.splits)
  then show ?thesis
    by (auto simp: site_def baseChain_def chain_Then_def RecoverPanic_def ends_def split: served.splits)
qed

end

end
