(* ===== verification/Web_Safety.thy ===== *)
theory Web_Safety
  imports Web_Site
begin

text \<open>
  What a request can change, for the site as a whole: the contracts of \<open>Web_Frame\<close> and
  \<open>Web_Site\<close> interpreted on the connection manager, once for its reachable states and once for
  the data a request leaves as it was.
\<close>

section \<open>The data of the users\<close>

text \<open>The notes database of a user: the content of the file under the path of the user.\<close>

definition user_path :: "conn_conf \<Rightarrow> int \<Rightarrow> string" where
  "user_path conf v = db_file conf (user_db_path v)"

definition file_at :: "notes_db manager \<Rightarrow> string \<Rightarrow> notes_db sqlite_file option" where
  "file_at m path = map_option (file_data m) (map_of (dir_entries m) path)"

lemma user_path_inj: "user_path conf v = user_path conf u \<longleftrightarrow> v = u"
  by (auto simp: user_path_def db_file_def user_db_path_inj)

definition with_theme :: "string \<Rightarrow> user_row \<Rightarrow> user_row" where
  "with_theme t x = x\<lparr>u_theme := Some t\<rparr>"

text \<open>
  From \<open>m0\<close> to \<open>m\<close> nothing happened but what the user \<open>u\<close> may cause: the notes of \<open>u\<close> and the
  theme of \<open>u\<close> may have changed if \<open>may\<close> holds, a missing file of \<open>u\<close> may have been created, and
  sessions and connections may have come and gone.
\<close>

definition kept :: "conn_conf \<Rightarrow> int \<Rightarrow> bool \<Rightarrow> notes_db manager \<Rightarrow> notes_db manager \<Rightarrow> bool" where
  "kept conf u may m0 m \<longleftrightarrow>
     user_databases (index m) = user_databases (index m0)
     \<and> (users (index m) = users (index m0)
        \<or> may \<and> (\<exists>t. users (index m) = users (update_users (with_theme t) u (index m0))))
     \<and> (\<forall>v. file_at m (user_path conf v) = file_at m0 (user_path conf v)
           \<or> v = u \<and> (may \<or> file_at m0 (user_path conf v) = None))"

lemma kept_refl [simp]: "kept conf u may m m"
  by (simp add: kept_def)

lemma kept_index:
  assumes "kept conf u may m0 m" and "user_databases ix = user_databases (index m)"
    and "users ix = users (index m) \<or> may \<and> (\<exists>t. users ix = users (update_users (with_theme t) u (index m)))"
  shows "kept conf u may m0 (m\<lparr>index := ix\<rparr>)"
proof -
  have twice: "update_users (with_theme t) u (update_users (with_theme s) u ix0) = update_users (with_theme t) u ix0" for s t ix0
    by (simp add: update_users_def with_theme_def)
  have "users (update_users f u ix1) = users (update_users f u ix2)" if "users ix1 = users ix2" for f ix1 ix2
    using that by (simp add: update_users_def)
  then have "users ix = users (index m0) \<or> may \<and> (\<exists>t. users ix = users (update_users (with_theme t) u (index m0)))"
    using assms(1,3) twice unfolding kept_def by metis
  then show ?thesis using assms(1,2) by (simp add: kept_def file_at_def)
qed

lemma kept_admins:
  assumes "kept conf u may m0 m" and "row \<in> set (users (index m))"
  shows "\<exists>row0 \<in> set (users (index m0)). u_id row0 = u_id row \<and> u_admin row0 = u_admin row"
  using assms by (auto simp: kept_def update_users_def with_theme_def image_iff split: if_splits) blast+

section \<open>What a connection of the user reaches\<close>

lemma open_db_file_at:
  assumes inv: "conn_inv conf calm org m" and op: "open_db env i path m = (res, m')"
  shows "file_at m' p = file_at m p \<or> p = path \<and> file_at m p = None"
proof -
  have "next_number m + 1 \<noteq> ino" if "map_of (dir_entries m) p = Some ino" for ino
    using inv map_of_SomeD [OF that] by (fastforce simp: conn_inv_def)
  then show ?thesis using op
    by (cases "map_of (dir_entries m) p")
      (auto simp: open_db_def Let_def file_at_def simp del: map_of_eq_Some_iff split: option.splits if_splits)
qed

lemma open_db_index: "open_db env i path m = (res, m') \<Longrightarrow> index m' = index m"
  by (auto simp: open_db_def Let_def split: option.splits)

lemma getNotesStore_kept:
  assumes inv: "conn_inv conf calm org m" and op: "getNotesStore conf env u m = (res, m')"
  shows "index m' = index m
    \<and> (file_at m' p = file_at m p \<or> p = user_path conf u \<and> file_at m p = None)"
proof (cases "map_of (connections m) u")
  case (Some cc)
  then have "m' = m\<lparr>connections := AList.update u \<lparr>cc_conn = cc_conn cc, cc_expiry = clock env + ttl\<rparr> (connections m)\<rparr>"
    using op by (simp add: getNotesStore_def)
  then show ?thesis by (simp add: file_at_def)
next
  case None
  then obtain r1 m1 where c: "createNewConnection conf env u m = (r1, m1)"
    and m': "file_at m' p = file_at m1 p" "index m' = index m1"
    using op by (auto simp: getNotesStore_def file_at_def split: prod.splits sum.splits)
  show ?thesis
  proof (cases "m1 = m")
    case False
    then obtain udb where g: "GetUserDB (index_call env 0) u (index m) = (udb, None)"
      and o: "open_db env 0 (db_file conf (DatabasePath udb)) m = (r1, m1)"
      using c by (auto simp: createNewConnection_def split: prod.splits option.splits)
    have "DatabasePath udb = user_db_path u" using GetUserDB_path [OF conn_inv_index [OF inv] g] by blast
    then show ?thesis using open_db_file_at [OF inv o, of p] open_db_index [OF o] m' by (simp add: user_path_def)
  qed (use m' in simp)
qed

text \<open>A connection that is on a file of the user, if it is open.\<close>

definition own_handle :: "'ses web_env \<Rightarrow> int \<Rightarrow> nat \<Rightarrow> 'ses web \<Rightarrow> bool" where
  "own_handle env u h w \<longleftrightarrow> (\<exists>org. conn_inv (we_conf env) False org (w_manager w)
     \<and> (\<forall>ino. map_of (open_conns (w_manager w)) h = Some ino \<longrightarrow> org ino = user_path (we_conf env) u))"

lemma put_notes_is: "\<exists>fd. put_notes h db m = m\<lparr>file_data := fd\<rparr>"
proof (cases "map_of (open_conns m) h")
  case None
  then show ?thesis by (intro exI [of _ "file_data m"]) (simp add: put_notes_def)
qed (auto simp: put_notes_def)

lemma put_notes_file_at:
  assumes "own_handle env u h w"
  shows "file_at (put_notes h db (w_manager w)) (user_path (we_conf env) v)
      = file_at (w_manager w) (user_path (we_conf env) v) \<or> v = u"
proof (cases "map_of (open_conns (w_manager w)) h")
  case (Some ino)
  from assms obtain org where inv: "conn_inv (we_conf env) False org (w_manager w)"
    and org: "org ino = user_path (we_conf env) u" by (auto simp: own_handle_def Some)
  have "i \<noteq> ino" if "map_of (dir_entries (w_manager w)) (user_path (we_conf env) v) = Some i" "v \<noteq> u" for i
  proof -
    have "org i = user_path (we_conf env) v" using inv map_of_SomeD [OF that(1)] by (fastforce simp: conn_inv_def)
    then show ?thesis using that(2) org by (auto simp: user_path_inj)
  qed
  then show ?thesis
    by (cases "map_of (dir_entries (w_manager w)) (user_path (we_conf env) v)")
      (auto simp: Some put_notes_def file_at_def)
qed (simp add: put_notes_def)

section \<open>The contracts on the connection manager\<close>

lemma GetNotesDataStore_cases:
  assumes "userIDKey (Ctx r) = user" and "GetNotesDataStore env r w = (res, w')"
  shows "(\<exists>err. res = Inl err) \<and> w' = w
    \<or> (\<exists>uid r1 m'. user = Some uid \<and> getNotesStore (we_conf env) (we_conn env 0) uid (w_manager w) = (r1, m')
         \<and> w' = w\<lparr>w_manager := m'\<rparr> \<and> (\<forall>h. res = Inr h \<longrightarrow> r1 = Inr h))"
  using assms
  by (cases user)
    (auto simp: GetNotesDataStore_def send_cmd_def GetNotesStore_def SendReceive_def
        split: option.splits prod.splits sum.splits if_splits)

text \<open>The first contract: the states of the connection manager stay those of \<open>conn_reach\<close>.\<close>

definition reach_good :: "'ses web_env \<Rightarrow> 'ses web \<Rightarrow> bool" where
  "reach_good env w \<longleftrightarrow> session_manager_ok env \<and> conn_reach (we_engine env) (we_conf env) False (w_manager w)"

definition any_change :: "'ses web_env \<Rightarrow> index_db \<Rightarrow> index_db \<Rightarrow> bool" where
  "any_change env ix ix' \<longleftrightarrow> session_manager_ok env \<longrightarrow>
     (\<exists>c cmd. ix' = run_user_cmd (we_engine env) (we_bcrypt env) c cmd ix) \<or> (\<exists>ss. ix' = ix\<lparr>sessions := ss\<rparr>)"

lemma reach_serve:
  assumes "conn_reach en conf False m" and "serve conf cenv cmd m = Some (rep, m')"
  shows "conn_reach en conf False m'"
  by (rule conn_served [OF assms(1) _ assms(2)]) simp

lemma renew_sessions:
  "session_manager_ok env \<Longrightarrow> \<exists>ss. snd (scs_renew (we_scs env) c ses ix) = ix\<lparr>sessions := ss\<rparr>"
  by (simp add: session_manager_ok_def)

interpretation reach: store_writer env False "reach_good env" user "\<lambda>_ _. True"
proof
  fix w w' :: "'a web" assume "reach_good env w" "same_data w w'"
  then show "reach_good env w'" by (simp add: reach_good_def same_data_def)
next
  fix r :: request and w w' :: "'a web" and res
  assume w: "reach_good env w" and r: "userIDKey (Ctx r) = user" and g: "GetNotesDataStore env r w = (res, w')"
  have "conn_reach (we_engine env) (we_conf env) False m'"
    if "getNotesStore (we_conf env) (we_conn env 0) uid (w_manager w) = (r1, m')" for uid r1 m'
    using w that reach_serve [of _ _ "w_manager w" "we_conn env 0" "CmdGetConn uid"]
    by (cases r1) (auto simp: reach_good_def)
  then show "reach_good env w' \<and> (\<forall>h. res = Inr h \<longrightarrow> True)"
    using GetNotesDataStore_cases [OF r g] w by (auto simp: reach_good_def)
next
  fix w :: "'a web" and h db assume "reach_good env w"
  then show "reach_good env (w\<lparr>w_manager := put_notes h db (w_manager w)\<rparr>)"
    by (auto simp: reach_good_def put_notes_def intro: conn_content split: option.split)
qed

interpretation reach_adm: commander env False "reach_good env" "any_change env"
proof
  fix w :: "'a web" and ix assume w: "reach_good env w" "any_change env (index (w_manager w)) ix"
  then show "reach_good env (w\<lparr>w_manager := (w_manager w)\<lparr>index := ix\<rparr>\<rparr>)"
    by (auto simp: reach_good_def any_change_def intro: conn_user conn_sessions)
next
  fix w w' :: "'a web" and k ccmd rep
  assume "reach_good env w" "send_cmd env k ccmd w = Some (rep, w')"
  then show "reach_good env w'"
    by (auto simp: reach_good_def send_cmd_def reach_serve split: if_splits option.splits)
qed (auto simp: any_change_def dest: renew_sessions)

interpretation reach_ses: session_client env False "reach_good env"
proof
  fix w w' :: "'a web" assume "reach_good env w" "only_sessions w w'"
  then show "reach_good env w'" by (auto simp: reach_good_def only_sessions_def intro: conn_sessions)
qed (simp add: reach_good_def)

lemma index_ok_cong: "user_databases ix = user_databases ix' \<Longrightarrow> users ix = users ix' \<Longrightarrow> index_ok ix = index_ok ix'"
  by (simp add: index_ok_def)

text \<open>The second: from \<open>m0\<close> on, nothing but what the user \<open>u\<close> may cause.\<close>

definition kept_good :: "'ses web_env \<Rightarrow> int \<Rightarrow> bool \<Rightarrow> notes_db manager \<Rightarrow> 'ses web \<Rightarrow> bool" where
  "kept_good env u may m0 w \<longleftrightarrow> session_manager_ok env
     \<and> (\<exists>org. conn_inv (we_conf env) False org (w_manager w)) \<and> kept (we_conf env) u may m0 (w_manager w)"

definition theme_change :: "'ses web_env \<Rightarrow> int \<Rightarrow> index_db \<Rightarrow> index_db \<Rightarrow> bool" where
  "theme_change env u ix ix' \<longleftrightarrow> session_manager_ok env \<longrightarrow>
     user_databases ix' = user_databases ix
     \<and> (users ix' = users ix \<or> (\<exists>t. users ix' = users (update_users (with_theme t) u ix)))"

interpretation keeper: store_reader env True "kept_good env u may m0" "Some u" "own_handle env u"
proof
  fix w w' :: "'a web" assume "kept_good env u may m0 w" "same_data w w'"
  then show "kept_good env u may m0 w'" by (simp add: kept_good_def same_data_def)
next
  fix r :: request and w w' :: "'a web" and res
  assume w: "kept_good env u may m0 w" and r: "userIDKey (Ctx r) = Some u" and g: "GetNotesDataStore env r w = (res, w')"
  from w obtain org where inv: "conn_inv (we_conf env) False org (w_manager w)"
    and k: "kept (we_conf env) u may m0 (w_manager w)" by (auto simp: kept_good_def)
  show "kept_good env u may m0 w' \<and> (\<forall>h. res = Inr h \<longrightarrow> own_handle env u h w')"
    using GetNotesDataStore_cases [OF r g]
  proof (elim disjE exE conjE)
    fix uid r1 m'
    assume u: "Some u = Some uid" and s: "getNotesStore (we_conf env) (we_conn env 0) uid (w_manager w) = (r1, m')"
      and w': "w' = w\<lparr>w_manager := m'\<rparr>" and h: "\<forall>h. res = Inr h \<longrightarrow> r1 = Inr h"
    have ks: "index m' = index (w_manager w)"
      "file_at m' p = file_at (w_manager w) p \<or> p = user_path (we_conf env) u \<and> file_at (w_manager w) p = None" for p
      using getNotesStore_kept [OF inv s] u by auto
    have "kept (we_conf env) u may m0 m'"
      using k ks(1) ks(2) unfolding kept_def user_path_inj by (metis user_path_inj)
    moreover have "\<exists>org. conn_inv (we_conf env) False org m'
        \<and> (\<forall>h. r1 = Inr h \<longrightarrow> (\<forall>ino. map_of (open_conns m') h = Some ino \<longrightarrow> org ino = user_path (we_conf env) u))"
    proof (cases r1)
      case (Inl e)
      then show ?thesis using getNotesStore_errD [OF s [unfolded Inl]] inv by auto
    next
      case (Inr hh)
      from getNotesStore_inv [OF inv s [unfolded Inr]] obtain org' where i: "conn_inv (we_conf env) False org' m'"
        and c: "map_of (connections m') uid = Some \<lparr>cc_conn = hh, cc_expiry = clock (we_conn env 0) + ttl\<rparr>" by auto
      show ?thesis using conn_inv_cached(3) [OF i map_of_SomeD [OF c]] i u Inr
        by (auto simp: user_path_def dest: map_of_SomeD)
    qed
    ultimately show ?thesis using w h by (auto simp: w' kept_good_def own_handle_def)
  qed (use w in auto)
qed

interpretation keeper_w: store_writer env True "kept_good env u True m0" "Some u" "own_handle env u"
proof
  fix w :: "'a web" and h db assume w: "kept_good env u True m0 w" and o: "own_handle env u h w"
  have "kept (we_conf env) u True m0 (put_notes h db (w_manager w))"
  proof -
    have k: "kept (we_conf env) u True m0 (w_manager w)" using w by (simp add: kept_good_def)
    have "index (put_notes h db (w_manager w)) = index (w_manager w)"
      using put_notes_is [of h db "w_manager w"] by auto
    moreover have "file_at (put_notes h db (w_manager w)) (user_path (we_conf env) v) = file_at m0 (user_path (we_conf env) v) \<or> v = u" for v
      using k put_notes_file_at [OF o, of db v] by (auto simp: kept_def)
    ultimately show ?thesis using k by (simp add: kept_def)
  qed
  moreover have "\<exists>org. conn_inv (we_conf env) False org (put_notes h db (w_manager w))"
  proof -
    obtain org where "conn_inv (we_conf env) False org (w_manager w)" using w by (auto simp: kept_good_def)
    moreover obtain fd where "put_notes h db (w_manager w) = (w_manager w)\<lparr>file_data := fd\<rparr>"
      using put_notes_is by blast
    ultimately show ?thesis using conn_inv_frame(2) [OF _ conn_inv_index] by fastforce
  qed
  ultimately show "kept_good env u True m0 (w\<lparr>w_manager := put_notes h db (w_manager w)\<rparr>)"
    using w by (simp add: kept_good_def)
qed

interpretation keeper_ix: index_client env True "kept_good env u True m0" "theme_change env u"
proof
  fix w :: "'a web" and ix assume w: "kept_good env u True m0 w" and c: "theme_change env u (index (w_manager w)) ix"
  then have ix: "user_databases ix = user_databases (index (w_manager w))"
    "users ix = users (index (w_manager w)) \<or> True \<and> (\<exists>t. users ix = users (update_users (with_theme t) u (index (w_manager w))))"
    by (auto simp: kept_good_def theme_change_def)
  obtain org where inv: "conn_inv (we_conf env) False org (w_manager w)" using w by (auto simp: kept_good_def)
  have "index_ok (update_users (with_theme t) u (index (w_manager w)))" for t
    using conn_inv_index [OF inv] by (rule update_users_ok) (auto simp: with_theme_def)
  then have "index_ok ix"
    using ix conn_inv_index [OF inv] index_ok_cong [OF ix(1)]
      index_ok_cong [of ix "update_users (with_theme t) u (index (w_manager w))" for t]
    by (auto simp: update_users_def)
  then show "kept_good env u True m0 (w\<lparr>w_manager := (w_manager w)\<lparr>index := ix\<rparr>\<rparr>)"
    using w ix conn_inv_frame(1) [OF inv] kept_index [of "we_conf env" u True m0 "w_manager w" ix]
    by (auto simp: kept_good_def)
next
  fix ix c ses
  show "theme_change env u ix (snd (scs_renew (we_scs env) c ses ix))"
    by (auto simp: theme_change_def dest: renew_sessions [of env c ses ix])
qed

interpretation keeper_ses: session_client env True "kept_good env u may m0"
proof
  fix w w' :: "'a web" assume w: "kept_good env u may m0 w" and o: "only_sessions w w'"
  then obtain org ss where inv: "conn_inv (we_conf env) False org (w_manager w)"
    and m: "w_manager w' = (w_manager w)\<lparr>index := (index (w_manager w))\<lparr>sessions := ss\<rparr>\<rparr>"
    by (auto simp: kept_good_def only_sessions_def)
  have "kept (we_conf env) u may m0 (w_manager w')"
    using w unfolding m by (intro kept_index) (auto simp: kept_good_def)
  then show "kept_good env u may m0 w'"
    using w conn_inv_frame(1) [OF inv index_ok_sessions [OF conn_inv_index [OF inv]]]
    by (auto simp: kept_good_def m)
qed (simp add: kept_good_def)

end
