(* ===== verification/Web_Claims.thy ===== *)
theory Web_Claims
  imports Web_Safety
begin

text \<open>
  Properties of the site: the state of the connection manager over any sequence of requests, what
  a request of a user leaves alone, and what requests of other sites and reading requests leave
  alone.
\<close>

section \<open>The tables under the contracts\<close>

lemma select_route_D:
  "select_route r rts = Some (p, h) \<Longrightarrow> (p, h) \<in> set rts \<and> match_pattern r p \<noteq> None"
  using find_SomeD [of _ "filter (\<lambda>rt. match_pattern r (fst rt) \<noteq> None) rts" "(p, h)"]
  by (fastforce simp: select_route_def Let_def)

lemma notes_table_reach:
  assumes "(m, segs, h) \<in> set (notes_table env)" and "reach_good env w"
  shows "ends False (reach_good env) (h r w)"
  using assms(1) reach.note_readers [OF assms(2) refl, where r = r] reach.note_writers [OF assms(2) refl, where r = r]
    reach.list_readers [OF assms(2) refl, where r = r] reach.list_writers [OF assms(2) refl, where r = r]
  by (auto simp: notes_table_def simp del: split_paired_All)

lemma admin_table_reach:
  assumes "(m, segs, h) \<in> set (admin_table env)" and "reach_good env w"
  shows "ends False (reach_good env) (h r w)"
  using assms(1) reach_adm.administration [OF assms(2)] reach.index_readers [OF assms(2)]
  by (auto simp: admin_table_def)

lemma route_cases:
  assumes "(p, h) \<in> set (routes env)"
  obtains (table) m segs h' where "(m, segs, h') \<in> set (notes_table env)" "p_method p = m" "h = chain_Then (authReq env) h'"
  | (admin) m segs h' where "(m, segs, h') \<in> set (admin_table env)" "p_method p = m" "h = chain_Then (adminReq env) h'"
  | (public) "h \<in> {CheckFileCacheHeaders env (static_files env), GetUserLogin env, GetSetup env}"
  | (login) "p = \<lparr>p_method = ''POST'', p_segs = [Lit ''login''], p_prefix = False\<rparr>"
      "h = chain_Then (publicWithSession env) (PostUserLogin env)"
  | (setting) "p = \<lparr>p_method = ''POST'', p_segs = [Lit ''setup''], p_prefix = False\<rparr>"
      "h = chain_Then (publicWithSession env) (PostSetup env)"
  | (logout) "p_method p = ''DELETE''" "h = chain_Then (authReqNoRedirect env) (PostUserLogout env)"
  | (theme) "p_method p = ''PUT''" "h = chain_Then (authReqNoRedirect env) (PutUserTheme env)"
  | (cache) "h = chain_Then (adminReq env) (ConnCacheStateGet env)"
  | (info) "h = chain_Then (authReq env) (GetDebugBuildInfo env)"
proof -
  consider (1) "(p, h) \<in> set (static_routes env)" | (2) "(p, h) \<in> set (behind (authReq env) (notes_table env))"
    | (3) "(p, h) \<in> set (behind (adminReq env) (admin_table env))"
    | (4) "(p, h) \<in> set [route ''GET'' [Lit ''login''] (GetUserLogin env),
        route ''POST'' [Lit ''login''] (chain_Then (publicWithSession env) (PostUserLogin env)),
        route ''DELETE'' [Lit ''session''] (chain_Then (authReqNoRedirect env) (PostUserLogout env))]"
    | (5) "(p, h) \<in> set [route ''GET'' [Lit ''setup''] (GetSetup env),
        route ''POST'' [Lit ''setup''] (chain_Then (publicWithSession env) (PostSetup env)),
        route ''PUT'' [Lit ''user'', wild_id, Lit ''theme''] (chain_Then (authReqNoRedirect env) (PutUserTheme env))]"
    | (6) "(p, h) \<in> set [route ''GET'' [Lit ''debug'', Lit ''conn-cache-state''] (chain_Then (adminReq env) (ConnCacheStateGet env)),
              route ''GET'' [Lit ''debug'', Lit ''build-info''] (chain_Then (authReq env) (GetDebugBuildInfo env))]"
    using assms unfolding routes_def set_append Un_iff
    by (cases "we_debug env"; elim disjE; (simp only: if_True if_False list.set(1) empty_iff)?; blast)
  then show ?thesis
  proof cases
    case 2
    then show ?thesis by (auto simp: behind_def route_def intro: that(1))
  next
    case 3
    then show ?thesis by (auto simp: behind_def route_def intro: that(2))
  qed (auto simp: static_routes_def route_def intro: that(3-))
qed

lemma route_reach:
  assumes route: "(p, h) \<in> set (routes env)" and w: "reach_good env w"
  shows "ends False (reach_good env) (h r w)"
  using route
proof (cases rule: route_cases)
  case (table m segs h')
  show ?thesis unfolding table(3) by (intro reach_ses.authReq_ends [OF w] notes_table_reach [OF table(1)])
next
  case (admin m segs h')
  show ?thesis unfolding admin(3) by (intro reach_ses.adminReq_ends [OF w] admin_table_reach [OF admin(1)])
next
  case public
  then show ?thesis using reach.index_readers [OF w] by auto
qed (auto intro!: reach_ses.authReq_ends [OF w] reach_ses.authReqNoRedirect_ends [OF w] reach_ses.adminReq_ends [OF w]
    reach_ses.publicWithSession_ends [OF w] reach_adm.login_good reach_adm.setup_good reach_adm.logout_good
    reach_adm.administration(5) reach.index_readers)

section \<open>Every request keeps the users apart\<close>

text \<open>
  A run of the server: requests are served one after the other, and in between the poller and the
  goroutine of the session store do their work.
\<close>

inductive server_run ::
    "engine \<Rightarrow> conn_conf \<Rightarrow> notes_db manager \<Rightarrow> ('ses web_env \<times> request) list \<Rightarrow> notes_db manager \<Rightarrow> bool"
  for en conf m0 where
  server_up: "server_run en conf m0 [] m0"
| server_request: "server_run en conf m0 rs (w_manager w) \<Longrightarrow> we_engine env = en \<Longrightarrow> we_conf env = conf
    \<Longrightarrow> session_manager_ok env \<Longrightarrow> site env r w = Served w' \<Longrightarrow> server_run en conf m0 (rs @ [(env, r)]) (w_manager w')"
| server_sweep: "server_run en conf m0 rs m \<Longrightarrow> serve conf cenv CmdRemoveExpired m = Some (rep, m')
    \<Longrightarrow> server_run en conf m0 rs m'"
| server_cleanup: "server_run en conf m0 rs m \<Longrightarrow> server_run en conf m0 rs (m\<lparr>index := (index m)\<lparr>sessions := ss\<rparr>\<rparr>)"

lemma site_reach:
  assumes "reach_good env w" and "site env r w = Served w'"
  shows "reach_good env w'"
  using reach_ses.site_ends [OF assms(1), of r] assms(2) route_reach select_route_D by fastforce

lemma server_run_reach:
  "server_run en conf m0 rs m \<Longrightarrow> conn_reach en conf False m0 \<Longrightarrow> conn_reach en conf False m"
proof (induction rule: server_run.induct)
  case (server_request rs w env r w')
  then show ?case using site_reach [of env w r w'] by (simp add: reach_good_def)
next
  case (server_sweep rs m cenv rep m')
  then show ?case using reach_serve by blast
qed (auto intro: conn_sessions)

definition users_apart :: "conn_conf \<Rightarrow> notes_db manager \<Rightarrow> bool" where
  "users_apart conf m \<longleftrightarrow>
     distinct (map fst (connections m))
     \<and> distinct (map d_path (user_databases (index m)))
     \<and> d_user ` set (user_databases (index m)) = u_id ` {x \<in> set (users (index m)). \<not> u_admin x}
     \<and> (\<forall>key cc ino path. (key, cc) \<in> set (connections m) \<and> map_of (open_conns m) (cc_conn cc) = Some ino
         \<and> (path, ino) \<in> set (dir_entries m) \<longrightarrow> path = user_path conf key)
     \<and> (\<forall>k1 c1 k2 c2 ino. (k1, c1) \<in> set (connections m) \<and> (k2, c2) \<in> set (connections m)
         \<and> map_of (open_conns m) (cc_conn c1) = Some ino \<and> map_of (open_conns m) (cc_conn c2) = Some ino \<longrightarrow> k1 = k2)"

lemma reach_users_apart:
  assumes "engine_ok en" and "conn_reach en conf False m"
  shows "users_apart conf m"
proof -
  obtain org where inv: "conn_inv conf False org m" using conn_reach_inv assms by blast
  note ix = conn_inv_index [OF inv]
  have "distinct (map d_path (user_databases (index m)))"
    using ix by (auto simp: index_ok_def distinct_map inj_on_def user_db_path_inj)
  moreover have "org ino = user_path conf key"
    if "(key, cc) \<in> set (connections m)" "map_of (open_conns m) (cc_conn cc) = Some ino" for key cc ino
    using conn_inv_cached(3) [OF inv that(1) map_of_SomeD [OF that(2)]] by (simp add: user_path_def)
  moreover have "org ino = path" if "(path, ino) \<in> set (dir_entries m)" for path ino
    using inv that by (auto simp: conn_inv_def)
  moreover have "distinct (map fst (connections m))" using inv by (simp add: conn_inv_def)
  ultimately show ?thesis using ix unfolding users_apart_def index_ok_def by (metis user_path_inj)
qed

text \<open>The connection handed out for a user is on the file of that user, whatever the cache held before.\<close>

lemma handed_out_own:
  assumes "engine_ok en" and "conn_reach en conf False (m :: notes_db manager)" and served: "serve conf cenv (CmdGetConn u) m = Some (ReplyStore h, m')"
    and "map_of (open_conns m') h = Some ino" and "(path, ino) \<in> set (dir_entries m')"
  shows "path = user_path conf u"
proof -
  have "getNotesStore conf cenv u m = (Inr h, m')" using served by (simp split: prod.splits sum.splits)
  then have "map_of (connections m') u = Some \<lparr>cc_conn = h, cc_expiry = clock cenv + ttl\<rparr>"
    by (auto simp: getNotesStore_def Let_def update_conv' split: prod.splits sum.splits)
  then have "(u, \<lparr>cc_conn = h, cc_expiry = clock cenv + ttl\<rparr>) \<in> set (connections m')" by (rule map_of_SomeD)
  moreover have "users_apart conf m'" using reach_users_apart [OF assms(1) reach_serve [OF assms(2) served]] .
  ultimately show ?thesis using assms(4,5) unfolding users_apart_def by force
qed

text \<open>
  C1: Whatever requests the server has answered, by whomever they were sent and whatever failed,
  every plain user has one database path of his own, no user has two cached connections, an open
  one is on the file of that user, and no file is shared by the connections of two users.
\<close>

theorem server_keeps_users_apart:
  assumes "engine_ok en" and "index_ok ix" and "distinct (map fst files)"
    and "server_run en conf (start_manager ix ixf files) rs m"
  shows "distinct (map fst (connections m))
    \<and> distinct (map d_path (user_databases (index m)))
    \<and> d_user ` set (user_databases (index m)) = u_id ` {x \<in> set (users (index m)). \<not> u_admin x}
    \<and> (\<forall>key cc ino path. (key, cc) \<in> set (connections m) \<and> map_of (open_conns m) (cc_conn cc) = Some ino
         \<and> (path, ino) \<in> set (dir_entries m) \<longrightarrow> path = user_path conf key)
    \<and> (\<forall>k1 c1 k2 c2 ino. (k1, c1) \<in> set (connections m) \<and> (k2, c2) \<in> set (connections m)
         \<and> map_of (open_conns m) (cc_conn c1) = Some ino \<and> map_of (open_conns m) (cc_conn c2) = Some ino \<longrightarrow> k1 = k2)"
  using reach_users_apart [OF assms(1) server_run_reach [OF assms(4) conn_start [OF assms(2,3)]]]
  unfolding users_apart_def .

section \<open>What a request leaves alone\<close>

lemma notes_table_kept:
  assumes "(m, segs, h) \<in> set (notes_table env)" and w: "kept_good env u True m0 w" and u: "userIDKey (Ctx r) = Some u"
  shows "ends True (kept_good env u True m0) (h r w)"
  using assms(1) keeper.note_readers [OF w u] keeper_w.note_writers [OF w u]
    keeper.list_readers [OF w u] keeper_w.list_writers [OF w u]
  by (auto simp: notes_table_def)

lemma theme_change_UpdateUserTheme: "theme_change env u ix (snd (UpdateUserTheme c u t ix))"
  by (auto simp: theme_change_def UpdateUserTheme_def exec_index_def update_users_def with_theme_def [abs_def] split: option.split)

lemma kept_no_admin:
  assumes "kept_good env u may m0 w" and "known u True r w" and "\<forall>row \<in> set (users (index m0)). u_id row = u \<longrightarrow> \<not> u_admin row"
  shows False
  using assms kept_admins [of "we_conf env" u may m0 "w_manager w"] by (fastforce simp: kept_good_def known_def)

lemma match_one: "match_segs [Lit l] False ss = Some b \<Longrightarrow> ss = [l]"
  by (cases ss; cases "tl ss") (auto split: if_splits)

lemma route_kept:
  assumes route: "(p, h) \<in> set (routes env)" "match_pattern r0 p \<noteq> None"
    and path: "Segments r0 \<notin> {[''login''], [''setup'']}"
    and w: "kept_good env u True m0 w" and u: "session_user env r (index (w_manager w)) = u"
    and plain: "\<forall>row \<in> set (users (index m0)). u_id row = u \<longrightarrow> \<not> u_admin row"
  shows "ends True (kept_good env u True m0) (h r w)"
  using route(1)
proof (cases rule: route_cases)
  case (table m segs h')
  show ?thesis unfolding table(3)
    by (intro keeper_ses.authReq_ends [OF w] notes_table_kept [OF table(1)]) (simp_all add: known_def u)
next
  case (admin m segs h')
  show ?thesis unfolding admin(3)
    by (rule keeper_ses.adminReq_ends [OF w]) (rule FalseE, rule kept_no_admin [OF _ _ plain], simp_all add: u)
next
  case public
  then show ?thesis using keeper.index_readers [OF w] by auto
next
  case login
  then show ?thesis using route(2) path by (auto simp: match_pattern_def dest: match_one split: if_splits)
next
  case setting
  then show ?thesis using route(2) path by (auto simp: match_pattern_def dest: match_one split: if_splits)
next
  case logout
  show ?thesis unfolding logout(2)
    by (intro keeper_ses.authReqNoRedirect_ends [OF w] keeper_ix.logout_good)
next
  case theme
  show ?thesis unfolding theme(2)
    by (intro keeper_ses.authReqNoRedirect_ends [OF w] keeper_ix.theme_good)
      (auto simp: known_def u getUserIDFromRequest_def theme_change_UpdateUserTheme)
next
  case cache
  show ?thesis unfolding cache
    by (rule keeper_ses.adminReq_ends [OF w]) (rule FalseE, rule kept_no_admin [OF _ _ plain], simp_all add: u)
next
  case info
  show ?thesis unfolding info
    by (intro keeper_ses.authReq_ends [OF w] keeper.index_readers)
qed

lemma kept_good_start:
  assumes "session_manager_ok env" and "engine_ok (we_engine env)"
    and "conn_reach (we_engine env) (we_conf env) calm (w_manager w)"
  shows "kept_good env u may (w_manager w) w"
  using assms conn_reach_inv conn_inv_calm unfolding kept_good_def by (metis kept_refl)

text \<open>
  C2: A request of a plain user (or of nobody) that is no login and no setup is always answered,
  and whatever fails while it is served it changes nothing of any other user: not the file of his
  notes, not his account, his password hash or his role; of the accounts only the theme of the
  user himself can differ afterwards.
\<close>

theorem requests_touch_own_data_only:
  assumes "session_manager_ok env" and "engine_ok (we_engine env)"
    and "conn_reach (we_engine env) (we_conf env) calm (w_manager w)"
    and "session_user env r (index (w_manager w)) = u"
    and "\<forall>row \<in> set (users (index (w_manager w))). u_id row = u \<longrightarrow> \<not> u_admin row"
    and "Segments r \<notin> {[''login''], [''setup'']}"
  shows "\<exists>w'. site env r w = Served w' \<and> kept (we_conf env) u True (w_manager w) (w_manager w')"
proof -
  note start = kept_good_start [OF assms(1-3), of u True]
  have "(\<exists>w'. site env r w = Served w' \<and> kept_good env u True (w_manager w) w') \<or> \<not> True \<and> site env r w = Hangs"
  proof (rule keeper_ses.site_ends [OF start])
    fix p h b w1
    assume sel: "select_route r (routes env) = Some (p, h)" and w1: "kept_good env u True (w_manager w) w1"
      and m: "w_manager w1 = w_manager w"
    show "ends True (kept_good env u True (w_manager w)) (h (with_path_values b r) w1)"
      using select_route_D [OF sel] by (intro route_kept [of p h env r, OF _ _ assms(6) w1 _ assms(5)]) (simp_all add: m assms(4))
  qed
  then show ?thesis by (auto simp: kept_good_def)
qed

lemma notes_table_reads:
  assumes "(m, segs, h) \<in> set (notes_table env)" and "m \<in> {''GET'', ''HEAD'', ''OPTIONS''}"
    and w: "kept_good env u False m0 w" and u: "userIDKey (Ctx r) = Some u"
  shows "ends True (kept_good env u False m0) (h r w)"
  using assms(1,2) keeper.note_readers [OF w u] keeper.list_readers [OF w u]
  by (auto simp: notes_table_def)

lemma admin_table_reads:
  assumes "(m, segs, h) \<in> set (admin_table env)" and "m \<in> {''GET'', ''HEAD'', ''OPTIONS''}"
    and w: "kept_good env u False m0 w"
  shows "ends True (kept_good env u False m0) (h r w)"
  using assms(1,2) keeper.index_readers [OF w]
  by (auto simp: admin_table_def)

lemma route_reads:
  assumes route: "(p, h) \<in> set (routes env)" and meth: "p_method p \<in> {''GET'', ''HEAD'', ''OPTIONS''}"
    and w: "kept_good env u False m0 w" and u: "session_user env r (index (w_manager w)) = u"
  shows "ends True (kept_good env u False m0) (h r w)"
  using route
proof (cases rule: route_cases)
  case (table m segs h')
  show ?thesis unfolding table(3) using meth
    by (intro keeper_ses.authReq_ends [OF w] notes_table_reads [OF table(1)]) (simp_all add: known_def u table(2))
next
  case (admin m segs h')
  show ?thesis unfolding admin(3) using meth
    by (intro keeper_ses.adminReq_ends [OF w] admin_table_reads [OF admin(1)]) (simp_all add: admin(2))
next
  case public
  then show ?thesis using keeper.index_readers [OF w] by auto
next
  case cache
  show ?thesis unfolding cache by (intro keeper_ses.adminReq_ends [OF w] keeper.index_readers)
next
  case info
  show ?thesis unfolding info by (intro keeper_ses.authReq_ends [OF w] keeper.index_readers)
qed (use meth in auto)

lemma reading_site:
  assumes "session_manager_ok env" and "engine_ok (we_engine env)"
    and "conn_reach (we_engine env) (we_conf env) calm (w_manager w)"
    and "safe_method (Method r)"
  shows "\<exists>w'. site env r w = Served w'
    \<and> kept (we_conf env) (session_user env r (index (w_manager w))) False (w_manager w) (w_manager w')"
proof -
  let ?u = "session_user env r (index (w_manager w))"
  note start = kept_good_start [OF assms(1-3), of ?u False]
  have "(\<exists>w'. site env r w = Served w' \<and> kept_good env ?u False (w_manager w) w') \<or> \<not> True \<and> site env r w = Hangs"
  proof (rule keeper_ses.site_ends [OF start])
    fix p h b w1
    assume sel: "select_route r (routes env) = Some (p, h)" and w1: "kept_good env ?u False (w_manager w) w1"
      and m: "w_manager w1 = w_manager w"
    have "p_method p \<in> {''GET'', ''HEAD'', ''OPTIONS''}"
      using select_route_D [OF sel] assms(4) by (auto simp: match_pattern_def method_ok_def safe_method_def split: if_splits)
    then show "ends True (kept_good env ?u False (w_manager w)) (h (with_path_values b r) w1)"
      using select_route_D [OF sel] by (intro route_reads [OF _ _ w1]) (simp_all add: m)
  qed
  then show ?thesis by (auto simp: kept_good_def)
qed

text \<open>
  C6: A request that the browser says another site caused changes no account, no database entry and
  no file of notes that exists, whoever is logged in: with a method that may write it is refused
  with status 403 before any session is looked up, and the routes for the other methods only read.
\<close>

theorem cross_site_requests_change_nothing:
  assumes "session_manager_ok env" and "engine_ok (we_engine env)"
    and "conn_reach (we_engine env) (we_conf env) calm (w_manager w)"
    and "form_get (ReqHeader r) ''Sec-Fetch-Site'' \<in> {''cross-site'', ''same-site''}" and "rw_status w = None"
  shows "\<exists>w'. site env r w = Served w'
    \<and> users (index (w_manager w')) = users (index (w_manager w))
    \<and> user_databases (index (w_manager w')) = user_databases (index (w_manager w))
    \<and> (\<forall>v f. file_at (w_manager w) (user_path (we_conf env) v) = Some f
         \<longrightarrow> file_at (w_manager w') (user_path (we_conf env) v) = Some f)
    \<and> (\<not> safe_method (Method r) \<longrightarrow> rw_status w' = Some 403 \<and> w_manager w' = w_manager w)"
proof (cases "safe_method (Method r)")
  case True
  obtain w' where served: "site env r w = Served w'"
    and k: "kept (we_conf env) (session_user env r (index (w_manager w))) False (w_manager w) (w_manager w')"
    using reading_site [OF assms(1-3) True] by blast
  have "file_at (w_manager w') (user_path (we_conf env) v) = Some f"
    if "file_at (w_manager w) (user_path (we_conf env) v) = Some f" for v f
  proof -
    have "file_at (w_manager w') (user_path (we_conf env) v) = file_at (w_manager w) (user_path (we_conf env) v)
        \<or> file_at (w_manager w) (user_path (we_conf env) v) = None"
      using k by (auto simp: kept_def)
    then show ?thesis using that by auto
  qed
  then show ?thesis using True served k by (simp add: kept_def)
next
  case False
  then obtain msg where "cross_origin_check env r = Some msg"
    using assms(4) by (auto simp: cross_origin_check_def Let_def)
  then have "\<exists>w'. site env r w = Served w' \<and> rw_status w' = Some 403 \<and> w_manager w' = w_manager w"
    using assms(5)
    by (auto simp: site_def baseChain_def chain_Then_def RecoverPanic_def RequestLogger_def CommonHeaders_def
        CrossOriginProtection_def http_error_def write_body_def write_header_def set_header_def Let_def)
  then show ?thesis using False by auto
qed

end
