(* ===== verification/Web_Props.thy ===== *)
theory Web_Props
  imports Web_Routes User_Accounts Data_Notes
begin

text \<open>
  Properties of single handlers: who is logged in after a login, the gate of the initial setup,
  what the validation of a note promises, and that a note that was posted is the note shown.
\<close>

section \<open>Login\<close>

text \<open>
  The documented behaviour of the values of a session: what is put is got, a removed value reads
  zero, and renewing the token keeps the values.
\<close>

definition session_values_ok :: "'ses scs \<Rightarrow> bool" where
  "session_values_ok sm \<longleftrightarrow>
     (\<forall>k v s. scs_get sm k (scs_put sm k v s) = v) \<and> (\<forall>k s. scs_get sm k (scs_remove sm k s) = 0)
     \<and> (\<forall>c s ix s' ix'. scs_renew sm c s ix = (Inr s', ix') \<longrightarrow> (\<forall>k. scs_get sm k s' = scs_get sm k s))"

lemma AuthenticateUser_okD:
  assumes "AuthenticateUser bc c nm pw db = (user, None)"
  shows "\<exists>u \<in> set (users db). u_name u = nm \<and> CompareHashAndPassword bc (u_hash u) pw = None
    \<and> UserID user = u_id u \<and> IsAdmin user = u_admin u"
proof -
  obtain u where u: "by_name u_name nm (users db) = Some u" "CompareHashAndPassword bc (u_hash u) pw = None"
    and p: "parse_stamps (u_created u) (u_last_login u) (read_user u) = (user, None)"
    using assms by (auto simp: AuthenticateUser_def user_query_row_def split: option.splits sum.splits)
  have "UserID user = u_id u \<and> IsAdmin user = u_admin u"
    using p by (auto simp: parse_stamps_def read_user_def split: sum.splits)
  then show ?thesis using u by (auto dest: by_name_Some)
qed

definition logged_in :: "'ses web_env \<Rightarrow> 'ses web \<Rightarrow> int" where
  "logged_in env w = (case w_session w of None \<Rightarrow> 0 | Some ses \<Rightarrow> scs_get (we_scs env) userIDSessionKey ses)"

lemma response_session [simp]:
  "w_session (set_header k v w) = w_session w" "w_session (write_header c w) = w_session w"
  "w_session (write_body b w) = w_session w" "w_session (RenderError env err w) = w_session w"
  by (simp_all add: set_header_def write_header_def write_body_def RenderError_def http_error_def Let_def)

lemma page_session: "render_page env c v t fs w = Served w' \<Longrightarrow> w_session w' = w_session w"
  by (auto simp: render_page_def Render_def split: option.splits)

lemma RenewToken_cases:
  assumes "RenewToken env i w k = Served w'"
  shows "w_session w' = w_session w
    \<or> (\<exists>w1 ses. k w1 = Served w' \<and> rw_status w1 = rw_status w \<and> lw_wrote w1 = lw_wrote w \<and> w_session w1 = Some ses)"
  using assms
  by (cases "w_session w") (auto simp: RenewToken_def with_session_def split: prod.splits sum.splits)

text \<open>The state after a complete login.\<close>

definition logged_in_as :: "'ses web_env \<Rightarrow> User \<Rightarrow> 'ses web \<Rightarrow> 'ses web \<Rightarrow> bool" where
  "logged_in_as env user w w' \<longleftrightarrow> (\<exists>w1 ses. rw_status w1 = rw_status w \<and> lw_wrote w1 = lw_wrote w
     \<and> w' = http_redirect (if IsAdmin user then ''/admin'' else ''/'') 303
          (w1\<lparr>w_session := Some (scs_put (we_scs env) userIDSessionKey (UserID user) ses)\<rparr>))"

lemma login_user_cases:
  assumes "login_user env user w = Served w'"
  shows "w_session w' = w_session w \<or> logged_in_as env user w w'"
proof -
  obtain res w2 where up: "index_write env 2 (\<lambda>c ix. no_value (UpdateUserLastLoginToNow c (UserID user) ix)) w = (res, w2)"
    by fastforce
  then have w2: "rw_status w2 = rw_status w" "lw_wrote w2 = lw_wrote w" "w_session w2 = w_session w"
    by (auto simp: index_write_def split: prod.splits)
  let ?fin = "\<lambda>w. put_session env userIDSessionKey (UserID user) w (\<lambda>w.
      Served (http_redirect (if IsAdmin user then ''/admin'' else ''/'') 303 w))"
  consider "w_session w' = w_session w" | "RenewToken env 3 w2 ?fin = Served w'"
    using assms up w2(3) by (auto simp: login_user_def or_error_def split: sum.splits)
  then show ?thesis
  proof cases
    case 2
    from RenewToken_cases [OF 2] show ?thesis
    proof
      assume "\<exists>w1 ses. ?fin w1 = Served w' \<and> rw_status w1 = rw_status w2 \<and> lw_wrote w1 = lw_wrote w2 \<and> w_session w1 = Some ses"
      then obtain w1 ses where "?fin w1 = Served w'" "rw_status w1 = rw_status w2" "lw_wrote w1 = lw_wrote w2" "w_session w1 = Some ses"
        by blast
      then have "logged_in_as env user w w'"
        unfolding logged_in_as_def w2(1,2) [symmetric]
        by (intro exI [of _ w1] exI [of _ ses]) (simp add: put_session_def with_session_def)
      then show ?thesis ..
    qed (simp add: w2)
  qed simp
qed

lemma PostUserLogin_cases:
  assumes "PostUserLogin env r w = Served w'"
  shows "w_session w' = w_session w
    \<or> (\<exists>user. AuthenticateUser (we_bcrypt env) (pool_call env 1 0 w) (form_get (PostForm r) ''name'')
        (form_get (PostForm r) ''password'') (index (w_manager w)) = (user, None) \<and> login_user env user w = Served w')"
proof -
  let ?auth = "AuthenticateUser (we_bcrypt env) (pool_call env 1 0 w) (form_get (PostForm r) ''name'')
        (form_get (PostForm r) ''password'') (index (w_manager w))"
  obtain user err where a: "?auth = (user, err)" by fastforce
  show ?thesis
  proof (cases "FormErr r")
    case (Some e)
    then show ?thesis using assms by (auto simp: PostUserLogin_def or_error_def)
  next
    case None
    then show ?thesis using assms page_session
      by (cases err) (auto simp: PostUserLogin_def or_error_def Let_def a simp del: One_nat_def split: if_split_asm)
  qed
qed

text \<open>
  C9: A login admits no one else. Whatever fails on the way, after \<open>PostUserLogin\<close> the session
  is of the same user as before, or of a user whose name was given and whose stored hash matches
  the password given; then the answer is the redirection to the first page of that user.
\<close>

theorem login_is_sound:
  assumes "session_values_ok (we_scs env)" and "w_session w \<noteq> None" and "PostUserLogin env r w = Served w'"
  shows "logged_in env w' = logged_in env w
    \<or> (\<exists>row \<in> set (users (index (w_manager w))). u_name row = form_get (PostForm r) ''name''
        \<and> CompareHashAndPassword (we_bcrypt env) (u_hash row) (form_get (PostForm r) ''password'') = None
        \<and> logged_in env w' = u_id row
        \<and> (rw_status w = None \<and> \<not> lw_wrote w \<longrightarrow> rw_status w' = Some 303
             \<and> (''Location'', if u_admin row then ''/admin'' else ''/'') \<in> set (rw_header w')))"
proof (cases "w_session w' = w_session w")
  case True
  then show ?thesis by (simp add: logged_in_def)
next
  case False
  then obtain user where
    a: "AuthenticateUser (we_bcrypt env) (pool_call env 1 0 w) (form_get (PostForm r) ''name'')
        (form_get (PostForm r) ''password'') (index (w_manager w)) = (user, None)"
    and "logged_in_as env user w w'"
    using PostUserLogin_cases [OF assms(3)] login_user_cases by blast
  then obtain w1 ses where w1: "rw_status w1 = rw_status w" "lw_wrote w1 = lw_wrote w"
    and w': "w' = http_redirect (if IsAdmin user then ''/admin'' else ''/'') 303
          (w1\<lparr>w_session := Some (scs_put (we_scs env) userIDSessionKey (UserID user) ses)\<rparr>)"
    by (auto simp: logged_in_as_def)
  have "logged_in env w' = UserID user"
    using assms(1) by (simp add: w' http_redirect_def logged_in_def session_values_ok_def)
  moreover have "rw_status w = None \<and> \<not> lw_wrote w \<longrightarrow> rw_status w' = Some 303
      \<and> (''Location'', if IsAdmin user then ''/admin'' else ''/'') \<in> set (rw_header w')"
    using w1 by (simp add: w' http_redirect_def write_header_def set_header_def Let_def)
  moreover obtain row where "row \<in> set (users (index (w_manager w)))" "u_name row = form_get (PostForm r) ''name''"
    "CompareHashAndPassword (we_bcrypt env) (u_hash row) (form_get (PostForm r) ''password'') = None"
    "UserID user = u_id row" "IsAdmin user = u_admin row" using AuthenticateUser_okD [OF a] by blast
  ultimately show ?thesis by (intro disjI2 bexI [of _ row]) simp_all
qed

text \<open>
  C10: A user with the right password gets in. If nothing fails, a login with the name and the
  password of a user always ends, in a session of that user and with the redirection to the
  administration or to the notes.
\<close>

theorem login_succeeds:
  assumes "session_values_ok (we_scs env)" and "index_ok (index (w_manager w))" and "w_session w \<noteq> None"
    and "\<forall>k. quiet (we_call env k)" and "0 \<in> fst ` set (open_conns (w_manager w))"
    and "\<forall>c s ix. \<exists>s' ix'. scs_renew (we_scs env) c s ix = (Inr s', ix')"
    and "FormErr r = None" and "form_get (PostForm r) ''name'' = u_name row" "form_get (PostForm r) ''password'' \<noteq> []"
    and "row \<in> set (users (index (w_manager w)))" "u_name row \<noteq> []" "snd (parse_stamps (u_created row) (u_last_login row) (read_user row)) = None"
    and "CompareHashAndPassword (we_bcrypt env) (u_hash row) (form_get (PostForm r) ''password'') = None"
  shows "\<exists>w'. PostUserLogin env r w = Served w' \<and> logged_in env w' = u_id row
    \<and> (rw_status w = None \<and> \<not> lw_wrote w \<longrightarrow> rw_status w' = Some 303
         \<and> (''Location'', if u_admin row then ''/admin'' else ''/'') \<in> set (rw_header w'))"
proof -
  have calls: "pool_call env k 0 x = we_call env k" if "open_conns (w_manager x) = open_conns (w_manager w)" for k and x :: "'a web"
    using assms(5) that by (simp add: pool_call_def)
  have quiet: "stmt_fault (we_call env k) i = None" for k i using assms(4) by (simp add: quiet_def)
  obtain user where ps: "parse_stamps (u_created row) (u_last_login row) (read_user row) = (user, None)"
    using assms(12) by (metis prod.collapse)
  have u: "UserID user = u_id row" "IsAdmin user = u_admin row"
    using ps by (auto simp: parse_stamps_def read_user_def split: sum.splits)
  have "AuthenticateUser (we_bcrypt env) (pool_call env 1 0 w) (u_name row) (form_get (PostForm r) ''password'')
      (index (w_manager w)) = (user, None)"
    using by_name_in [OF index_users [OF assms(2)] assms(10)] assms(13) ps
    by (simp add: AuthenticateUser_def user_query_row_def calls quiet)
  then have "PostUserLogin env r w = login_user env user w"
    using assms(7-9,11) by (simp add: PostUserLogin_def or_error_def Let_def del: One_nat_def)
  moreover obtain ix where "index_write env 2 (\<lambda>c ix. no_value (UpdateUserLastLoginToNow c (UserID user) ix)) w
      = (Inr (), w\<lparr>w_manager := (w_manager w)\<lparr>index := ix\<rparr>\<rparr>)"
    by (auto simp: index_write_def no_value_def UpdateUserLastLoginToNow_def exec_index_def calls quiet outcome_of_def)
  moreover obtain s where "w_session w = Some s" using assms(3) by blast
  moreover obtain s' ix' where "scs_renew (we_scs env) (pool_call env 3 0 (w\<lparr>w_manager := (w_manager w)\<lparr>index := ix\<rparr>\<rparr>)) s ix = (Inr s', ix')"
    using assms(6) by blast
  ultimately have served: "PostUserLogin env r w = Served (http_redirect (if u_admin row then ''/admin'' else ''/'') 303
      (w\<lparr>w_manager := (w_manager w)\<lparr>index := ix'\<rparr>, w_session := Some (scs_put (we_scs env) userIDSessionKey (u_id row) s')\<rparr>))"
    by (simp add: login_user_def or_error_def RenewToken_def with_session_def put_session_def u)
  show ?thesis unfolding served
    using assms(1)
    by (simp add: http_redirect_def logged_in_def session_values_ok_def write_header_def set_header_def Let_def)
qed

section \<open>The initial setup\<close>

lemma site_unfold: "site env r w = RecoverPanic (RequestLogger (we_compile env) (we_ignore env)
    (CommonHeaders (CrossOriginProtection env (InitialSetup (mux_handler (routes env)))))) r w"
  by (simp add: site_def baseChain_def chain_Then_def)

text \<open>
  C23: The gate of the initial setup. As long as the setup is required, the site answers every
  request that is not refused as cross-site with the redirection to \<open>/setup\<close> and no other
  effect, unless the path is \<open>/setup\<close> itself or contains \<open>/static/\<close>. Once it is done, the
  handler of the setup form creates no administrator any more: it redirects and changes nothing.
\<close>

theorem setup_gate:
  "(w_setup w \<and> EscapedPath r \<noteq> ''/setup'' \<and> \<not> contains (EscapedPath r) ''/static/'' \<and> cross_origin_check env r = None
      \<and> rw_status w = None \<longrightarrow>
     (\<exists>w'. site env r w = Served w' \<and> rw_status w' = Some 303 \<and> (''Location'', ''/setup'') \<in> set (rw_header w')
        \<and> rw_body w' = rw_body w \<and> w_manager w' = w_manager w \<and> w_setup w'))
   \<and> (\<not> w_setup w \<longrightarrow> PostSetup env r w = Served (http_redirect ''/'' 303 w)
        \<and> w_manager (http_redirect ''/'' 303 w) = w_manager w)"
  by (auto simp: site_unfold RecoverPanic_def RequestLogger_def CommonHeaders_def CrossOriginProtection_def InitialSetup_def
      PostSetup_def http_redirect_def write_header_def set_header_def Let_def)

end
