(* ===== verification/Web_NoteProps.thy ===== *)
theory Web_NoteProps
  imports Web_Notes Data_Notes
begin

text \<open>
  Properties of the handlers for notes that span the form, the connection cache and the data
  store: what posting a note answers, and that the note posted is the note shown.
\<close>

section \<open>Validation\<close>

text \<open>What the form of a new note has to satisfy.\<close>

definition valid_note :: "noteForm \<Rightarrow> notes_db \<Rightarrow> bool" where
  "valid_note nf db \<longleftrightarrow> NotBlank (FormTitle nf) \<and> MaxChars (FormTitle nf) 100
     \<and> FormTitle nf \<notin> n_title ` set (db_notes db) \<and> FormSectionID nf \<in> SectionID ` set (db_sections db)
     \<and> set (FormTagIds nf) \<subseteq> TagID ` set (db_tags db)"

lemma validate_title_quiet:
  assumes "quiet c" "table_ok n_id n_title (db_notes db)" "FormID nf = 0"
  shows "\<exists>fe. validate_title nf (NoteExists c (FormTitle nf) db) = Inr fe
    \<and> (fe = [] \<longleftrightarrow> NotBlank (FormTitle nf) \<and> MaxChars (FormTitle nf) 100 \<and> FormTitle nf \<notin> n_title ` set (db_notes db))"
proof (cases "by_name n_title (FormTitle nf) (db_notes db)")
  case None
  then have "FormTitle nf \<notin> n_title ` set (db_notes db)" by (simp add: by_name_None)
  then show ?thesis using assms(1) None by (auto simp: validate_title_def NoteExists_def Let_def)
next
  case (Some n)
  then have "n \<in> set (db_notes db)" "n_title n = FormTitle nf" using by_name_Some by metis+
  moreover from this have "n_id n \<noteq> FormID nf" using assms(2,3) by (auto simp: table_ok_def)
  ultimately show ?thesis using assms(1) Some
    by (auto simp: validate_title_def NoteExists_def Let_def image_iff intro: bexI [of _ n])
qed

lemma validate_section_quiet:
  assumes "quiet c" "table_ok SectionID SectionName (db_sections db)"
  shows "\<exists>fe'. validate_section nf (FindSectionByID c (FormSectionID nf) db) fe = Inr fe'
    \<and> (fe' = [] \<longleftrightarrow> fe = [] \<and> FormSectionID nf \<in> SectionID ` set (db_sections db))"
proof (cases "by_id SectionID (FormSectionID nf) (db_sections db)")
  case None
  then have "FormSectionID nf \<notin> SectionID ` set (db_sections db)" by (simp add: by_id_def find_None_key)
  then show ?thesis using assms(1) None by (auto simp: validate_section_def FindSectionByID_def)
next
  case (Some s)
  then have "s \<in> set (db_sections db)" "SectionID s = FormSectionID nf" using by_id_Some by metis+
  moreover from this have "0 < FormSectionID nf" using assms(2) by (auto simp: table_ok_def)
  ultimately show ?thesis using assms(1) Some
    by (auto simp: validate_section_def FindSectionByID_def image_iff intro: bexI [of _ s])
qed

lemma fold_missing_tag:
  "fold (missing_tag tags) ids fe = [] \<longleftrightarrow> fe = [] \<and> set ids \<subseteq> TagID ` set tags"
  by (induction ids arbitrary: fe) (auto simp: missing_tag_def list_ex_iff)

lemma filter_ids_length:
  assumes "distinct (map rid rows)" and "length (filter (\<lambda>t. rid t \<in> set ids) rows) = length ids"
  shows "set ids \<subseteq> rid ` set rows"
proof -
  let ?S = "rid ` {t \<in> set rows. rid t \<in> set ids}"
  have "card ?S = length ids"
    using assms distinct_card [of "map rid (filter (\<lambda>t. rid t \<in> set ids) rows)"] distinct_map_filter_key [OF assms(1)]
    by simp
  moreover have sub: "?S \<subseteq> set ids" by auto
  moreover have "card (set ids) \<le> length ids" by (rule card_length)
  ultimately have "card ?S = card (set ids)" using card_mono [OF finite_set sub] by simp
  with sub have "?S = set ids" by (intro card_subset_eq) auto
  then show ?thesis by blast
qed

lemma validate_tags_quiet:
  assumes "quiet c" "engine_ok en" "table_ok TagID TagName (db_tags db)"
  shows "\<exists>fe'. validate_tags nf (QueryTags en c (FormTagIds nf) db) fe = Inr fe'
    \<and> (fe' = [] \<longleftrightarrow> fe = [] \<and> set (FormTagIds nf) \<subseteq> TagID ` set (db_tags db))"
proof -
  let ?tags = "filter (\<lambda>t. TagID t \<in> set (FormTagIds nf)) (visit en ''QueryTags'' TagID (db_tags db))"
  have "set (FormTagIds nf) \<subseteq> TagID ` set ?tags \<longleftrightarrow> set (FormTagIds nf) \<subseteq> TagID ` set (db_tags db)"
    using assms(2) by auto
  moreover have "set (FormTagIds nf) \<subseteq> TagID ` set (db_tags db)" if "length ?tags = length (FormTagIds nf)"
    using filter_ids_length [OF _ that] assms(2,3) by (simp add: table_ok_def)
  ultimately show ?thesis using assms(1)
    by (auto simp: validate_tags_def QueryTags_def fold_missing_tag)
qed

lemma validateNoteForm_quiet:
  assumes "\<forall>k. quiet (pool_call env k h w)" and "engine_ok (we_engine env)" and "schema_ok (notes_of (w_manager w) h)" and "FormID nf = 0"
  shows "\<exists>fe. validateNoteForm env h nf w = Inr fe \<and> (fe = [] \<longleftrightarrow> valid_note nf (notes_of (w_manager w) h))"
proof -
  let ?db = "notes_of (w_manager w) h"
  have q: "quiet (pool_call env k h w)" for k using assms(1) by blast
  have t: "table_ok n_id n_title (db_notes ?db)" "table_ok SectionID SectionName (db_sections ?db)" "table_ok TagID TagName (db_tags ?db)"
    using assms(3) by (simp_all add: schema_ok_def)
  obtain f1 where 1: "validate_title nf (NoteExists (pool_call env 2 h w) (FormTitle nf) ?db) = Inr f1"
    "f1 = [] \<longleftrightarrow> NotBlank (FormTitle nf) \<and> MaxChars (FormTitle nf) 100 \<and> FormTitle nf \<notin> n_title ` set (db_notes ?db)"
    using validate_title_quiet [OF q [of 2] t(1) assms(4)] by blast
  obtain f2 where 2: "validate_section nf (FindSectionByID (pool_call env 3 h w) (FormSectionID nf) ?db) f1 = Inr f2"
    "f2 = [] \<longleftrightarrow> f1 = [] \<and> FormSectionID nf \<in> SectionID ` set (db_sections ?db)"
    using validate_section_quiet [OF q [of 3] t(2), of nf f1] by blast
  obtain f3 where 3: "validate_tags nf (QueryTags (we_engine env) (pool_call env 4 h w) (FormTagIds nf) ?db) f2 = Inr f3"
    "f3 = [] \<longleftrightarrow> f2 = [] \<and> set (FormTagIds nf) \<subseteq> TagID ` set (db_tags ?db)"
    using validate_tags_quiet [OF q [of 4] assms(2) t(3), of nf f2] by blast
  have "validateNoteForm env h nf w = Inr f3"
    unfolding validateNoteForm_def notes_go_def 1(1) by (simp only: assms(4) less_irrefl if_False option.case 2(1) 3(1) sum.case)
  then show ?thesis using 1(2) 2(2) 3(2) unfolding valid_note_def by blast
qed

section \<open>Posting a note\<close>

lemma response_status [simp]:
  "rw_status (write_body b w) = (if rw_status w = None then Some 200 else rw_status w)"
  "rw_status (set_header k v w) = rw_status w" "lw_wrote (set_header k v w) = lw_wrote w"
  "w_manager (write_body b w) = w_manager w" "w_manager (write_header code w) = w_manager w" "w_manager (set_header k v w) = w_manager w"
  "\<not> lw_wrote w \<Longrightarrow> rw_status (write_header code w) = (if rw_status w = None then Some code else rw_status w)"
  by (simp_all add: write_body_def write_header_def set_header_def Let_def)

lemma error_status [simp]:
  "\<not> lw_wrote w \<Longrightarrow> rw_status w = None \<Longrightarrow> rw_status (RenderError env err w) = Some 500"
  "w_manager (RenderError env err w) = w_manager w"
  by (simp_all add: RenderError_def http_error_def)

lemma GetNotesDataStore_frame:
  "GetNotesDataStore env r w = (res, w0) \<Longrightarrow> \<exists>m. w0 = w\<lparr>w_manager := m\<rparr>"
  by (auto simp: GetNotesDataStore_def send_cmd_def split: option.splits prod.splits sum.splits if_splits
      intro: exI [of _ "w_manager w"])

text \<open>Whether the links of the form can be stored for the new note \<open>nid\<close>.\<close>

definition storable_links :: "noteForm \<Rightarrow> int \<Rightarrow> notes_db \<Rightarrow> bool" where
  "storable_links nf nid db \<longleftrightarrow> distinct (FormTagIds nf) \<and> distinct (FormReferenceNoteIds nf)
     \<and> set (FormReferenceNoteIds nf) \<subseteq> insert nid (n_id ` set (db_notes db))"

lemma pool_call_open: "h \<in> fst ` set (open_conns (w_manager w)) \<Longrightarrow> pool_call env k h w = we_call env k"
  by (simp add: pool_call_def)

lemma notes_of_put:
  assumes "h \<in> fst ` set (open_conns m)"
  shows "notes_of (put_notes h db m) h = db"
proof -
  obtain ino where "map_of (open_conns m) h = Some ino"
    using assms by (metis domIff dom_map_of_conv_image_fst option.exhaust)
  then show ?thesis by (simp add: notes_of_def put_notes_def)
qed

lemma NotePost_answers:
  assumes "engine_ok (we_engine env)" and "\<forall>k. quiet (we_call env k)"
    and "GetNotesDataStore env r w = (Inr h, w0)" and "h \<in> fst ` set (open_conns (w_manager w0))"
    and "schema_ok (notes_of (w_manager w0) h)"
    and "alloc_id (we_engine env) (map n_id (db_notes (notes_of (w_manager w0) h))) = Some nid"
    and "parseNoteForm r = Inr nf" and "FormID nf = 0"
    and "\<forall>t fs v. we_render env t fs v = None" and "rw_status w = None" and "\<not> lw_wrote w"
  shows "\<exists>w'. NotePost env r w = Served w'
    \<and> rw_status w' = Some (if \<not> valid_note nf (notes_of (w_manager w0) h) then 422
                         else if storable_links nf nid (notes_of (w_manager w0) h) then 200 else 500)
    \<and> (rw_status w' \<noteq> Some 200 \<longrightarrow> notes_of (w_manager w') h = notes_of (w_manager w0) h)"
proof -
  let ?db = "notes_of (w_manager w0) h"
  have w0: "rw_status w0 = None" "\<not> lw_wrote w0"
    using GetNotesDataStore_frame [OF assms(3)] assms(10,11) by auto
  have calls: "pool_call env k h w0 = we_call env k" for k by (rule pool_call_open [OF assms(4)])
  have q: "quiet (we_call env k)" for k using assms(2) by blast
  obtain fe where fe: "validateNoteForm env h nf w0 = Inr fe" "fe = [] \<longleftrightarrow> valid_note nf ?db"
    using validateNoteForm_quiet [of env h w0 nf] assms(1,5,8) by (auto simp: calls q)
  have post: "NotePost env r w =
      (if length fe > 0 then note_form_again env h (nf\<lparr>FormErrors := fe\<rparr>) r w0
       else or_error env (notes_write env 7 h (\<lambda>c. CreateNote (we_engine env) c (FormTitle nf) (FormContent nf)
             (FormSectionID nf) (FormTagIds nf) (FormReferenceNoteIds nf)) w0) (\<lambda>i w.
           hx_redirect (note_path i (FormTitle nf)) 200 w))"
    by (simp add: NotePost_def or_error_def assms(3,7) fe(1))
  show ?thesis
  proof (cases "valid_note nf ?db")
    case False
    then show ?thesis unfolding post using fe(2) assms(9) w0
      by (auto simp: note_form_again_def or_error_def notes_read_def notes_go_def calls q ListAllTags_def ListAllSections_def
          outcome_of_def render_unchecked_def Render_def)
  next
    case True
    obtain i err db where c: "CreateNote (we_engine env) (we_call env 7) (FormTitle nf) (FormContent nf)
             (FormSectionID nf) (FormTagIds nf) (FormReferenceNoteIds nf) ?db = ((i, err), db)"
      by (metis prod.collapse)
    have "err = None \<longleftrightarrow> storable_links nf nid ?db"
      using created_iff [OF assms(1,5) q assms(6), of 7 "FormTitle nf" "FormContent nf" "FormSectionID nf" "FormTagIds nf"
          "FormReferenceNoteIds nf"] True
      by (auto simp: c storable_links_def valid_note_def)
    moreover have "db = ?db" if "err \<noteq> None" using that c CreateNote_errD by blast
    ultimately show ?thesis unfolding post using fe(2) True w0 notes_of_put [OF assms(4), of db]
      by (cases err) (auto simp: or_error_def notes_write_def calls c outcome_of_def hx_redirect_def)
  qed
qed

text \<open>
  C8: What posting a note answers, when no statement and no template fails: 422 and the form again
  when the form is not valid, 200 and the address of the note when it is and its links can be
  stored, and otherwise, that is for a tag or a reference given twice and for a reference to a
  note that does not exist, 500. Only in the second case the database of the user changes.
\<close>

theorem NotePost_exact:
  assumes "engine_ok (we_engine env)" and "\<forall>k. quiet (we_call env k)"
    and "GetNotesDataStore env r w = (Inr h, w0)" and "h \<in> fst ` set (open_conns (w_manager w0))"
    and "schema_ok (notes_of (w_manager w0) h)"
    and "alloc_id (we_engine env) (map n_id (db_notes (notes_of (w_manager w0) h))) = Some nid"
    and "parseNoteForm r = Inr nf" and "FormID nf = 0"
    and "\<forall>t fs v. we_render env t fs v = None" and "rw_status w = None" and "\<not> lw_wrote w"
  shows "\<exists>w'. NotePost env r w = Served w'
    \<and> rw_status w' = Some (if \<not> valid_note nf (notes_of (w_manager w0) h) then 422
                         else if storable_links nf nid (notes_of (w_manager w0) h) then 200 else 500)
    \<and> (rw_status w' \<noteq> Some 200 \<longrightarrow> notes_of (w_manager w') h = notes_of (w_manager w0) h)"
  using assms by (rule NotePost_answers)

section \<open>The note posted is the note shown\<close>

lemma CreateNote_int64:
  assumes "engine_ok en" and "CreateNote en c title content sec tids rids db = ((nid, None), db')"
  shows "is_int64 nid \<and> 0 < nid"
proof -
  obtain db1 where "insert_note en (now_txt c) title content sec db = Inr (nid, db1)"
    using CreateNote_okD [OF assms(2)] by blast
  then obtain ids where "alloc_id en ids = Some nid"
    by (auto simp: insert_note_def insert_row_def split: option.splits sum.splits prod.splits if_splits)
  then show ?thesis using assms(1) by (auto simp: engine_ok_def)
qed

lemma CreateNote_closed: "CreateNote en closed_call title content sec tids rids db \<noteq> ((i, None), db')"
  by (simp add: CreateNote_def with_transaction_def closed_call_def Let_def)

text \<open>The cached connection is given out again.\<close>

lemma GetNotesDataStore_again:
  assumes "GetNotesDataStore env r w = (Inr h, w0)" and "userIDKey (Ctx r) = Some u"
    and "userIDKey (Ctx r') = Some u" and "\<not> w_stopped w2"
    and "w_manager w2 = put_notes h db (w_manager w0)"
  shows "\<exists>w3. GetNotesDataStore env' r' w2 = (Inr h, w3) \<and> open_conns (w_manager w3) = open_conns (w_manager w2)
    \<and> file_data (w_manager w3) = file_data (w_manager w2) \<and> rw_status w3 = rw_status w2"
proof -
  obtain m' where g: "getNotesStore (we_conf env) (we_conn env 0) u (w_manager w) = (Inr h, m')" and w0: "w_manager w0 = m'"
    using assms(1,2)
    by (auto simp: GetNotesDataStore_def send_cmd_def GetNotesStore_def SendReceive_def
        split: prod.splits sum.splits if_splits)
  obtain cc where cc: "map_of (connections m') u = Some cc" "cc_conn cc = h"
    using g by (auto simp: getNotesStore_def Let_def update_conv' split: prod.splits sum.splits)
  have "connections (w_manager w2) = connections m'"
    by (simp add: assms(5) w0 put_notes_def split: option.split)
  then show ?thesis using assms(3,4) cc
    by (simp add: GetNotesDataStore_def send_cmd_def GetNotesStore_def SendReceive_def getNotesStore_def)
qed

lemma note_form_again_status:
  assumes "note_form_again env h nf r w = Served w'" and "rw_status w = None" "\<not> lw_wrote w"
  shows "rw_status w' \<noteq> Some 200"
  using assms
  by (auto simp: note_form_again_def or_error_def notes_read_def render_unchecked_def Render_def split: sum.splits option.splits)

lemma NotePost_okD:
  assumes "NotePost env r w = Served w1" and "rw_status w1 = Some 200" and "rw_status w = None" "\<not> lw_wrote w"
  shows "\<exists>nf h w0 i db. parseNoteForm r = Inr nf \<and> GetNotesDataStore env r w = (Inr h, w0)
    \<and> CreateNote (we_engine env) (pool_call env 7 h w0) (FormTitle nf) (FormContent nf) (FormSectionID nf) (FormTagIds nf)
        (FormReferenceNoteIds nf) (notes_of (w_manager w0) h) = ((i, None), db)
    \<and> w1 = write_header 200 (set_header ''HX-Redirect'' (note_path i (FormTitle nf))
        (w0\<lparr>w_manager := put_notes h db (w_manager w0)\<rparr>))"
proof -
  obtain nf where nf: "parseNoteForm r = Inr nf"
    using assms by (cases "parseNoteForm r") (auto simp: NotePost_def or_error_def)
  obtain res w0 where g: "GetNotesDataStore env r w = (res, w0)" by fastforce
  have w0: "rw_status w0 = None" "\<not> lw_wrote w0" using GetNotesDataStore_frame [OF g] assms(3,4) by auto
  obtain h where h: "res = Inr h" using assms(1,2) nf g w0 by (cases res) (auto simp: NotePost_def or_error_def)
  obtain fe where fe: "validateNoteForm env h nf w0 = Inr fe"
    using assms(1,2) nf g h w0 by (cases "validateNoteForm env h nf w0") (auto simp: NotePost_def or_error_def)
  have "length fe = 0"
    using assms(1,2) nf g h fe w0 note_form_again_status [of env h "nf\<lparr>FormErrors := fe\<rparr>" r w0 w1]
    by (simp add: NotePost_def or_error_def split: if_split_asm)
  obtain i err db where c: "CreateNote (we_engine env) (pool_call env 7 h w0) (FormTitle nf) (FormContent nf) (FormSectionID nf)
      (FormTagIds nf) (FormReferenceNoteIds nf) (notes_of (w_manager w0) h) = ((i, err), db)"
    by (metis prod.collapse)
  have "err = None \<and> w1 = write_header 200 (set_header ''HX-Redirect'' (note_path i (FormTitle nf))
        (w0\<lparr>w_manager := put_notes h db (w_manager w0)\<rparr>))"
    using assms(1,2) w0 \<open>length fe = 0\<close>
    by (cases err) (auto simp: NotePost_def or_error_def nf g h fe notes_write_def c outcome_of_def hx_redirect_def)
  then show ?thesis using nf g h c by blast
qed

text \<open>The request that shows a note.\<close>

definition shows_note :: "'ses web_env \<Rightarrow> request \<Rightarrow> 'ses web \<Rightarrow> int \<Rightarrow> int \<Rightarrow> string \<Rightarrow> bool" where
  "shows_note env r w u i title \<longleftrightarrow> userIDKey (Ctx r) = Some u \<and> PathID r = show_int i \<and> PathSlug r = slugify title
     \<and> getUserThemeFromRequest r \<noteq> [] \<and> \<not> w_stopped w \<and> quiet (we_call env 1)"

text \<open>The next request of the user reads the notes a handler has left on his connection.\<close>

lemma reads_what_was_put:
  assumes "GetNotesDataStore env r w = (Inr h, w0)" and "userIDKey (Ctx r) = Some u"
    and "h \<in> fst ` set (open_conns (w_manager w0))" and "w_manager w2 = put_notes h db (w_manager w0)"
    and "userIDKey (Ctx r') = Some u" and "\<not> w_stopped w2"
  shows "\<exists>w3. GetNotesDataStore env' r' w2 = (Inr h, w3) \<and> h \<in> fst ` set (open_conns (w_manager w3))
    \<and> notes_of (w_manager w3) h = db"
proof -
  from GetNotesDataStore_again [OF assms(1,2,5,6,4), of env'] obtain w3 where
    g3: "GetNotesDataStore env' r' w2 = (Inr h, w3)" and same: "open_conns (w_manager w3) = open_conns (w_manager w2)"
      "file_data (w_manager w3) = file_data (w_manager w2)" by blast
  have "open_conns (w_manager w2) = open_conns (w_manager w0)" by (simp add: assms(4) put_notes_def split: option.split)
  then have "h \<in> fst ` set (open_conns (w_manager w3))" using assms(3) same by simp
  moreover have "notes_of (w_manager w3) h = notes_of (w_manager w2) h" by (simp add: notes_of_def same split: option.split)
  then have "notes_of (w_manager w3) h = db" using notes_of_put [OF assms(3)] by (simp add: assms(4))
  ultimately show ?thesis using g3 by blast
qed

lemma NoteViewGet_renders:
  assumes "GetNotesDataStore env r w = (Inr h, w3)" and "PathID r = show_int i" "is_int64 i" "0 < i"
    and "FindNoteByID (we_engine env) (pool_call env 1 h w3) i (notes_of (w_manager w3) h) = (n, None)"
    and "PathSlug r = slugify (NoteTitle n)"
    and "renderNote env (NoteContent n) (getUserThemeFromRequest r) = Inr html" and "getUserThemeFromRequest r \<noteq> []"
  shows "NoteViewGet env r w = render_page env 200 (NotePageView (extractBaseDataFromRequest r)
      \<lparr>RenderedOf = Some n, RenderedHTML = html, IsPreview = False\<rparr>) ''base'' [''pages/note-view.gohtml''] w3"
  using assms parse_int64_show [OF assms(3)]
  by (simp add: NoteViewGet_def or_error_def notes_go_def Let_def del: One_nat_def)

text \<open>
  C7: A note that was posted is the note that is shown. When \<open>NotePost\<close> answers 200, it sends the
  browser to the address of a note, and whenever the same user requests that address next, the
  handler takes the cached connection and renders the note with the title, the content, the
  section, the tags and the references of the form, its content through the Markdown renderer.
\<close>

theorem posted_note_is_shown:
  assumes "engine_ok (we_engine env)" and "userIDKey (Ctx r) = Some u" and "rw_status w = None" "\<not> lw_wrote w"
    and "\<forall>h w0. GetNotesDataStore env r w = (Inr h, w0) \<longrightarrow> schema_ok (notes_of (w_manager w0) h)"
    and "now_txt (we_call env 7) = sqlite_datetime t" "valid_time t" "t_nsec t = 0"
    and "NotePost env r w = Served w1" and "rw_status w1 = Some 200" and "parseNoteForm r = Inr nf"
  shows "\<exists>i. (''HX-Redirect'', note_path i (FormTitle nf)) \<in> set (rw_header w1)
    \<and> (\<forall>(env' :: 'ses web_env) r' w2 html. we_engine env' = we_engine env \<and> w_manager w2 = w_manager w1
          \<and> shows_note env' r' w2 u i (FormTitle nf) \<and> renderNote env' (FormContent nf) (getUserThemeFromRequest r') = Inr html \<longrightarrow>
        (\<exists>n w3. NoteViewGet env' r' w2 = render_page env' 200 (NotePageView (extractBaseDataFromRequest r')
              \<lparr>RenderedOf = Some n, RenderedHTML = html, IsPreview = False\<rparr>) ''base'' [''pages/note-view.gohtml''] w3
           \<and> NoteID n = i \<and> NoteTitle n = FormTitle nf \<and> NoteContent n = FormContent nf
           \<and> SectionID (NoteSection n) = FormSectionID nf \<and> mset (map TagID (NoteTags n)) = mset (FormTagIds nf)
           \<and> mset (map DetailID (ReferenceNotes n)) = mset (FormReferenceNoteIds nf)))"
proof -
  from NotePost_okD [OF assms(9,10,3,4)] assms(11) obtain h w0 i db where
    g: "GetNotesDataStore env r w = (Inr h, w0)"
    and c: "CreateNote (we_engine env) (pool_call env 7 h w0) (FormTitle nf) (FormContent nf) (FormSectionID nf) (FormTagIds nf)
        (FormReferenceNoteIds nf) (notes_of (w_manager w0) h) = ((i, None), db)"
    and w1: "w1 = write_header 200 (set_header ''HX-Redirect'' (note_path i (FormTitle nf))
        (w0\<lparr>w_manager := put_notes h db (w_manager w0)\<rparr>))" by auto
  have ok: "schema_ok (notes_of (w_manager w0) h)" using assms(5) g by blast
  have w0: "rw_status w0 = None" "\<not> lw_wrote w0" using GetNotesDataStore_frame [OF g] assms(3,4) by auto
  have op: "h \<in> fst ` set (open_conns (w_manager w0))"
    using CreateNote_closed [of "we_engine env"] c by (auto simp: pool_call_def split: if_splits)
  have c': "CreateNote (we_engine env) (we_call env 7) (FormTitle nf) (FormContent nf) (FormSectionID nf) (FormTagIds nf)
        (FormReferenceNoteIds nf) (notes_of (w_manager w0) h) = ((i, None), db)"
    using c by (simp only: pool_call_open [OF op])
  have i: "is_int64 i" "0 < i" using CreateNote_int64 [OF assms(1) c'] by simp_all
  have redirect: "(''HX-Redirect'', note_path i (FormTitle nf)) \<in> set (rw_header w1)"
    using w0 by (simp add: w1 write_header_def set_header_def Let_def)
  have "\<exists>n w3. NoteViewGet env' r' w2 = render_page env' 200 (NotePageView (extractBaseDataFromRequest r')
              \<lparr>RenderedOf = Some n, RenderedHTML = html, IsPreview = False\<rparr>) ''base'' [''pages/note-view.gohtml''] w3
           \<and> NoteID n = i \<and> NoteTitle n = FormTitle nf \<and> NoteContent n = FormContent nf
           \<and> SectionID (NoteSection n) = FormSectionID nf \<and> mset (map TagID (NoteTags n)) = mset (FormTagIds nf)
           \<and> mset (map DetailID (ReferenceNotes n)) = mset (FormReferenceNoteIds nf)"
    if en: "we_engine env' = we_engine env" and m: "w_manager w2 = w_manager w1"
      and s: "shows_note env' r' w2 u i (FormTitle nf)"
      and md: "renderNote env' (FormContent nf) (getUserThemeFromRequest r') = Inr html" for env' :: "'ses web_env" and r' w2 html
  proof -
    have m2: "w_manager w2 = put_notes h db (w_manager w0)" using m by (simp add: w1)
    from reads_what_was_put [OF g assms(2) op m2] s obtain w3 where
      g3: "GetNotesDataStore env' r' w2 = (Inr h, w3)" "h \<in> fst ` set (open_conns (w_manager w3))"
        "notes_of (w_manager w3) h = db" by (fastforce simp: shows_note_def)
    have "quiet (pool_call env' 1 h w3)" using s by (simp add: shows_note_def pool_call_open [OF g3(2)])
    from created_note_found [OF assms(1) ok c' assms(6-8) this] obtain n where
      n: "FindNoteByID (we_engine env) (pool_call env' 1 h w3) i db = (n, None)" "NoteID n = i" "NoteTitle n = FormTitle nf"
        "NoteContent n = FormContent nf" "SectionID (NoteSection n) = FormSectionID nf"
        "mset (map TagID (NoteTags n)) = mset (FormTagIds nf)" "mset (map DetailID (ReferenceNotes n)) = mset (FormReferenceNoteIds nf)"
      by blast
    with NoteViewGet_renders [OF g3(1)] s i g3(3) en md show ?thesis by (auto simp: shows_note_def)
  qed
  then show ?thesis using redirect by blast
qed

end
