(* ===== verification/Web_Routing.thy ===== *)
theory Web_Routing
  imports Web_Routes
begin

text \<open>
  The table of routes: \<open>ServeMux\<close> panics when a pattern is registered that conflicts with another
  one, that is when both match a request and neither is more specific. The table has no conflict,
  so for every request there is at most one most specific pattern, and it is the one selected.
\<close>

section \<open>Overlap of patterns\<close>

fun clash :: "seg \<Rightarrow> seg \<Rightarrow> bool" where
  "clash (Lit a) (Lit b) = (a \<noteq> b)"
| "clash s t = False"

text \<open>The decidable part of overlapping; \<open>a\<close> and \<open>b\<close> say whether a pattern ends in a slash.\<close>

definition compatible :: "pattern \<Rightarrow> pattern \<Rightarrow> bool" where
  "compatible p q \<longleftrightarrow> p_method p = p_method q
     \<and> list_all (\<lambda>(s, t). \<not> clash s t) (zip (p_segs p) (p_segs q))
     \<and> (\<not> p_prefix p \<longrightarrow> (if p_prefix q then length (p_segs q) < length (p_segs p) else length (p_segs p) = length (p_segs q)))
     \<and> (p_prefix p \<and> \<not> p_prefix q \<longrightarrow> length (p_segs p) < length (p_segs q))"

lemma match_segs_length:
  "match_segs ps a ss = Some b \<Longrightarrow> if a then length ps < length ss else length ss = length ps"
  by (induction ps a ss arbitrary: b rule: match_segs.induct) (auto split: if_splits)

lemma match_segs_clash:
  "match_segs ps a ss = Some x \<Longrightarrow> match_segs qs b ss = Some y \<Longrightarrow> list_all (\<lambda>(s, t). \<not> clash s t) (zip ps qs)"
proof (induction ss arbitrary: ps qs x y)
  case (Cons s ss)
  show ?case
  proof (cases "ps = [] \<or> qs = []")
    case False
    then obtain p ps' q qs' where p: "ps = p # ps'" "qs = q # qs'" by (meson neq_Nil_conv)
    obtain x' y' where "match_segs ps' a ss = Some x'" "match_segs qs' b ss = Some y'"
      using Cons.prems by (cases p; cases q) (auto simp: p split: if_splits)
    moreover have "\<not> clash p q" using Cons.prems by (cases p; cases q) (auto simp: p split: if_splits)
    ultimately show ?thesis using Cons.IH by (simp add: p)
  qed auto
next
  case Nil
  then show ?case by (cases ps; cases qs) auto
qed

definition known_method :: "string \<Rightarrow> bool" where
  "known_method m \<longleftrightarrow> m \<in> {''GET'', ''POST'', ''PUT'', ''DELETE''}"

lemma matching_compatible:
  assumes "match_pattern r p \<noteq> None" and "match_pattern r q \<noteq> None" and "known_method (p_method p)" "known_method (p_method q)"
  shows "compatible p q"
proof -
  obtain x y where m: "match_segs (p_segs p) (p_prefix p) (Segments r) = Some x"
    "match_segs (p_segs q) (p_prefix q) (Segments r) = Some y"
    using assms(1,2) by (auto simp: match_pattern_def split: if_splits)
  have "p_method p = p_method q"
    using assms by (auto simp: match_pattern_def method_ok_def known_method_def split: if_splits)
  then show ?thesis using match_segs_clash [OF m] match_segs_length [OF m(1)] match_segs_length [OF m(2)]
    by (auto simp: compatible_def split: if_splits)
qed

section \<open>The patterns of the site\<close>

lemma map_fst_behind: "map fst (behind c table) = map (\<lambda>(m, segs, h). \<lparr>p_method = m, p_segs = segs, p_prefix = False\<rparr>) table"
  by (simp add: behind_def route_def comp_def split_beta)

definition ordered :: "pattern \<Rightarrow> pattern \<Rightarrow> bool" where
  "ordered p q \<longleftrightarrow> p = q \<or> more_specific p q \<or> more_specific q p"

text \<open>The patterns alone, with the debug routes.\<close>

definition site_patterns :: "bool \<Rightarrow> pattern list" where
  "site_patterns debug =
     (let pat = (\<lambda>m segs. \<lparr>p_method = m, p_segs = segs, p_prefix = False\<rparr>)
      in \<lparr>p_method = ''GET'', p_segs = [Lit ''static''], p_prefix = True\<rparr> #
      [pat ''GET'' [Lit ''note'', wild_id, wild_slug], pat ''GET'' [Lit ''note'', Lit ''new''],
       pat ''POST'' [Lit ''note'', Lit ''preview'', wild_id], pat ''POST'' [Lit ''note''],
       pat ''PUT'' [Lit ''note'', wild_id, wild_slug], pat ''DELETE'' [Lit ''note'', wild_id, wild_slug],
       pat ''GET'' [Lit ''edit'', wild_id, wild_slug], pat ''PUT'' [Lit ''note'', Lit ''bookmark'', wild_id],
       pat ''DELETE'' [Lit ''note'', Lit ''bookmark'', wild_id], pat ''POST'' [Lit ''ref-notes'', Lit ''select'', wild_id],
       pat ''GET'' [Lit ''section''], pat ''POST'' [Lit ''section''], pat ''PUT'' [Lit ''section'', wild_id],
       pat ''DELETE'' [Lit ''section'', wild_id], pat ''GET'' [Lit ''section'', Lit ''new''],
       pat ''GET'' [Lit ''section'', wild_id, wild_slug], pat ''GET'' [Lit ''section'', wild_id, Lit ''edit''],
       pat ''GET'' [Lit ''search''], pat ''GET'' [Lit ''index''], pat ''POST'' [Lit ''tag''], pat ''PUT'' [Lit ''tag'', wild_id],
       pat ''DELETE'' [Lit ''tag'', wild_id], pat ''GET'' [Lit ''tag'', wild_id, wild_slug],
       pat ''GET'' [Lit ''tag'', wild_id, Lit ''edit''], pat ''GET'' [],
       pat ''GET'' [Lit ''login''], pat ''POST'' [Lit ''login''], pat ''DELETE'' [Lit ''session''],
       pat ''GET'' [Lit ''admin''], pat ''GET'' [Lit ''user'', Lit ''new''], pat ''POST'' [Lit ''user''],
       pat ''GET'' [Lit ''user'', wild_id], pat ''GET'' [Lit ''user'', wild_id, Lit ''edit''],
       pat ''DELETE'' [Lit ''user'', wild_id], pat ''PUT'' [Lit ''user'', wild_id],
       pat ''PUT'' [Lit ''user'', wild_id, Lit ''password''],
       pat ''GET'' [Lit ''setup''], pat ''POST'' [Lit ''setup''], pat ''PUT'' [Lit ''user'', wild_id, Lit ''theme'']]
      @ (if debug then [pat ''GET'' [Lit ''debug'', Lit ''conn-cache-state''], pat ''GET'' [Lit ''debug'', Lit ''build-info'']]
         else []))"

lemma site_patterns: "map fst (routes env) = site_patterns (we_debug env)"
  by (simp add: routes_def site_patterns_def map_fst_behind static_routes_def notes_table_def admin_table_def route_def Let_def)

lemma patterns_ordered:
  "list_all (\<lambda>p. list_all (\<lambda>q. compatible p q \<longrightarrow> ordered p q) (site_patterns True)) (site_patterns True)"
  by code_simp

lemma patterns_distinct: "distinct (site_patterns True)"
  by code_simp

lemma patterns_known: "list_all (\<lambda>p. known_method (p_method p)) (site_patterns True)"
  by code_simp

lemma pattern_facts:
  assumes "p \<in> fst ` set (routes env)" and "q \<in> fst ` set (routes env)"
  shows "compatible p q \<longrightarrow> ordered p q" and "known_method (p_method p)"
proof -
  have "set (site_patterns (we_debug env)) \<subseteq> set (site_patterns True)"
    by (auto simp: site_patterns_def Let_def)
  then have "p \<in> set (site_patterns True)" "q \<in> set (site_patterns True)"
    using assms site_patterns [of env] by (metis image_eqI list.set_map subsetD)+
  then show "compatible p q \<longrightarrow> ordered p q" "known_method (p_method p)"
    using patterns_ordered patterns_known unfolding list_all_iff by blast+
qed

lemma routes_distinct: "distinct (map fst (routes env))"
  using patterns_distinct unfolding site_patterns
  by (cases "we_debug env") (simp_all add: site_patterns_def Let_def)

section \<open>The selected route\<close>

lemma seg_le_trans: "seg_le a b \<Longrightarrow> seg_le b c \<Longrightarrow> seg_le a c"
  by (cases a; cases b; cases c) auto

lemma segs_le_trans: "list_all2 seg_le xs ys \<Longrightarrow> list_all2 seg_le ys zs \<Longrightarrow> list_all2 seg_le xs zs"
  by (rule list_all2_trans [of seg_le seg_le seg_le]) (rule seg_le_trans)

lemma more_specific_trans: "more_specific p q \<Longrightarrow> more_specific q s \<Longrightarrow> more_specific p s"
  using segs_le_trans [of "p_segs p" "p_segs q" "p_segs s"] segs_le_trans [of "p_segs q" "p_segs s" "p_segs p"]
  by (auto simp: more_specific_def)

lemma least_element:
  assumes "xs \<noteq> []" and "\<And>x y. x \<in> set xs \<Longrightarrow> y \<in> set xs \<Longrightarrow> x = y \<or> R x y \<or> R y x"
    and trans: "\<And>x y z. R x y \<Longrightarrow> R y z \<Longrightarrow> R x z"
  shows "\<exists>x \<in> set xs. \<forall>y \<in> set xs. y = x \<or> R x y"
  using assms(1,2)
proof (induction xs rule: list_nonempty_induct)
  case (cons a xs)
  then obtain x where x: "x \<in> set xs" "\<forall>y \<in> set xs. y = x \<or> R x y" by auto
  consider "a = x" | "R a x" | "R x a" using cons.prems [of a x] x(1) by auto
  then show ?case using x trans by cases (auto intro: bexI [of _ x])
qed simp

lemma find_exists: "x \<in> set xs \<Longrightarrow> P x \<Longrightarrow> find P xs \<noteq> None"
  by (auto simp: find_None_iff)

text \<open>
  C24: No two patterns of the table of routes conflict, so registering them does not panic, and
  requests are routed unambiguously: the patterns are distinct, and for a request that any of them
  matches exactly one route is selected, one whose pattern matches and is more specific than every
  other pattern that matches.
\<close>

theorem routes_never_conflict:
  "distinct (map fst (routes env))
   \<and> (case select_route r (routes env) of
        None \<Rightarrow> \<forall>(q, g) \<in> set (routes env). match_pattern r q = None
      | Some (p, h) \<Rightarrow> (p, h) \<in> set (routes env) \<and> match_pattern r p \<noteq> None
          \<and> (\<forall>(q, g) \<in> set (routes env). match_pattern r q \<noteq> None \<longrightarrow> q = p \<or> more_specific p q))"
proof -
  let ?ms = "filter (\<lambda>rt. match_pattern r (fst rt) \<noteq> None) (routes env)"
  let ?least = "\<lambda>rt. list_all (\<lambda>other. fst other = fst rt \<or> more_specific (fst rt) (fst other)) ?ms"
  have total: "p = q \<or> more_specific p q \<or> more_specific q p" if "p \<in> fst ` set ?ms" "q \<in> fst ` set ?ms" for p q
  proof -
    have m: "p \<in> fst ` set (routes env)" "q \<in> fst ` set (routes env)" "match_pattern r p \<noteq> None" "match_pattern r q \<noteq> None"
      using that by auto
    then have "compatible p q" using pattern_facts(2) by (intro matching_compatible) blast+
    then show ?thesis using pattern_facts(1) [OF m(1,2)] by (simp add: ordered_def)
  qed
  have found: "select_route r (routes env) = find ?least ?ms" by (simp only: select_route_def Let_def)
  show ?thesis
  proof (cases "find ?least ?ms")
    case None
    have "?ms = []"
    proof (rule ccontr)
      assume "?ms \<noteq> []"
      then have "\<exists>p \<in> set (map fst ?ms). \<forall>q \<in> set (map fst ?ms). q = p \<or> more_specific p q"
        by (intro least_element [of _ more_specific])
          (simp only: map_is_Nil_conv not_False_eq_True, simp only: set_map total, rule more_specific_trans)
      then obtain p where p: "p \<in> fst ` set ?ms" "\<forall>q \<in> fst ` set ?ms. q = p \<or> more_specific p q"
        unfolding set_map by blast
      then obtain h where "(p, h) \<in> set ?ms" by auto
      moreover from this have "?least (p, h)" using p(2) by (force simp: list_all_iff)
      ultimately show False using find_exists [of "(p, h)" ?ms ?least] None by blast
    qed
    then show ?thesis using routes_distinct by (auto simp: found None filter_empty_conv)
  next
    case (Some rt)
    obtain p h where rt: "rt = (p, h)" by (cases rt)
    have "rt \<in> set ?ms \<and> ?least rt" using Some by (rule find_SomeD)
    then show ?thesis using routes_distinct unfolding found Some rt by (auto simp: list_all_iff)
  qed
qed

end
