(* ===== verification/Web_Examples.thy ===== *)
theory Web_Examples
  imports Web_Claims Web_Props Web_NoteProps Web_Routing Data_Examples
begin

text \<open>
  A concrete server at which the properties of the site apply: the user \<open>ann\<close> with a notes
  database, the administrator \<open>root\<close>, a session manager whose sessions are the number of a user,
  and an environment in which nothing fails.
\<close>

definition ann_file :: "notes_db sqlite_file" where
  "ann_file = \<lparr>user_version = 6, schema = demo_db, committed = []\<rparr>"

definition quiet_env :: "notes_db conn_env" where
  "quiet_env = \<lparr>row_engine = std_engine, index_call = (\<lambda>_. user_call), open_fault = (\<lambda>_. None),
     close_fault = (\<lambda>_. None), unlink_fault = None, clock = 0, mig_call = (\<lambda>_ _. user_call),
     script_engine = \<lparr>run_script = (\<lambda>_ s. Inr s), table_count = (\<lambda>_. Inr 1), stored_version = (\<lambda>v. v)\<rparr>,
     read_script = Inr, new_file = ann_file, rounds = 10, key_order = (\<lambda>ks. ks)\<rparr>"

definition site_conf :: conn_conf where
  "site_conf = \<lparr>DBDirectory = ''data'', IndexDBFileName = ''index.db'', NotesDBMigrations = [], IndexDBMigrations = []\<rparr>"

definition ann :: user_row where "ann = new_user (sqlite_datetime user_time) ''ann'' ''$password'' False 1"
definition root :: user_row where "root = new_user (sqlite_datetime user_time) ''root'' ''$rootroot'' True 2"

definition site_index :: index_db where
  "site_index = \<lparr>users = [ann, root],
     user_databases = [\<lparr>d_id = 1, d_user = 1, d_path = user_db_path 1, d_version = 6\<rparr>], sessions = []\<rparr>"

definition site_manager :: "notes_db manager" where
  "site_manager = start_manager site_index ann_file [(user_path site_conf 1, ann_file)]"

text \<open>A session is the number of its user; the token of a session is that number.\<close>

definition number_sessions :: "int scs" where
  "number_sessions = \<lparr>scs_get = (\<lambda>k s. s), scs_put = (\<lambda>k v s. v), scs_remove = (\<lambda>k s. 0),
     scs_renew = (\<lambda>c s ix. (Inr s, ix)), scs_session = (\<lambda>token ix. case parse_int64 token of Inl _ \<Rightarrow> 0 | Inr i \<Rightarrow> i)\<rparr>"

definition number_load :: "int handler \<Rightarrow> int handler" where
  "number_load next r w = next r (w\<lparr>w_session := Some (scs_session number_sessions (SessionToken r) (index (w_manager w)))\<rparr>)"

definition demo_site :: "int web_env" where
  "demo_site = \<lparr>we_conf = site_conf, we_conn = (\<lambda>_. quiet_env), we_call = (\<lambda>_. demo_call), we_engine = std_engine,
     we_fts = \<lparr>fts_match = (\<lambda>_ _ _. Inr []), fts_highlight = (\<lambda>_ s. s), fts_snippet = (\<lambda>_ s. s)\<rparr>,
     we_bcrypt = toy_bcrypt, we_scs = number_sessions, we_load_and_save = number_load,
     we_markdown = (\<lambda>_ s. Inr s), we_render = (\<lambda>_ _ _. None), we_debug = False, we_build_info = None,
     we_json = (\<lambda>_. None), we_write = None, we_static = (\<lambda>_. (404, TextBody [])), we_etags = [],
     we_origin_host = (\<lambda>_. None), we_compile = (\<lambda>_. None), we_ignore = []\<rparr>"

definition demo_web :: "int web" where
  "demo_web = \<lparr>rw_header = [], rw_status = None, rw_body = [], lw_status = 0, lw_wrote = False,
     w_session = Some 0, w_cookie = None, w_manager = site_manager, w_stopped = False, w_setup = False, w_log = []\<rparr>"

definition request_of :: "string \<Rightarrow> string list \<Rightarrow> smap \<Rightarrow> request" where
  "request_of m segs form = \<lparr>Method = m, Path = [], EscapedPath = [], Segments = segs, Host = ''h'', PathID = [], PathSlug = [],
     FormErr = None, PostForm = form, Query = [], ReqHeader = [], SessionToken = ''1'',
     Ctx = no_context\<lparr>userIDKey := Some 1, userThemeKey := Some ''light''\<rparr>\<rparr>"

lemma demo_site_simps [simp]:
  "we_conf demo_site = site_conf" "we_conn demo_site k = quiet_env" "we_call demo_site k = demo_call"
  "we_engine demo_site = std_engine" "we_bcrypt demo_site = toy_bcrypt" "we_scs demo_site = number_sessions"
  "we_load_and_save demo_site = number_load" "we_render demo_site t fs v = None" "we_markdown demo_site b s = Inr s"
  by (simp_all add: demo_site_def)

lemma demo_web_simps [simp]:
  "rw_header demo_web = []" "rw_status demo_web = None" "\<not> lw_wrote demo_web" "w_session demo_web = Some 0"
  "w_manager demo_web = site_manager" "\<not> w_stopped demo_web" "\<not> w_setup demo_web"
  by (simp_all add: demo_web_def)

lemma site_index_simps [simp]: "users site_index = [ann, root]"
  "u_id ann = 1" "u_id root = 2" "\<not> u_admin ann" "u_admin root" "u_name ann = ''ann''" "u_name root = ''root''"
  by (simp_all add: site_index_def ann_def root_def new_user_def)

lemma site_manager_simps [simp]:
  "index site_manager = site_index" "connections site_manager = []" "open_conns site_manager = [(0, 1)]"
  "dir_entries site_manager = [(user_path site_conf 1, 0)]" "next_number site_manager = 2"
  "file_data site_manager 0 = ann_file"
  by (simp_all add: site_manager_def start_manager_def)

lemma number_sessions_simps [simp]:
  "scs_get number_sessions k s = s" "scs_put number_sessions k v s = v" "scs_remove number_sessions k s = 0"
  "scs_renew number_sessions c s ix = (Inr s, ix)"
  by (simp_all add: number_sessions_def)

lemma demo_session_manager: "session_manager_ok demo_site"
proof -
  have "only_sessions w (w\<lparr>w_session := s\<rparr>)" "only_sessions w w" for w :: "int web" and s
    by (auto simp: only_sessions_def intro: exI [of _ "sessions (index (w_manager w))"])
  note frames = this
  have "\<exists>ss. ix = ix\<lparr>sessions := ss\<rparr>" for ix :: index_db by (rule exI [of _ "sessions ix"]) simp
  moreover have "loaded_and_saved demo_site h r w (number_load h r w)" for h r w
    unfolding loaded_and_saved_def
    by (intro disjI2 exI [of _ "w\<lparr>w_session := Some (scs_session number_sessions (SessionToken r) (index (w_manager w)))\<rparr>"])
      (auto simp: number_load_def frames split: served.split)
  ultimately show ?thesis by (simp add: session_manager_ok_def)
qed

lemma site_index_ok: "index_ok site_index"
proof -
  have "{u. (u = ann \<or> u = root) \<and> \<not> u_admin u} = {ann}" by auto
  then show ?thesis by (simp add: index_ok_def table_ok_def) (simp add: site_index_def)
qed

lemma demo_site_reach: "conn_reach std_engine site_conf True site_manager"
  unfolding site_manager_def by (rule conn_start) (simp_all add: site_index_ok)

section \<open>The site\<close>

lemma ann_session: "session_user demo_site (request_of m segs form) ix = 1"
proof -
  have "parse_int64 ''1'' = Inr 1"
    by (simp add: parse_int64_def parse_uint64_def is_digit_def digit_val_def Let_def)
  then show ?thesis by (simp add: session_user_def request_of_def number_sessions_def)
qed

theorem requests_touch_own_data_only_witness:
  "\<exists>w'. site demo_site (request_of ''DELETE'' [''note'', ''1'', ''a''] []) demo_web = Served w'
     \<and> kept site_conf 1 True site_manager (w_manager w')"
  using requests_touch_own_data_only [OF demo_session_manager, of True demo_web "request_of ''DELETE'' [''note'', ''1'', ''a''] []" 1]
  by (simp add: demo_site_reach ann_session) (simp add: request_of_def)

definition cross_site :: request where
  "cross_site = (request_of ''POST'' [''note''] [])\<lparr>ReqHeader := [(''Sec-Fetch-Site'', ''cross-site'')]\<rparr>"

theorem cross_site_requests_change_nothing_witness:
  "\<exists>w'. site demo_site cross_site demo_web = Served w' \<and> rw_status w' = Some 403 \<and> w_manager w' = site_manager"
  using cross_site_requests_change_nothing [OF demo_session_manager, of True demo_web cross_site]
  by (auto simp: demo_site_reach cross_site_def request_of_def form_get_def safe_method_def)

theorem server_keeps_users_apart_witness:
  "\<exists>rs m. rs \<noteq> [] \<and> server_run std_engine site_conf site_manager (rs :: (int web_env \<times> request) list) m
     \<and> d_user ` set (user_databases (index m)) = u_id ` {x \<in> set (users (index m)). \<not> u_admin x}"
proof -
  let ?r = "request_of ''GET'' [''login''] []"
  obtain w' where "site demo_site ?r demo_web = Served w'"
    using reading_site [OF demo_session_manager, of True demo_web ?r]
    by (auto simp: demo_site_reach safe_method_def request_of_def)
  then have run: "server_run std_engine site_conf site_manager ([] @ [(demo_site, ?r)]) (w_manager w')"
    using server_request [OF server_up, where env = demo_site and w = demo_web and r = ?r] demo_session_manager by simp
  from server_keeps_users_apart [OF engine_ok_std site_index_ok _ run [unfolded site_manager_def]] run show ?thesis by auto
qed

theorem routes_never_conflict_witness:
  "\<exists>h. select_route (request_of ''PUT'' [''note'', ''bookmark'', ''7''] []) (routes demo_site)
     = Some (\<lparr>p_method = ''PUT'', p_segs = [Lit ''note'', Lit ''bookmark'', wild_id], p_prefix = False\<rparr>, h)"
proof -
  let ?r = "request_of ''PUT'' [''note'', ''bookmark'', ''7''] []"
  let ?p = "\<lparr>p_method = ''PUT'', p_segs = [Lit ''note'', Lit ''bookmark'', wild_id], p_prefix = False\<rparr>"
  have m: "match_pattern ?r ?p \<noteq> None"
    by (simp add: match_pattern_def method_ok_def request_of_def wild_id_def)
  have "?p \<in> set (site_patterns (we_debug demo_site))" by (simp add: site_patterns_def Let_def)
  then obtain g where g: "(?p, g) \<in> set (routes demo_site)" unfolding site_patterns [symmetric] by auto
  obtain q h where sel: "select_route ?r (routes demo_site) = Some (q, h)"
    and q: "match_pattern ?r q \<noteq> None" "?p = q \<or> more_specific q ?p"
    using routes_never_conflict [of demo_site ?r] g m by (auto split: option.splits)
  have "q \<in> set (site_patterns (we_debug demo_site))"
    using select_route_D [OF sel] unfolding site_patterns [symmetric] set_map by (metis fst_conv image_eqI)
  moreover have "list_all (\<lambda>q. \<not> more_specific q ?p) (site_patterns False)" by code_simp
  ultimately have "\<not> more_specific q ?p" by (simp add: demo_site_def list_all_iff)
  with sel q(2) show ?thesis by auto
qed

section \<open>Login and setup\<close>

definition login_request :: request where
  "login_request = request_of ''POST'' [''login''] [(''name'', ''ann''), (''password'', ''password'')]"

lemma number_session_values: "session_values_ok number_sessions"
  by (simp add: session_values_ok_def)

lemma ann_stamps: "snd (parse_stamps (u_created ann) (u_last_login ann) (read_user ann)) = None"
  by (simp add: ann_def new_user_def parse_stamps_def parse_time_datetime user_time_valid)

lemma ann_password: "CompareHashAndPassword toy_bcrypt (u_hash ann) ''password'' = None"
  by (simp add: ann_def new_user_def toy_bcrypt_def)

theorem login_succeeds_witness:
  "\<exists>w'. PostUserLogin demo_site login_request demo_web = Served w' \<and> logged_in demo_site w' = 1 \<and> rw_status w' = Some 303"
  using login_succeeds [of demo_site demo_web login_request ann]
  by (auto simp: number_session_values site_index_ok ann_stamps ann_password login_request_def request_of_def form_get_def)

lemma demo_login_served: "\<exists>w'. PostUserLogin demo_site login_request demo_web = Served w' \<and> logged_in demo_site w' = 1"
proof -
  have p: "pool_call demo_site k 0 demo_web = demo_call" for k by (simp add: pool_call_def)
  obtain user where u: "parse_stamps (u_created ann) (u_last_login ann) (read_user ann) = (user, None)"
    using ann_stamps by (metis prod.collapse)
  then have "UserID user = 1" by (auto simp: parse_stamps_def read_user_def split: sum.splits)
  moreover have "AuthenticateUser toy_bcrypt demo_call ''ann'' ''password'' site_index = (user, None)"
    using u ann_password by (simp add: AuthenticateUser_def user_query_row_def by_name_def)
  ultimately show ?thesis
    by (simp add: PostUserLogin_def login_request_def request_of_def form_get_def or_error_def p login_user_def index_write_def
        no_value_def UpdateUserLastLoginToNow_def exec_index_def outcome_of_def RenewToken_def with_session_def
        put_session_def logged_in_def http_redirect_def write_header_def set_header_def Let_def del: One_nat_def)
qed

theorem login_is_sound_witness:
  "\<exists>w'. PostUserLogin demo_site login_request demo_web = Served w'
     \<and> (\<exists>row \<in> set (users site_index). u_name row = ''ann'' \<and> logged_in demo_site w' = u_id row)"
proof -
  obtain w' where w': "PostUserLogin demo_site login_request demo_web = Served w'" "logged_in demo_site w' = 1"
    using demo_login_served by blast
  have "logged_in demo_site demo_web = 0" by (simp add: logged_in_def)
  then show ?thesis using login_is_sound [OF _ _ w'(1)] w' number_session_values
    by (auto simp: login_request_def request_of_def form_get_def)
qed

theorem setup_gate_witness:
  "\<exists>w'. site demo_site (request_of ''GET'' [''admin''] []) (demo_web\<lparr>w_setup := True\<rparr>) = Served w'
     \<and> rw_status w' = Some 303 \<and> w_manager w' = site_manager"
  using setup_gate [of "demo_web\<lparr>w_setup := True\<rparr>" "request_of ''GET'' [''admin''] []" demo_site]
  by (auto simp: request_of_def contains_def cross_origin_check_def safe_method_def Let_def)

section \<open>Posting and showing a note\<close>

definition post_request :: "string list \<Rightarrow> request" where
  "post_request tags = request_of ''POST'' [''note'']
     ([(''title'', ''c''), (''note-content'', ''x''), (''section'', ''1''), (''reference-notes'', ''2'')] @ map (Pair ''tags'') tags)"

definition posted :: "int list \<Rightarrow> noteForm" where
  "posted tags = \<lparr>FormID = 0, FormTitle = ''c'', FormContent = ''x'', FormTagIds = tags, FormSectionID = 1,
     FormReferenceNoteIds = [2], FormReferencedByNoteIds = [], FormErrors = []\<rparr>"

lemma small_numbers: "parse_int64 ''1'' = Inr 1" "parse_int64 ''2'' = Inr 2"
  by (simp_all add: parse_int64_def parse_uint64_def is_digit_def digit_val_def Let_def)

lemma post_form: "parseNoteForm (post_request [''1'']) = Inr (posted [1])" "parseNoteForm (post_request [''1'', ''1'']) = Inr (posted [1, 1])"
  by (simp_all add: parseNoteForm_def post_request_def request_of_def parse_optional_def form_get_def form_values_def
      small_numbers posted_def)

definition ann_manager :: "notes_db manager" where
  "ann_manager = site_manager\<lparr>connections := [(1, \<lparr>cc_conn = 2, cc_expiry = ttl\<rparr>)], open_conns := [(2, 0), (0, 1)], next_number := 3\<rparr>"

lemma ann_manager_simps [simp]: "open_conns ann_manager = [(2, 0), (0, 1)]" "file_data ann_manager = file_data site_manager"
  by (simp_all add: ann_manager_def)

lemma post_store: "GetNotesDataStore demo_site (post_request tags) demo_web = (Inr 2, demo_web\<lparr>w_manager := ann_manager\<rparr>)"
proof -
  have "GetUserDB user_call 1 site_index = (\<lparr>DatabaseID = 1, DatabaseUserID = 1, DatabasePath = user_db_path 1, DatabaseVersion = 6\<rparr>, None)"
    by (simp add: GetUserDB_def site_index_def read_user_database_def)
  then have "createNewConnection site_conf quiet_env 1 site_manager
      = (Inr 2, site_manager\<lparr>open_conns := [(2, 0), (0, 1)], next_number := 3\<rparr>)"
    by (simp add: createNewConnection_def open_db_def quiet_env_def user_path_def)
  then have "getNotesStore site_conf quiet_env 1 site_manager = (Inr 2, ann_manager)"
    by (simp add: getNotesStore_def ann_manager_def) (simp add: quiet_env_def)
  then show ?thesis
    by (simp add: GetNotesDataStore_def post_request_def request_of_def send_cmd_def GetNotesStore_def SendReceive_def)
qed

lemma ann_notes [simp]: "notes_of ann_manager 2 = demo_db"
  by (simp add: notes_of_def ann_file_def)

lemma short_title: "NotBlank ''c''" "MaxChars ''c'' 100"
proof -
  have "runes ''c'' = [99]" by (simp add: runes_ascii is_ascii_def)
  then show "NotBlank ''c''" "MaxChars ''c'' 100"
    by (simp_all add: NotBlank_def MaxChars_def trim_space_def trim_def trim_right_def is_space_def in_range_def rune_count_def)
qed

lemma posted_valid: "valid_note (posted [1]) demo_db" "valid_note (posted [1, 1]) demo_db"
  by (simp_all add: valid_note_def posted_def short_title)

lemma next_note: "alloc_id std_engine (map n_id (db_notes demo_db)) = Some 3"
  by (simp add: next_rowid_def int64_max_def)

theorem NotePost_exact_witness:
  "\<exists>w'. NotePost demo_site (post_request [''1'', ''1'']) demo_web = Served w' \<and> rw_status w' = Some 500
     \<and> notes_of (w_manager w') 2 = demo_db"
proof -
  have "\<not> storable_links (posted [1, 1]) 3 demo_db" "FormID (posted [1, 1]) = 0" by (simp_all add: storable_links_def posted_def)
  then obtain w' where "NotePost demo_site (post_request [''1'', ''1'']) demo_web = Served w'" "rw_status w' = Some 500"
    "rw_status w' \<noteq> Some 200 \<longrightarrow> notes_of (w_manager w') 2 = demo_db"
    using NotePost_exact [OF _ _ post_store _ _ _ post_form(2), of 3] next_note by (auto simp: posted_valid)
  then show ?thesis by auto
qed

lemma demo_post: "\<exists>w'. NotePost demo_site (post_request [''1'']) demo_web = Served w' \<and> rw_status w' = Some 200"
  using NotePost_answers [OF _ _ post_store _ _ _ post_form(1), of 3] next_note
  by (auto simp: posted_valid) (auto simp: storable_links_def posted_def)

theorem posted_note_is_shown_witness:
  "\<exists>w' i. NotePost demo_site (post_request [''1'']) demo_web = Served w'
     \<and> (''HX-Redirect'', note_path i ''c'') \<in> set (rw_header w')"
proof -
  obtain w' where w': "NotePost demo_site (post_request [''1'']) demo_web = Served w'" "rw_status w' = Some 200"
    using demo_post by blast
  have "userIDKey (Ctx (post_request [''1''])) = Some 1" by (simp add: post_request_def request_of_def)
  from posted_note_is_shown [OF _ this _ _ _ _ _ _ w' post_form(1), of demo_time] w'(1) show ?thesis
    by (auto simp: post_store) (auto simp: posted_def)
qed

end
