(* ===== verification/Migration_Any.thy ===== *)
theory Migration_Any
  imports Migration_Driver
begin

text \<open>
  The walks up on a file of any content: from a version of the list they go up, from another they
  report an error, and they always end.
\<close>

lemma step_or_unknown:
  assumes "migs \<noteq> []"
  obtains (known) j where "at_step migs v j" | (unknown) "v \<notin> Version ` set migs" "v \<noteq> 0"
proof (cases "\<exists>j. at_step migs v j")
  case False
  have "v \<noteq> 0" using False [simplified, rule_format, of 0] by (auto simp: at_step_def)
  moreover have "v \<notin> Version ` set migs"
  proof
    assume "v \<in> Version ` set migs"
    then obtain i where "i < length migs" "v = Version (migs ! i)" by (auto simp: in_set_conv_nth)
    then have "at_step migs v (Suc i)" by (simp add: at_step_def)
    with False show False by blast
  qed
  ultimately show ?thesis by (rule unknown [rotated])
qed (blast intro: known)

lemma Up_any_file:
  assumes "reads_succeed oc" and "wf_migrations migs" and "\<forall>m \<in> set migs. version_fits en (Version m)" and "length migs < n"
  shows "\<exists>r f' k. Up n rf migs (sqlite_driver oc en) (f, n0) = Some (r, (f', k))
    \<and> (\<forall>v. r = Inr v \<longrightarrow> v = int (Version (last migs)) \<and> user_version f' = Version (last migs)
         \<and> (\<exists>j. at_step migs (user_version f) j \<and> committed f' = committed f @ up_scripts rf migs j (length migs)))"
proof -
  have "migs \<noteq> []" using assms(2) by (simp add: wf_migrations_def)
  then show ?thesis
  proof (rule step_or_unknown [of migs "user_version f"])
    fix j assume j: "at_step migs (user_version f) j"
    have "length migs - j < n" using assms(4) by simp
    from sqlite_mig.Up_ends [OF assms(1,2) _ this assms(3), of "(f, n0)" rf] j
    obtain r s' i where B: "Up n rf migs (sqlite_driver oc en) (f, n0) = Some (r, s')"
        "at_step migs (user_version (fst s')) i" "committed (fst s') = committed f @ up_scripts rf migs j i"
        "case r of Inl e \<Rightarrow> i < length migs | Inr v \<Rightarrow> i = length migs \<and> v = int (Version (last migs))" by auto
    moreover have "user_version (fst s') = Version (last migs)" if "i = length migs"
      using at_step_last [OF assms(2) B(2)] that by simp
    ultimately show ?thesis using j by (cases s') (fastforce split: sum.splits)
  next
    assume "user_version f \<notin> Version ` set migs" "user_version f \<noteq> 0"
    moreover obtain fuel where "n = Suc fuel" using assms(4) by (cases n) auto
    ultimately obtain s' where "Up n rf migs (sqlite_driver oc en) (f, n0) = Some (Inl ErrNotExist, s')"
      using sqlite_mig.Up_unknown [OF assms(1), of migs "(f, n0)" fuel rf en] \<open>migs \<noteq> []\<close> by auto
    then show ?thesis by (cases s') simp
  qed
qed

lemma Bootstrap_is_Up [simp]: "Bootstrap n rf migs (sqlite_driver oc en) s = Up n rf migs (sqlite_driver oc en) s"
  by (simp add: Bootstrap_def sqlite_driver_def sqlite_AddVersionTable_def)

end
