(* ===== verification/Conn_Upgrade.thy ===== *)
theory Conn_Upgrade
  imports Conn_Safety Migration_Any
begin

text \<open>
  What \<open>runMigrations\<close> leaves when it reports success: every database is at the latest version, in
  its file and in the index. The manager runs it before the server takes requests.
\<close>

section \<open>One database\<close>

definition bounded :: "'sch manager \<Rightarrow> bool" where
  "bounded m \<longleftrightarrow> (\<forall>x \<in> set (dir_entries m). snd x < next_number m)"

text \<open>The file at a path has a version.\<close>

definition file_at :: "'sch manager \<Rightarrow> string \<Rightarrow> nat \<Rightarrow> bool" where
  "file_at m p v \<longleftrightarrow> (\<exists>ino. map_of (dir_entries m) p = Some ino \<and> user_version (file_data m ino) = v)"

lemma open_db_spec:
  assumes "open_db env i p m = (Inr h, m1)" and "bounded m"
  shows "\<exists>ino. map_of (dir_entries m1) p = Some ino \<and> map_of (open_conns m1) h = Some ino
    \<and> bounded m1 \<and> (\<forall>q v. file_at m q v \<longrightarrow> file_at m1 q v)
    \<and> length (open_conns m1) = Suc (length (open_conns m)) \<and> index m1 = index m \<and> index_file m1 = index_file m
    \<and> connections m1 = connections m"
proof (cases "map_of (dir_entries m) p")
  case None
  let ?n = "next_number m"
  have m1: "h = ?n" "m1 = m\<lparr>open_conns := (h, h + 1) # open_conns m, next_number := h + 2,
      dir_entries := (p, h + 1) # dir_entries m, file_data := (file_data m)(h + 1 := new_file env)\<rparr>"
    using assms(1) None by (auto simp: open_db_def Let_def split: option.splits)
  have "ino < ?n" if "map_of (dir_entries m) q = Some ino" for q ino
    using assms(2) map_of_SomeD [OF that] by (fastforce simp: bounded_def)
  then have "\<forall>q v. file_at m q v \<longrightarrow> file_at m1 q v"
    using None m1 by (fastforce simp: file_at_def)
  moreover have "bounded m1" using assms(2) m1 by (fastforce simp: bounded_def)
  ultimately show ?thesis using m1 by simp
next
  case (Some ino)
  then show ?thesis using assms by (fastforce simp: open_db_def Let_def bounded_def file_at_def split: option.splits)
qed

lemma UpdateDBVersion_done:
  assumes "UpdateDBVersion c uid ver ix = (None, ix')"
  shows "ix' = set_db_version ver uid ix"
proof -
  obtain r where "with_transaction c 0 (tx_body (-1) (\<lambda>db. case exec c 0 (\<lambda>db. Inr (set_db_version ver uid db)) db of
      Inl err \<Rightarrow> Inl err | Inr db' \<Rightarrow> Inr (uid, db'))) ix = ((r, None), ix')"
    using assms by (auto simp: UpdateDBVersion_def split: prod.splits)
  from tx_body_ok [THEN iffD1, OF with_transaction_ok [OF this]] show ?thesis
    by (auto simp: exec_def split: sum.splits option.splits)
qed

section \<open>The loop\<close>

text \<open>The rows of some users set to a version.\<close>

definition set_versions :: "int \<Rightarrow> int set \<Rightarrow> index_db \<Rightarrow> index_db" where
  "set_versions ver uids db =
     db\<lparr>user_databases := map (\<lambda>d. if d_user d \<in> uids then d\<lparr>d_version := ver\<rparr> else d) (user_databases db)\<rparr>"

lemma set_versions_empty [simp]: "set_versions ver {} db = db"
  by (simp add: set_versions_def)

lemma set_versions_insert: "set_versions ver uids (set_db_version ver uid db) = set_versions ver (insert uid uids) db"
  by (simp add: set_versions_def set_db_version_def)

text \<open>The rows of an index whose version is lower.\<close>

definition outdated :: "nat \<Rightarrow> index_db \<Rightarrow> user_database_row list" where
  "outdated ver ix = filter (\<lambda>d. d_version d < int ver) (user_databases ix)"

text \<open>Where reads of versions succeed, the migrations are numbered upwards and the files can keep the numbers.\<close>

locale calm_migrations =
  fixes conf :: conn_conf and env :: "'sch conn_env"
  assumes reads: "reads_succeed (mig_call env k)"
    and notes_wf: "wf_migrations (NotesDBMigrations conf)" and index_wf: "wf_migrations (IndexDBMigrations conf)"
    and fits: "m \<in> set (NotesDBMigrations conf) \<union> set (IndexDBMigrations conf) \<Longrightarrow> version_fits (script_engine env) (Version m)"
    and fuel: "length (NotesDBMigrations conf) < rounds env" "length (IndexDBMigrations conf) < rounds env"
begin

abbreviation latest :: nat where "latest \<equiv> Version (last (NotesDBMigrations conf))"

lemma notes_Up:
  "\<exists>r f' k'. Up (rounds env) (read_script env) (NotesDBMigrations conf) (sqlite_driver (mig_call env k) (script_engine env)) (f, n0)
      = Some (r, (f', k')) \<and> (\<forall>v. r = Inr v \<longrightarrow> v = int latest \<and> user_version f' = latest)"
  using Up_any_file [OF reads notes_wf _ fuel(1)] fits by (metis UnI1)

lemma index_Up:
  "\<exists>r f' k'. Up (rounds env) (read_script env) (IndexDBMigrations conf) (sqlite_driver (mig_call env k) (script_engine env)) (f, n0)
      = Some (r, (f', k')) \<and> (\<forall>v. r = Inr v \<longrightarrow> user_version f' = Version (last (IndexDBMigrations conf)))"
  using Up_any_file [OF reads index_wf _ fuel(2)] fits by (metis UnI2)

lemma migrate_conn_notes:
  assumes "map_of (open_conns m) h = Some ino"
  shows "\<exists>r f'. migrate_conn (Up (rounds env) (read_script env)) env k (NotesDBMigrations conf) h m
      = Some (r, m\<lparr>file_data := (file_data m)(ino := f')\<rparr>) \<and> (\<forall>v. r = Inr v \<longrightarrow> v = int latest \<and> user_version f' = latest)"
proof -
  obtain r f' k' where "Up (rounds env) (read_script env) (NotesDBMigrations conf) (sqlite_driver (mig_call env k) (script_engine env))
      (file_data m ino, 0) = Some (r, (f', k'))" "\<forall>v. r = Inr v \<longrightarrow> v = int latest \<and> user_version f' = latest"
    using notes_Up by blast
  then show ?thesis using assms by (intro exI [of _ r] exI [of _ f']) (simp add: migrate_conn_def)
qed

lemma upgrade_loop_ends:
  "bounded m \<Longrightarrow> upgrade_loop conf env k ds m \<noteq> None"
proof (induction ds arbitrary: k m)
  case (Cons ud ds)
  show ?case
  proof (cases "open_db env k (db_file conf (DatabasePath ud)) m")
    case (Pair r m1)
    show ?thesis
    proof (cases r)
      case (Inr h)
      from open_db_spec [OF Pair [unfolded Inr] Cons.prems] obtain ino where
        o: "map_of (open_conns m1) h = Some ino" "bounded m1" by blast
      from migrate_conn_notes [OF o(1)] obtain r2 f' where
        mg: "migrate_conn (Up (rounds env) (read_script env)) env (Suc k) (NotesDBMigrations conf) h m1
          = Some (r2, m1\<lparr>file_data := (file_data m1)(ino := f')\<rparr>)" by blast
      have "bounded (m1\<lparr>file_data := (file_data m1)(ino := f'), index := ix\<rparr>)" for ix
        using o(2) by (simp add: bounded_def)
      from Cons.IH [OF this] show ?thesis
        using Pair Inr mg by (auto split: sum.split prod.split option.split)
    qed (use Pair in simp)
  qed
qed simp

lemma upgrade_loop_done:
  "bounded m \<Longrightarrow> upgrade_loop conf env k ds m = Some (None, m') \<Longrightarrow>
     (\<forall>ud \<in> set ds. file_at m' (db_file conf (DatabasePath ud)) latest)
     \<and> (\<forall>q. file_at m q latest \<longrightarrow> file_at m' q latest)
     \<and> index m' = set_versions (int latest) (DatabaseUserID ` set ds) (index m)
     \<and> length (open_conns m') = length (open_conns m) + length ds
     \<and> index_file m' = index_file m \<and> connections m' = connections m"
proof (induction ds arbitrary: k m)
  case (Cons ud ds)
  let ?p = "db_file conf (DatabasePath ud)"
  obtain h m1 where op: "open_db env k ?p m = (Inr h, m1)"
    using Cons.prems(2) by (auto split: prod.splits sum.splits)
  from open_db_spec [OF op Cons.prems(1)] obtain ino where
    o: "map_of (dir_entries m1) ?p = Some ino" "map_of (open_conns m1) h = Some ino" "bounded m1"
      "\<forall>q v. file_at m q v \<longrightarrow> file_at m1 q v" "length (open_conns m1) = Suc (length (open_conns m))" "index m1 = index m"
      "index_file m1 = index_file m" "connections m1 = connections m" by blast
  from migrate_conn_notes [OF o(2)] obtain r2 f' where
    mg: "migrate_conn (Up (rounds env) (read_script env)) env (Suc k) (NotesDBMigrations conf) h m1
      = Some (r2, m1\<lparr>file_data := (file_data m1)(ino := f')\<rparr>)"
    and v: "\<forall>v. r2 = Inr v \<longrightarrow> v = int latest \<and> user_version f' = latest" by blast
  obtain x where "r2 = Inr x" using Cons.prems(2) op mg by (auto split: sum.splits)
  with v have r2: "r2 = Inr (int latest)" and f': "user_version f' = latest" by simp_all
  obtain ix where ud: "UpdateDBVersion (index_call env (k + 2)) (DatabaseUserID ud) (int latest) (index m1) = (None, ix)"
    and rest: "upgrade_loop conf env (Suc k) ds (m1\<lparr>file_data := (file_data m1)(ino := f'), index := ix\<rparr>) = Some (None, m')"
    using Cons.prems(2) op mg r2 by (auto split: prod.splits option.splits)
  let ?m2 = "m1\<lparr>file_data := (file_data m1)(ino := f'), index := ix\<rparr>"
  have b: "bounded ?m2" using o(3) by (simp add: bounded_def)
  have keep: "file_at ?m2 q latest" if "file_at m q latest" for q
    using o(4) that f' by (fastforce simp: file_at_def)
  have here: "file_at ?m2 ?p latest" using o(1) f' by (simp add: file_at_def)
  show ?case
    using Cons.IH [OF b rest] keep here o(5-8) UpdateDBVersion_done [OF ud] by (auto simp: set_versions_insert)
qed simp

lemma migrate_index_ends:
  "\<exists>err f. migrate_index conf env m = Some (err, m\<lparr>index_file := f\<rparr>)
     \<and> (err = None \<longrightarrow> user_version f = Version (last (IndexDBMigrations conf)))"
proof -
  let ?drv = "sqlite_driver (mig_call env 0) (script_engine env)"
  obtain e n where emp: "IsEmpty ?drv (index_file m, 0) = (e, (index_file m, n))"
    by (simp add: sqlite_driver_def sqlite_IsEmpty_def)
  obtain r f k where up: "Up (rounds env) (read_script env) (IndexDBMigrations conf) ?drv (index_file m, n) = Some (r, (f, k))"
    "\<forall>v. r = Inr v \<longrightarrow> user_version f = Version (last (IndexDBMigrations conf))"
    using index_Up by blast
  obtain r2 f2 k2 where up2: "Up (rounds env) (read_script env) (IndexDBMigrations conf) ?drv (index_file m, Suc n) = Some (r2, (f2, k2))"
    "\<forall>v. r2 = Inr v \<longrightarrow> user_version f2 = Version (last (IndexDBMigrations conf))"
    using index_Up by blast
  have "IndexDBMigrations conf \<noteq> []" using index_wf by (simp add: wf_migrations_def)
  then have il: "IsLatest (IndexDBMigrations conf) ?drv (index_file m, n)
      = (Inr (user_version (index_file m) = Version (last (IndexDBMigrations conf))), (index_file m, Suc n))"
    using sqlite_Version_reads [OF reads, of 0 "index_file m" n]
    by (simp add: IsLatest_def sqlite_driver_def Latest_def last_conv_nth)
  show ?thesis
  proof (cases e)
    case (Inl err)
    then show ?thesis using emp by (intro exI [of _ "Some err"] exI [of _ "index_file m"]) (simp add: migrate_index_def)
  next
    case (Inr isEmpty)
    show ?thesis
    proof (cases isEmpty)
      case True
      then show ?thesis using emp Inr up by (cases r) (auto simp: migrate_index_def)
    next
      case False
      show ?thesis
      proof (cases "user_version (index_file m) = Version (last (IndexDBMigrations conf))")
        case True
        then show ?thesis using emp Inr \<open>\<not> isEmpty\<close> il
          by (intro exI [of _ None] exI [of _ "index_file m"]) (simp add: migrate_index_def)
      next
        case old: False
        then show ?thesis using emp Inr up2 il False by (cases r2) (auto simp: migrate_index_def)
      qed
    qed
  qed
qed

lemma runMigrations_ends:
  assumes "bounded m"
  shows "runMigrations conf env m \<noteq> None"
proof -
  obtain err f where mi: "migrate_index conf env m = Some (err, m\<lparr>index_file := f\<rparr>)" using migrate_index_ends by blast
  have "bounded (m\<lparr>index_file := f\<rparr>)" using assms by (simp add: bounded_def)
  from upgrade_loop_ends [OF this] show ?thesis
    using mi by (auto simp: runMigrations_def split: option.split sum.split prod.split)
qed

lemma index_plain: "index_ok ix \<Longrightarrow> d \<in> set (user_databases ix) \<Longrightarrow> is_plain_user ix (d_user d)"
proof -
  assume ok: "index_ok ix" and "d \<in> set (user_databases ix)"
  then obtain u where u: "u \<in> set (users ix)" "\<not> u_admin u" "u_id u = d_user d" by (force simp: index_ok_def)
  have "distinct (map u_id (users ix))" using ok by (simp add: index_ok_def table_ok_def)
  then have "by_id u_id (d_user d) (users ix) = Some u" using u find_distinct_key [of u_id "users ix" u] by (simp add: by_id_def)
  then show ?thesis using u by (simp add: is_plain_user_def)
qed

lemma runMigrations_done:
  assumes ok: "index_ok (index m)" and bd: "bounded m" and en: "engine_ok (row_engine env)"
    and run: "runMigrations conf env m = Some (None, m')"
  shows "user_version (index_file m') = Version (last (IndexDBMigrations conf))"
    and "index m' = set_versions (int latest) (d_user ` set (outdated latest (index m))) (index m)"
    and "d \<in> set (outdated latest (index m)) \<Longrightarrow> file_at m' (db_file conf (d_path d)) latest"
    and "length (open_conns m') = length (open_conns m) + length (outdated latest (index m))"
    and "connections m' = connections m"
proof -
  obtain err f where mi: "migrate_index conf env m = Some (err, m\<lparr>index_file := f\<rparr>)"
    "err = None \<longrightarrow> user_version f = Version (last (IndexDBMigrations conf))" using migrate_index_ends by blast
  let ?m = "m\<lparr>index_file := f\<rparr>"
  have b: "bounded ?m" using bd by (simp add: bounded_def)
  have ne: "NotesDBMigrations conf \<noteq> []" using notes_wf by (simp add: wf_migrations_def)
  then have lt: "Latest (NotesDBMigrations conf) = Inr (last (NotesDBMigrations conf))" by (simp add: Latest_def last_conv_nth)
  let ?rows = "filter (\<lambda>d. d_version d < int latest \<and> is_plain_user (index m) (d_user d))
      (visit (row_engine env) ''DBVersionBefore'' d_id (user_databases (index m)))"
  have vis: "mset (visit (row_engine env) ''DBVersionBefore'' d_id (user_databases (index m))) = mset (user_databases (index m))"
    using en by (rule mset_visit)
  have "mset ?rows = mset (filter (\<lambda>d. d_version d < int latest \<and> is_plain_user (index m) (d_user d)) (user_databases (index m)))"
    using vis by simp
  also have "filter (\<lambda>d. d_version d < int latest \<and> is_plain_user (index m) (d_user d)) (user_databases (index m)) = outdated latest (index m)"
    unfolding outdated_def using index_plain [OF ok] by (intro filter_cong) auto
  finally have same: "mset ?rows = mset (outdated latest (index m))" .
  note rows = mset_eq_setD [OF same] mset_eq_length [OF same]
  have none: "err = None" and loop: "upgrade_loop conf env 0 (map read_user_database ?rows) ?m = Some (None, m')"
  proof -
    show none: "err = None" using run mi(1) by (cases err) (simp_all add: runMigrations_def)
    let ?q = "DBVersionBefore (row_engine env) (index_call env 1) (int latest) (index ?m)"
    have r2: "(case ?q of (_, Some err) \<Rightarrow> Some (Some err, ?m) | (dbs, None) \<Rightarrow> upgrade_loop conf env 0 dbs ?m) = Some (None, m')"
      using run unfolding runMigrations_def mi(1) none lt by simp
    have "?q = (map read_user_database ?rows, None)"
      using r2 by (simp add: DBVersionBefore_def split: option.splits)
    then show "upgrade_loop conf env 0 (map read_user_database ?rows) ?m = Some (None, m')" using r2 by simp
  qed
  note L = upgrade_loop_done [OF b loop]
  have uids: "DatabaseUserID ` set (map read_user_database ?rows) = d_user ` set (outdated latest (index m))"
    unfolding set_map image_image rows(1) by (simp add: read_user_database_def)
  show "user_version (index_file m') = Version (last (IndexDBMigrations conf))" using L none mi(2) by simp
  show "index m' = set_versions (int latest) (d_user ` set (outdated latest (index m))) (index m)" using L uids by simp
  show "length (open_conns m') = length (open_conns m) + length (outdated latest (index m))" using L rows(2) by simp
  show "connections m' = connections m" using L by simp
  show "file_at m' (db_file conf (d_path d)) latest" if "d \<in> set (outdated latest (index m))"
  proof -
    have "read_user_database d \<in> set (map read_user_database ?rows)" using that unfolding set_map rows(1) by (rule imageI)
    with L have "file_at m' (db_file conf (DatabasePath (read_user_database d))) latest" by blast
    then show ?thesis by (simp add: read_user_database_def)
  qed
qed

end

end
