(* ===== verification/Conn_Life.thy ===== *)
theory Conn_Life
  imports Conn_Cache
begin

text \<open>
  The two goroutines of \<open>Start\<close> in \<open>user-store/sqliteconncache.go\<close>: the loop that serves the
  commands and the poller that sends it \<open>cmdRemoveExpired\<close>. They are waited for at the end of the
  server, so they have to end once \<open>Stop\<close> has closed the channel of commands; the poller must not
  be stuck in a send that nobody receives.
\<close>

section \<open>States and steps\<close>

datatype loop_state = Looping | LoopEnded

datatype poller_state = PollWaiting | PollSending | PollEnded

record life =
  ch_open :: bool
  l_loop :: loop_state
  l_poller :: poller_state

definition life_start :: life where
  "life_start = \<lparr>ch_open = True, l_loop = Looping, l_poller = PollWaiting\<rparr>"

text \<open>
  The steps other than the timer: a command of the poller is served; a send on the closed channel
  panics, which \<open>SendReceiveError\<close> recovers as an error that is only logged; the loop ends when the
  channel is closed and then cancels the context of the poller, who ends in its \<open>select\<close>.
\<close>

inductive quiet_step :: "life \<Rightarrow> life \<Rightarrow> bool" where
  sweep_served: "l_poller s = PollSending \<Longrightarrow> ch_open s \<Longrightarrow> l_loop s = Looping \<Longrightarrow> quiet_step s (s\<lparr>l_poller := PollWaiting\<rparr>)"
| send_panics: "l_poller s = PollSending \<Longrightarrow> \<not> ch_open s \<Longrightarrow> quiet_step s (s\<lparr>l_poller := PollWaiting\<rparr>)"
| loop_ends: "\<not> ch_open s \<Longrightarrow> l_loop s = Looping \<Longrightarrow> quiet_step s (s\<lparr>l_loop := LoopEnded\<rparr>)"
| poller_ends: "l_poller s = PollWaiting \<Longrightarrow> l_loop s = LoopEnded \<Longrightarrow> quiet_step s (s\<lparr>l_poller := PollEnded\<rparr>)"

inductive life_step :: "life \<Rightarrow> life \<Rightarrow> bool" where
  quiet: "quiet_step s s' \<Longrightarrow> life_step s s'"
| timer_fires: "l_poller s = PollWaiting \<Longrightarrow> life_step s (s\<lparr>l_poller := PollSending\<rparr>)"
| channel_closed: "ch_open s \<Longrightarrow> life_step s (s\<lparr>ch_open := False\<rparr>)"

inductive life_reach :: "life \<Rightarrow> bool" where
  life_starts: "life_reach life_start"
| life_goes_on: "life_reach s \<Longrightarrow> life_step s s' \<Longrightarrow> life_reach s'"

text \<open>\<open>wg.Wait\<close> returns.\<close>

definition wg_done :: "life \<Rightarrow> bool" where
  "wg_done s \<longleftrightarrow> l_loop s = LoopEnded \<and> l_poller s = PollEnded"

inductive_cases quiet_stepE: "quiet_step s s'"
inductive_cases life_stepE: "life_step s s'"

section \<open>Winding down\<close>

lemma life_inv: "life_reach s \<Longrightarrow> (l_poller s = PollEnded \<longrightarrow> l_loop s = LoopEnded) \<and> (l_loop s = LoopEnded \<longrightarrow> \<not> ch_open s)"
proof (induction rule: life_reach.induct)
  case (life_goes_on s s')
  then show ?case by (auto elim!: life_stepE quiet_stepE)
qed (simp add: life_start_def)

text \<open>How many quiet steps are left once the channel is closed.\<close>

definition steps_left :: "life \<Rightarrow> nat" where
  "steps_left s =
     (case l_loop s of Looping \<Rightarrow> 1 | LoopEnded \<Rightarrow> 0) + (case l_poller s of PollSending \<Rightarrow> 2 | PollWaiting \<Rightarrow> 1 | PollEnded \<Rightarrow> 0)"

lemma steps_left_zero: "steps_left s = 0 \<longleftrightarrow> wg_done s"
  by (auto simp: steps_left_def wg_done_def split: loop_state.splits poller_state.splits)

lemma quiet_step_counts:
  "\<not> ch_open s \<Longrightarrow> quiet_step s s' \<Longrightarrow> \<not> ch_open s' \<and> steps_left s = Suc (steps_left s')"
  by (auto simp: steps_left_def elim!: quiet_stepE split: loop_state.splits)

lemma quiet_step_exists: "\<not> ch_open s \<Longrightarrow> \<not> wg_done s \<Longrightarrow> l_poller s = PollEnded \<longrightarrow> l_loop s = LoopEnded \<Longrightarrow> \<exists>s'. quiet_step s s'"
  by (cases "l_loop s"; cases "l_poller s") (auto simp: wg_done_def intro: quiet_step.intros)

lemma quiet_reach: "life_reach s \<Longrightarrow> (quiet_step ^^ n) s s' \<Longrightarrow> life_reach s'"
  by (induction n arbitrary: s') (auto intro: life_goes_on quiet)

lemma quiet_run_counts:
  "\<not> ch_open s \<Longrightarrow> (quiet_step ^^ n) s s' \<Longrightarrow> \<not> ch_open s' \<and> steps_left s = n + steps_left s'"
proof (induction n arbitrary: s')
  case (Suc n)
  then show ?case using quiet_step_counts by fastforce
qed auto

lemma quiet_run_exists:
  assumes "life_reach s" and "\<not> ch_open s"
  shows "n \<le> steps_left s \<Longrightarrow> \<exists>s'. (quiet_step ^^ n) s s'"
proof (induction n)
  case (Suc n)
  then obtain s1 where s1: "(quiet_step ^^ n) s s1" by auto
  have c: "\<not> ch_open s1" and "steps_left s1 \<noteq> 0" using quiet_run_counts [OF assms(2) s1] Suc.prems by auto
  then have "\<not> wg_done s1" by (simp add: steps_left_zero)
  from quiet_step_exists [OF c this] life_inv [OF quiet_reach [OF assms(1) s1]]
  obtain s2 where "quiet_step s1 s2" by auto
  then show ?case using s1 by auto
qed auto

text \<open>
  C40: The goroutines of the manager end when, and only when, the channel of commands is closed.
  While it is open the server would wait for them for ever. Once it is closed, also while the
  poller is in the middle of a send, every run in which the timer does not fire again takes at most
  three steps, is nowhere stuck before both have ended, and some run ends.
\<close>

theorem manager_winds_down:
  assumes "life_reach s"
  shows "(wg_done s \<longrightarrow> \<not> ch_open s)
    \<and> (\<not> ch_open s \<longrightarrow>
        (\<exists>n s'. (quiet_step ^^ n) s s' \<and> wg_done s')
        \<and> (\<forall>n s'. (quiet_step ^^ n) s s' \<longrightarrow> n \<le> 3 \<and> (wg_done s' \<or> (\<exists>s''. quiet_step s' s''))))"
proof (intro conjI impI allI)
  show "\<not> ch_open s" if "wg_done s" using life_inv [OF assms] that by (simp add: wg_done_def)
  assume closed: "\<not> ch_open s"
  obtain s' where "(quiet_step ^^ steps_left s) s s'" using quiet_run_exists [OF assms closed] by blast
  moreover from this have "wg_done s'" using quiet_run_counts [OF closed] steps_left_zero by fastforce
  ultimately show "\<exists>n s'. (quiet_step ^^ n) s s' \<and> wg_done s'" by blast
  fix n s' assume run: "(quiet_step ^^ n) s s'"
  have "steps_left s \<le> 3" by (simp add: steps_left_def split: loop_state.split poller_state.split)
  then show "n \<le> 3" using quiet_run_counts [OF closed run] by simp
  show "wg_done s' \<or> (\<exists>s''. quiet_step s' s'')"
    using quiet_step_exists [of s'] quiet_run_counts [OF closed run] life_inv [OF quiet_reach [OF assms run]] by blast
qed

theorem manager_winds_down_witness:
  "\<exists>n s'. (quiet_step ^^ n) (life_start\<lparr>l_poller := PollSending, ch_open := False\<rparr>) s' \<and> wg_done s'"
proof -
  have "life_reach (life_start\<lparr>l_poller := PollSending\<rparr>)"
    by (rule life_goes_on [OF life_starts], rule timer_fires) (simp add: life_start_def)
  then have "life_reach (life_start\<lparr>l_poller := PollSending, ch_open := False\<rparr>)"
    using life_goes_on [OF _ channel_closed, of "life_start\<lparr>l_poller := PollSending\<rparr>"] by (simp add: life_start_def)
  from manager_winds_down [OF this] show ?thesis by (simp add: life_start_def)
qed

end
