(* ===== verification/Go_Paths.thy ===== *)
theory Go_Paths
  imports Go_Strings
begin

text \<open>
  What the program uses of Go's \<open>path/filepath\<close> on Unix (\<open>Clean\<close>, \<open>Join\<close>, \<open>Dir\<close>, \<open>Abs\<close>) and of
  \<open>strings.ToUpper\<close> and \<open>strings.EqualFold\<close> where their results are compared with ASCII words.
\<close>

section \<open>Paths\<close>

definition is_slash :: "char \<Rightarrow> bool" where
  "is_slash c \<longleftrightarrow> c = CHR ''/''"

text \<open>The elements of a path between its slashes.\<close>

fun path_elems :: "string \<Rightarrow> string list" where
  "path_elems [] = [[]]"
| "path_elems (c # s) =
     (if is_slash c then [] # path_elems s
      else (case path_elems s of e # es \<Rightarrow> (c # e) # es | [] \<Rightarrow> [[c]]))"

text \<open>\<open>Clean\<close> goes from left to right; the elements kept so far are in the first list, the last one first.\<close>

fun clean_elems :: "bool \<Rightarrow> string list \<Rightarrow> string list \<Rightarrow> string list" where
  "clean_elems rooted kept [] = rev kept"
| "clean_elems rooted kept (e # es) =
     (if e = [] \<or> e = ''.'' then clean_elems rooted kept es
      else if e = ''..'' then
        (if kept \<noteq> [] \<and> hd kept \<noteq> ''..'' then clean_elems rooted (tl kept) es
         else if rooted then clean_elems rooted kept es
         else clean_elems rooted (e # kept) es)
      else clean_elems rooted (e # kept) es)"

definition path_rooted :: "string \<Rightarrow> bool" where
  "path_rooted p \<longleftrightarrow> p \<noteq> [] \<and> is_slash (hd p)"

definition path_clean :: "string \<Rightarrow> string" where
  "path_clean p =
     (let body = join ''/'' (clean_elems (path_rooted p) [] (path_elems p))
      in if path_rooted p then ''/'' @ body else if body = [] then ''.'' else body)"

definition path_join :: "string list \<Rightarrow> string" where
  "path_join es =
     (case dropWhile (\<lambda>e. e = []) es of [] \<Rightarrow> [] | e # r \<Rightarrow> path_clean (join ''/'' (e # r)))"

definition path_dir :: "string \<Rightarrow> string" where
  "path_dir p = path_clean (rev (dropWhile (\<lambda>c. \<not> is_slash c) (rev p)))"

text \<open>\<open>Abs\<close>, the result of \<open>os.Getwd\<close> a parameter.\<close>

definition path_abs :: "string outcome \<Rightarrow> string \<Rightarrow> string outcome" where
  "path_abs wd p =
     (if path_rooted p then Inr (path_clean p)
      else case wd of Inl err \<Rightarrow> Inl err | Inr d \<Rightarrow> Inr (path_join [d, p]))"

lemma path_elems_nonempty [simp]: "path_elems s \<noteq> []"
  by (induction s) (auto split: list.splits)

lemma path_elems_plain: "list_all (\<lambda>c. \<not> is_slash c) s \<Longrightarrow> path_elems s = [s]"
  by (induction s) auto

lemma path_elems_append: "list_all (\<lambda>c. \<not> is_slash c) s \<Longrightarrow> is_slash c \<Longrightarrow> path_elems (s @ c # r) = s # path_elems r"
  by (induction s) auto

lemma path_elems_slash_free: "\<forall>e \<in> set (path_elems s). list_all (\<lambda>c. \<not> is_slash c) e"
  by (induction s) (auto split: list.splits)

lemma path_abs_rooted: "path_abs wd p = Inr q \<Longrightarrow> (\<forall>d. wd = Inr d \<longrightarrow> path_rooted d) \<Longrightarrow> path_rooted q"
proof (cases wd)
  case (Inr d)
  assume abs: "path_abs wd p = Inr q" and "\<forall>d. wd = Inr d \<longrightarrow> path_rooted d"
  then have "path_rooted d" using Inr by simp
  then obtain c s where d: "d = c # s" "is_slash c" by (cases d) (auto simp: path_rooted_def)
  have "path_rooted (path_clean r)" if "path_rooted r" for r
    using that by (simp add: path_clean_def path_rooted_def Let_def is_slash_def)
  then show ?thesis using abs Inr d
    by (cases "p = []") (auto simp: path_abs_def path_join_def path_rooted_def split: if_splits)
qed (auto simp: path_abs_def path_clean_def path_rooted_def Let_def is_slash_def split: if_splits)

lemma path_clean_nonempty [simp]: "path_clean p \<noteq> []"
  by (simp add: path_clean_def Let_def)

lemma path_join_nonempty [simp]: "e \<noteq> [] \<Longrightarrow> path_join (e # es) \<noteq> []"
  by (simp add: path_join_def)

section \<open>Upper case and folding\<close>

text \<open>
  \<open>strings.ToUpper\<close> on runes, as far as a comparison with an ASCII word can tell: two runes
  outside ASCII have an upper case in ASCII, the dotless i and the long s.
\<close>

definition upper_rune :: "rune \<Rightarrow> rune" where
  "upper_rune r =
     (if in_range 97 122 r then r - 32 else if r = 305 then 73 else if r = 383 then 83 else r)"

definition upper_is :: "string \<Rightarrow> string \<Rightarrow> bool" where
  "upper_is s word \<longleftrightarrow> map upper_rune (runes s) = map of_char word"

definition lower_rune :: "rune \<Rightarrow> rune" where
  "lower_rune r =
     (if in_range 65 90 r then r + 32 else if r = 304 then 105 else if r = 8490 then 107 else r)"

definition lower_is :: "string \<Rightarrow> string \<Rightarrow> bool" where
  "lower_is s word \<longleftrightarrow> map lower_rune (runes s) = map of_char word"

text \<open>
  \<open>strings.EqualFold\<close> with an ASCII word: the orbit of a letter under simple folding has, beside
  the two letters of ASCII, the long s and the sign for kelvin.
\<close>

definition fold_rune :: "rune \<Rightarrow> rune" where
  "fold_rune r =
     (if in_range 97 122 r then r - 32 else if r = 383 then 83 else if r = 8490 then 75 else r)"

definition equal_fold :: "string \<Rightarrow> string \<Rightarrow> bool" where
  "equal_fold s word \<longleftrightarrow> map fold_rune (runes s) = map fold_rune (map of_char word)"

lemma upper_is_ascii:
  "is_ascii s \<Longrightarrow> upper_is s word \<longleftrightarrow> map (upper_rune \<circ> of_char) s = map of_char word"
  by (simp add: upper_is_def runes_ascii)

lemma upper_is_unique: "upper_is s v \<Longrightarrow> upper_is s w \<Longrightarrow> v = w"
  by (simp add: upper_is_def inj_map_eq_map [OF inj_of_char])

lemma equal_fold_refl: "is_ascii s \<Longrightarrow> equal_fold s s"
  by (simp add: equal_fold_def runes_ascii)

end
