(* ===== verification/Sqlite_Options.thy ===== *)
theory Sqlite_Options
  imports Go_Paths
begin

text \<open>
  The first half of \<open>dbx/sqlitex/sqlite.go\<close>: the settings of a connection and the text they are
  given in, the functional options, the pragmas, and \<open>ensureDriver\<close>, which registers one
  \<open>database/sql\<close> driver for each set of pragmas. The files \<open>sqlite_trace.go\<close> and
  \<open>sqlite_notrace.go\<close> are the two builds of \<open>configureTrace\<close>.
\<close>

section \<open>Settings\<close>

datatype journalMode =
  JournalModeDelete | JournalModeTruncate | JournalModePersist | JournalModeMemory | JournalModeWAL

datatype synchronous = SynchronousOff | SynchronousNormal | SynchronousFull | SynchronousExtra

datatype tempStore = TempStoreDefault | TempStoreFile | TempStoreMemory

fun journal_text :: "journalMode \<Rightarrow> string" where
  "journal_text JournalModeDelete = ''DELETE''"
| "journal_text JournalModeTruncate = ''TRUNCATE''"
| "journal_text JournalModePersist = ''PERSIST''"
| "journal_text JournalModeMemory = ''MEMORY''"
| "journal_text JournalModeWAL = ''WAL''"

fun synchronous_text :: "synchronous \<Rightarrow> string" where
  "synchronous_text SynchronousOff = ''OFF''"
| "synchronous_text SynchronousNormal = ''NORMAL''"
| "synchronous_text SynchronousFull = ''FULL''"
| "synchronous_text SynchronousExtra = ''EXTRA''"

fun temp_store_text :: "tempStore \<Rightarrow> string" where
  "temp_store_text TempStoreDefault = ''DEFAULT''"
| "temp_store_text TempStoreFile = ''FILE''"
| "temp_store_text TempStoreMemory = ''MEMORY''"

definition JournalModeFromString :: "string \<Rightarrow> journalMode outcome" where
  "JournalModeFromString m =
     (if upper_is m ''DELETE'' then Inr JournalModeDelete
      else if upper_is m ''TRUNCATE'' then Inr JournalModeTruncate
      else if upper_is m ''PERSIST'' then Inr JournalModePersist
      else if upper_is m ''MEMORY'' then Inr JournalModeMemory
      else if upper_is m ''WAL'' then Inr JournalModeWAL
      else Inl (NewError (m @ '' is not a valid sqlite journal mode'')))"

definition SynchronousFromString :: "string \<Rightarrow> synchronous outcome" where
  "SynchronousFromString s =
     (if upper_is s ''OFF'' then Inr SynchronousOff
      else if upper_is s ''NORMAL'' then Inr SynchronousNormal
      else if upper_is s ''FULL'' then Inr SynchronousFull
      else if upper_is s ''EXTRA'' then Inr SynchronousExtra
      else Inl (NewError (s @ '' is not a valid synchronous setting'')))"

definition TempStoreFromString :: "string \<Rightarrow> tempStore outcome" where
  "TempStoreFromString t =
     (if upper_is t ''DEFAULT'' then Inr TempStoreDefault
      else if upper_is t ''FILE'' then Inr TempStoreFile
      else if upper_is t ''MEMORY'' then Inr TempStoreMemory
      else Inl (NewError (t @ '' is not a valid temp store setting'')))"

section \<open>Options\<close>

text \<open>Durations are nanoseconds, \<open>time.Duration\<close>.\<close>

record sqliteOptions =
  o_journalMode :: journalMode
  o_synchronous :: synchronous
  o_tempStore :: tempStore
  o_busyTimeout :: int
  o_cacheSize :: int
  o_foreignKeys :: bool
  o_maxReaderConns :: int
  o_queryTimeout :: int
  o_traceEnabled :: bool
  o_traceThresholdMS :: int

definition second :: int where "second = 1000000000"
definition millisecond :: int where "millisecond = 1000000"

text \<open>What \<open>NewSQLiteDB\<close> starts from.\<close>

definition default_options :: sqliteOptions where
  "default_options =
     \<lparr>o_journalMode = JournalModeWAL, o_synchronous = SynchronousNormal, o_tempStore = TempStoreMemory,
      o_busyTimeout = 5000, o_cacheSize = 2000, o_foreignKeys = True, o_maxReaderConns = 100,
      o_queryTimeout = 10 * second, o_traceEnabled = False, o_traceThresholdMS = 20 * millisecond\<rparr>"

type_synonym SQLiteOption = "sqliteOptions \<Rightarrow> sqliteOptions outcome"

definition WithJournalMode :: "string \<Rightarrow> SQLiteOption" where
  "WithJournalMode js o' =
     (case JournalModeFromString js of Inl err \<Rightarrow> Inl err | Inr j \<Rightarrow> Inr (o'\<lparr>o_journalMode := j\<rparr>))"

definition WithSynchronous :: "string \<Rightarrow> SQLiteOption" where
  "WithSynchronous ss o' =
     (case SynchronousFromString ss of Inl err \<Rightarrow> Inl err | Inr s \<Rightarrow> Inr (o'\<lparr>o_synchronous := s\<rparr>))"

definition WithTempStore :: "string \<Rightarrow> SQLiteOption" where
  "WithTempStore tss o' =
     (case TempStoreFromString tss of Inl err \<Rightarrow> Inl err | Inr ts \<Rightarrow> Inr (o'\<lparr>o_tempStore := ts\<rparr>))"

definition WithBusyTimeout :: "int \<Rightarrow> SQLiteOption" where
  "WithBusyTimeout bt o' = Inr (o'\<lparr>o_busyTimeout := bt\<rparr>)"

definition WithCacheSize :: "int \<Rightarrow> SQLiteOption" where
  "WithCacheSize cs o' = Inr (o'\<lparr>o_cacheSize := cs\<rparr>)"

definition WithForeignKeys :: "bool \<Rightarrow> SQLiteOption" where
  "WithForeignKeys fk o' = Inr (o'\<lparr>o_foreignKeys := fk\<rparr>)"

definition WithMaxReaderConns :: "int \<Rightarrow> SQLiteOption" where
  "WithMaxReaderConns c o' = Inr (o'\<lparr>o_maxReaderConns := c\<rparr>)"

definition WithTracing :: "bool \<Rightarrow> SQLiteOption" where
  "WithTracing t o' = Inr (o'\<lparr>o_traceEnabled := t\<rparr>)"

definition WithTracingTimeThreshold :: "int \<Rightarrow> SQLiteOption" where
  "WithTracingTimeThreshold t o' = Inr (o'\<lparr>o_traceThresholdMS := t\<rparr>)"

lemmas option_defs = WithJournalMode_def WithSynchronous_def WithTempStore_def WithBusyTimeout_def
  WithCacheSize_def WithForeignKeys_def WithMaxReaderConns_def WithTracing_def WithTracingTimeThreshold_def

text \<open>The loop over the options: the first error ends it.\<close>

fun apply_options :: "SQLiteOption list \<Rightarrow> sqliteOptions \<Rightarrow> sqliteOptions outcome" where
  "apply_options [] o' = Inr o'"
| "apply_options (opt # opts) o' =
     (case opt o' of Inl err \<Rightarrow> Inl err | Inr o1 \<Rightarrow> apply_options opts o1)"

lemma apply_options_append:
  "apply_options (xs @ ys) o' = (case apply_options xs o' of Inl err \<Rightarrow> Inl err | Inr o1 \<Rightarrow> apply_options ys o1)"
  by (induction xs arbitrary: o') (simp_all split: sum.split)

section \<open>Pragmas\<close>

text \<open>\<open>%t\<close> of a boolean.\<close>

definition show_bool :: "bool \<Rightarrow> string" where
  "show_bool b = (if b then ''true'' else ''false'')"

definition pragmaStatements :: "sqliteOptions \<Rightarrow> string list" where
  "pragmaStatements o' =
     [''PRAGMA journal_mode = '' @ journal_text (o_journalMode o') @ '';'',
      ''PRAGMA synchronous = '' @ synchronous_text (o_synchronous o') @ '';'',
      ''PRAGMA temp_store = '' @ temp_store_text (o_tempStore o') @ '';'',
      ''PRAGMA busy_timeout = '' @ show_int (o_busyTimeout o') @ '';'',
      ''PRAGMA cache_size = '' @ show_int (o_cacheSize o') @ '';'',
      ''PRAGMA foreign_keys = '' @ show_bool (o_foreignKeys o') @ '';'']"

section \<open>Tracing\<close>

datatype log_level = LevelDebug | LevelInfo | LevelWarn | LevelError

text \<open>An event of the engine's trace: a statement, the run time of one in nanoseconds, any other.\<close>

datatype trace_info = TraceStmt | TraceProfile int | TraceOther

text \<open>What the callback of \<open>configureTrace\<close> logs of an event; it always returns 0.\<close>

fun trace_callback :: "int \<Rightarrow> trace_info \<Rightarrow> (log_level \<times> string) option" where
  "trace_callback threshold TraceStmt = Some (LevelDebug, ''statement prepared'')"
| "trace_callback threshold (TraceProfile d) =
     Some (if d > threshold then LevelWarn else LevelDebug, ''statement executed'')"
| "trace_callback threshold TraceOther = None"

text \<open>
  \<open>configureTrace\<close> of the build with the tag \<open>sqlite_trace\<close> (\<open>set_trace\<close> what \<open>SetTrace\<close> of the
  driver package reports) and of the build without it; it leaves the threshold of the callback.
\<close>

definition configureTrace :: "bool \<Rightarrow> go_error option \<Rightarrow> int \<Rightarrow> int outcome" where
  "configureTrace traceSupported set_trace threshold =
     (if traceSupported then (case set_trace of Some err \<Rightarrow> Inl err | None \<Rightarrow> Inr threshold)
      else Inl (NewError ''sqlite tracing requested but binary built without sqlite_trace tag''))"

section \<open>Drivers\<close>

text \<open>
  The registry: the hashes \<open>registeredDrivers\<close>, and the drivers \<open>database/sql\<close> knows by name, each
  with the options its \<open>ConnectHook\<close> closes over. SHA-256 is a parameter: the model needs the
  first five bytes of a sum.
\<close>

record driver_registry =
  registeredDrivers :: "string list"
  sql_drivers :: "(string \<times> sqliteOptions) list"

definition hex_digit :: "nat \<Rightarrow> char" where
  "hex_digit d = (if d < 10 then digit_char d else char_of (87 + d))"

text \<open>\<open>hex.EncodeToString\<close>.\<close>

definition hex_bytes :: "nat list \<Rightarrow> string" where
  "hex_bytes bs = concat (map (\<lambda>b. [hex_digit (b div 16), hex_digit (b mod 16)]) bs)"

definition driver_text :: "sqliteOptions \<Rightarrow> string" where
  "driver_text o' = join [CHR 0x0A] (pragmaStatements o' @ [''trace='' @ show_bool (o_traceEnabled o')])"

definition opts_hash :: "(string \<Rightarrow> nat list) \<Rightarrow> sqliteOptions \<Rightarrow> string" where
  "opts_hash sha256 o' = hex_bytes (take 5 (sha256 (driver_text o')))"

definition driver_name :: "string \<Rightarrow> string" where
  "driver_name h = ''sqlite3-'' @ h"

text \<open>\<open>sql.Register\<close> panics on a name it has.\<close>

definition ensureDriver :: "(string \<Rightarrow> nat list) \<Rightarrow> sqliteOptions \<Rightarrow> driver_registry \<Rightarrow> string go_ret \<times> driver_registry" where
  "ensureDriver sha256 sopts reg =
     (let optsHash = opts_hash sha256 sopts; name = driver_name optsHash
      in if optsHash \<in> set (registeredDrivers reg) then (Returns name None, reg)
         else if name \<in> fst ` set (sql_drivers reg) then (Panics (''sql: Register called twice for driver '' @ name), reg)
         else (Returns name None, \<lparr>registeredDrivers = optsHash # registeredDrivers reg,
                                   sql_drivers = (name, sopts) # sql_drivers reg\<rparr>))"

text \<open>
  The \<open>ConnectHook\<close>: the pragmas in order, then the trace; the i-th statement may fail. What it
  leaves is the set-up of the connection.
\<close>

record conn_setup =
  cs_pragmas :: "string list"
  cs_trace :: "int option"

fun exec_pragmas :: "(nat \<Rightarrow> go_error option) \<Rightarrow> nat \<Rightarrow> string list \<Rightarrow> go_error option" where
  "exec_pragmas faults i [] = None"
| "exec_pragmas faults i (p # ps) =
     (case faults i of Some err \<Rightarrow> Some err | None \<Rightarrow> exec_pragmas faults (Suc i) ps)"

definition connect_hook ::
    "bool \<Rightarrow> (nat \<Rightarrow> go_error option) \<Rightarrow> go_error option \<Rightarrow> sqliteOptions \<Rightarrow> conn_setup outcome" where
  "connect_hook traceSupported faults set_trace sopts =
     (case exec_pragmas faults 0 (pragmaStatements sopts) of
        Some err \<Rightarrow> Inl err
      | None \<Rightarrow>
          if o_traceEnabled sopts
          then (case configureTrace traceSupported set_trace (o_traceThresholdMS sopts) of
                  Inl err \<Rightarrow> Inl err
                | Inr t \<Rightarrow> Inr \<lparr>cs_pragmas = pragmaStatements sopts, cs_trace = Some t\<rparr>)
          else Inr \<lparr>cs_pragmas = pragmaStatements sopts, cs_trace = None\<rparr>)"

end
