(* ===== verification/Sqlite_Open.thy ===== *)
theory Sqlite_Open
  imports Sqlite_Options Transactions
begin

text \<open>
  \<open>NewSQLiteDB\<close> and \<open>Close\<close> of \<open>dbx/sqlitex/sqlite.go\<close>: a database is a file and two pools of
  connections on it, one for reads and one, of a single connection, for writes. The state is the
  file system as far as the program sees it, the drivers of \<open>database/sql\<close> and the pools that
  are open; what may fail outside the repository is in the environment \<open>open_env\<close>.
\<close>

section \<open>State and environment\<close>

text \<open>A file or directory by its path; the content of a file is the engine's.\<close>

datatype 'f node = DirNode | FileNode 'f

record pool =
  pool_driver :: string
  pool_dsn :: string
  pool_max_open :: int
  pool_idle :: int

record 'f os_world =
  fs :: "(string \<times> 'f node) list"
  drivers :: driver_registry
  open_pools :: "(nat \<times> pool) list"
  next_pool :: nat

text \<open>
  The faults are numbered: pool 0 writes, pool 1 reads; of a new connection of a pool first the
  open of the file, then the statements of the \<open>ConnectHook\<close>.
\<close>

record 'f open_env =
  homedir_expand :: "string \<Rightarrow> string outcome"
  stat_fault :: "go_error option"
  mkdir_fault :: "go_error option"
  sha256 :: "string \<Rightarrow> nat list"
  traceSupported :: bool
  connector_fault :: "nat \<Rightarrow> go_error option"
  file_fault :: "nat \<Rightarrow> go_error option"
  hook_fault :: "nat \<Rightarrow> nat \<Rightarrow> go_error option"
  set_trace_fault :: "nat \<Rightarrow> go_error option"
  journal_query :: "string outcome"
  pool_close_fault :: "nat \<Rightarrow> go_error option"
  created_file :: 'f

record SQLiteDB =
  DBPath :: string
  Read :: "nat option"
  Write :: "nat option"
  QueryTimeout :: int
  opts :: sqliteOptions

section \<open>The file\<close>

text \<open>\<open>os.Stat\<close>: whether the path is a directory.\<close>

definition os_stat :: "'f open_env \<Rightarrow> string \<Rightarrow> 'f os_world \<Rightarrow> bool outcome" where
  "os_stat env p w =
     (case stat_fault env of
        Some err \<Rightarrow> Inl err
      | None \<Rightarrow> (case map_of (fs w) p of None \<Rightarrow> Inl ErrNotExist | Some n \<Rightarrow> Inr (n = DirNode)))"

text \<open>\<open>os.MkdirAll\<close>: the directory and those above it that are not there.\<close>

fun dir_prefixes :: "string list \<Rightarrow> string list list" where
  "dir_prefixes [] = []"
| "dir_prefixes (e # es) = [e] # map (\<lambda>p. e # p) (dir_prefixes es)"

definition ancestors :: "string \<Rightarrow> string list" where
  "ancestors dir = filter (\<lambda>p. p \<noteq> []) (map (join ''/'') (dir_prefixes (path_elems dir)))"

definition os_mkdir_all :: "'f open_env \<Rightarrow> string \<Rightarrow> 'f os_world \<Rightarrow> go_error option \<times> 'f os_world" where
  "os_mkdir_all env dir w =
     (case mkdir_fault env of
        Some err \<Rightarrow> (Some err, w)
      | None \<Rightarrow>
          if \<exists>p \<in> set (ancestors dir). \<exists>f. map_of (fs w) p = Some (FileNode f)
          then (Some (EngineError ''mkdir: not a directory''), w)
          else (None, w\<lparr>fs := map (\<lambda>p. (p, DirNode)) (filter (\<lambda>p. map_of (fs w) p = None) (ancestors dir)) @ fs w\<rparr>))"

text \<open>The path of the database, its directory made when the file is not there yet.\<close>

definition database_path :: "'f open_env \<Rightarrow> string \<Rightarrow> 'f os_world \<Rightarrow> string outcome \<times> 'f os_world" where
  "database_path env dbPath w =
     (case homedir_expand env dbPath of
        Inl err \<Rightarrow> (Inl err, w)
      | Inr dbp \<Rightarrow>
          (case os_stat env dbp w of
             Inl err \<Rightarrow>
               if errors_is err ErrNotExist then
                 (case os_mkdir_all env (path_dir dbp) w of
                    (Some err, w1) \<Rightarrow>
                      (Inl (WrapError ''failed to create directory to create sqlite database file'' err), w1)
                  | (None, w1) \<Rightarrow> (Inr dbp, w1))
               else (Inl err, w)
           | Inr isDir \<Rightarrow>
               if isDir then (Inl (NewError (dbPath @ '' references to a directory not a database file'')), w)
               else (Inr dbp, w)))"

section \<open>Pools\<close>

definition minute :: int where "minute = 60 * second"

text \<open>\<open>sql.Open\<close> with the settings made right after it.\<close>

definition sql_open :: "'f open_env \<Rightarrow> nat \<Rightarrow> string \<Rightarrow> string \<Rightarrow> int \<Rightarrow> 'f os_world \<Rightarrow> nat outcome \<times> 'f os_world" where
  "sql_open env k name dsn max_open w =
     (if name \<notin> fst ` set (sql_drivers (drivers w))
      then (Inl (NewError (''sql: unknown driver '' @ name)), w)
      else case connector_fault env k of
             Some err \<Rightarrow> (Inl err, w)
           | None \<Rightarrow>
               (Inr (next_pool w),
                w\<lparr>open_pools := (next_pool w, \<lparr>pool_driver = name, pool_dsn = dsn, pool_max_open = max_open,
                                               pool_idle = minute\<rparr>) # open_pools w,
                  next_pool := next_pool w + 1\<rparr>))"

text \<open>What a new connection of a pool is set up with: the hook of the driver of that name.\<close>

definition new_connection :: "'f open_env \<Rightarrow> nat \<Rightarrow> nat \<Rightarrow> 'f os_world \<Rightarrow> conn_setup outcome" where
  "new_connection env k h w =
     (case map_of (open_pools w) h of
        None \<Rightarrow> Inl (NewError ''sql: database is closed'')
      | Some p \<Rightarrow>
          (case map_of (sql_drivers (drivers w)) (pool_driver p) of
             None \<Rightarrow> Inl (NewError (''sql: unknown driver '' @ pool_driver p))
           | Some sopts \<Rightarrow>
               connect_hook (traceSupported env) (hook_fault env k) (set_trace_fault env k) sopts))"

text \<open>\<open>PingContext\<close>: the first connection of the pool, which makes the file if it is not there.\<close>

definition ping :: "'f open_env \<Rightarrow> nat \<Rightarrow> nat \<Rightarrow> string \<Rightarrow> 'f os_world \<Rightarrow> go_error option \<times> 'f os_world" where
  "ping env k h path w =
     (case file_fault env k of
        Some err \<Rightarrow> (Some err, w)
      | None \<Rightarrow>
          (let w1 = (if map_of (fs w) path = None then w\<lparr>fs := (path, FileNode (created_file env)) # fs w\<rparr> else w)
           in case new_connection env k h w of Inl err \<Rightarrow> (Some err, w1) | Inr _ \<Rightarrow> (None, w1)))"

text \<open>\<open>DB.Close\<close> of a pool: closed also when it reports an error.\<close>

definition close_pool :: "'f open_env \<Rightarrow> nat \<Rightarrow> nat \<Rightarrow> 'f os_world \<Rightarrow> go_error option \<times> 'f os_world" where
  "close_pool env k h w =
     (if h \<notin> fst ` set (open_pools w) then (None, w)
      else (pool_close_fault env k, w\<lparr>open_pools := filter (\<lambda>p. fst p \<noteq> h) (open_pools w)\<rparr>))"

text \<open>\<open>SQLiteDB.Close\<close>; \<open>d.Read.Close()\<close> on a nil pool dereferences it.\<close>

definition nil_dereference :: string where
  "nil_dereference = ''runtime error: invalid memory address or nil pointer dereference''"

definition SQLiteDB_Close :: "'f open_env \<Rightarrow> SQLiteDB \<Rightarrow> 'f os_world \<Rightarrow> unit go_ret \<times> 'f os_world" where
  "SQLiteDB_Close env d w =
     (case Read d of
        None \<Rightarrow> (Panics nil_dereference, w)
      | Some rh \<Rightarrow>
          (case close_pool env 1 rh w of (readErr, w1) \<Rightarrow>
             (case Write d of
                None \<Rightarrow> (Panics nil_dereference, w1)
              | Some wh \<Rightarrow>
                  (case close_pool env 0 wh w1 of (writeErr, w2) \<Rightarrow>
                     (Returns ()
                        (case (readErr, writeErr) of
                           (Some re, Some we) \<Rightarrow> Some (WrapError2 ''error closing read and write connections'' re we)
                         | (Some re, None) \<Rightarrow> Some re
                         | (None, Some we) \<Rightarrow> Some we
                         | (None, None) \<Rightarrow> None), w2)))))"

section \<open>Opening\<close>

text \<open>\<open>db.Close()\<close> and \<open>return nil, err\<close>.\<close>

definition close_and_fail :: "'f open_env \<Rightarrow> SQLiteDB \<Rightarrow> go_error \<Rightarrow> 'f os_world \<Rightarrow> SQLiteDB option go_ret \<times> 'f os_world" where
  "close_and_fail env db err w =
     (case SQLiteDB_Close env db w of
        (Panics p, w1) \<Rightarrow> (Panics p, w1)
      | (Returns _ _, w1) \<Rightarrow> (Returns None (Some err), w1))"

text \<open>The checks after both pools are there.\<close>

definition check_connections :: "'f open_env \<Rightarrow> SQLiteDB \<Rightarrow> nat \<Rightarrow> nat \<Rightarrow> 'f os_world \<Rightarrow> SQLiteDB option go_ret \<times> 'f os_world" where
  "check_connections env db wh rh w =
     (case ping env 0 wh (DBPath db) w of
        (Some err, w1) \<Rightarrow> close_and_fail env db (WrapError ''write connection failed'' err) w1
      | (None, w1) \<Rightarrow>
     (case ping env 1 rh (DBPath db) w1 of
        (Some err, w2) \<Rightarrow> close_and_fail env db (WrapError ''read connection failed'' err) w2
      | (None, w2) \<Rightarrow>
     (case journal_query env of
        Inl err \<Rightarrow> close_and_fail env db (WrapError ''journal_mode check failed'' err) w2
      | Inr actualJournalMode \<Rightarrow>
          if \<not> equal_fold actualJournalMode (journal_text (o_journalMode (opts db)))
          then close_and_fail env db
                 (NewError (''journal_mode mismatch: requested '' @ journal_text (o_journalMode (opts db))
                    @ '', engine reports '' @ actualJournalMode)) w2
          else (Returns (Some db) None, w2))))"

definition NewSQLiteDB :: "'f open_env \<Rightarrow> string \<Rightarrow> SQLiteOption list \<Rightarrow> 'f os_world \<Rightarrow> SQLiteDB option go_ret \<times> 'f os_world" where
  "NewSQLiteDB env dbPath options w =
     (case apply_options options default_options of
        Inl err \<Rightarrow> (Returns None (Some err), w)
      | Inr sopts \<Rightarrow>
     (case database_path env dbPath w of
        (Inl err, w1) \<Rightarrow> (Returns None (Some err), w1)
      | (Inr dbp, w1) \<Rightarrow>
          if o_traceEnabled sopts \<and> \<not> traceSupported env
          then (Returns None (Some (NewError ''sqlite trace enabled but build was done without tag sqlite_trace'')), w1)
          else
     (case ensureDriver (sha256 env) sopts (drivers w1) of
        (Panics p, reg) \<Rightarrow> (Panics p, w1\<lparr>drivers := reg\<rparr>)
      | (Returns driverName _, reg) \<Rightarrow>
     (case sql_open env 0 driverName (''file:'' @ dbp) 1 (w1\<lparr>drivers := reg\<rparr>) of
        (Inl err, w2) \<Rightarrow> (Returns None (Some err), w2)
      | (Inr wh, w2) \<Rightarrow>
          (let db = \<lparr>DBPath = dbp, Read = None, Write = Some wh, QueryTimeout = o_queryTimeout sopts, opts = sopts\<rparr>
           in case sql_open env 1 driverName (''file:'' @ dbp) (o_maxReaderConns sopts) w2 of
                (Inl err, w3) \<Rightarrow> close_and_fail env db err w3
              | (Inr rh, w3) \<Rightarrow> check_connections env (db\<lparr>Read := Some rh\<rparr>) wh rh w3)))))"

end
