(* ===== verification/Config.thy ===== *)
theory Config
  imports Sqlite_Open Conn_Cache
begin

text \<open>
  The configuration: \<open>config/config.go\<close> (its data, its defaults and their check), \<open>hdx/hdx.go\<close>, and
  the two conversions that the server makes of it, \<open>ConfigToSQLiteConnManagerConfig\<close> of
  \<open>user-store/sqliteconncache.go\<close> and \<open>ConfigToServerConfig\<close> of \<open>web/server.go\<close>. The environment
  of the process, the home directory and the embedded files are in the record \<open>conf_env\<close>.
\<close>

section \<open>Data\<close>

record sqlite_config =
  BusyTimeout :: int
  CacheSize :: int
  ForeignKeys :: bool
  JournalMode :: string
  Synchronous :: string
  TempStore :: string
  Trace :: bool
  TraceThresholdMillisecond :: int
  ConfIndexDBFileName :: string
  ConfIndexDBMigrations :: string
  ConfNotesDBMigrations :: string

record RegexPattern =
  Pattern :: string

record config =
  DataDirectory :: string
  FileLocation :: string
  SQLiteConf :: sqlite_config
  WebHost :: string
  WebPort :: nat
  WebLoggingIgnoredPaths :: "RegexPattern list"
  WebEnableHTTPS :: bool
  WebCert :: string
  WebKey :: string
  Debug :: bool

record conf_env =
  getenv :: "string \<Rightarrow> string"
  expand_home :: "string \<Rightarrow> string outcome"
  getwd :: "string outcome"
  file_stat :: "string \<Rightarrow> go_error option"
  embedded :: "string \<Rightarrow> dir_entry list option"

definition AppName :: string where "AppName = ''communis''"
definition ConfigFileName :: string where "ConfigFileName = ''config.json''"

section \<open>Defaults\<close>

definition DefaultDataDirectory :: "conf_env \<Rightarrow> string" where
  "DefaultDataDirectory env =
     (let xdg = getenv env ''XDG_DATA_HOME''
      in if xdg \<noteq> [] then path_join [xdg, AppName] else path_join [''/'', ''var'', ''opt'', AppName])"

definition DefaultFileLocation :: "conf_env \<Rightarrow> string" where
  "DefaultFileLocation env =
     (let xdg = getenv env ''XDG_CONFIG_HOME''
      in if xdg \<noteq> [] then path_join [xdg, ''.config'', AppName, ConfigFileName]
         else path_join [''/'', ''etc'', ''opt'', AppName, ConfigFileName])"

definition default_sqlite :: sqlite_config where
  "default_sqlite =
     \<lparr>BusyTimeout = 5000, CacheSize = 2000, ForeignKeys = True, JournalMode = ''WAL'', Synchronous = ''NORMAL'',
      TempStore = ''MEMORY'', Trace = False, TraceThresholdMillisecond = 20, ConfIndexDBFileName = ''index.db'',
      ConfIndexDBMigrations = ''sql/index-db'', ConfNotesDBMigrations = ''sql/notes-db''\<rparr>"

definition DefaultConfig :: "conf_env \<Rightarrow> config" where
  "DefaultConfig env =
     \<lparr>DataDirectory = DefaultDataDirectory env, FileLocation = DefaultFileLocation env,
      SQLiteConf = default_sqlite, WebHost = ''0.0.0.0'', WebPort = 6789,
      WebLoggingIgnoredPaths = [\<lparr>Pattern = [CHR 0x5C] @ ''/static'' @ [CHR 0x5C] @ ''/.*''\<rparr>],
      WebEnableHTTPS = False, WebCert = [], WebKey = [], Debug = False\<rparr>"

text \<open>\<open>ValidSQLite\<close>: the three settings that are words.\<close>

definition ValidSQLite :: "sqlite_config \<Rightarrow> go_error option" where
  "ValidSQLite s =
     (case JournalModeFromString (JournalMode s) of
        Inl err \<Rightarrow> Some err
      | Inr _ \<Rightarrow>
          (case SynchronousFromString (Synchronous s) of
             Inl err \<Rightarrow> Some err
           | Inr _ \<Rightarrow>
               (case TempStoreFromString (TempStore s) of Inl err \<Rightarrow> Some err | Inr _ \<Rightarrow> None)))"

section \<open>Files\<close>

text \<open>\<open>hdx.ResolveFile\<close>: an absolute path; only a file that does not exist is an error.\<close>

definition ResolveFile :: "conf_env \<Rightarrow> string \<Rightarrow> string outcome" where
  "ResolveFile env filePath =
     (case expand_home env filePath of
        Inl err \<Rightarrow> Inl err
      | Inr fp \<Rightarrow>
          (case path_abs (getwd env) fp of
             Inl err \<Rightarrow> Inl err
           | Inr fp \<Rightarrow> if file_stat env fp = Some ErrNotExist then Inl ErrNotExist else Inr fp))"

section \<open>The configuration of the connection manager\<close>

text \<open>\<open>SQLiteConnManagerConfig\<close>: what the manager of the model has, and the options for its databases.\<close>

record manager_config = conn_conf +
  SQLiteOptions :: "SQLiteOption list"

text \<open>\<open>if text != ""\<close>: check the word and append the option that will set it.\<close>

definition word_option ::
    "(string \<Rightarrow> 'v outcome) \<Rightarrow> (string \<Rightarrow> SQLiteOption) \<Rightarrow> string \<Rightarrow> SQLiteOption list \<Rightarrow> SQLiteOption list outcome" where
  "word_option from_string with_option t os =
     (if t \<noteq> [] then (case from_string t of Inl err \<Rightarrow> Inl err | Inr _ \<Rightarrow> Inr (os @ [with_option t])) else Inr os)"

definition conf_options :: "sqlite_config \<Rightarrow> SQLiteOption list outcome" where
  "conf_options s =
     (case word_option JournalModeFromString WithJournalMode (JournalMode s) [] of
        Inl err \<Rightarrow> Inl err
      | Inr os1 \<Rightarrow>
     (case word_option SynchronousFromString WithSynchronous (Synchronous s) os1 of
        Inl err \<Rightarrow> Inl err
      | Inr os2 \<Rightarrow>
     (case word_option TempStoreFromString WithTempStore (TempStore s) os2 of
        Inl err \<Rightarrow> Inl err
      | Inr os3 \<Rightarrow>
          Inr (os3 @ [WithTracing (Trace s)]
            @ (if TraceThresholdMillisecond s > 0
               then [WithTracingTimeThreshold (wrap64 (TraceThresholdMillisecond s * millisecond))] else [])
            @ [WithBusyTimeout (BusyTimeout s), WithCacheSize (CacheSize s), WithForeignKeys (ForeignKeys s)]))))"

definition ConfigToSQLiteConnManagerConfig :: "conf_env \<Rightarrow> config \<Rightarrow> manager_config option go_ret" where
  "ConfigToSQLiteConnManagerConfig env conf =
     (if DataDirectory conf = [] then Returns None (Some (NewError ''data directory cannot be empty''))
      else
     (case expand_home env (DataDirectory conf) of
        Inl err \<Rightarrow> Returns None (Some err)
      | Inr dbd \<Rightarrow>
     (case conf_options (SQLiteConf conf) of
        Inl err \<Rightarrow> Returns None (Some err)
      | Inr os \<Rightarrow>
     if ConfNotesDBMigrations (SQLiteConf conf) = []
     then Returns None (Some (NewError ''NotesDBMigrations cannot be empty''))
     else
     (case Load (embedded env) (ConfNotesDBMigrations (SQLiteConf conf)) of
        Panics p \<Rightarrow> Panics p
      | Returns _ (Some err) \<Rightarrow> Returns None (Some err)
      | Returns noteDBMigrations None \<Rightarrow>
     if ConfIndexDBMigrations (SQLiteConf conf) = []
     then Returns None (Some (NewError ''IndexDBMigrations cannot be empty''))
     else
     (case Load (embedded env) (ConfIndexDBMigrations (SQLiteConf conf)) of
        Panics p \<Rightarrow> Panics p
      | Returns _ (Some err) \<Rightarrow> Returns None (Some err)
      | Returns indexDBMigrations None \<Rightarrow>
     if ConfIndexDBFileName (SQLiteConf conf) = []
     then Returns None (Some (NewError ''IndexDBFileName cannot be empty''))
     else
       Returns (Some \<lparr>DBDirectory = dbd, IndexDBFileName = ConfIndexDBFileName (SQLiteConf conf),
                      NotesDBMigrations = noteDBMigrations, IndexDBMigrations = indexDBMigrations,
                      SQLiteOptions = os\<rparr>) None)))))"

text \<open>\<open>NewSQLiteConnManager\<close>: open the index database; the cache is empty.\<close>

definition NewSQLiteConnManager ::
    "'f open_env \<Rightarrow> manager_config \<Rightarrow> 'f os_world \<Rightarrow> SQLiteDB option go_ret \<times> 'f os_world" where
  "NewSQLiteConnManager env conf w =
     NewSQLiteDB env (path_join [DBDirectory conf, IndexDBFileName conf]) (SQLiteOptions conf) w"

section \<open>The configuration of the server\<close>

record ServerConfig =
  SvHost :: string
  SvPort :: nat
  HTTPSEnabled :: bool
  CertFile :: string
  KeyFile :: string
  SvDebug :: bool
  IgnoredLoggingPaths :: "string list"

text \<open>The certificate and the key, both empty without HTTPS.\<close>

definition resolve_tls :: "conf_env \<Rightarrow> config \<Rightarrow> (string \<times> string) outcome" where
  "resolve_tls env conf =
     (if \<not> WebEnableHTTPS conf then Inr ([], [])
      else if WebCert conf = [] then Inl (NewError ''https enabled - certificate file required'')
      else
     (case ResolveFile env (WebCert conf) of
        Inl err \<Rightarrow> Inl (TextError ''failed to resolve path to certificate file'' err)
      | Inr certFile \<Rightarrow>
          (case ResolveFile env (WebKey conf) of
             Inl err \<Rightarrow> Inl (TextError ''failed to resolve path to key file'' err)
           | Inr keyFile \<Rightarrow> Inr (certFile, keyFile))))"

definition ConfigToServerConfig :: "conf_env \<Rightarrow> config \<Rightarrow> ServerConfig outcome" where
  "ConfigToServerConfig env conf =
     (if WebHost conf = [] then Inl (NewError ''web host is required'')
      else if WebPort conf = 0 then Inl (NewError ''web port is required'')
      else
     (case resolve_tls env conf of
        Inl err \<Rightarrow> Inl err
      | Inr (cert, key) \<Rightarrow>
          Inr \<lparr>SvHost = WebHost conf, SvPort = WebPort conf, HTTPSEnabled = WebEnableHTTPS conf,
               CertFile = cert, KeyFile = key, SvDebug = Debug conf,
               IgnoredLoggingPaths = map Pattern (WebLoggingIgnoredPaths conf)\<rparr>))"

section \<open>What the options of a configuration set\<close>

lemma apply_word_option:
  assumes "word_option from_string (\<lambda>t o'. case from_string t of Inl err \<Rightarrow> Inl err | Inr v \<Rightarrow> Inr (upd v o')) t os = Inr os'"
    and "apply_options os o0 = Inr o1"
  shows "if t = [] then apply_options os' o0 = Inr o1
    else \<exists>v. from_string t = Inr v \<and> apply_options os' o0 = Inr (upd v o1)"
  using assms by (auto simp: word_option_def apply_options_append split: if_splits sum.splits)

lemmas word_option_forms =
  WithJournalMode_def [abs_def] WithSynchronous_def [abs_def] WithTempStore_def [abs_def]

text \<open>The word of the configuration, or the default of \<open>NewSQLiteDB\<close> when it is empty.\<close>

definition word_or :: "(string \<Rightarrow> 'v outcome) \<Rightarrow> string \<Rightarrow> 'v \<Rightarrow> 'v outcome" where
  "word_or from_string t d = (if t = [] then Inr d else from_string t)"

text \<open>The settings a configuration stands for.\<close>

definition settings_of :: "sqlite_config \<Rightarrow> journalMode \<Rightarrow> synchronous \<Rightarrow> tempStore \<Rightarrow> sqliteOptions" where
  "settings_of s j sy ts =
     default_options\<lparr>o_journalMode := j, o_synchronous := sy, o_tempStore := ts,
       o_busyTimeout := BusyTimeout s, o_cacheSize := CacheSize s, o_foreignKeys := ForeignKeys s,
       o_traceEnabled := Trace s,
       o_traceThresholdMS := (if TraceThresholdMillisecond s > 0
          then wrap64 (TraceThresholdMillisecond s * millisecond) else o_traceThresholdMS default_options)\<rparr>"

lemma conf_options_settings:
  assumes "conf_options s = Inr os"
  shows "\<exists>j sy ts. word_or JournalModeFromString (JournalMode s) JournalModeWAL = Inr j
    \<and> word_or SynchronousFromString (Synchronous s) SynchronousNormal = Inr sy
    \<and> word_or TempStoreFromString (TempStore s) TempStoreMemory = Inr ts
    \<and> apply_options os default_options = Inr (settings_of s j sy ts)"
proof -
  obtain os1 os2 os3 where
    1: "word_option JournalModeFromString WithJournalMode (JournalMode s) [] = Inr os1"
    and 2: "word_option SynchronousFromString WithSynchronous (Synchronous s) os1 = Inr os2"
    and 3: "word_option TempStoreFromString WithTempStore (TempStore s) os2 = Inr os3"
    and os: "os = os3 @ [WithTracing (Trace s)]
      @ (if TraceThresholdMillisecond s > 0
         then [WithTracingTimeThreshold (wrap64 (TraceThresholdMillisecond s * millisecond))] else [])
      @ [WithBusyTimeout (BusyTimeout s), WithCacheSize (CacheSize s), WithForeignKeys (ForeignKeys s)]"
    using assms by (auto simp: conf_options_def split: sum.splits)
  obtain j where j: "word_or JournalModeFromString (JournalMode s) JournalModeWAL = Inr j"
    "apply_options os1 default_options = Inr (default_options\<lparr>o_journalMode := j\<rparr>)"
    using apply_word_option [OF 1 [unfolded word_option_forms], of default_options default_options]
    by (auto simp: word_or_def default_options_def split: if_splits)
  obtain sy where sy: "word_or SynchronousFromString (Synchronous s) SynchronousNormal = Inr sy"
    "apply_options os2 default_options = Inr (default_options\<lparr>o_journalMode := j, o_synchronous := sy\<rparr>)"
    using apply_word_option [OF 2 [unfolded word_option_forms] j(2)]
    by (auto simp: word_or_def default_options_def split: if_splits)
  obtain ts where ts: "word_or TempStoreFromString (TempStore s) TempStoreMemory = Inr ts"
    "apply_options os3 default_options
      = Inr (default_options\<lparr>o_journalMode := j, o_synchronous := sy, o_tempStore := ts\<rparr>)"
    using apply_word_option [OF 3 [unfolded word_option_forms] sy(2)]
    by (auto simp: word_or_def default_options_def split: if_splits)
  have "apply_options os default_options = Inr (settings_of s j sy ts)"
    unfolding os apply_options_append ts(2)
    by (simp add: option_defs settings_of_def)
  then show ?thesis using j(1) sy(1) ts(1) by blast
qed

end
