(* ===== verification/Sqlite_Props.thy ===== *)
theory Sqlite_Props
  imports Sqlite_Open
begin

text \<open>
  What opening a database establishes: the settings and their text, the registry of drivers, and
  \<open>NewSQLiteDB\<close> itself, which either leaves two pools whose connections have the pragmas asked
  for, or no pool at all.
\<close>

section \<open>Settings and their text\<close>

lemmas from_string_eval = upper_is_ascii is_ascii_def upper_rune_def in_range_def

lemma from_string_text [simp]:
  "JournalModeFromString (journal_text j) = Inr j"
  "SynchronousFromString (synchronous_text s) = Inr s"
  "TempStoreFromString (temp_store_text t) = Inr t"
proof -
  show "JournalModeFromString (journal_text j) = Inr j"
    by (cases j) (simp_all add: JournalModeFromString_def from_string_eval)
  show "SynchronousFromString (synchronous_text s) = Inr s"
    by (cases s) (simp_all add: SynchronousFromString_def from_string_eval)
  show "TempStoreFromString (temp_store_text t) = Inr t"
    by (cases t) (simp_all add: TempStoreFromString_def from_string_eval)
qed

lemma from_string_upper:
  "JournalModeFromString m = Inr j \<Longrightarrow> upper_is m (journal_text j)"
  "SynchronousFromString m = Inr s \<Longrightarrow> upper_is m (synchronous_text s)"
  "TempStoreFromString m = Inr t \<Longrightarrow> upper_is m (temp_store_text t)"
  by (auto simp: JournalModeFromString_def SynchronousFromString_def TempStoreFromString_def split: if_splits)

section \<open>The text of a set of pragmas\<close>

lemma join_no_sep_inj:
  assumes "join [c] xs = join [c] ys" and "length xs = length ys" and "\<forall>x \<in> set xs \<union> set ys. c \<notin> set x"
  shows "xs = ys"
  using assms
proof (induction xs arbitrary: ys)
  case (Cons x xs)
  then obtain y ys' where ys: "ys = y # ys'" by (cases ys) auto
  show ?case
  proof (cases xs)
    case Nil
    then show ?thesis using Cons.prems ys by simp
  next
    case (Cons x1 xs1)
    then obtain y1 ys1 where ys': "ys' = y1 # ys1" using Cons.prems(2) ys by (cases ys') auto
    have eq: "x @ c # join [c] xs = y @ c # join [c] ys'"
      using Cons.prems(1) \<open>xs = x1 # xs1\<close> ys ys' by simp
    have nc: "c \<notin> set x" "c \<notin> set y" using Cons.prems(3) ys by auto
    have "takeWhile (\<lambda>d. d \<noteq> c) (x @ c # r) = x" "dropWhile (\<lambda>d. d \<noteq> c) (x @ c # r) = c # r" if "c \<notin> set x" for x r
      using that by (induction x) auto
    then have "x = y" "join [c] xs = join [c] ys'" using eq nc by (metis, metis list.sel(3))
    then show ?thesis using Cons.IH [of ys'] Cons.prems ys by simp
  qed
qed simp

lemma show_nat_no_newline: "CHR 0x0A \<notin> set (show_nat n)"
  using show_nat_digits by (fastforce simp: list_all_iff is_digit_def)

lemma show_int_no_newline: "CHR 0x0A \<notin> set (show_int i)"
  using show_nat_no_newline by (simp add: show_int_def)

lemma setting_texts_no_newline:
  "CHR 0x0A \<notin> set (journal_text j)" "CHR 0x0A \<notin> set (synchronous_text s)" "CHR 0x0A \<notin> set (temp_store_text t)"
  "CHR 0x0A \<notin> set (show_bool b)"
proof -
  show "CHR 0x0A \<notin> set (journal_text j)" by (cases j) simp_all
  show "CHR 0x0A \<notin> set (synchronous_text s)" by (cases s) simp_all
  show "CHR 0x0A \<notin> set (temp_store_text t)" by (cases t) simp_all
  show "CHR 0x0A \<notin> set (show_bool b)" by (simp add: show_bool_def)
qed

text \<open>The text that is hashed determines the pragmas and the trace flag.\<close>

lemma driver_text_inj:
  assumes "driver_text a = driver_text b"
  shows "pragmaStatements a = pragmaStatements b \<and> o_traceEnabled a = o_traceEnabled b"
proof -
  let ?lines = "\<lambda>x. pragmaStatements x @ [''trace='' @ show_bool (o_traceEnabled x)]"
  have "?lines a = ?lines b"
    using assms by (intro join_no_sep_inj [of "CHR 0x0A"])
      (auto simp: driver_text_def pragmaStatements_def show_int_no_newline setting_texts_no_newline)
  then show ?thesis by (auto simp: show_bool_def split: if_splits)
qed

section \<open>The registry of drivers\<close>

definition registry_ok :: "(string \<Rightarrow> nat list) \<Rightarrow> driver_registry \<Rightarrow> bool" where
  "registry_ok sha reg \<longleftrightarrow>
     map fst (sql_drivers reg) = map driver_name (registeredDrivers reg) \<and> distinct (registeredDrivers reg)
     \<and> (\<forall>(n, sopts) \<in> set (sql_drivers reg). n = driver_name (opts_hash sha sopts))"

lemma driver_name_inj [simp]: "driver_name a = driver_name b \<longleftrightarrow> a = b"
  by (simp add: driver_name_def)

lemma registry_ok_names:
  "registry_ok sha reg \<Longrightarrow> driver_name h \<in> fst ` set (sql_drivers reg) \<longleftrightarrow> h \<in> set (registeredDrivers reg)"
proof -
  assume "registry_ok sha reg"
  then have "fst ` set (sql_drivers reg) = driver_name ` set (registeredDrivers reg)"
    unfolding registry_ok_def by (metis set_map)
  then show ?thesis by auto
qed

lemma ensureDriver_ok:
  assumes "registry_ok sha reg"
  shows "\<exists>reg'. ensureDriver sha sopts reg = (Returns (driver_name (opts_hash sha sopts)) None, reg')
    \<and> registry_ok sha reg' \<and> driver_name (opts_hash sha sopts) \<in> fst ` set (sql_drivers reg')
    \<and> set (sql_drivers reg) \<subseteq> set (sql_drivers reg')
    \<and> set (sql_drivers reg') \<subseteq> insert (driver_name (opts_hash sha sopts), sopts) (set (sql_drivers reg))
    \<and> (driver_name (opts_hash sha sopts) \<in> fst ` set (sql_drivers reg) \<longrightarrow> reg' = reg)"
proof (cases "opts_hash sha sopts \<in> set (registeredDrivers reg)")
  case True
  then show ?thesis using assms registry_ok_names [OF assms] by (auto simp: ensureDriver_def Let_def)
next
  case False
  then show ?thesis
    using assms registry_ok_names [OF assms, of "opts_hash sha sopts"]
    by (auto simp: ensureDriver_def Let_def registry_ok_def)
qed

text \<open>A driver is registered once and keeps the options of the first configuration.\<close>

lemma driver_of_name:
  assumes "registry_ok sha reg" and "(driver_name h, sopts) \<in> set (sql_drivers reg)"
  shows "map_of (sql_drivers reg) (driver_name h) = Some sopts"
proof -
  have "distinct (map driver_name (registeredDrivers reg))"
    using assms(1) by (simp add: registry_ok_def distinct_map inj_on_def)
  then have "distinct (map fst (sql_drivers reg))" using assms(1) by (simp add: registry_ok_def)
  then show ?thesis using assms(2) by (rule map_of_is_SomeI)
qed

text \<open>The truncated hash tells the options from those of the drivers that are registered.\<close>

definition no_collision :: "(string \<Rightarrow> nat list) \<Rightarrow> driver_registry \<Rightarrow> sqliteOptions \<Rightarrow> bool" where
  "no_collision sha reg sopts \<longleftrightarrow>
     (\<forall>(n, o') \<in> set (sql_drivers reg). opts_hash sha o' = opts_hash sha sopts \<longrightarrow> driver_text o' = driver_text sopts)"

lemma hook_of_driver:
  assumes "registry_ok sha reg" and "map_of (sql_drivers reg) (driver_name (opts_hash sha sopts)) = Some o'"
    and "no_collision sha reg sopts"
  shows "pragmaStatements o' = pragmaStatements sopts \<and> o_traceEnabled o' = o_traceEnabled sopts"
proof -
  have o': "(driver_name (opts_hash sha sopts), o') \<in> set (sql_drivers reg)" using assms(2) by (rule map_of_SomeD)
  then have "opts_hash sha o' = opts_hash sha sopts" using assms(1) by (auto simp: registry_ok_def)
  then have "driver_text o' = driver_text sopts" using assms(3) o' by (auto simp: no_collision_def)
  then show ?thesis by (rule driver_text_inj)
qed

section \<open>Opening a database\<close>

text \<open>The world between two operations: drivers in order, pools numbered below the counter.\<close>

definition world_ok :: "'f open_env \<Rightarrow> 'f os_world \<Rightarrow> bool" where
  "world_ok env w \<longleftrightarrow> registry_ok (sha256 env) (drivers w) \<and> (\<forall>h \<in> fst ` set (open_pools w). h < next_pool w)"

lemma os_mkdir_all_frame: "os_mkdir_all env dir w = (err, w1) \<Longrightarrow> \<exists>f. w1 = w\<lparr>fs := f\<rparr>"
  by (auto simp: os_mkdir_all_def split: option.splits if_splits intro: exI [of _ "fs w"])

lemma database_path_frame: "database_path env p w = (r, w1) \<Longrightarrow> \<exists>f. w1 = w\<lparr>fs := f\<rparr>"
  by (auto simp: database_path_def split: sum.splits if_splits prod.splits option.splits
      dest: os_mkdir_all_frame intro: exI [of _ "fs w"])

lemma ping_frame: "ping env k h p w = (err, w1) \<Longrightarrow> \<exists>f. w1 = w\<lparr>fs := f\<rparr>"
  by (auto simp: ping_def Let_def split: option.splits if_splits sum.splits intro: exI [of _ "fs w"])

lemma close_fresh_pair:
  assumes "\<forall>h \<in> fst ` set ps. h < n" and "open_pools w = (Suc n, r) # (n, wr) # ps"
    and "Read d = Some (Suc n)" "Write d = Some n"
  shows "\<exists>err. SQLiteDB_Close env d w = (Returns () err, w\<lparr>open_pools := ps\<rparr>)"
proof -
  have keep: "filter (\<lambda>p. fst p \<noteq> n) ps = ps" "filter (\<lambda>p. fst p \<noteq> Suc n) ps = ps"
    using assms(1) by (auto simp: filter_id_conv)
  have fresh: "n \<notin> fst ` set ps" "Suc n \<notin> fst ` set ps" using assms(1) by auto
  show ?thesis using assms(2-4) keep fresh by (simp add: SQLiteDB_Close_def close_pool_def)
qed

text \<open>The two pools a successful open leaves.\<close>

definition pools_of :: "'f open_env \<Rightarrow> sqliteOptions \<Rightarrow> string \<Rightarrow> nat \<Rightarrow> (nat \<times> pool) list" where
  "pools_of env sopts dbp n =
     (let p = \<lparr>pool_driver = driver_name (opts_hash (sha256 env) sopts), pool_dsn = ''file:'' @ dbp,
               pool_max_open = 1, pool_idle = minute\<rparr>
      in [(Suc n, p\<lparr>pool_max_open := o_maxReaderConns sopts\<rparr>), (n, p)])"

lemma check_connections_cases:
  assumes "\<forall>h \<in> fst ` set ps. h < n" and "open_pools w = (Suc n, r) # (n, wr) # ps"
    and "Read db = Some (Suc n)" "Write db = Some n"
    and "check_connections env db n (Suc n) w = (res, w')"
  shows "(\<exists>err f. res = Returns None (Some err) \<and> w' = w\<lparr>fs := f, open_pools := ps\<rparr>)
    \<or> (\<exists>f mode s0. res = Returns (Some db) None \<and> w' = w\<lparr>fs := f\<rparr> \<and> journal_query env = Inr mode
         \<and> equal_fold mode (journal_text (o_journalMode (opts db)))
         \<and> new_connection env 0 n w = Inr s0)"
proof -
  have fail: "\<exists>err' f'. res = Returns None (Some err') \<and> w' = w\<lparr>fs := f', open_pools := ps\<rparr>"
    if "close_and_fail env db err (w\<lparr>fs := f\<rparr>) = (res, w')" for err f
  proof -
    have "open_pools (w\<lparr>fs := f\<rparr>) = (Suc n, r) # (n, wr) # ps" using assms(2) by simp
    from close_fresh_pair [OF assms(1) this assms(3,4), of env] obtain e where
      "SQLiteDB_Close env db (w\<lparr>fs := f\<rparr>) = (Returns () e, w\<lparr>fs := f, open_pools := ps\<rparr>)" by blast
    then show ?thesis using that by (auto simp: close_and_fail_def)
  qed
  obtain e1 w1 where p1: "ping env 0 n (DBPath db) w = (e1, w1)" by fastforce
  obtain f1 where w1: "w1 = w\<lparr>fs := f1\<rparr>" using ping_frame [OF p1] by blast
  obtain e2 w2 where p2: "ping env 1 (Suc n) (DBPath db) w1 = (e2, w2)" by fastforce
  obtain f2 where w2: "w2 = w\<lparr>fs := f2\<rparr>" using ping_frame [OF p2] w1 by auto
  show ?thesis
  proof (cases e1)
    case (Some e)
    then show ?thesis using assms(5) p1 w1 fail by (auto simp: check_connections_def)
  next
    case None
    then obtain s0 where s0: "new_connection env 0 n w = Inr s0"
      using p1 by (auto simp: ping_def Let_def split: option.splits sum.splits)
    show ?thesis
    proof (cases e2)
      case (Some e)
      then show ?thesis using assms(5) None p1 p2 w2 fail by (auto simp: check_connections_def)
    next
      case e2: None
      show ?thesis
        using assms(5) None e2 p1 p2 w2 fail s0
        by (auto simp: check_connections_def split: sum.splits if_splits)
    qed
  qed
qed

lemma sql_open_known:
  "name \<in> fst ` set (sql_drivers (drivers w)) \<Longrightarrow> connector_fault env k = None \<Longrightarrow>
     sql_open env k name dsn mx w =
       (Inr (next_pool w),
        w\<lparr>open_pools := (next_pool w, \<lparr>pool_driver = name, pool_dsn = dsn, pool_max_open = mx, pool_idle = minute\<rparr>)
             # open_pools w, next_pool := next_pool w + 1\<rparr>)"
  by (simp add: sql_open_def)

text \<open>The path to the checks: what the world is when both pools are there.\<close>

lemma NewSQLiteDB_steps:
  assumes "world_ok env w" and "\<forall>k. connector_fault env k = None" and "NewSQLiteDB env dbPath options w = (res, w')"
  defines "n \<equiv> next_pool w"
  shows "(\<exists>err f. res = Returns None (Some err) \<and> w' = w\<lparr>fs := f\<rparr>)
    \<or> (\<exists>sopts dbp f reg. apply_options options default_options = Inr sopts
         \<and> registry_ok (sha256 env) reg \<and> driver_name (opts_hash (sha256 env) sopts) \<in> fst ` set (sql_drivers reg)
         \<and> set (sql_drivers reg) \<subseteq> insert (driver_name (opts_hash (sha256 env) sopts), sopts) (set (sql_drivers (drivers w)))
         \<and> check_connections env \<lparr>DBPath = dbp, Read = Some (Suc n), Write = Some n,
                QueryTimeout = o_queryTimeout sopts, opts = sopts\<rparr> n (Suc n)
             (w\<lparr>fs := f, drivers := reg, open_pools := pools_of env sopts dbp n @ open_pools w, next_pool := Suc (Suc n)\<rparr>)
           = (res, w'))"
proof (cases "apply_options options default_options")
  case (Inl err)
  then show ?thesis using assms(3) by (auto simp: NewSQLiteDB_def intro: exI [of _ "fs w"])
next
  case (Inr sopts)
  obtain r w1 where dp: "database_path env dbPath w = (r, w1)" by fastforce
  obtain f where w1: "w1 = w\<lparr>fs := f\<rparr>" using database_path_frame [OF dp] by blast
  show ?thesis
  proof (cases "(\<exists>err. r = Inl err) \<or> (o_traceEnabled sopts \<and> \<not> traceSupported env)")
    case True
    then show ?thesis using assms(3) Inr dp w1 by (auto simp: NewSQLiteDB_def split: sum.splits)
  next
    case False
    then obtain dbp where r: "r = Inr dbp" by (cases r) auto
    let ?name = "driver_name (opts_hash (sha256 env) sopts)"
    have "registry_ok (sha256 env) (drivers w1)" using assms(1) w1 by (simp add: world_ok_def)
    from ensureDriver_ok [OF this, of sopts] obtain reg where
      reg: "ensureDriver (sha256 env) sopts (drivers w1) = (Returns ?name None, reg)"
        "registry_ok (sha256 env) reg" "?name \<in> fst ` set (sql_drivers reg)"
        "set (sql_drivers reg) \<subseteq> insert (?name, sopts) (set (sql_drivers (drivers w1)))" by blast
    have "check_connections env \<lparr>DBPath = dbp, Read = Some (Suc n), Write = Some n,
                QueryTimeout = o_queryTimeout sopts, opts = sopts\<rparr> n (Suc n)
             (w\<lparr>fs := f, drivers := reg, open_pools := pools_of env sopts dbp n @ open_pools w, next_pool := Suc (Suc n)\<rparr>)
           = (res, w')"
    proof -
      have en: "ensureDriver (sha256 env) sopts (drivers w) = (Returns ?name None, reg)" using reg(1) w1 by simp
      have ck: "\<not> (o_traceEnabled sopts \<and> \<not> traceSupported env)" using False by simp
      show ?thesis
        using assms(3)
        unfolding NewSQLiteDB_def Inr sum.case dp [unfolded r w1] prod.case if_not_P [OF ck]
        by (simp add: en sql_open_known reg(3) assms(2) Let_def pools_of_def n_def)
    qed
    moreover have "set (sql_drivers reg) \<subseteq> insert (?name, sopts) (set (sql_drivers (drivers w)))" using reg(4) w1 by simp
    ultimately show ?thesis using Inr reg(2,3) by blast
  qed
qed

text \<open>What a connection of a pool on such a driver is set up with.\<close>

lemma new_connection_setup:
  assumes "new_connection env k h w = Inr s" and "map_of (open_pools w) h = Some p"
    and "pool_driver p = driver_name (opts_hash sha sopts)" and "registry_ok sha (drivers w)"
    and "no_collision sha (drivers w) sopts"
  shows "cs_pragmas s = pragmaStatements sopts \<and> (cs_trace s \<noteq> None \<longleftrightarrow> o_traceEnabled sopts)"
proof -
  obtain o' where o': "map_of (sql_drivers (drivers w)) (driver_name (opts_hash sha sopts)) = Some o'"
    "connect_hook (traceSupported env) (hook_fault env k) (set_trace_fault env k) o' = Inr s"
    using assms(1-3) by (auto simp: new_connection_def split: option.splits)
  note hook_of_driver [OF assms(4) o'(1) assms(5)]
  then show ?thesis
    using o'(2) by (auto simp: connect_hook_def configureTrace_def split: option.splits if_splits sum.splits)
qed

text \<open>What a successful open has established.\<close>

definition opened :: "'f open_env \<Rightarrow> SQLiteOption list \<Rightarrow> 'f os_world \<Rightarrow> SQLiteDB \<Rightarrow> 'f os_world \<Rightarrow> bool" where
  "opened env options w db w' \<longleftrightarrow>
     apply_options options default_options = Inr (opts db)
     \<and> Write db = Some (next_pool w) \<and> Read db = Some (Suc (next_pool w))
     \<and> open_pools w' = pools_of env (opts db) (DBPath db) (next_pool w) @ open_pools w
     \<and> set (sql_drivers (drivers w')) \<subseteq>
         insert (driver_name (opts_hash (sha256 env) (opts db)), opts db) (set (sql_drivers (drivers w)))
     \<and> (\<exists>mode. journal_query env = Inr mode \<and> equal_fold mode (journal_text (o_journalMode (opts db))))"

lemma NewSQLiteDB_cases:
  assumes "world_ok env w" and "\<forall>k. connector_fault env k = None" and "NewSQLiteDB env dbPath options w = (res, w')"
  shows "world_ok env w' \<and> ((\<exists>err. res = Returns None (Some err) \<and> open_pools w' = open_pools w)
    \<or> (\<exists>db. res = Returns (Some db) None \<and> opened env options w db w'))"
proof -
  let ?n = "next_pool w"
  have low: "\<forall>h \<in> fst ` set (open_pools w). h < ?n" using assms(1) by (simp add: world_ok_def)
  then have low2: "\<forall>h \<in> fst ` set (open_pools w). h < Suc (Suc ?n)" by auto
  from NewSQLiteDB_steps [OF assms] show ?thesis
  proof (elim disjE exE conjE)
    fix err f assume "res = Returns None (Some err)" "w' = w\<lparr>fs := f\<rparr>"
    then show ?thesis using assms(1) by (simp add: world_ok_def)
  next
    fix sopts dbp f reg
    let ?db = "\<lparr>DBPath = dbp, Read = Some (Suc ?n), Write = Some ?n, QueryTimeout = o_queryTimeout sopts, opts = sopts\<rparr>"
    let ?w = "w\<lparr>fs := f, drivers := reg, open_pools := pools_of env sopts dbp ?n @ open_pools w, next_pool := Suc (Suc ?n)\<rparr>"
    assume ap: "apply_options options default_options = Inr sopts" and reg: "registry_ok (sha256 env) reg"
      and new: "set (sql_drivers reg) \<subseteq> insert (driver_name (opts_hash (sha256 env) sopts), sopts) (set (sql_drivers (drivers w)))"
      and chk: "check_connections env ?db ?n (Suc ?n) ?w = (res, w')"
    obtain wr r where ps: "open_pools ?w = (Suc ?n, r) # (?n, wr) # open_pools w"
      by (simp add: pools_of_def Let_def)
    from check_connections_cases [OF low ps _ _ chk] consider
        (failed) err g where "res = Returns None (Some err)" "w' = ?w\<lparr>fs := g, open_pools := open_pools w\<rparr>"
      | (done_) g mode where "res = Returns (Some ?db) None" "w' = ?w\<lparr>fs := g\<rparr>" "journal_query env = Inr mode"
          "equal_fold mode (journal_text (o_journalMode sopts))" by auto
    then show ?thesis
    proof cases
      case failed
      then show ?thesis using reg low2 by (simp add: world_ok_def)
    next
      case done_
      then have "opened env options w ?db w'" using ap new by (simp add: opened_def)
      moreover have "world_ok env w'" using reg low2 done_(2) by (auto simp: world_ok_def pools_of_def Let_def)
      ultimately show ?thesis using done_(1) by blast
    qed
  qed
qed

lemma opened_connection:
  assumes "opened env options w db w'" and "world_ok env w'" and "Some h \<in> {Write db, Read db}"
    and "new_connection env' k h w' = Inr s"
    and "no_collision (sha256 env) (drivers w) (opts db)"
  shows "cs_pragmas s = pragmaStatements (opts db) \<and> (cs_trace s \<noteq> None \<longleftrightarrow> o_traceEnabled (opts db))"
proof -
  have "\<exists>p. map_of (open_pools w') h = Some p \<and> pool_driver p = driver_name (opts_hash (sha256 env) (opts db))"
    using assms(1,3) by (auto simp: opened_def pools_of_def Let_def)
  then obtain p where p: "map_of (open_pools w') h = Some p" "pool_driver p = driver_name (opts_hash (sha256 env) (opts db))"
    by blast
  have "registry_ok (sha256 env) (drivers w')" using assms(2) by (simp add: world_ok_def)
  moreover have "no_collision (sha256 env) (drivers w') (opts db)"
    using assms(1,5) by (auto simp: no_collision_def opened_def)
  ultimately show ?thesis by (rule new_connection_setup [OF assms(4) p])
qed

text \<open>
  C15: Opening a database leaves everything or nothing. \<open>NewSQLiteDB\<close> never panics while the driver
  package accepts the file name; when it reports an error no pool stays open; when it succeeds the
  options were all accepted, the write pool has one connection and the read pool the number asked
  for, the engine reports the journal mode asked for, and every connection either pool makes later
  is set up with exactly the pragmas of the options, provided the truncated hash does not take them
  for those of another driver.
\<close>

theorem NewSQLiteDB_all_or_nothing:
  assumes "world_ok env w" and "\<forall>k. connector_fault env k = None"
    and "\<forall>sopts. apply_options options default_options = Inr sopts \<longrightarrow> no_collision (sha256 env) (drivers w) sopts"
  shows "case NewSQLiteDB env dbPath options w of (ret, w') \<Rightarrow> world_ok env w' \<and>
    (case ret of
       Returns (Some db) None \<Rightarrow>
         apply_options options default_options = Inr (opts db)
         \<and> Write db = Some (next_pool w) \<and> Read db = Some (Suc (next_pool w))
         \<and> open_pools w' = pools_of env (opts db) (DBPath db) (next_pool w) @ open_pools w
         \<and> (\<exists>mode. journal_query env = Inr mode \<and> equal_fold mode (journal_text (o_journalMode (opts db))))
         \<and> (\<forall>env' k h s. Some h \<in> {Write db, Read db} \<and> new_connection env' k h w' = Inr s \<longrightarrow>
              cs_pragmas s = pragmaStatements (opts db) \<and> (cs_trace s \<noteq> None \<longleftrightarrow> o_traceEnabled (opts db)))
     | Returns None (Some err) \<Rightarrow> open_pools w' = open_pools w
     | _ \<Rightarrow> False)"
proof (cases "NewSQLiteDB env dbPath options w")
  case (Pair res w')
  from NewSQLiteDB_cases [OF assms(1,2) Pair] show ?thesis
  proof (elim conjE disjE exE)
    fix db assume ok: "world_ok env w'" "res = Returns (Some db) None" "opened env options w db w'"
    have "\<forall>env' k h s. Some h \<in> {Write db, Read db} \<and> new_connection env' k h w' = Inr s \<longrightarrow>
        cs_pragmas s = pragmaStatements (opts db) \<and> (cs_trace s \<noteq> None \<longleftrightarrow> o_traceEnabled (opts db))"
      using opened_connection [OF ok(3,1)] assms(3) ok(3) unfolding opened_def by blast
    with ok show ?thesis unfolding Pair opened_def prod.case by simp
  qed (simp add: Pair)
qed

section \<open>The files\<close>

text \<open>A path stays the name of one file.\<close>

lemma dir_prefixes_lengths:
  "sorted_wrt (\<lambda>x y. length x < length y) (map (join ''/'') (dir_prefixes es)) \<and> [] \<notin> set (dir_prefixes es)"
proof (induction es)
  case (Cons e es)
  have j: "join ''/'' (e # p) = e @ ''/'' @ join ''/'' p" if "p \<in> set (dir_prefixes es)" for p
  proof -
    have "p \<noteq> []" using that Cons by auto
    then show ?thesis by (cases p) simp_all
  qed
  then have m: "map (join ''/'') (map ((#) e) (dir_prefixes es)) = map (\<lambda>q. e @ ''/'' @ q) (map (join ''/'') (dir_prefixes es))"
    by simp
  have "sorted_wrt (\<lambda>x y. length x < length y) (map (\<lambda>q. e @ ''/'' @ q) qs)" if "sorted_wrt (\<lambda>x y. length x < length y) qs" for qs
    using that by (simp add: sorted_wrt_map)
  moreover have "length e < length q" if "q \<in> set (map (\<lambda>q. e @ ''/'' @ q) (map (join ''/'') (dir_prefixes es)))" for q
    using that by auto
  ultimately show ?case using Cons by (simp only: dir_prefixes.simps list.map m append_Cons append_Nil sorted_wrt.simps list.set) auto
qed simp

lemma distinct_ancestors: "distinct (ancestors d)"
proof -
  have "distinct xs" if "sorted_wrt (\<lambda>x y. length x < length y) xs" for xs :: "string list"
    using that by (induction xs) auto
  then show ?thesis using dir_prefixes_lengths by (auto simp: ancestors_def)
qed

definition one_per_path :: "'f os_world \<Rightarrow> bool" where
  "one_per_path w \<longleftrightarrow> distinct (map fst (fs w))"

lemma one_per_path_mkdir: "os_mkdir_all env d w = (err, w1) \<Longrightarrow> one_per_path w \<Longrightarrow> one_per_path w1"
  using distinct_ancestors [of d]
  by (auto simp: os_mkdir_all_def one_per_path_def comp_def map_of_eq_None_iff split: option.splits if_splits)

lemma one_per_path_database_path: "database_path env p w = (r, w1) \<Longrightarrow> one_per_path w \<Longrightarrow> one_per_path w1"
  by (auto simp: database_path_def split: sum.splits if_splits prod.splits option.splits dest: one_per_path_mkdir)

lemma one_per_path_ping: "ping env k h p w = (err, w1) \<Longrightarrow> one_per_path w \<Longrightarrow> one_per_path w1"
  by (auto simp: ping_def Let_def one_per_path_def map_of_eq_None_iff split: option.splits if_splits sum.splits)

lemma one_per_path_world [simp]:
  "one_per_path (w\<lparr>drivers := reg\<rparr>) = one_per_path w" "one_per_path (w\<lparr>open_pools := ps\<rparr>) = one_per_path w"
  "one_per_path (w\<lparr>next_pool := n\<rparr>) = one_per_path w"
  by (simp_all add: one_per_path_def)

lemma sql_open_paths: "sql_open env k name dsn mx w = (r, w1) \<Longrightarrow> one_per_path w1 = one_per_path w"
  by (auto simp: sql_open_def split: if_splits option.splits)

lemma one_per_path_checks:
  assumes "check_connections env db wh rh w = (Returns (Some db') None, w1)" "one_per_path w"
  shows "one_per_path w1"
proof -
  obtain e1 v1 where p1: "ping env 0 wh (DBPath db) w = (e1, v1)" by fastforce
  obtain e2 v2 where p2: "ping env 1 rh (DBPath db) v1 = (e2, v2)" by fastforce
  have "w1 = v2" using assms(1) p1 p2
    by (auto simp: check_connections_def close_and_fail_def split: option.splits sum.splits if_splits prod.splits go_ret.splits)
  then show ?thesis using one_per_path_ping [OF p2] one_per_path_ping [OF p1] assms(2) by blast
qed

lemma one_per_path_open:
  assumes "NewSQLiteDB env dbPath options w = (Returns (Some db) None, w')" "one_per_path w"
  shows "one_per_path w'"
proof -
  obtain sopts where o': "apply_options options default_options = Inr sopts"
    using assms(1) by (cases "apply_options options default_options") (simp_all add: NewSQLiteDB_def)
  obtain r w1 where dp: "database_path env dbPath w = (r, w1)" by fastforce
  obtain dbp where r: "r = Inr dbp" using assms(1) o' dp by (cases r) (simp_all add: NewSQLiteDB_def)
  obtain name u reg where en: "ensureDriver (sha256 env) sopts (drivers w1) = (Returns name u, reg)"
    using assms(1) o' dp r by (auto simp: NewSQLiteDB_def split: if_splits prod.splits go_ret.splits)
  obtain x w2 where s1: "sql_open env 0 name (''file:'' @ dbp) 1 (w1\<lparr>drivers := reg\<rparr>) = (x, w2)" by fastforce
  obtain y w3 where s2: "sql_open env 1 name (''file:'' @ dbp) (o_maxReaderConns sopts) w2 = (y, w3)" by fastforce
  obtain d wh rh where chk: "check_connections env d wh rh w3 = (Returns (Some db) None, w')"
    using assms(1) o' dp r en s1 s2
    by (auto simp: NewSQLiteDB_def Let_def close_and_fail_def split: if_splits sum.splits prod.splits go_ret.splits)
  have "one_per_path w3"
    using one_per_path_database_path [OF dp assms(2)] sql_open_paths [OF s1] sql_open_paths [OF s2] by simp
  with one_per_path_checks [OF chk] show ?thesis .
qed

section \<open>An example\<close>

definition calm_open :: "unit open_env" where
  "calm_open = \<lparr>homedir_expand = Inr, stat_fault = None, mkdir_fault = None, sha256 = map of_char, traceSupported = False,
     connector_fault = (\<lambda>_. None), file_fault = (\<lambda>_. None), hook_fault = (\<lambda>_ _. None), set_trace_fault = (\<lambda>_. None),
     journal_query = Inr ''wal'', pool_close_fault = (\<lambda>_. None), created_file = ()\<rparr>"

definition empty_world :: "unit os_world" where
  "empty_world = \<lparr>fs = [], drivers = \<lparr>registeredDrivers = [], sql_drivers = []\<rparr>, open_pools = [], next_pool = 0\<rparr>"

lemma empty_world_ok [simp]: "world_ok env empty_world" "no_collision sha (drivers empty_world) o'"
  "open_pools empty_world = []" "next_pool empty_world = 0"
  by (simp_all add: world_ok_def empty_world_def registry_ok_def no_collision_def)

lemma calm_open_simps [simp]: "connector_fault calm_open = (\<lambda>_. None)" "journal_query calm_open = Inr ''wal''"
  "homedir_expand calm_open = Inr" "stat_fault calm_open = None" "mkdir_fault calm_open = None"
  "file_fault calm_open = (\<lambda>_. None)" "hook_fault calm_open = (\<lambda>_ _. None)"
  by (simp_all add: calm_open_def)

lemma exec_pragmas_calm [simp]: "exec_pragmas (\<lambda>_. None) i ps = None"
  by (induction ps arbitrary: i) simp_all

lemma wal_fold: "equal_fold ''wal'' ''WAL''"
  by (simp add: equal_fold_def runes_ascii is_ascii_def fold_rune_def in_range_def)

lemma calm_open_run:
  assumes "apply_options options default_options = Inr o'" and "o_journalMode o' = JournalModeWAL" "\<not> o_traceEnabled o'"
  shows "\<exists>db w'. NewSQLiteDB calm_open ''db'' options empty_world = (Returns (Some db) None, w') \<and> opts db = o'
     \<and> Write db = Some 0 \<and> (\<exists>s. new_connection calm_open 0 0 w' = Inr s)"
proof -
  have "ancestors (path_dir ''db'') = [''.'']"
    by (simp add: path_dir_def ancestors_def path_clean_def path_rooted_def is_slash_def)
  then show ?thesis using assms
    by (simp add: NewSQLiteDB_def database_path_def os_stat_def os_mkdir_all_def empty_world_def ensureDriver_def Let_def
        sql_open_def check_connections_def ping_def new_connection_def connect_hook_def wal_fold)
qed

lemma calm_open_example:
  "\<exists>db w'. NewSQLiteDB calm_open ''db'' [WithCacheSize 5] empty_world = (Returns (Some db) None, w')
     \<and> opts db = default_options\<lparr>o_cacheSize := 5\<rparr>"
  using calm_open_run [of "[WithCacheSize 5]" "default_options\<lparr>o_cacheSize := 5\<rparr>"]
  by (auto simp: WithCacheSize_def default_options_def)

theorem NewSQLiteDB_all_or_nothing_witness:
  "\<exists>db w'. NewSQLiteDB calm_open ''db'' [WithCacheSize 5] empty_world = (Returns (Some db) None, w')
     \<and> open_pools w' = pools_of calm_open (default_options\<lparr>o_cacheSize := 5\<rparr>) (DBPath db) 0"
proof -
  obtain db w' where run: "NewSQLiteDB calm_open ''db'' [WithCacheSize 5] empty_world = (Returns (Some db) None, w')"
    "opts db = default_options\<lparr>o_cacheSize := 5\<rparr>" using calm_open_example by blast
  have "\<forall>k. connector_fault calm_open k = None" by simp
  from NewSQLiteDB_all_or_nothing [OF empty_world_ok(1) this, of "[WithCacheSize 5]" "''db''"] run
  show ?thesis by simp
qed

end
