(* ===== verification/Config_Props.thy ===== *)
theory Config_Props
  imports Config Sqlite_Props
begin

text \<open>
  A configuration that is accepted governs the connections: what \<open>config.json\<close> says is what the
  engine is told when a connection is made. And the defaults are accepted.
\<close>

section \<open>The migrations of the notes databases\<close>

definition notes_db_migrations :: "migration list" where
  "notes_db_migrations =
     map (\<lambda>(v, f, nm). \<lparr>Version = v, upFile = ''sql/notes-db/'' @ f @ ''.up.sql'',
                         downFile = ''sql/notes-db/'' @ f @ ''.down.sql'', Name = nm\<rparr>)
       [(1, ''0001_bootstrap'', ''bootstrap''), (2, ''0002_note-view'', ''note-view''),
        (3, ''0003_notes_fts'', ''notes_fts''), (4, ''0004_reference-notes'', ''reference-notes''),
        (5, ''0005_bookmarks'', ''bookmarks''), (6, ''0006_notes-details-v2'', ''notes-details-v2'')]"

lemma notes_db_matches:
  "migration_match ''0001_bootstrap.up.sql'' = Some (''0001'', ''bootstrap'', ''up'')"
  "migration_match ''0001_bootstrap.down.sql'' = Some (''0001'', ''bootstrap'', ''down'')"
  "migration_match ''0002_note-view.up.sql'' = Some (''0002'', ''note-view'', ''up'')"
  "migration_match ''0002_note-view.down.sql'' = Some (''0002'', ''note-view'', ''down'')"
  "migration_match ''0003_notes_fts.up.sql'' = Some (''0003'', ''notes_fts'', ''up'')"
  "migration_match ''0003_notes_fts.down.sql'' = Some (''0003'', ''notes_fts'', ''down'')"
  "migration_match ''0004_reference-notes.up.sql'' = Some (''0004'', ''reference-notes'', ''up'')"
  "migration_match ''0004_reference-notes.down.sql'' = Some (''0004'', ''reference-notes'', ''down'')"
  "migration_match ''0005_bookmarks.up.sql'' = Some (''0005'', ''bookmarks'', ''up'')"
  "migration_match ''0005_bookmarks.down.sql'' = Some (''0005'', ''bookmarks'', ''down'')"
  "migration_match ''0006_notes-details-v2.up.sql'' = Some (''0006'', ''notes-details-v2'', ''up'')"
  "migration_match ''0006_notes-details-v2.down.sql'' = Some (''0006'', ''notes-details-v2'', ''down'')"
  using migration_match_up [of "''0001''" "''bootstrap''"] migration_match_down [of "''0001''" "''bootstrap''"]
    migration_match_up [of "''0002''" "''note-view''"] migration_match_down [of "''0002''" "''note-view''"]
    migration_match_up [of "''0003''" "''notes_fts''"] migration_match_down [of "''0003''" "''notes_fts''"]
    migration_match_up [of "''0004''" "''reference-notes''"] migration_match_down [of "''0004''" "''reference-notes''"]
    migration_match_up [of "''0005''" "''bookmarks''"] migration_match_down [of "''0005''" "''bookmarks''"]
    migration_match_up [of "''0006''" "''notes-details-v2''"] migration_match_down [of "''0006''" "''notes-details-v2''"]
  by (simp_all add: is_digit_def)

lemma notes_db_numbers:
  "parse_int64 ''0001'' = Inr 1" "parse_int64 ''0002'' = Inr 2" "parse_int64 ''0003'' = Inr 3"
  "parse_int64 ''0004'' = Inr 4" "parse_int64 ''0005'' = Inr 5" "parse_int64 ''0006'' = Inr 6"
  by (simp_all add: parse_int64_def parse_uint64_def is_digit_def digit_val_def)

lemma Load_notes_db: "Load embedded_walk ''sql/notes-db'' = Returns notes_db_migrations None"
  by (simp add: Load_def embedded_walk_def notes_db_walk_def sql_file_def load_entry_def
      notes_db_matches notes_db_numbers FindVersionIndex_def zero_migration_def
      notes_db_migrations_def Let_def)

section \<open>From the configuration to the connections\<close>

lemma accepted_config:
  assumes "ConfigToSQLiteConnManagerConfig env conf = Returns (Some c) None"
  shows "expand_home env (DataDirectory conf) = Inr (DBDirectory c) \<and> IndexDBFileName c = ConfIndexDBFileName (SQLiteConf conf)
    \<and> Load (embedded env) (ConfNotesDBMigrations (SQLiteConf conf)) = Returns (NotesDBMigrations c) None
    \<and> Load (embedded env) (ConfIndexDBMigrations (SQLiteConf conf)) = Returns (IndexDBMigrations c) None
    \<and> conf_options (SQLiteConf conf) = Inr (SQLiteOptions c)"
  using assms
  by (auto simp: ConfigToSQLiteConnManagerConfig_def split: if_splits sum.splits go_ret.splits option.splits)

text \<open>
  C16: An accepted configuration governs the connections. When \<open>ConfigToSQLiteConnManagerConfig\<close>
  accepts a configuration, the manager has its data directory with the home directory put in, its
  name of the index file, the migrations loaded from its directory for the notes and those loaded
  from its directory for the index; and every connection of a database opened with its options runs exactly these six
  pragmas, with the words of the configuration (or WAL, NORMAL and MEMORY for an empty one) and its
  numbers, and traces exactly when the configuration says so.
\<close>

theorem config_governs_connections:
  assumes "ConfigToSQLiteConnManagerConfig cenv conf = Returns (Some c) None"
    and "world_ok env w" and "\<forall>k. connector_fault env k = None"
    and "NewSQLiteDB env path (SQLiteOptions c) w = (Returns (Some db) None, w')"
    and "Some h \<in> {Write db, Read db}" and "new_connection env' k h w' = Inr s"
    and "\<forall>sopts. apply_options (SQLiteOptions c) default_options = Inr sopts \<longrightarrow> no_collision (sha256 env) (drivers w) sopts"
  shows "\<exists>j sy ts. word_or JournalModeFromString (JournalMode (SQLiteConf conf)) JournalModeWAL = Inr j
    \<and> word_or SynchronousFromString (Synchronous (SQLiteConf conf)) SynchronousNormal = Inr sy
    \<and> word_or TempStoreFromString (TempStore (SQLiteConf conf)) TempStoreMemory = Inr ts
    \<and> cs_pragmas s =
       [''PRAGMA journal_mode = '' @ journal_text j @ '';'',
        ''PRAGMA synchronous = '' @ synchronous_text sy @ '';'',
        ''PRAGMA temp_store = '' @ temp_store_text ts @ '';'',
        ''PRAGMA busy_timeout = '' @ show_int (BusyTimeout (SQLiteConf conf)) @ '';'',
        ''PRAGMA cache_size = '' @ show_int (CacheSize (SQLiteConf conf)) @ '';'',
        ''PRAGMA foreign_keys = '' @ show_bool (ForeignKeys (SQLiteConf conf)) @ '';'']
    \<and> (cs_trace s \<noteq> None \<longleftrightarrow> Trace (SQLiteConf conf))
    \<and> expand_home cenv (DataDirectory conf) = Inr (DBDirectory c)
    \<and> IndexDBFileName c = ConfIndexDBFileName (SQLiteConf conf)
    \<and> Load (embedded cenv) (ConfNotesDBMigrations (SQLiteConf conf)) = Returns (NotesDBMigrations c) None
    \<and> Load (embedded cenv) (ConfIndexDBMigrations (SQLiteConf conf)) = Returns (IndexDBMigrations c) None"
proof -
  note acc = accepted_config [OF assms(1)]
  then obtain j sy ts where w: "word_or JournalModeFromString (JournalMode (SQLiteConf conf)) JournalModeWAL = Inr j"
      "word_or SynchronousFromString (Synchronous (SQLiteConf conf)) SynchronousNormal = Inr sy"
      "word_or TempStoreFromString (TempStore (SQLiteConf conf)) TempStoreMemory = Inr ts"
    and ap: "apply_options (SQLiteOptions c) default_options = Inr (settings_of (SQLiteConf conf) j sy ts)"
    using conf_options_settings [of "SQLiteConf conf" "SQLiteOptions c"] by blast
  from NewSQLiteDB_cases [OF assms(2,3,4)] have op: "opened env (SQLiteOptions c) w db w'" and ok: "world_ok env w'" by auto
  then have o': "opts db = settings_of (SQLiteConf conf) j sy ts" using ap by (simp add: opened_def)
  have "no_collision (sha256 env) (drivers w) (opts db)" using assms(7) ap o' by simp
  from opened_connection [OF op ok assms(5,6) this] w acc show ?thesis
    by (auto simp: o' settings_of_def pragmaStatements_def)
qed

section \<open>The defaults\<close>

lemma default_fields [simp]:
  "SQLiteConf (DefaultConfig env) = default_sqlite" "DataDirectory (DefaultConfig env) = DefaultDataDirectory env"
  "ConfNotesDBMigrations default_sqlite = ''sql/notes-db''" "ConfIndexDBMigrations default_sqlite = ''sql/index-db''"
  "ConfIndexDBFileName default_sqlite = ''index.db''"
  by (simp_all add: DefaultConfig_def default_sqlite_def)

text \<open>
  The defaults are accepted and agree. For every environment of the process in which the home
  directory can be expanded, the default configuration is accepted for the manager, with the
  migrations that are embedded, six for the notes and two for the index, and its options are
  precisely the defaults of \<open>NewSQLiteDB\<close>; and it is accepted for the server, which listens on
  every address, port 6789, without TLS.
\<close>

lemma default_configuration_is_accepted:
  assumes "embedded env = embedded_walk" and "expand_home env (DefaultDataDirectory env) = Inr d"
  shows "(\<exists>os. ConfigToSQLiteConnManagerConfig env (DefaultConfig env)
        = Returns (Some \<lparr>DBDirectory = d, IndexDBFileName = ''index.db'', NotesDBMigrations = notes_db_migrations,
                        IndexDBMigrations = index_db_migrations, SQLiteOptions = os\<rparr>) None
      \<and> apply_options os default_options = Inr default_options)
    \<and> ConfigToServerConfig env (DefaultConfig env)
        = Inr \<lparr>SvHost = ''0.0.0.0'', SvPort = 6789, HTTPSEnabled = False, CertFile = [], KeyFile = [], SvDebug = False,
               IgnoredLoggingPaths = [[CHR 0x5C] @ ''/static'' @ [CHR 0x5C] @ ''/.*'']\<rparr>
    \<and> ValidSQLite (SQLiteConf (DefaultConfig env)) = None"
proof -
  have dd: "DefaultDataDirectory env \<noteq> []" by (auto simp: DefaultDataDirectory_def Let_def)
  have words: "JournalModeFromString ''WAL'' = Inr JournalModeWAL" "SynchronousFromString ''NORMAL'' = Inr SynchronousNormal"
    "TempStoreFromString ''MEMORY'' = Inr TempStoreMemory"
    using from_string_text(1) [of JournalModeWAL] from_string_text(2) [of SynchronousNormal]
      from_string_text(3) [of TempStoreMemory] by simp_all
  obtain os where os: "conf_options default_sqlite = Inr os"
    by (auto simp: conf_options_def default_sqlite_def word_option_def words)
  from conf_options_settings [OF os] have ap: "apply_options os default_options = Inr default_options"
    by (auto simp: default_sqlite_def word_or_def words settings_of_def default_options_def wrap64_def millisecond_def)
  have "ConfigToSQLiteConnManagerConfig env (DefaultConfig env)
        = Returns (Some \<lparr>DBDirectory = d, IndexDBFileName = ''index.db'', NotesDBMigrations = notes_db_migrations,
                        IndexDBMigrations = index_db_migrations, SQLiteOptions = os\<rparr>) None"
    using dd assms(2) os by (simp add: ConfigToSQLiteConnManagerConfig_def assms(1) Load_notes_db Load_index_db)
  moreover have "ValidSQLite default_sqlite = None" by (simp add: ValidSQLite_def default_sqlite_def words)
  ultimately show ?thesis using ap
    by (auto simp: ConfigToServerConfig_def DefaultConfig_def resolve_tls_def)
qed

section \<open>Examples\<close>

definition demo_conf_env :: conf_env where
  "demo_conf_env = \<lparr>getenv = (\<lambda>_. []), expand_home = Inr, getwd = Inr ''/'', file_stat = (\<lambda>_. None), embedded = embedded_walk\<rparr>"

lemma demo_conf_env_simps [simp]: "embedded demo_conf_env = embedded_walk" "expand_home demo_conf_env = Inr"
  by (simp_all add: demo_conf_env_def)

definition demo_config :: config where
  "demo_config = (DefaultConfig demo_conf_env)\<lparr>SQLiteConf := default_sqlite\<lparr>JournalMode := ''wal'', CacheSize := 5\<rparr>\<rparr>"

lemma demo_config_simps [simp]:
  "SQLiteConf demo_config = default_sqlite\<lparr>JournalMode := ''wal'', CacheSize := 5\<rparr>"
  "DataDirectory demo_config = DefaultDataDirectory demo_conf_env"
  by (simp_all add: demo_config_def)

lemma demo_words: "JournalModeFromString ''wal'' = Inr JournalModeWAL" "SynchronousFromString ''NORMAL'' = Inr SynchronousNormal"
  "TempStoreFromString ''MEMORY'' = Inr TempStoreMemory"
  by (simp_all add: JournalModeFromString_def SynchronousFromString_def TempStoreFromString_def from_string_eval)

lemma demo_config_accepted: "\<exists>c. ConfigToSQLiteConnManagerConfig demo_conf_env demo_config = Returns (Some c) None"
proof -
  have "DefaultDataDirectory demo_conf_env \<noteq> []" by (auto simp: DefaultDataDirectory_def Let_def)
  moreover obtain os where "conf_options (default_sqlite\<lparr>JournalMode := ''wal'', CacheSize := 5\<rparr>) = Inr os"
    by (auto simp: conf_options_def default_sqlite_def word_option_def demo_words)
  ultimately show ?thesis
    by (simp add: ConfigToSQLiteConnManagerConfig_def Load_notes_db Load_index_db)
qed

lemma five: "char_of (53::nat) = CHR ''5''"
  by code_simp

theorem config_governs_connections_witness:
  "\<exists>c db w' s. ConfigToSQLiteConnManagerConfig demo_conf_env demo_config = Returns (Some c) None
     \<and> Load (embedded demo_conf_env) ''sql/notes-db'' = Returns (NotesDBMigrations c) None
     \<and> Load (embedded demo_conf_env) ''sql/index-db'' = Returns (IndexDBMigrations c) None
     \<and> NewSQLiteDB calm_open ''db'' (SQLiteOptions c) empty_world = (Returns (Some db) None, w')
     \<and> new_connection calm_open 0 0 w' = Inr s \<and> cs_pragmas s ! 0 = ''PRAGMA journal_mode = WAL;''
     \<and> cs_pragmas s ! 4 = ''PRAGMA cache_size = 5;''"
proof -
  obtain c where c: "ConfigToSQLiteConnManagerConfig demo_conf_env demo_config = Returns (Some c) None"
    using demo_config_accepted by blast
  obtain j sy ts where "word_or JournalModeFromString ''wal'' JournalModeWAL = Inr j"
    and ap: "apply_options (SQLiteOptions c) default_options = Inr (settings_of (SQLiteConf demo_config) j sy ts)"
    using accepted_config [OF c] conf_options_settings [of "SQLiteConf demo_config" "SQLiteOptions c"]
    by (auto simp: default_sqlite_def)
  then have "j = JournalModeWAL" by (simp add: word_or_def demo_words)
  then obtain db w' s where run: "NewSQLiteDB calm_open ''db'' (SQLiteOptions c) empty_world = (Returns (Some db) None, w')"
      "Write db = Some 0" "new_connection calm_open 0 0 w' = Inr s"
    using calm_open_run [OF ap] by (auto simp: settings_of_def default_sqlite_def)
  have f: "\<forall>k. connector_fault calm_open k = None" by simp
  note governs = config_governs_connections [OF c empty_world_ok(1) f run(1), of 0 calm_open 0 s]
  have "Load (embedded demo_conf_env) ''sql/notes-db'' = Returns (NotesDBMigrations c) None
    \<and> Load (embedded demo_conf_env) ''sql/index-db'' = Returns (IndexDBMigrations c) None"
    using governs run(2,3) by auto
  moreover from governs run(2,3)
  have "cs_pragmas s ! 0 = ''PRAGMA journal_mode = WAL;'' \<and> cs_pragmas s ! 4 = ''PRAGMA cache_size = 5;''"
    by (auto simp: word_or_def demo_words default_sqlite_def show_int_def show_nat.simps digit_char_def five)
  ultimately show ?thesis using c run by blast
qed

end
