(* ===== verification/Web_Server.thy ===== *)
theory Web_Server
  imports Web_Claims Conn_Upgrade Conn_Life Conn_Props Session_Store Config_Props
begin

text \<open>
  \<open>web/server.go\<close>, \<open>web/assets/efs.go\<close> and the constructor of \<open>web/assets/renderer.go\<close>: what the
  server does before it takes requests and after the last one. The requests between are the runs
  \<open>server_run\<close> of the site. That \<open>wg.Wait\<close> returns just when the channel of commands is closed is
  the theory of the two goroutines of the manager.
\<close>

section \<open>Entity tags of the static files\<close>

text \<open>
  A call of the function given to \<open>fs.WalkDir\<close>: the path, whether it is a directory, and the error of
  the walk.
\<close>

type_synonym walk_call = "string \<times> bool \<times> go_error option"

definition etag_of :: "(string \<Rightarrow> nat list) \<Rightarrow> string \<Rightarrow> string" where
  "etag_of sha bytes = ''W/'' @ [CHR 0x22] @ hex_bytes (take 16 (sha bytes)) @ [CHR 0x22]"

fun etags_loop ::
    "(string \<Rightarrow> nat list) \<Rightarrow> (string \<Rightarrow> string outcome) \<Rightarrow> walk_call list \<Rightarrow> smap \<Rightarrow> smap outcome" where
  "etags_loop sha read [] etags = Inr etags"
| "etags_loop sha read ((path, isDir, err) # rest) etags =
     (case err of
        Some e \<Rightarrow> Inl e
      | None \<Rightarrow>
          if isDir then etags_loop sha read rest etags
          else (case read path of
                  Inl e \<Rightarrow> Inl e
                | Inr bytes \<Rightarrow> etags_loop sha read rest (AList.update (''/static/'' @ path) (etag_of sha bytes) etags)))"

definition ComputeStaticFilesEtags ::
    "(string \<Rightarrow> nat list) \<Rightarrow> (string \<Rightarrow> string outcome) \<Rightarrow> walk_call list \<Rightarrow> smap outcome" where
  "ComputeStaticFilesEtags sha read walk = etags_loop sha read walk []"

text \<open>Every file has the tag of its own content, and there is no other tag.\<close>

lemma etags_loop_done:
  "etags_loop sha read walk etags = Inr res \<Longrightarrow> distinct (map fst walk) \<Longrightarrow>
     \<forall>p. map_of res p = (case find (\<lambda>c. ''/static/'' @ fst c = p \<and> \<not> fst (snd c)) walk of
        Some c \<Rightarrow> (case read (fst c) of Inr b \<Rightarrow> Some (etag_of sha b) | Inl e \<Rightarrow> None) | None \<Rightarrow> map_of etags p)"
proof (induction sha read walk etags rule: etags_loop.induct)
  case (2 sha read path isDir err rest etags)
  have none: "err = None" using 2(3) by (cases err) simp_all
  show ?case
  proof (cases isDir)
    case True
    then show ?thesis using 2(1) [OF none True] 2(3,4) none by simp
  next
    case False
    then obtain b where b: "read path = Inr b" using 2(3) none by (auto split: sum.splits)
    have "find (\<lambda>c. ''/static/'' @ fst c = ''/static/'' @ path \<and> \<not> fst (snd c)) rest = None"
      using 2(4) by (auto simp: find_None_iff image_iff)
    then show ?thesis using 2(2) [OF none False b] 2(3,4) none False b by (auto simp: update_conv' split: option.split)
  qed
qed simp

section \<open>Starting\<close>

record server_env =
  se_templates :: "go_error option"  \<comment> \<open>\<open>ParseFS\<close> of the shared templates\<close>
  se_migrations :: "notes_db conn_env"
  se_setup_call :: call
  se_sha256 :: "string \<Rightarrow> nat list"
  se_static_walk :: "walk_call list"
  se_static_read :: "string \<Rightarrow> string outcome"
  se_shutdown :: "go_error option"
  se_stop :: "notes_db conn_env"

text \<open>\<open>NewHTMLRenderer\<close>: only the parsing of the shared templates can fail.\<close>

definition NewHTMLRenderer :: "server_env \<Rightarrow> bool \<Rightarrow> bool outcome" where
  "NewHTMLRenderer env debug = (case se_templates env of Some err \<Rightarrow> Inl err | None \<Rightarrow> Inr debug)"

text \<open>\<open>RunMigrations\<close> of the manager: the command through the channel, which is open.\<close>

definition RunMigrations :: "conn_conf \<Rightarrow> notes_db conn_env \<Rightarrow> notes_db manager \<Rightarrow> (go_error option \<times> notes_db manager) option" where
  "RunMigrations conf env m =
     map_option (\<lambda>(rep, m1). (SendReceiveError False rep, m1)) (serve conf env CmdCheckMigrations m)"

definition join_host_port :: "string \<Rightarrow> string \<Rightarrow> string" where
  "join_host_port host port =
     (if CHR '':'' \<in> set host then ''['' @ host @ '']:'' @ port else host @ '':'' @ port)"

text \<open>What the server listens with.\<close>

record serving =
  sv_addr :: string
  sv_setup :: bool
  sv_etags :: smap
  sv_store :: session_store

definition start_server ::
    "server_env \<Rightarrow> ServerConfig \<Rightarrow> conn_conf \<Rightarrow> notes_db manager \<Rightarrow> (serving outcome \<times> notes_db manager) option" where
  "start_server env sc conf m =
     (case NewHTMLRenderer env (SvDebug sc) of
        Inl err \<Rightarrow> Some (Inl err, m)
      | Inr _ \<Rightarrow>
          (case RunMigrations conf (se_migrations env) m of
             None \<Rightarrow> None
           | Some (Some err, m1) \<Rightarrow> Some (Inl err, m1)
           | Some (None, m1) \<Rightarrow>
               (case InitialSetupNeeded (se_setup_call env) (index m1) of
                  (_, Some err) \<Rightarrow> Some (Inl err, m1)
                | (initialSetupNeeded, None) \<Rightarrow>
                    (case ComputeStaticFilesEtags (se_sha256 env) (se_static_read env) (se_static_walk env) of
                       Inl err \<Rightarrow> Some (Inl err, m1)
                     | Inr etags \<Rightarrow>
                         Some (Inr \<lparr>sv_addr = join_host_port (SvHost sc) (show_nat (SvPort sc)),
                                    sv_setup = initialSetupNeeded, sv_etags = etags, sv_store = NewSessionStore\<rparr>, m1)))))"

section \<open>Ending\<close>

text \<open>
  How \<open>ListenAndServe\<close> ends: with an error, or with \<open>http.ErrServerClosed\<close> after a signal, when the
  shutdown goroutine works. An error of \<open>Shutdown\<close> is returned at once; what that goroutine still
  does is not waited for. Otherwise it stops the manager, drops the error of \<open>Stop\<close>, and waits for
  the goroutines of the manager: \<open>None\<close> is a server that never returns.
\<close>

datatype listen_end = ListenFailed go_error | ServerClosed

definition end_server :: "server_env \<Rightarrow> listen_end \<Rightarrow> notes_db manager \<Rightarrow> go_error option option \<times> notes_db manager" where
  "end_server env l m =
     (case l of
        ListenFailed err \<Rightarrow> (Some (Some err), m)
      | ServerClosed \<Rightarrow>
          (case se_shutdown env of
             Some err \<Rightarrow> (Some (Some err), m)
           | None \<Rightarrow> (case Stop_manager (se_stop env) m of (_, m1, closed) \<Rightarrow> (if closed then Some None else None, m1))))"

text \<open>
  \<open>RunServer\<close> as a relation: the requests \<open>rs\<close> in the order they are served, each with the
  environment of the configuration; how listening ends and the state of the manager then, or \<open>None\<close>
  when the server did not get that far; what \<open>RunServer\<close> returns; and the state it leaves.
\<close>

definition configured :: "ServerConfig \<Rightarrow> serving \<Rightarrow> 'ses web_env \<Rightarrow> bool" where
  "configured sc st wenv \<longleftrightarrow>
     we_debug wenv = SvDebug sc \<and> we_ignore wenv = IgnoredLoggingPaths sc \<and> we_etags wenv = sv_etags st"

inductive RunServer ::
    "server_env \<Rightarrow> ServerConfig \<Rightarrow> engine \<Rightarrow> conn_conf \<Rightarrow> notes_db manager \<Rightarrow> ('ses web_env \<times> request) list
       \<Rightarrow> (listen_end \<times> notes_db manager) option \<Rightarrow> go_error option option \<Rightarrow> notes_db manager \<Rightarrow> bool"
  for env sc en conf m where
  start_hangs: "start_server env sc conf m = None \<Longrightarrow> RunServer env sc en conf m [] None None m"
| start_fails: "start_server env sc conf m = Some (Inl err, m1) \<Longrightarrow> RunServer env sc en conf m [] None (Some (Some err)) m1"
| serves_requests: "start_server env sc conf m = Some (Inr st, m1) \<Longrightarrow> server_run en conf m1 rs m2 \<Longrightarrow>
     (\<forall>x \<in> set rs. configured sc st (fst x)) \<Longrightarrow> end_server env l m2 = (res, m3) \<Longrightarrow>
     RunServer env sc en conf m rs (Some (l, m2)) res m3"

section \<open>What the server starts on\<close>

lemma RunMigrations_is: "RunMigrations conf env m = runMigrations conf env m"
proof -
  have "SendReceiveError False (reply_err err) = err" for err
    by (cases err) (simp_all add: reply_err_def SendReceiveError_def)
  then show ?thesis by (simp add: RunMigrations_def option.map_comp comp_def case_prod_unfold option.map_ident)
qed

lemma InitialSetupNeeded_done: "InitialSetupNeeded c ix = (b, None) \<Longrightarrow> b \<longleftrightarrow> \<not> (\<exists>u \<in> set (users ix). u_admin u)"
  by (auto simp: InitialSetupNeeded_def list_ex_iff split: option.splits)

lemma reach_bounded: "engine_ok en \<Longrightarrow> conn_reach en conf calm m \<Longrightarrow> bounded m \<and> index_ok (index m)"
  using conn_reach_inv by (fastforce simp: conn_inv_def bounded_def)

lemma set_versions_users [simp]: "users (set_versions v U ix) = users ix"
  by (simp add: set_versions_def)

lemma start_server_migrates:
  assumes "engine_ok (row_engine (se_migrations env))" and "conn_reach (row_engine (se_migrations env)) conf calm m"
    and "\<forall>k. reads_succeed (mig_call (se_migrations env) k)"
    and "wf_migrations (NotesDBMigrations conf)" and "wf_migrations (IndexDBMigrations conf)"
    and "\<forall>x \<in> set (NotesDBMigrations conf) \<union> set (IndexDBMigrations conf). version_fits (script_engine (se_migrations env)) (Version x)"
    and "length (NotesDBMigrations conf) < rounds (se_migrations env)" and "length (IndexDBMigrations conf) < rounds (se_migrations env)"
  shows "start_server env sc conf m \<noteq> None
    \<and> (\<forall>st m1. start_server env sc conf m = Some (Inr st, m1) \<longrightarrow>
         user_version (index_file m1) = Version (last (IndexDBMigrations conf))
         \<and> (\<forall>d \<in> set (user_databases (index m1)). int (Version (last (NotesDBMigrations conf))) \<le> d_version d)
         \<and> (\<forall>d \<in> set (outdated (Version (last (NotesDBMigrations conf))) (index m)).
              file_at m1 (db_file conf (d_path d)) (Version (last (NotesDBMigrations conf))))
         \<and> (sv_setup st \<longleftrightarrow> \<not> (\<exists>u \<in> set (users (index m)). u_admin u))
         \<and> length (open_conns m1) = length (open_conns m) + length (outdated (Version (last (NotesDBMigrations conf))) (index m)))"
proof -
  have calm: "calm_migrations conf (se_migrations env)"
    using assms(3-8) by unfold_locales auto
  note ok = reach_bounded [OF assms(1,2)]
  let ?v = "Version (last (NotesDBMigrations conf))"
  have ends: "runMigrations conf (se_migrations env) m \<noteq> None"
    using calm_migrations.runMigrations_ends [OF calm] ok by blast
  show ?thesis
  proof (intro conjI allI impI)
    show "start_server env sc conf m \<noteq> None"
      using ends by (auto simp: start_server_def RunMigrations_is split: sum.split option.split prod.split)
    fix st m1 assume st: "start_server env sc conf m = Some (Inr st, m1)"
    then have run: "runMigrations conf (se_migrations env) m = Some (None, m1)"
      and flag: "InitialSetupNeeded (se_setup_call env) (index m1) = (sv_setup st, None)"
      by (auto simp: start_server_def RunMigrations_is split: sum.splits option.splits prod.splits)
    note fin = calm_migrations.runMigrations_done [OF calm _ _ assms(1) run]
    show "user_version (index_file m1) = Version (last (IndexDBMigrations conf))" using fin(1) ok by blast
    have ix: "index m1 = set_versions (int ?v) (d_user ` set (outdated ?v (index m))) (index m)" using fin(2) ok by blast
    show "\<forall>d \<in> set (user_databases (index m1)). int ?v \<le> d_version d"
      by (auto simp: ix set_versions_def outdated_def)
    show "\<forall>d \<in> set (outdated ?v (index m)). file_at m1 (db_file conf (d_path d)) ?v" using fin(3) ok by blast
    show "sv_setup st \<longleftrightarrow> \<not> (\<exists>u \<in> set (users (index m)). u_admin u)" using InitialSetupNeeded_done [OF flag] by (simp add: ix)
    show "length (open_conns m1) = length (open_conns m) + length (outdated ?v (index m))" using fin(4) ok by blast
  qed
qed

text \<open>
  C4: The server takes requests only on databases that are up to date. When reads of the versions
  succeed, starting always comes back; and when it gets as far as listening, the file of the index
  is at its latest version, the index records at least the latest version for the notes of every
  user, every file that was behind is now at that version, and the setup page is required exactly
  when there is no administrator. It leaves open one connection, which nothing can close, for each
  file that was behind.
\<close>

theorem server_starts_migrated:
  assumes "engine_ok (row_engine (se_migrations env))" and "conn_reach (row_engine (se_migrations env)) conf calm m"
    and "\<forall>k. reads_succeed (mig_call (se_migrations env) k)"
    and "wf_migrations (NotesDBMigrations conf)" and "wf_migrations (IndexDBMigrations conf)"
    and "\<forall>x \<in> set (NotesDBMigrations conf) \<union> set (IndexDBMigrations conf). version_fits (script_engine (se_migrations env)) (Version x)"
    and "length (NotesDBMigrations conf) < rounds (se_migrations env)" and "length (IndexDBMigrations conf) < rounds (se_migrations env)"
  shows "start_server env sc conf m \<noteq> None
    \<and> (\<forall>st m1. start_server env sc conf m = Some (Inr st, m1) \<longrightarrow>
         user_version (index_file m1) = Version (last (IndexDBMigrations conf))
         \<and> (\<forall>d \<in> set (user_databases (index m1)). int (Version (last (NotesDBMigrations conf))) \<le> d_version d)
         \<and> (\<forall>d \<in> set (outdated (Version (last (NotesDBMigrations conf))) (index m)).
              file_at m1 (db_file conf (d_path d)) (Version (last (NotesDBMigrations conf))))
         \<and> (sv_setup st \<longleftrightarrow> \<not> (\<exists>u \<in> set (users (index m)). u_admin u))
         \<and> length (open_conns m1) = length (open_conns m) + length (outdated (Version (last (NotesDBMigrations conf))) (index m)))"
  by (rule start_server_migrates [OF assms])

lemma start_server_reach:
  assumes "start_server env sc conf m = Some (Inr st, m1)" and "conn_reach en conf False m"
  shows "conn_reach en conf False m1"
proof -
  have "runMigrations conf (se_migrations env) m = Some (None, m1)"
    using assms(1) by (auto simp: start_server_def RunMigrations_is split: sum.splits option.splits prod.splits)
  then have "serve conf (se_migrations env) CmdCheckMigrations m = Some (ReplyNil, m1)" by (simp add: reply_err_def)
  from conn_served [OF assms(2) _ this] show ?thesis by simp
qed

section \<open>How the server ends\<close>

text \<open>
  The connections of the manager: that of the index database and those of the cache. The others that
  are open, which \<open>runMigrations\<close> and \<open>createDatabase\<close> leave behind, nobody knows any more.
\<close>

definition own_conns :: "notes_db manager \<Rightarrow> nat set" where
  "own_conns m = insert 0 (cc_conn ` snd ` set (connections m))"

definition without_conns :: "nat set \<Rightarrow> notes_db manager \<Rightarrow> notes_db manager" where
  "without_conns H m = m\<lparr>open_conns := filter (\<lambda>x. fst x \<notin> H) (open_conns m)\<rparr>"

text \<open>Those of them that report an error when they are closed.\<close>

definition stuck_conns :: "server_env \<Rightarrow> notes_db manager \<Rightarrow> nat set" where
  "stuck_conns env m = {h \<in> own_conns m \<inter> fst ` set (open_conns m). close_fault (se_stop env) h \<noteq> None}"

lemma without_none [simp]: "without_conns {} m = m"
  by (simp add: without_conns_def)

lemma without_twice [simp]: "without_conns H (without_conns G m) = without_conns (G \<union> H) m"
  by (simp add: without_conns_def conj_commute)

lemma without_connections [simp]: "connections (without_conns H m) = connections m"
  by (simp add: without_conns_def)

lemma close_db_without: "\<exists>H \<subseteq> {h}. snd (close_db env h m) = without_conns H m"
proof (cases "h \<in> fst ` set (open_conns m)")
  case True
  then have "snd (close_db env h m) = without_conns {h} m" by (simp add: close_db_def without_conns_def)
  then show ?thesis by blast
next
  case False
  then have "snd (close_db env h m) = without_conns {} m" by (simp add: close_db_def)
  then show ?thesis by blast
qed

lemma close_all_without: "\<exists>H \<subseteq> set hs. snd (close_all env hs m) = without_conns H m"
proof (induction env hs m rule: close_all.induct)
  case (1 env m)
  then show ?case by simp
next
  case (2 env h hs m)
  obtain err m1 where c: "close_db env h m = (err, m1)" by fastforce
  then obtain H where H: "H \<subseteq> {h}" "m1 = without_conns H m" using close_db_without [of h env m] by auto
  show ?case
  proof (cases err)
    case None
    then obtain G where "G \<subseteq> set hs" "snd (close_all env hs m1) = without_conns G m1" using 2 c by metis
    then show ?thesis using H None c by (intro exI [of _ "H \<union> G"]) auto
  qed (use H c in \<open>auto intro!: exI [of _ H]\<close>)
qed

lemma Stop_without: "\<exists>H \<subseteq> own_conns m. fst (snd (Stop_manager env m)) = without_conns H m"
proof -
  obtain err m1 where c: "close_db env 0 m = (err, m1)" by fastforce
  then obtain H where H: "H \<subseteq> {0}" "m1 = without_conns H m" using close_db_without [of 0 env m] by auto
  let ?hs = "map (cc_conn \<circ> snd) (connections m1)"
  obtain err2 m2 where c2: "close_all env ?hs m1 = (err2, m2)" by fastforce
  then obtain G where G: "G \<subseteq> set ?hs" "m2 = without_conns G m1" using close_all_without [of ?hs env m1] by auto
  have own: "H \<subseteq> own_conns m" "H \<union> G \<subseteq> own_conns m"
    using H G(1) by (auto simp: own_conns_def)
  show ?thesis
  proof (cases err)
    case None
    then have "fst (snd (Stop_manager env m)) = without_conns (H \<union> G) m"
      using c c2 G(2) H(2) by (simp add: Stop_manager_def split: option.split)
    then show ?thesis using own(2) by blast
  next
    case (Some e)
    then have "fst (snd (Stop_manager env m)) = without_conns H m" using c H(2) by (simp add: Stop_manager_def)
    then show ?thesis using own(1) by blast
  qed
qed

lemma Stop_stuck:
  assumes "Stop_manager (se_stop env) m = (err, m', closed)"
  shows "closed \<longleftrightarrow> stuck_conns env m = {}" and "closed \<Longrightarrow> m' = without_conns (own_conns m) m"
proof -
  have c: "(closed \<longleftrightarrow> (\<forall>h \<in> own_conns m \<inter> fst ` set (open_conns m). close_fault (se_stop env) h = None))
    \<and> (closed \<longrightarrow> m' = without_conns (own_conns m) m)"
    using Stop_closes [of "se_stop env" m, folded own_conns_def, folded without_conns_def]
    unfolding assms prod.inject by (elim exE conjE) (hypsubst, intro conjI, assumption, blast)
  have "stuck_conns env m = {} \<longleftrightarrow> (\<forall>h \<in> own_conns m \<inter> fst ` set (open_conns m). close_fault (se_stop env) h = None)"
    unfolding stuck_conns_def by (simp only: Collect_empty_eq Ball_def de_Morgan_conj not_not imp_conv_disj)
  then show "closed \<longleftrightarrow> stuck_conns env m = {}" using conjunct1 [OF c] by (simp only:)
  show "closed \<Longrightarrow> m' = without_conns (own_conns m) m" using c by simp
qed

lemma end_server_cases:
  assumes "end_server env l m = (res, m')"
  shows "res = Some None \<longleftrightarrow> l = ServerClosed \<and> se_shutdown env = None \<and> stuck_conns env m = {}"
    and "res = None \<longleftrightarrow> l = ServerClosed \<and> se_shutdown env = None \<and> stuck_conns env m \<noteq> {}"
    and "res = Some (Some err) \<longleftrightarrow> l = ListenFailed err \<or> l = ServerClosed \<and> se_shutdown env = Some err"
    and "res = Some None \<Longrightarrow> m' = without_conns (own_conns m) m"
    and "res = None \<Longrightarrow> \<exists>H \<subseteq> own_conns m. m' = without_conns H m"
    and "res = Some (Some err) \<Longrightarrow> m' = m"
proof -
  obtain e m1 closed where stop: "Stop_manager (se_stop env) m = (e, m1, closed)" by (metis prod_cases3)
  note st = Stop_stuck [OF stop]
  have only: "\<exists>H \<subseteq> own_conns m. m1 = without_conns H m" using Stop_without [of m "se_stop env"] stop by simp
  have e: "(res, m') = (case l of ListenFailed err \<Rightarrow> (Some (Some err), m)
      | ServerClosed \<Rightarrow> (case se_shutdown env of Some err \<Rightarrow> (Some (Some err), m)
          | None \<Rightarrow> (if closed then Some None else None, m1)))"
    using assms [symmetric] stop by (simp add: end_server_def split: listen_end.split option.split)
  show "res = Some None \<longleftrightarrow> l = ServerClosed \<and> se_shutdown env = None \<and> stuck_conns env m = {}"
    and "res = None \<longleftrightarrow> l = ServerClosed \<and> se_shutdown env = None \<and> stuck_conns env m \<noteq> {}"
    and "res = Some (Some err) \<longleftrightarrow> l = ListenFailed err \<or> l = ServerClosed \<and> se_shutdown env = Some err"
    using e st(1) by (auto split: listen_end.splits option.splits if_splits)
  show "res = Some None \<Longrightarrow> m' = without_conns (own_conns m) m"
    using e st(2) by (auto split: listen_end.splits option.splits if_splits)
  show "res = None \<Longrightarrow> \<exists>H \<subseteq> own_conns m. m' = without_conns H m"
    using e only by (auto split: listen_end.splits option.splits if_splits)
  show "res = Some (Some err) \<Longrightarrow> m' = m"
    using e by (auto split: listen_end.splits option.splits if_splits)
qed


end
