(* ===== verification/Server_Examples.thy ===== *)
theory Server_Examples
  imports Web_Server Web_Examples
begin

text \<open>
  A start of the server on the migrations of the repository, with a notes database that is behind,
  and its end.
\<close>

definition repo_conf :: "string \<Rightarrow> conn_conf" where
  "repo_conf dir = \<lparr>DBDirectory = dir, IndexDBFileName = ''index.db'', NotesDBMigrations = notes_db_migrations,
     IndexDBMigrations = index_db_migrations\<rparr>"

lemma notes_db_wf: "wf_migrations notes_db_migrations"
  by (simp add: wf_migrations_def strict_versions_def notes_db_migrations_def)

interpretation repo: calm_migrations "repo_conf dir" quiet_env for dir
  using notes_db_wf index_db_wf
  by unfold_locales
    (auto simp: repo_conf_def quiet_env_def reads_succeed_def version_fits_def notes_db_migrations_def index_db_migrations_def)

definition boot_env :: server_env where
  "boot_env = \<lparr>se_templates = None, se_migrations = quiet_env, se_setup_call = user_call, se_sha256 = map of_char,
     se_static_walk = [(''.'', True, None), (''css'', True, None), (''css/style.css'', False, None)], se_static_read = (\<lambda>p. Inr p),
     se_shutdown = None, se_stop = quiet_env\<rparr>"

definition boot_conf :: ServerConfig where
  "boot_conf = \<lparr>SvHost = ''localhost'', SvPort = 6789, HTTPSEnabled = False, CertFile = [], KeyFile = [], SvDebug = False,
     IgnoredLoggingPaths = []\<rparr>"

definition old_index :: index_db where
  "old_index = site_index\<lparr>user_databases := [\<lparr>d_id = 1, d_user = 1, d_path = user_db_path 1, d_version = 4\<rparr>]\<rparr>"

definition boot_manager :: "notes_db manager" where
  "boot_manager = start_manager old_index (ann_file\<lparr>user_version := 1\<rparr>) [(db_file (repo_conf ''data'') (user_db_path 1), ann_file\<lparr>user_version := 4\<rparr>)]"

lemma boot_reach: "conn_reach std_engine (repo_conf ''data'') calm boot_manager"
proof -
  have "{u. (u = ann \<or> u = root) \<and> \<not> u_admin u} = {ann}" by auto
  then have "index_ok old_index" by (simp add: index_ok_def table_ok_def old_index_def)
  then show ?thesis unfolding boot_manager_def by (rule conn_start) simp
qed

lemma boot_env_simps [simp]: "se_migrations boot_env = quiet_env" "row_engine quiet_env = std_engine"
  by (simp_all add: boot_env_def quiet_env_def)

lemma boot_calm:
  "\<forall>k. reads_succeed (mig_call quiet_env k)" "wf_migrations (NotesDBMigrations (repo_conf d))" "wf_migrations (IndexDBMigrations (repo_conf d))"
  "\<forall>x \<in> set (NotesDBMigrations (repo_conf d)) \<union> set (IndexDBMigrations (repo_conf d)). version_fits (script_engine quiet_env) (Version x)"
  "length (NotesDBMigrations (repo_conf d)) < rounds quiet_env" "length (IndexDBMigrations (repo_conf d)) < rounds quiet_env"
  using repo.reads repo.notes_wf repo.index_wf repo.fits repo.fuel by auto

text \<open>The run, step by step.\<close>

lemma boot_index: "map_option fst (migrate_index (repo_conf ''data'') quiet_env boot_manager) = Some None"
  by code_simp

lemma boot_outdated:
  "DBVersionBefore std_engine user_call 6 old_index
     = ([read_user_database \<lparr>d_id = 1, d_user = 1, d_path = user_db_path 1, d_version = 4\<rparr>], None)"
  by code_simp

lemma boot_loop:
  "map_option (\<lambda>(e, m). (e, length (open_conns m)))
     (upgrade_loop (repo_conf ''data'') quiet_env 0 [read_user_database \<lparr>d_id = 1, d_user = 1, d_path = user_db_path 1, d_version = 4\<rparr>]
        (boot_manager\<lparr>index_file := f\<rparr>)) = Some (None, 2)"
  by code_simp

lemma boot_etags:
  "ComputeStaticFilesEtags (map of_char) (\<lambda>p. Inr p) [(''.'', True, None), (''css'', True, None), (''css/style.css'', False, None)]
     = Inr [(''/static/css/style.css'', ''W/'' @ [CHR 0x22] @ ''6373732f7374796c652e637373'' @ [CHR 0x22])]"
  by code_simp

lemma boot_migrations: "\<exists>m1. runMigrations (repo_conf ''data'') quiet_env boot_manager = Some (None, m1) \<and> length (open_conns m1) = 2"
proof -
  obtain m0 where m0: "migrate_index (repo_conf ''data'') quiet_env boot_manager = Some (None, m0)" using boot_index by auto
  then obtain f where f: "m0 = boot_manager\<lparr>index_file := f\<rparr>" using migrate_index_is by blast
  have l: "Latest (NotesDBMigrations (repo_conf ''data'')) = Inr (notes_db_migrations ! 5)"
    by (simp add: Latest_def repo_conf_def notes_db_migrations_def)
  have "Version (notes_db_migrations ! 5) = 6" by (simp add: notes_db_migrations_def)
  moreover have "index boot_manager = old_index" by (simp add: boot_manager_def start_manager_def)
  moreover have "index_call quiet_env 1 = user_call" by (simp add: quiet_env_def)
  ultimately have "runMigrations (repo_conf ''data'') quiet_env boot_manager =
      upgrade_loop (repo_conf ''data'') quiet_env 0 [read_user_database \<lparr>d_id = 1, d_user = 1, d_path = user_db_path 1, d_version = 4\<rparr>] m0"
    using m0 f l boot_outdated by (simp add: runMigrations_def)
  then show ?thesis using boot_loop [of f] f by auto
qed

lemma boot_starts:
  "\<exists>st m1. start_server boot_env sc (repo_conf ''data'') boot_manager = Some (Inr st, m1)"
proof -
  obtain m1 where "runMigrations (repo_conf ''data'') quiet_env boot_manager = Some (None, m1)" using boot_migrations by blast
  moreover have "snd (InitialSetupNeeded user_call (index m1)) = None" by (simp add: InitialSetupNeeded_def)
  moreover have "NewHTMLRenderer boot_env b = Inr b" "se_setup_call boot_env = user_call" "se_sha256 boot_env = map of_char"
    "se_static_read boot_env = (\<lambda>p. Inr p)"
    "se_static_walk boot_env = [(''.'', True, None), (''css'', True, None), (''css/style.css'', False, None)]" for b
    by (simp_all add: boot_env_def NewHTMLRenderer_def)
  ultimately show ?thesis
    by (simp add: start_server_def RunMigrations_is boot_etags split: prod.split option.split) (metis snd_conv option.distinct(1))
qed

theorem server_starts_migrated_witness:
  "\<exists>st m1. start_server boot_env boot_conf (repo_conf ''data'') boot_manager = Some (Inr st, m1)
     \<and> (\<forall>d \<in> set (user_databases (index m1)). 6 \<le> d_version d) \<and> \<not> sv_setup st"
proof -
  obtain st m1 where run: "start_server boot_env boot_conf (repo_conf ''data'') boot_manager = Some (Inr st, m1)"
    using boot_starts by blast
  have "Version (last (NotesDBMigrations (repo_conf ''data''))) = 6" by (simp add: repo_conf_def notes_db_migrations_def)
  moreover have "\<exists>u \<in> set (users (index boot_manager)). u_admin u" by (simp add: boot_manager_def start_manager_def old_index_def)
  ultimately have "\<forall>d \<in> set (user_databases (index m1)). 6 \<le> d_version d" "\<not> sv_setup st"
    using server_starts_migrated [of boot_env "repo_conf ''data''" True boot_manager boot_conf] run boot_calm
    by (simp_all add: boot_reach)
  then show ?thesis using run by blast
qed


end
