(* ===== verification/Go_Quote.thy ===== *)
theory Go_Quote
  imports Sqlite_Options Go_Time
begin

text \<open>
  Texts of the standard library that the log handler prints: \<open>%q\<close> (\<open>strconv.Quote\<close>), a
  \<open>time.Duration\<close>, and a time in the layout \<open>time.RFC3339\<close>. Which runes beyond U+00FF
  \<open>strconv.IsPrint\<close> accepts is a table of the library, the parameter \<open>print_table\<close>.
\<close>

section \<open>Quoted strings\<close>

definition is_print :: "(rune \<Rightarrow> bool) \<Rightarrow> rune \<Rightarrow> bool" where
  "is_print print_table r \<longleftrightarrow>
     (if r \<le> 255 then (32 \<le> r \<and> r < 127) \<or> (161 \<le> r \<and> r \<noteq> 173) else print_table r)"

text \<open>The digits of a rune in hexadecimal, \<open>n\<close> of them.\<close>

fun hex_digits :: "nat \<Rightarrow> nat \<Rightarrow> string" where
  "hex_digits 0 r = []"
| "hex_digits (Suc n) r = hex_digits n (r div 16) @ [hex_digit (r mod 16)]"

text \<open>\<open>appendEscapedRune\<close>; \<open>bytes\<close> are the bytes the rune was decoded from.\<close>

definition escaped_rune :: "(rune \<Rightarrow> bool) \<Rightarrow> rune \<Rightarrow> string \<Rightarrow> string" where
  "escaped_rune print_table r bytes =
     (if r = 34 \<or> r = 92 then CHR 0x5C # bytes
      else if is_print print_table r then bytes
      else if r = 7 then [CHR 0x5C, CHR ''a'']
      else if r = 8 then [CHR 0x5C, CHR ''b'']
      else if r = 12 then [CHR 0x5C, CHR ''f'']
      else if r = 10 then [CHR 0x5C, CHR ''n'']
      else if r = 13 then [CHR 0x5C, CHR ''r'']
      else if r = 9 then [CHR 0x5C, CHR ''t'']
      else if r = 11 then [CHR 0x5C, CHR ''v'']
      else if r < 32 \<or> r = 127 then [CHR 0x5C, CHR ''x''] @ hex_digits 2 r
      else if r < 65536 then [CHR 0x5C, CHR ''u''] @ hex_digits 4 r
      else [CHR 0x5C, CHR ''U''] @ hex_digits 8 r)"

definition quoted_rune :: "(rune \<Rightarrow> bool) \<Rightarrow> nat list \<Rightarrow> string" where
  "quoted_rune print_table bs =
     (case decode_rune bs of (r, w) \<Rightarrow>
        if w = 1 \<and> r = rune_error then [CHR 0x5C, CHR ''x''] @ hex_digits 2 (hd bs)
        else escaped_rune print_table r (map char_of (take w bs)))"

function quote_bytes :: "(rune \<Rightarrow> bool) \<Rightarrow> nat list \<Rightarrow> string" where
  "quote_bytes print_table [] = []"
| "quote_bytes print_table (b # bs) =
     quoted_rune print_table (b # bs) @ quote_bytes print_table (drop (snd (decode_rune (b # bs))) (b # bs))"
  by pat_completeness auto
termination
proof (relation "measure (\<lambda>(_, bs). length bs)", goal_cases)
  case 1
  show ?case by simp
next
  case (2 print_table b bs)
  have "1 \<le> snd (decode_rune (b # bs))" using decode_rune_width by blast
  then show ?case by simp
qed

definition quote :: "(rune \<Rightarrow> bool) \<Rightarrow> string \<Rightarrow> string" where
  "quote print_table s = [CHR 0x22] @ quote_bytes print_table (bytes_of s) @ [CHR 0x22]"

section \<open>Durations and times\<close>

text \<open>\<open>fmtFrac\<close>: the last \<open>prec\<close> digits as a fraction, without its trailing zeros.\<close>

fun frac_digits :: "nat \<Rightarrow> nat \<Rightarrow> string" where
  "frac_digits 0 v = []"
| "frac_digits (Suc prec) v = frac_digits prec (v div 10) @ [digit_char (v mod 10)]"

definition fmt_frac :: "nat \<Rightarrow> nat \<Rightarrow> string" where
  "fmt_frac prec v =
     (let ds = trim_right (\<lambda>c. c = CHR ''0'') (frac_digits prec v) in if ds = [] then [] else CHR ''.'' # ds)"

text \<open>\<open>time.Duration.String\<close> of a number of nanoseconds; the micro sign takes two bytes.\<close>

definition duration_string :: "int \<Rightarrow> string" where
  "duration_string d =
     (let u = nat \<bar>d\<bar>;
          sub = (\<lambda>prec unit. show_nat (u div 10 ^ prec) @ fmt_frac prec u @ unit);
          s = u div 10 ^ 9;
          secs = show_nat (s mod 60) @ fmt_frac 9 u @ ''s'';
          text = (if u = 0 then ''0s''
                  else if u < 1000 then sub 0 ''ns''
                  else if u < 1000000 then sub 3 [CHR 0xC2, CHR 0xB5, CHR ''s'']
                  else if u < 10 ^ 9 then sub 6 ''ms''
                  else if s < 60 then secs
                  else if s < 3600 then show_nat (s div 60) @ ''m'' @ secs
                  else show_nat (s div 3600) @ ''h'' @ show_nat (s div 60 mod 60) @ ''m'' @ secs)
      in (if d < 0 then ''-'' else []) @ text)"

text \<open>A time with the offset of its zone in minutes, in the layout \<open>2006-01-02T15:04:05Z07:00\<close>.\<close>

record zoned_time =
  zt_civil :: go_time
  zt_offset :: int

definition rfc3339 :: "zoned_time \<Rightarrow> string" where
  "rfc3339 z =
     (let t = zt_civil z; o' = zt_offset z; m = nat \<bar>o'\<bar>
      in four_digits (t_year t) @ ''-'' @ two_digits (t_mon t) @ ''-'' @ two_digits (t_day t) @ ''T''
         @ two_digits (t_hour t) @ '':'' @ two_digits (t_min t) @ '':'' @ two_digits (t_sec t)
         @ (if o' = 0 then ''Z''
            else (if o' < 0 then ''-'' else ''+'') @ two_digits (m div 60) @ '':'' @ two_digits (m mod 60)))"

section \<open>No line breaks, no way out of the quotes\<close>

definition no_break :: "string \<Rightarrow> bool" where
  "no_break s \<longleftrightarrow> CHR 0x0A \<notin> set s"

lemma no_break_simps [simp]:
  "no_break []" "no_break (c # s) \<longleftrightarrow> c \<noteq> CHR 0x0A \<and> no_break s" "no_break (s @ t) \<longleftrightarrow> no_break s \<and> no_break t"
  by (auto simp: no_break_def)

lemma no_break_concat [simp]: "no_break (concat ss) \<longleftrightarrow> (\<forall>s \<in> set ss. no_break s)"
  by (induction ss) simp_all

text \<open>The line feed, the double quote and the backslash are the characters of codes 10, 34 and 92.\<close>

definition code :: "char \<Rightarrow> nat" where "code c = of_char c"

lemma char_codes:
  "c = CHR 0x0A \<longleftrightarrow> code c = 10" "c = CHR 0x22 \<longleftrightarrow> code c = 34" "c = CHR 0x5C \<longleftrightarrow> code c = 92"
proof -
  have "code (CHR 0x0A) = 10" "code (CHR 0x22) = 34" "code (CHR 0x5C) = 92" by (simp_all add: code_def)
  then show "c = CHR 0x0A \<longleftrightarrow> code c = 10" "c = CHR 0x22 \<longleftrightarrow> code c = 34" "c = CHR 0x5C \<longleftrightarrow> code c = 92"
    by (metis code_def of_char_eq_iff)+
qed

definition plain :: "char \<Rightarrow> bool" where
  "plain c \<longleftrightarrow> code c \<noteq> 10 \<and> code c \<noteq> 34 \<and> code c \<noteq> 92"

lemma code_char_of: "b < 256 \<Longrightarrow> code (char_of b) = b"
  by (simp add: code_def)

lemma plain_hex_digit: "d < 16 \<Longrightarrow> plain (hex_digit d)"
  by (auto simp: plain_def hex_digit_def digit_char_def code_def)

lemma plain_hex_digits: "c \<in> set (hex_digits n r) \<Longrightarrow> plain c"
  by (induction n arbitrary: r) (auto simp: plain_hex_digit)

text \<open>The end of a quoted string as a reader of the log finds it: a backslash hides the character after it.\<close>

fun end_of_quoted :: "string \<Rightarrow> string option" where
  "end_of_quoted [] = None"
| "end_of_quoted (c # s) =
     (if c = CHR 0x22 then Some s
      else if c = CHR 0x5C then (case s of [] \<Rightarrow> None | _ # t \<Rightarrow> end_of_quoted t)
      else end_of_quoted s)"

lemma end_of_quoted_plain: "\<forall>c \<in> set s. plain c \<Longrightarrow> end_of_quoted (s @ rest) = end_of_quoted rest"
  by (induction s) (auto simp: char_codes plain_def)

lemma no_break_plain: "\<forall>c \<in> set s. plain c \<Longrightarrow> no_break s"
  by (auto simp: no_break_def char_codes plain_def code_def)

text \<open>A rune is either ASCII, one byte that is the rune, or its bytes are all at least 128.\<close>

lemma decode_rune_bytes:
  assumes "decode_rune bs = (r, w)" "bs \<noteq> []" "\<not> (w = 1 \<and> r = rune_error)"
  shows "(r < 128 \<and> take w bs = [r]) \<or> (128 \<le> r \<and> (\<forall>b \<in> set (take w bs). 128 \<le> b \<and> b < 256))"
  using assms
  by (cases bs) (auto simp: decode_rune.simps in_range_def rune_error_def split: if_splits list.splits)

lemma quoted_rune_safe:
  assumes "bs \<noteq> []" and "\<forall>b \<in> set bs. b < 256"
  shows "no_break (quoted_rune tbl bs) \<and> end_of_quoted (quoted_rune tbl bs @ rest) = end_of_quoted rest"
proof (cases "decode_rune bs")
  case (Pair r w)
  have esc: "no_break ([CHR 0x5C, c] @ hex_digits n x) \<and> end_of_quoted (([CHR 0x5C, c] @ hex_digits n x) @ rest) = end_of_quoted rest"
    if "c \<noteq> CHR 0x0A" for c n x
    using that end_of_quoted_plain [of "hex_digits n x" rest] no_break_plain [of "hex_digits n x"]
    by (auto simp: plain_hex_digits)
  show ?thesis
  proof (cases "w = 1 \<and> r = rune_error")
    case True
    then show ?thesis using Pair esc [of "CHR ''x''" 2 "hd bs"] by (simp add: quoted_rune_def)
  next
    case False
    let ?cs = "map char_of (take w bs) :: string"
    from decode_rune_bytes [OF Pair assms(1) False] show ?thesis
    proof
      assume r: "r < 128 \<and> take w bs = [r]"
      then have cs: "?cs = [char_of r]" by simp
      have code: "code (char_of r) = r" using r by (simp add: code_char_of)
      have printed: "plain (char_of r)" if "is_print tbl r" "r \<noteq> 34" "r \<noteq> 92"
        using that r code by (auto simp: plain_def is_print_def)
      have q: "quoted_rune tbl bs = escaped_rune tbl r [char_of r]" using Pair False cs by (auto simp: quoted_rune_def)
      have "char_of r \<noteq> CHR 0x0A" if "r = 34 \<or> r = 92" using that code by (auto simp: char_codes)
      then show ?thesis
        unfolding q escaped_rune_def
        using esc [of "CHR ''x''" 2 r] esc [of "CHR ''u''" 4 r] esc [of "CHR ''U''" 8 r] printed end_of_quoted_plain [of "[char_of r]" rest]
          no_break_plain [of "[char_of r]"] esc [of "char_of r" 0 0]
        by (auto split: if_splits)
    next
      assume r: "128 \<le> r \<and> (\<forall>b \<in> set (take w bs). 128 \<le> b \<and> b < 256)"
      then have "\<forall>c \<in> set ?cs. plain c" by (auto simp: plain_def code_char_of)
      then show ?thesis
        using Pair False r esc [of "CHR ''u''" 4 r] esc [of "CHR ''U''" 8 r] end_of_quoted_plain [of ?cs rest] no_break_plain [of ?cs]
        by (auto simp: quoted_rune_def escaped_rune_def)
    qed
  qed
qed

lemma quote_bytes_safe:
  "\<forall>b \<in> set bs. b < 256 \<Longrightarrow>
     no_break (quote_bytes tbl bs) \<and> end_of_quoted (quote_bytes tbl bs @ rest) = end_of_quoted rest"
proof (induction tbl bs rule: quote_bytes.induct)
  case (2 tbl b bs)
  have "\<forall>x \<in> set (drop (snd (decode_rune (b # bs))) (b # bs)). x < 256"
    using 2(2) by (meson in_set_dropD)
  with 2 quoted_rune_safe [of "b # bs" tbl] show ?case by simp
qed simp

lemma quote_is_closed:
  "no_break (quote tbl s)" "end_of_quoted (tl (quote tbl s) @ rest) = Some rest"
proof -
  have "\<forall>b \<in> set (bytes_of s). b < 256" by (auto simp: bytes_of_def)
  note quote_bytes_safe [OF this, of tbl]
  then show "no_break (quote tbl s)" "end_of_quoted (tl (quote tbl s) @ rest) = Some rest"
    by (simp_all add: quote_def)
qed

end
