(* ===== verification/Slog_Handler.thy ===== *)
theory Slog_Handler
  imports Go_Quote Sqlite_Open
begin

text \<open>
  \<open>slogx/handler.go\<close>: the handler of \<open>log/slog\<close> that writes a record as one line of fields
  between bars, and \<open>SlogDBConfig\<close> of \<open>dbx/sqlitex/sqlite.go\<close>, the value the program logs of a
  database.
\<close>

section \<open>Values and attributes\<close>

text \<open>
  A \<open>slog.Value\<close>: a string, a time, a group of attributes, a value that computes another one
  (\<open>slog.LogValuer\<close>), and every other kind by the text \<open>%s\<close> gives it. \<open>NilValue\<close> is the zero
  value of the type.
\<close>

datatype log_value =
    NilValue
  | StringValue string
  | TimeValue zoned_time
  | GroupValue "(string \<times> log_value) list"
  | Valuer log_value
  | OtherValue string

type_synonym attr = "string \<times> log_value"

text \<open>
  \<open>Value.Resolve\<close>: at most a hundred calls of \<open>LogValue\<close>. The error that takes the place of the value
  then also names its Go type, which the model leaves out.
\<close>

fun resolve :: "nat \<Rightarrow> log_value \<Rightarrow> log_value" where
  "resolve 0 v = OtherValue ''LogValue called too many times''"
| "resolve (Suc n) (Valuer v) = resolve n v"
| "resolve (Suc n) v = v"

definition maxLogValues :: nat where "maxLogValues = 100"

definition Resolve :: "log_value \<Rightarrow> log_value" where
  "Resolve v = resolve maxLogValues v"

lemma resolve_size: "size (resolve n v) \<le> size v"
proof (induction n v rule: resolve.induct)
  case (1 v)
  show ?case by (cases v) simp_all
qed simp_all

section \<open>The handler\<close>

text \<open>Levels are numbers; \<open>levelValues\<close> has no text for those that are not one of the four.\<close>

definition levelValues :: "int \<Rightarrow> string" where
  "levelValues l =
     (if l = -4 then ''DEBUG'' else if l = 0 then '' INFO'' else if l = 4 then '' WARN''
      else if l = 8 then ''ERROR'' else [])"

record HandlerOptions =
  Level :: "int option"
  IncludeSource :: bool

record groupOrAttrs =
  goa_group :: string
  goa_attrs :: "attr list"

record PipeHandler =
  h_level :: int
  h_source :: bool
  goas :: "groupOrAttrs list"

text \<open>A record: no time when it is the zero time, no source when its program counter is zero.\<close>

record log_record =
  r_time :: "zoned_time option"
  r_level :: int
  r_message :: string
  r_source :: "(string \<times> nat) option"
  r_attrs :: "attr list"

definition NewPipeHandler :: "HandlerOptions option \<Rightarrow> PipeHandler" where
  "NewPipeHandler hopts =
     (case hopts of
        None \<Rightarrow> \<lparr>h_level = 0, h_source = False, goas = []\<rparr>
      | Some o' \<Rightarrow> \<lparr>h_level = (case Level o' of Some l \<Rightarrow> l | None \<Rightarrow> 0), h_source = IncludeSource o', goas = []\<rparr>)"

definition Enabled :: "PipeHandler \<Rightarrow> int \<Rightarrow> bool" where
  "Enabled h l \<longleftrightarrow> l \<ge> h_level h"

definition clone_handler :: "PipeHandler \<Rightarrow> groupOrAttrs \<Rightarrow> PipeHandler" where
  "clone_handler h goa = h\<lparr>goas := goas h @ [goa]\<rparr>"

definition WithAttrs :: "PipeHandler \<Rightarrow> attr list \<Rightarrow> PipeHandler" where
  "WithAttrs h attrs = (if attrs = [] then h else clone_handler h \<lparr>goa_group = [], goa_attrs = attrs\<rparr>)"

definition WithGroup :: "PipeHandler \<Rightarrow> string \<Rightarrow> PipeHandler" where
  "WithGroup h name = (if name = [] then h else clone_handler h \<lparr>goa_group = name, goa_attrs = []\<rparr>)"

text \<open>
  What \<open>appendAttr\<close> adds to the buffer: nothing for the zero attribute and for an empty group, and
  of a group only its attributes, not its key.
\<close>

function attr_text :: "(rune \<Rightarrow> bool) \<Rightarrow> string \<Rightarrow> log_value \<Rightarrow> string" where
  "attr_text tbl key v =
     (case Resolve v of
        NilValue \<Rightarrow> if key = [] then [] else key @ ''=<nil> ''
      | StringValue s \<Rightarrow> key @ ''='' @ quote tbl s @ '' ''
      | TimeValue t \<Rightarrow> key @ ''='' @ rfc3339 t @ '' ''
      | GroupValue attrs \<Rightarrow> concat (map (\<lambda>a. attr_text tbl (fst a) (snd a)) attrs)
      | Valuer u \<Rightarrow> key @ ''='' @ '' ''
      | OtherValue s \<Rightarrow> key @ ''='' @ s @ '' '')"
  by pat_completeness auto
termination
proof (relation "measure (\<lambda>(_, _, v). size v)", goal_cases)
  case 1
  show ?case by simp
next
  case (2 tbl key v attrs a)
  have "size (snd a) < size (GroupValue attrs)" using 2(2)
    by (induction attrs) (auto simp: prod.size_gen split: prod.splits)
  also have "\<dots> \<le> size v" using 2(1) resolve_size [of maxLogValues v] by (simp add: Resolve_def)
  finally show ?case by (cases a) simp
qed

declare attr_text.simps [simp del]

definition attrs_text :: "(rune \<Rightarrow> bool) \<Rightarrow> attr list \<Rightarrow> string" where
  "attrs_text tbl attrs = concat (map (\<lambda>a. attr_text tbl (fst a) (snd a)) attrs)"

definition group_name :: "PipeHandler \<Rightarrow> string" where
  "group_name h = join ''.'' (filter (\<lambda>g. g \<noteq> []) (map goa_group (goas h)))"

text \<open>The buffer \<open>Handle\<close> writes.\<close>

definition log_line :: "(rune \<Rightarrow> bool) \<Rightarrow> PipeHandler \<Rightarrow> log_record \<Rightarrow> string" where
  "log_line tbl h r =
     (case r_time r of Some t \<Rightarrow> ''| '' @ rfc3339 t @ '' |'' | None \<Rightarrow> [])
     @ '' '' @ levelValues (r_level r) @ '' |''
     @ (if group_name h \<noteq> [] then '' '' @ group_name h @ '' | '' @ r_message r @ '' | ''
        else '' '' @ r_message r @ '' | '')
     @ (case r_source r of
          Some (file, line) \<Rightarrow> if h_source h then '' '' @ file @ '':'' @ show_nat line @ '' | '' else []
        | None \<Rightarrow> [])
     @ concat (map (\<lambda>g. if goa_group g \<noteq> [] then [] else attrs_text tbl (goa_attrs g)) (goas h))
     @ attrs_text tbl (r_attrs r)
     @ (if r_attrs r = [] then [] else ''|'') @ [CHR 0x0A]"

text \<open>One \<open>Write\<close> under the lock; what a failing writer has taken is not modelled.\<close>

definition Handle :: "(rune \<Rightarrow> bool) \<Rightarrow> go_error option \<Rightarrow> PipeHandler \<Rightarrow> log_record \<Rightarrow> string \<Rightarrow> go_error option \<times> string" where
  "Handle tbl write_fault h r out =
     (case write_fault of Some err \<Rightarrow> (Some err, out) | None \<Rightarrow> (None, out @ log_line tbl h r))"

section \<open>The value of a database\<close>

definition SlogDBConfig :: "SQLiteDB \<Rightarrow> log_value" where
  "SlogDBConfig d =
     (let o' = opts d
      in GroupValue
           [(''file-location'', StringValue (DBPath d)),
            (''journal_mode'', StringValue (journal_text (o_journalMode o'))),
            (''synchronous'', StringValue (synchronous_text (o_synchronous o'))),
            (''temp_store'', StringValue (temp_store_text (o_tempStore o'))),
            (''busy_timeout'', OtherValue (show_int (o_busyTimeout o'))),
            (''cache_size'', OtherValue (show_int (o_cacheSize o'))),
            (''foreign_keys'', OtherValue (show_bool (o_foreignKeys o'))),
            (''max-reader-conns'', OtherValue (show_int (o_maxReaderConns o'))),
            (''query-timeout'', StringValue (duration_string (QueryTimeout d)))])"

end
