(* ===== verification/Slog_Props.thy ===== *)
theory Slog_Props
  imports Slog_Handler
begin

text \<open>
  What a line of the log shows: a record is one line whatever its strings hold, and groups do not
  qualify the attributes that follow them.
\<close>

section \<open>One record, one line\<close>

text \<open>
  The parts of a record that are printed as they are, which the program chooses and not its users:
  keys and the texts of values that are neither strings nor times.
\<close>

function raw_parts :: "string \<Rightarrow> log_value \<Rightarrow> string list" where
  "raw_parts key NilValue = [key]"
| "raw_parts key (StringValue s) = [key]"
| "raw_parts key (TimeValue t) = [key]"
| "raw_parts key (GroupValue attrs) = key # concat (map (\<lambda>a. raw_parts (fst a) (snd a)) attrs)"
| "raw_parts key (Valuer v) = key # raw_parts key v"
| "raw_parts key (OtherValue s) = [key, s]"
  by pat_completeness auto
termination
proof (relation "measure (\<lambda>(_, v). size v)", goal_cases)
  case (2 key attrs a)
  have "size (snd a) < size (GroupValue attrs)" using 2
    by (induction attrs) (auto simp: prod.size_gen split: prod.splits)
  then show ?case by (cases a) simp
qed simp_all

definition tame :: "attr list \<Rightarrow> bool" where
  "tame attrs \<longleftrightarrow> (\<forall>a \<in> set attrs. \<forall>p \<in> set (raw_parts (fst a) (snd a)). no_break p)"

lemma raw_parts_key: "key \<in> set (raw_parts key v)"
  by (cases v) auto

lemma raw_parts_resolve:
  "\<forall>p \<in> set (raw_parts key v). no_break p \<Longrightarrow> \<forall>p \<in> set (raw_parts key (resolve n v)). no_break p"
proof (induction n v rule: resolve.induct)
  case (1 v)
  then show ?case using raw_parts_key [of key v] by simp
qed simp_all

lemma is_digit_code: "is_digit c \<Longrightarrow> c \<noteq> CHR 0x0A"
  by (auto simp: is_digit_def)

lemma no_break_two_digits [simp]: "no_break (two_digits n)" "no_break (four_digits n)"
  using is_digit_code [OF digit_char_simps(1)] by (auto simp: two_digits_def four_digits_def)

lemma no_break_show_nat [simp]: "no_break (show_nat n)"
  unfolding no_break_def using show_nat_digits is_digit_code by blast

lemma no_break_rfc3339 [simp]: "no_break (rfc3339 t)"
  by (simp add: rfc3339_def Let_def)

lemma no_break_attr_text:
  "\<forall>p \<in> set (raw_parts key v). no_break p \<Longrightarrow> no_break (attr_text tbl key v)"
proof (induction tbl key v rule: attr_text.induct)
  case (1 tbl key v)
  have parts: "\<forall>p \<in> set (raw_parts key (Resolve v)). no_break p"
    using raw_parts_resolve [OF 1(2)] by (simp add: Resolve_def)
  moreover have "no_break key" using 1(2) raw_parts_key by blast
  moreover have "no_break (attr_text tbl (fst a) (snd a))" if "Resolve v = GroupValue as" "a \<in> set as" for a as
    using 1(1) [OF that] parts that by auto
  ultimately show ?case
    using quote_is_closed(1) [of tbl] by (subst attr_text.simps) (auto split: log_value.split)
qed

lemma no_break_attrs_text: "tame attrs \<Longrightarrow> no_break (attrs_text tbl attrs)"
  using no_break_attr_text by (auto simp: tame_def attrs_text_def)

lemma no_break_levelValues [simp]: "no_break (levelValues l)"
  by (simp add: levelValues_def)

lemma no_break_join: "no_break sep \<Longrightarrow> \<forall>s \<in> set ss. no_break s \<Longrightarrow> no_break (join sep ss)"
  by (induction sep ss rule: join.induct) auto

text \<open>
  C21: A record of the log is one line. Whatever the time, the level and the strings among the values
  of the attributes hold, line feeds and quotes included, \<open>Handle\<close> adds one line feed, at the end,
  provided the message, the names of groups, the keys, the file and the texts of values that are
  not strings have none; and a string can not end its quotes: a reader that skips escaped
  characters finds the closing quote where the handler put it, whatever follows.
\<close>

theorem log_record_is_one_line:
  assumes "no_break (r_message r)" and "\<forall>g \<in> set (goas h). no_break (goa_group g) \<and> tame (goa_attrs g)" and "tame (r_attrs r)"
    and "\<forall>file line. r_source r = Some (file, line) \<longrightarrow> no_break file"
  shows "(\<exists>l. Handle tbl None h r out = (None, out @ l @ [CHR 0x0A]) \<and> no_break l)
    \<and> (\<forall>key s. \<exists>body. attr_text tbl key (StringValue s) = key @ ''='' @ [CHR 0x22] @ body @ '' ''
         \<and> (\<forall>rest. end_of_quoted (body @ rest) = Some rest))"
proof (intro conjI allI)
  let ?l = "butlast (log_line tbl h r)"
  have "no_break (group_name h)"
    using assms(2) by (auto simp: group_name_def intro!: no_break_join)
  moreover have "no_break (concat (map (\<lambda>g. if goa_group g \<noteq> [] then [] else attrs_text tbl (goa_attrs g)) (goas h)))"
    using assms(2) by (auto simp: no_break_attrs_text)
  ultimately have "log_line tbl h r = ?l @ [CHR 0x0A] \<and> no_break ?l"
    using assms(1,3,4) no_break_attrs_text [OF assms(3), of tbl]
    by (auto simp: log_line_def butlast_append split: option.split)
  then show "\<exists>l. Handle tbl None h r out = (None, out @ l @ [CHR 0x0A]) \<and> no_break l"
    unfolding Handle_def by (intro exI [of _ ?l]) simp
next
  fix key s
  have "attr_text tbl key (StringValue s) = key @ ''='' @ [CHR 0x22] @ tl (quote tbl s) @ '' ''"
    by (subst attr_text.simps) (simp add: Resolve_def maxLogValues_def numeral_eq_Suc quote_def)
  then show "\<exists>body. attr_text tbl key (StringValue s) = key @ ''='' @ [CHR 0x22] @ body @ '' ''
      \<and> (\<forall>rest. end_of_quoted (body @ rest) = Some rest)"
    using quote_is_closed(2) by blast
qed

definition demo_record :: log_record where
  "demo_record = \<lparr>r_time = None, r_level = 8, r_message = ''broken'', r_source = None,
     r_attrs = [(''uri'', StringValue ([CHR ''/'', CHR 0x22, CHR 0x0A] @ ''| ERROR | forged''))]\<rparr>"

theorem log_record_is_one_line_witness:
  "\<exists>l. Handle (\<lambda>_. True) None (NewPipeHandler None) demo_record [] = (None, l @ [CHR 0x0A]) \<and> no_break l"
  using log_record_is_one_line [of demo_record "NewPipeHandler None" "\<lambda>_. True" "[]"]
  by (simp add: demo_record_def NewPipeHandler_def tame_def)

section \<open>Groups\<close>

text \<open>
  The comment on \<open>WithGroup\<close> promises that the keys of later attributes are qualified by the group.
  They are not: a group and attributes added to a logger give the same lines in either order, and a
  value that is a group (\<open>SlogDBConfig\<close>) loses its key.
\<close>

lemma groups_do_not_qualify:
  "log_line tbl (WithAttrs (WithGroup h g) attrs) r = log_line tbl (WithGroup (WithAttrs h attrs) g) r"
  by (auto simp: log_line_def WithAttrs_def WithGroup_def clone_handler_def group_name_def split: option.split)

lemma group_key_is_lost:
  "attr_text tbl key1 (GroupValue attrs) = attr_text tbl key2 (GroupValue attrs)"
  by (subst (1 2) attr_text.simps) (simp add: Resolve_def maxLogValues_def numeral_eq_Suc)

end
