(* ===== verification/Go_Flags.thy ===== *)
theory Go_Flags
  imports Go_Strings
begin

text \<open>
  What the command line uses of Go's \<open>flag\<close> package: flag sets with the handling \<open>ExitOnError\<close>,
  values of the types bool, int, uint and string, and \<open>Visit\<close>. Numbers are read by
  \<open>strconv.ParseInt\<close> and \<open>ParseUint\<close> with base 0, so they may carry a prefix and underscores.
\<close>

section \<open>Numbers with base 0\<close>

definition lower_ascii :: "char \<Rightarrow> char" where
  "lower_ascii c = (if in_range 65 90 (of_char c) then char_of ((of_char c :: nat) + 32) else c)"

definition digit_of :: "char \<Rightarrow> nat option" where
  "digit_of c =
     (if is_digit c then Some (digit_val c)
      else if in_range 97 122 (of_char (lower_ascii c)) then Some (of_char (lower_ascii c) - 87)
      else None)"

text \<open>The digit loop: the value and whether an underscore was met.\<close>

fun base_digits :: "nat \<Rightarrow> string \<Rightarrow> nat \<Rightarrow> bool \<Rightarrow> (nat \<times> bool) option" where
  "base_digits base [] n us = Some (n, us)"
| "base_digits base (c # s) n us =
     (if c = CHR ''_'' then base_digits base s n True
      else case digit_of c of
             None \<Rightarrow> None
           | Some d \<Rightarrow> if base \<le> d \<or> 2 ^ 64 \<le> n * base + d then None else base_digits base s (n * base + d) us)"

text \<open>\<open>underscoreOK\<close>: the state is the kind of the last character, a digit, an underscore or another.\<close>

datatype us_state = UsStart | UsDigit | UsUnderscore | UsOther

fun us_loop :: "bool \<Rightarrow> us_state \<Rightarrow> string \<Rightarrow> bool" where
  "us_loop hex i [] = (i \<noteq> UsUnderscore)"
| "us_loop hex i (c # s) =
     (if is_digit c \<or> (hex \<and> in_range 97 102 (of_char (lower_ascii c))) then us_loop hex UsDigit s
      else if c = CHR ''_'' then i = UsDigit \<and> us_loop hex UsUnderscore s
      else i \<noteq> UsUnderscore \<and> us_loop hex UsOther s)"

definition base_prefix :: "string \<Rightarrow> nat option" where
  "base_prefix s =
     (if length s < 2 \<or> hd s \<noteq> CHR ''0'' then None
      else let c = lower_ascii (s ! 1)
           in if c = CHR ''b'' then Some 2 else if c = CHR ''o'' then Some 8 else if c = CHR ''x'' then Some 16 else None)"

definition underscore_ok :: "string \<Rightarrow> bool" where
  "underscore_ok s0 =
     (let s = (if s0 \<noteq> [] \<and> (hd s0 = CHR ''-'' \<or> hd s0 = CHR ''+'') then tl s0 else s0)
      in case base_prefix s of
           Some b \<Rightarrow> us_loop (b = 16) UsDigit (drop 2 s)
         | None \<Rightarrow> us_loop False UsStart s)"

definition parse_uint0 :: "string \<Rightarrow> nat option" where
  "parse_uint0 s =
     (if s = [] then None
      else let (base, body) =
             (case base_prefix s of
                Some b \<Rightarrow> if 3 \<le> length s then (b, drop 2 s) else (8, drop 1 s)
              | None \<Rightarrow> if hd s = CHR ''0'' then (8, drop 1 s) else (10, s))
           in case base_digits base body 0 False of
                None \<Rightarrow> None
              | Some (n, us) \<Rightarrow> if us \<and> \<not> underscore_ok s then None else Some n)"

definition parse_int0 :: "string \<Rightarrow> int option" where
  "parse_int0 s =
     (if s = [] then None
      else let neg = (hd s = CHR ''-'');
               body = (if hd s = CHR ''-'' \<or> hd s = CHR ''+'' then tl s else s)
           in case parse_uint0 body of
                None \<Rightarrow> None
              | Some n \<Rightarrow> if (if neg then n \<le> 2 ^ 63 else n < 2 ^ 63)
                           then Some (if neg then - int n else int n) else None)"

text \<open>\<open>strconv.ParseBool\<close>.\<close>

definition parse_bool :: "string \<Rightarrow> bool option" where
  "parse_bool s =
     (if s \<in> {''1'', ''t'', ''T'', ''true'', ''TRUE'', ''True''} then Some True
      else if s \<in> {''0'', ''f'', ''F'', ''false'', ''FALSE'', ''False''} then Some False
      else None)"

section \<open>Flag sets\<close>

datatype flag_value = BoolV bool | IntV int | UintV nat | StringV string

type_synonym flag_values = "(string \<times> flag_value) list"

text \<open>\<open>Value.Set\<close> of a flag with this value.\<close>

fun set_value :: "flag_value \<Rightarrow> string \<Rightarrow> flag_value option" where
  "set_value (BoolV _) s = map_option BoolV (parse_bool s)"
| "set_value (IntV _) s = map_option IntV (parse_int0 s)"
| "set_value (UintV _) s = map_option UintV (parse_uint0 s)"
| "set_value (StringV _) s = Some (StringV s)"

definition is_bool_flag :: "flag_value \<Rightarrow> bool" where
  "is_bool_flag v = (case v of BoolV _ \<Rightarrow> True | _ \<Rightarrow> False)"

text \<open>One turn of \<open>parseOne\<close> on the arguments that are left.\<close>

datatype flag_step = NoFlag "string list" | SetFlag string flag_value "string list" | BadFlag | AskHelp

text \<open>\<open>name=value\<close>: an equals sign that is not the first character splits.\<close>

definition split_flag :: "string \<Rightarrow> string \<times> string option" where
  "split_flag name =
     (case dropWhile (\<lambda>c. c \<noteq> CHR ''='') (tl name) of
        [] \<Rightarrow> (name, None)
      | _ # v \<Rightarrow> (hd name # takeWhile (\<lambda>c. c \<noteq> CHR ''='') (tl name), Some v))"

definition set_step :: "string \<Rightarrow> flag_value option \<Rightarrow> string list \<Rightarrow> flag_step" where
  "set_step name v rest = (case v of None \<Rightarrow> BadFlag | Some x \<Rightarrow> SetFlag name x rest)"

definition flag_step_named :: "flag_values \<Rightarrow> string \<Rightarrow> string option \<Rightarrow> string list \<Rightarrow> flag_step" where
  "flag_step_named formal name value rest =
     (case map_of formal name of
        None \<Rightarrow> if name = ''help'' \<or> name = ''h'' then AskHelp else BadFlag
      | Some v \<Rightarrow>
          if is_bool_flag v
          then set_step name (set_value v (case value of Some t \<Rightarrow> t | None \<Rightarrow> ''true'')) rest
          else (case value of
                  Some t \<Rightarrow> set_step name (set_value v t) rest
                | None \<Rightarrow> (case rest of [] \<Rightarrow> BadFlag | t # rest' \<Rightarrow> set_step name (set_value v t) rest')))"

fun parse_one :: "flag_values \<Rightarrow> string list \<Rightarrow> flag_step" where
  "parse_one formal [] = NoFlag []"
| "parse_one formal (s # rest) =
     (if length s < 2 \<or> hd s \<noteq> CHR ''-'' then NoFlag (s # rest)
      else if s = ''--'' then NoFlag rest
      else let name = (if s ! 1 = CHR ''-'' then drop 2 s else drop 1 s)
           in if name = [] \<or> hd name = CHR ''-'' \<or> hd name = CHR ''='' then BadFlag
              else (case split_flag name of (nm, value) \<Rightarrow> flag_step_named formal nm value rest))"

lemma parse_one_shorter: "parse_one formal args = SetFlag nm v rest \<Longrightarrow> length rest < length args"
  by (cases args)
     (auto simp: flag_step_named_def set_step_def Let_def split: if_splits prod.splits option.splits list.splits)

text \<open>\<open>Parse\<close> with \<open>ExitOnError\<close>: status 0 after a request for help, 2 after an error.\<close>

datatype flags_parsed = FlagsOk flag_values "string list" | FlagsExit nat

function parse_flags :: "flag_values \<Rightarrow> flag_values \<Rightarrow> string list \<Rightarrow> flags_parsed" where
  "parse_flags formal actual args =
     (case parse_one formal args of
        NoFlag rest \<Rightarrow> FlagsOk actual rest
      | SetFlag nm v rest \<Rightarrow> parse_flags formal (AList.update nm v actual) rest
      | BadFlag \<Rightarrow> FlagsExit 2
      | AskHelp \<Rightarrow> FlagsExit 0)"
  by pat_completeness auto
termination
  by (relation "measure (\<lambda>(formal, actual, args). length args)") (auto dest: parse_one_shorter)

declare parse_flags.simps [simp del]

text \<open>The value a flag has after parsing, and the names \<open>Visit\<close> visits, in lexical order.\<close>

definition flag_of :: "flag_values \<Rightarrow> flag_values \<Rightarrow> string \<Rightarrow> flag_value" where
  "flag_of formal actual nm =
     (case map_of actual nm of Some v \<Rightarrow> v | None \<Rightarrow> (case map_of formal nm of Some v \<Rightarrow> v | None \<Rightarrow> StringV []))"

fun bool_of :: "flag_value \<Rightarrow> bool" where
  "bool_of (BoolV b) = b" | "bool_of _ = False"

fun int_of :: "flag_value \<Rightarrow> int" where
  "int_of (IntV i) = i" | "int_of _ = 0"

fun uint_of :: "flag_value \<Rightarrow> nat" where
  "uint_of (UintV n) = n" | "uint_of _ = 0"

fun text_of_flag :: "flag_value \<Rightarrow> string" where
  "text_of_flag (StringV s) = s" | "text_of_flag _ = []"

definition visit_flags :: "(string \<Rightarrow> 'a \<Rightarrow> 'a) \<Rightarrow> flag_values \<Rightarrow> 'a \<Rightarrow> 'a" where
  "visit_flags f actual x = fold f (sort (map fst actual)) x"

section \<open>What parsing keeps\<close>

text \<open>A flag that is set has the type it was declared with.\<close>

fun same_kind :: "flag_value \<Rightarrow> flag_value \<Rightarrow> bool" where
  "same_kind (BoolV _) (BoolV _) = True"
| "same_kind (IntV _) (IntV _) = True"
| "same_kind (UintV _) (UintV _) = True"
| "same_kind (StringV _) (StringV _) = True"
| "same_kind _ _ = False"

lemma set_value_kind: "set_value v s = Some x \<Longrightarrow> same_kind v x"
  by (cases v) auto

lemma parse_one_kind: "parse_one formal args = SetFlag nm x rest \<Longrightarrow> \<exists>v. map_of formal nm = Some v \<and> same_kind v x"
  by (cases args)
     (auto simp: flag_step_named_def set_step_def Let_def set_value_kind
       split: if_splits prod.splits option.splits list.splits)

lemma parse_flags_kind:
  "parse_flags formal actual args = FlagsOk actual' rest \<Longrightarrow>
     (\<forall>nm x. map_of actual nm = Some x \<longrightarrow> (\<exists>v. map_of formal nm = Some v \<and> same_kind v x)) \<Longrightarrow>
     map_of actual' nm = Some x \<Longrightarrow> \<exists>v. map_of formal nm = Some v \<and> same_kind v x"
proof (induction formal actual args rule: parse_flags.induct)
  case (1 formal actual args)
  show ?case
  proof (cases "parse_one formal args")
    case (SetFlag n v r)
    have "\<forall>nm x. map_of (AList.update n v actual) nm = Some x \<longrightarrow> (\<exists>v. map_of formal nm = Some v \<and> same_kind v x)"
      using parse_one_kind [OF SetFlag] 1(3) by (auto simp: update_conv')
    then show ?thesis using 1(1) [OF SetFlag] 1(2,4) SetFlag
      by (simp add: parse_flags.simps [of formal actual args])
  qed (use 1(2-4) in \<open>auto simp: parse_flags.simps [of formal actual args]\<close>)
qed

end
