(* ===== verification/Go_Json.thy ===== *)
theory Go_Json
  imports Go_Quote
begin

text \<open>
  What the program uses of \<open>encoding/json/v2\<close> and \<open>encoding/json/jsontext\<close>: the text of a value with
  the option \<open>Multiline\<close>, and the reading of a text into a value. A number is kept as its text. Both
  directions refuse strings that are not UTF-8, and reading refuses an object that has a name twice.
  Reading is strict about nesting as well: past ten thousand levels it is an error, which no type of
  the program gets near, so a text nested deeper is refused by the type it is read into.
\<close>

section \<open>Values and strings\<close>

datatype json =
    JNull
  | JBool bool
  | JNum string
  | JStr string
  | JArr "json list"
  | JObj "(string \<times> json) list"

text \<open>\<open>appendEscapedASCII\<close>: one byte below 128.\<close>

definition json_escape :: "char \<Rightarrow> string" where
  "json_escape c =
     (if c = CHR 0x22 \<or> c = CHR 0x5C then [CHR 0x5C, c]
      else if code c = 8 then [CHR 0x5C, CHR ''b'']
      else if code c = 12 then [CHR 0x5C, CHR ''f'']
      else if code c = 10 then [CHR 0x5C, CHR ''n'']
      else if code c = 13 then [CHR 0x5C, CHR ''r'']
      else if code c = 9 then [CHR 0x5C, CHR ''t'']
      else if code c < 32 then [CHR 0x5C, CHR ''u''] @ hex_digits 4 (code c)
      else [c])"

text \<open>The width of the character at the head of a text, if it is UTF-8.\<close>

definition utf8_width :: "string \<Rightarrow> nat option" where
  "utf8_width s = (case decode_rune (bytes_of s) of (r, w) \<Rightarrow> if w = 0 \<or> (w = 1 \<and> r = rune_error) then None else Some w)"

lemma utf8_width_pos: "utf8_width s = Some w \<Longrightarrow> 0 < w"
  by (auto simp: utf8_width_def split: prod.splits if_splits)

text \<open>\<open>AppendQuote\<close>, without the quotes.\<close>

function quoted_body :: "string \<Rightarrow> string option" where
  "quoted_body [] = Some []"
| "quoted_body (c # s) =
     (case utf8_width (c # s) of
        None \<Rightarrow> None
      | Some w \<Rightarrow>
          map_option (\<lambda>t. (if code c < 128 then json_escape c else take w (c # s)) @ t) (quoted_body (drop w (c # s))))"
  by pat_completeness auto
termination
  by (relation "measure length") (auto dest!: utf8_width_pos)

definition json_quote :: "string \<Rightarrow> string option" where
  "json_quote s = map_option (\<lambda>t. [CHR 0x22] @ t @ [CHR 0x22]) (quoted_body s)"

section \<open>Printing\<close>

definition indent :: "nat \<Rightarrow> string" where
  "indent d = CHR 0x0A # replicate d (CHR 0x09)"

text \<open>The text of a value at depth \<open>d\<close>; \<open>None\<close> for a string that is not UTF-8.\<close>

fun json_text :: "nat \<Rightarrow> json \<Rightarrow> string option"
  and items_text :: "nat \<Rightarrow> json list \<Rightarrow> string option"
  and members_text :: "nat \<Rightarrow> (string \<times> json) list \<Rightarrow> string option" where
  "json_text d JNull = Some ''null''"
| "json_text d (JBool b) = Some (if b then ''true'' else ''false'')"
| "json_text d (JNum n) = Some n"
| "json_text d (JStr s) = json_quote s"
| "json_text d (JArr vs) =
     (if vs = [] then Some ''[]'' else map_option (\<lambda>t. ''['' @ t @ indent d @ '']'') (items_text (Suc d) vs))"
| "json_text d (JObj ms) =
     (if ms = [] then Some ''{}'' else map_option (\<lambda>t. ''{'' @ t @ indent d @ ''}'') (members_text (Suc d) ms))"
| "items_text d [] = Some []"
| "items_text d (v # vs) =
     (case json_text d v of
        None \<Rightarrow> None
      | Some t \<Rightarrow> map_option (\<lambda>u. indent d @ t @ (if vs = [] then [] else '','') @ u) (items_text d vs))"
| "members_text d [] = Some []"
| "members_text d ((k, v) # ms) =
     (case json_quote k of
        None \<Rightarrow> None
      | Some q \<Rightarrow>
     (case json_text d v of
        None \<Rightarrow> None
      | Some t \<Rightarrow> map_option (\<lambda>u. indent d @ q @ '': '' @ t @ (if ms = [] then [] else '','') @ u) (members_text d ms)))"

section \<open>Reading\<close>

definition json_space :: "char \<Rightarrow> bool" where
  "json_space c \<longleftrightarrow> code c = 32 \<or> code c = 9 \<or> code c = 10 \<or> code c = 13"

definition json_skip :: "string \<Rightarrow> string" where
  "json_skip s = dropWhile json_space s"

text \<open>A digit in hexadecimal of either case, and four of them.\<close>

definition hex_val :: "char \<Rightarrow> nat option" where
  "hex_val c =
     (let b = code c
      in if in_range 48 57 b then Some (b - 48)
         else if in_range 97 102 b then Some (b - 87)
         else if in_range 65 70 b then Some (b - 55) else None)"

fun hex4 :: "string \<Rightarrow> (nat \<times> string) option" where
  "hex4 (a # b # c # d # s) =
     (case (hex_val a, hex_val b, hex_val c, hex_val d) of
        (Some i, Some j, Some k, Some l) \<Rightarrow> Some (((i * 16 + j) * 16 + k) * 16 + l, s)
      | _ \<Rightarrow> None)"
| "hex4 _ = None"

text \<open>\<open>utf8.AppendRune\<close> of a rune that is not a surrogate.\<close>

definition encode_rune :: "rune \<Rightarrow> string" where
  "encode_rune r =
     map char_of
       (if r < 128 then [r]
        else if r < 2048 then [192 + r div 64, 128 + r mod 64]
        else if r < 65536 then [224 + r div 4096, 128 + r div 64 mod 64, 128 + r mod 64]
        else [240 + r div 262144, 128 + r div 4096 mod 64, 128 + r div 64 mod 64, 128 + r mod 64])"

text \<open>What follows a backslash: the bytes it stands for and the rest. A surrogate needs its other half.\<close>

definition unicode_escape :: "string \<Rightarrow> (string \<times> string) option" where
  "unicode_escape s =
     (case hex4 s of
        None \<Rightarrow> None
      | Some (v1, r) \<Rightarrow>
          if \<not> in_range 0xD800 0xDFFF v1 then Some (encode_rune v1, r)
          else if take 2 r \<noteq> [CHR 0x5C, CHR ''u''] then None
          else (case hex4 (drop 2 r) of
                  None \<Rightarrow> None
                | Some (v2, r2) \<Rightarrow>
                    if in_range 0xD800 0xDBFF v1 \<and> in_range 0xDC00 0xDFFF v2
                    then Some (encode_rune ((v1 - 0xD800) * 1024 + (v2 - 0xDC00) + 65536), r2) else None))"

fun escape_sequence :: "string \<Rightarrow> (string \<times> string) option" where
  "escape_sequence [] = None"
| "escape_sequence (c # s) =
     (if c = CHR 0x22 \<or> c = CHR 0x5C \<or> c = CHR ''/'' then Some ([c], s)
      else if c = CHR ''b'' then Some ([CHR 0x08], s)
      else if c = CHR ''f'' then Some ([CHR 0x0C], s)
      else if c = CHR ''n'' then Some ([CHR 0x0A], s)
      else if c = CHR ''r'' then Some ([CHR 0x0D], s)
      else if c = CHR ''t'' then Some ([CHR 0x09], s)
      else if c = CHR ''u'' then unicode_escape s
      else None)"

lemma hex4_shorter: "hex4 s = Some (v, r) \<Longrightarrow> length r < length s"
  by (cases s rule: hex4.cases) (auto split: option.splits)

lemma escape_sequence_shorter: "escape_sequence s = Some (t, r) \<Longrightarrow> length r < length s"
  by (cases s) (auto simp: unicode_escape_def split: if_splits option.splits dest!: hex4_shorter)

text \<open>The rest of a string after its opening quote.\<close>

function unquote :: "string \<Rightarrow> (string \<times> string) option" where
  "unquote [] = None"
| "unquote (c # s) =
     (if c = CHR 0x22 then Some ([], s)
      else if c = CHR 0x5C then
        (case escape_sequence s of
           None \<Rightarrow> None
         | Some (t, r) \<Rightarrow> map_option (\<lambda>(u, r'). (t @ u, r')) (unquote r))
      else if code c < 32 then None
      else (case utf8_width (c # s) of
              None \<Rightarrow> None
            | Some w \<Rightarrow> map_option (\<lambda>(u, r'). (take w (c # s) @ u, r')) (unquote (drop w (c # s)))))"
  by pat_completeness auto
termination
  by (relation "measure length") (auto dest!: utf8_width_pos escape_sequence_shorter)

text \<open>\<open>ConsumeNumber\<close>: an optional sign, digits without a leading zero, a fraction, an exponent.\<close>

definition fraction_part :: "string \<Rightarrow> string option" where
  "fraction_part s =
     (case s of
        c # t \<Rightarrow>
          if c = CHR ''.'' then (if takeWhile is_digit t = [] then None else Some (c # takeWhile is_digit t)) else Some []
      | [] \<Rightarrow> Some [])"

definition exponent_part :: "string \<Rightarrow> string option" where
  "exponent_part s =
     (case s of
        c # t \<Rightarrow>
          if c = CHR ''e'' \<or> c = CHR ''E'' then
            (let sg = takeWhile (\<lambda>x. x = CHR ''+'' \<or> x = CHR ''-'') (take 1 t); ds = takeWhile is_digit (drop (length sg) t)
             in if ds = [] then None else Some (c # sg @ ds))
          else Some []
      | [] \<Rightarrow> Some [])"

definition json_number :: "string \<Rightarrow> (string \<times> string) option" where
  "json_number s =
     (let sg = takeWhile (\<lambda>x. x = CHR ''-'') (take 1 s);
          t = drop (length sg) s;
          ds = takeWhile is_digit t;
          ip = (if take 1 ds = ''0'' then ''0'' else ds)
      in if ds = [] then None
         else (case fraction_part (drop (length ip) t) of
                 None \<Rightarrow> None
               | Some f \<Rightarrow>
                   (case exponent_part (drop (length f) (drop (length ip) t)) of
                      None \<Rightarrow> None
                    | Some e \<Rightarrow> (let n = sg @ ip @ f @ e in Some (n, drop (length n) s)))))"


text \<open>
  A value, the items of an array after its bracket or a comma, and the members of an object likewise,
  \<open>seen\<close> the names so far. A call takes a byte before it goes on, but for the call for the first item of
  an array, so more fuel than twice the number of the bytes is enough.
\<close>

fun parse_value :: "nat \<Rightarrow> string \<Rightarrow> (json \<times> string) option"
  and parse_items :: "nat \<Rightarrow> string \<Rightarrow> (json list \<times> string) option"
  and parse_members :: "nat \<Rightarrow> string list \<Rightarrow> string \<Rightarrow> ((string \<times> json) list \<times> string) option" where
  "parse_value 0 s = None"
| "parse_value (Suc n) s =
     (case json_skip s of
        [] \<Rightarrow> None
      | c # t \<Rightarrow>
          if c = CHR 0x22 then map_option (\<lambda>(u, r). (JStr u, r)) (unquote t)
          else if c = CHR ''['' then
            (if take 1 (json_skip t) = '']'' then Some (JArr [], tl (json_skip t))
             else map_option (\<lambda>(vs, r). (JArr vs, r)) (parse_items n t))
          else if c = CHR ''{'' then
            (if take 1 (json_skip t) = ''}'' then Some (JObj [], tl (json_skip t))
             else map_option (\<lambda>(ms, r). (JObj ms, r)) (parse_members n [] t))
          else if take 4 (c # t) = ''null'' then Some (JNull, drop 3 t)
          else if take 4 (c # t) = ''true'' then Some (JBool True, drop 3 t)
          else if take 5 (c # t) = ''false'' then Some (JBool False, drop 4 t)
          else map_option (\<lambda>(x, r). (JNum x, r)) (json_number (c # t)))"
| "parse_items 0 s = None"
| "parse_items (Suc n) s =
     (case parse_value n s of
        None \<Rightarrow> None
      | Some (v, r) \<Rightarrow>
          (case json_skip r of
             [] \<Rightarrow> None
           | c # t \<Rightarrow>
               if c = CHR '','' then map_option (\<lambda>(vs, r'). (v # vs, r')) (parse_items n t)
               else if c = CHR '']'' then Some ([v], t) else None))"
| "parse_members 0 seen s = None"
| "parse_members (Suc n) seen s =
     (if take 1 (json_skip s) \<noteq> [CHR 0x22] then None
      else
     (case unquote (tl (json_skip s)) of
        None \<Rightarrow> None
      | Some (k, r) \<Rightarrow>
          if k \<in> set seen \<or> take 1 (json_skip r) \<noteq> '':'' then None
          else
          (case parse_value n (tl (json_skip r)) of
             None \<Rightarrow> None
           | Some (v, r) \<Rightarrow>
               (case json_skip r of
                  [] \<Rightarrow> None
                | c # t \<Rightarrow>
                    if c = CHR '','' then map_option (\<lambda>(ms, r'). ((k, v) # ms, r')) (parse_members n (k # seen) t)
                    else if c = CHR ''}'' then Some ([(k, v)], t) else None))))"

text \<open>A whole text is one value with white space around it.\<close>

definition parse_json :: "string \<Rightarrow> json option" where
  "parse_json s =
     (case parse_value (2 * length s + 2) s of
        None \<Rightarrow> None
      | Some (v, r) \<Rightarrow> if json_skip r = [] then Some v else None)"

section \<open>More fuel changes nothing\<close>

lemma length_json_skip [simp]: "length (json_skip s) \<le> length s"
  by (simp add: json_skip_def length_dropWhile_le)

lemma json_skip_Cons: "json_skip s = c # t \<Longrightarrow> length t < length s"
  using length_json_skip [of s] by simp

lemma unquote_shorter: "unquote s = Some (u, r) \<Longrightarrow> length r < length s"
proof (induction s arbitrary: u r rule: unquote.induct)
  case (2 c s)
  then show ?case
    by (auto split: if_splits option.splits dest!: escape_sequence_shorter utf8_width_pos) force+
qed simp

lemma json_number_shorter: "json_number s = Some (n, r) \<Longrightarrow> length r < length s"
  by (cases s) (auto simp: json_number_def Let_def split: if_splits option.splits)

lemma parse_shorter_all:
  "(\<forall>s v r. parse_value n s = Some (v, r) \<longrightarrow> length r < length s)
   \<and> (\<forall>s vs r. parse_items n s = Some (vs, r) \<longrightarrow> length r < length s)
   \<and> (\<forall>seen s ms r. parse_members n seen s = Some (ms, r) \<longrightarrow> length r < length s)"
proof (induction n)
  case (Suc n)
  then have IH: "\<And>s v r. parse_value n s = Some (v, r) \<Longrightarrow> length r < length s"
    "\<And>s vs r. parse_items n s = Some (vs, r) \<Longrightarrow> length r < length s"
    "\<And>seen s ms r. parse_members n seen s = Some (ms, r) \<Longrightarrow> length r < length s"
    by blast+
  have tls: "length (tl (json_skip t)) \<le> length t" for t
    by (rule order_trans [OF _ length_json_skip]) simp
  have "length r < length s" if v: "parse_value (Suc n) s = Some (v, r)" for s v r
  proof (cases "json_skip s")
    case (Cons c t)
    have "length t < length s" using Cons by (rule json_skip_Cons)
    moreover have "length r \<le> length t"
      using v Cons tls [of t]
      by (auto split: if_splits dest!: IH unquote_shorter json_number_shorter)
    ultimately show ?thesis by simp
  qed (use v in simp)
  moreover have "length r < length s" if v: "parse_items (Suc n) s = Some (vs, r)" for s vs r
    using v by (auto split: option.splits list.splits if_splits dest!: IH json_skip_Cons)
  moreover have "length r < length s" if m: "parse_members (Suc n) seen s = Some (ms, r)" for seen s ms r
  proof -
    obtain k r1 v r2 c t where "unquote (tl (json_skip s)) = Some (k, r1)" "parse_value n (tl (json_skip r1)) = Some (v, r2)"
      "json_skip r2 = c # t" and t: "length r \<le> length t"
      using m by (auto split: option.splits list.splits if_splits dest!: IH)
    then show ?thesis
      using tls [of s] tls [of r1] by (auto dest!: IH unquote_shorter json_skip_Cons)
  qed
  ultimately show ?case by blast
qed simp

lemma parse_shorter:
  "parse_value n s = Some (v, r) \<Longrightarrow> length r < length s"
  "parse_items n s = Some (vs, r) \<Longrightarrow> length r < length s"
  "parse_members n seen s = Some (ms, r) \<Longrightarrow> length r < length s"
  using parse_shorter_all [of n] by blast+

lemma parse_fuel_all:
  "(\<forall>m s. 2 * length s < n \<longrightarrow> 2 * length s < m \<longrightarrow> parse_value n s = parse_value m s)
   \<and> (\<forall>m s. 2 * length s + 1 < n \<longrightarrow> 2 * length s + 1 < m \<longrightarrow> parse_items n s = parse_items m s)
   \<and> (\<forall>m seen s. 2 * length s < n \<longrightarrow> 2 * length s < m \<longrightarrow> parse_members n seen s = parse_members m seen s)"
proof (induction n)
  case (Suc n)
  then have IH: "\<And>m s. 2 * length s < n \<Longrightarrow> 2 * length s < m \<Longrightarrow> parse_value n s = parse_value m s"
    "\<And>m s. 2 * length s + 1 < n \<Longrightarrow> 2 * length s + 1 < m \<Longrightarrow> parse_items n s = parse_items m s"
    "\<And>m seen s. 2 * length s < n \<Longrightarrow> 2 * length s < m \<Longrightarrow> parse_members n seen s = parse_members m seen s"
    by blast+
  have "parse_value (Suc n) s = parse_value m s" if "2 * length s < Suc n" "2 * length s < m" for m s
  proof (cases "json_skip s")
    case (Cons c t)
    note bound = that
    then obtain m' where m: "m = Suc m'" by (cases m) auto
    have "length t < length s" using Cons by (rule json_skip_Cons)
    then have "parse_items n t = parse_items m' t" "parse_members n [] t = parse_members m' [] t"
      using that m by (auto intro!: IH)
    then show ?thesis using Cons m by simp
  qed (use that in \<open>cases m; simp\<close>)
  moreover have "parse_items (Suc n) s = parse_items m s" if "2 * length s + 1 < Suc n" "2 * length s + 1 < m" for m s
  proof -
    note bound = that
    then obtain m' where m: "m = Suc m'" by (cases m) auto
    have v: "parse_value n s = parse_value m' s" using that m by (intro IH) auto
    have "parse_items n t = parse_items m' t" if "parse_value m' s = Some (v, r)" "json_skip r = c # t" for v r c t
    proof -
      have "length t < length s" using that parse_shorter(1) json_skip_Cons less_trans by blast
      then show ?thesis using \<open>2 * length s + 1 < Suc n\<close> \<open>2 * length s + 1 < m\<close> m by (intro IH) auto
    qed
    then show ?thesis using m v by (auto split: option.splits list.splits)
  qed
  moreover have "parse_members (Suc n) seen s = parse_members m seen s" if "2 * length s < Suc n" "2 * length s < m" for m seen s
  proof -
    note bound = that
    then obtain m' where m: "m = Suc m'" by (cases m) auto
    have tls: "length (tl (json_skip t)) \<le> length t" for t
      by (rule order_trans [OF _ length_json_skip]) simp
    have v: "parse_value n (tl (json_skip r)) = parse_value m' (tl (json_skip r))"
      if "unquote (tl (json_skip s)) = Some (k, r)" for k r
    proof -
      have "length (tl (json_skip r)) < length s" using unquote_shorter [OF that] tls [of r] tls [of s] by linarith
      then show ?thesis using \<open>2 * length s < Suc n\<close> \<open>2 * length s < m\<close> m by (intro IH) auto
    qed
    have "parse_members n seen' t = parse_members m' seen' t"
      if "unquote (tl (json_skip s)) = Some (k, r)" "parse_value m' (tl (json_skip r)) = Some (v, r2)" "json_skip r2 = c # t"
      for seen' k r v r2 c t
    proof -
      have "length t < length s"
        using unquote_shorter [OF that(1)] parse_shorter(1) [OF that(2)] json_skip_Cons [OF that(3)] tls [of r] tls [of s] by linarith
      then show ?thesis using \<open>2 * length s < Suc n\<close> \<open>2 * length s < m\<close> m by (intro IH) auto
    qed
    then show ?thesis using m v by (auto split: option.splits list.splits)
  qed
  ultimately show ?case by blast
qed simp

lemma parse_value_fuel: "2 * length s < n \<Longrightarrow> 2 * length s < m \<Longrightarrow> parse_value n s = parse_value m s"
  using parse_fuel_all [of n] by blast

section \<open>What is printed is read back\<close>

lemma code_less [simp]: "code c < 256"
  by (simp add: code_def)

lemma char_of_code [simp]: "char_of (code c) = c"
  by (simp add: code_def)

lemma code_eq: "code c = code d \<longleftrightarrow> c = d"
  by (simp add: code_def)

lemma control_codes:
  "code c = 8 \<longleftrightarrow> c = CHR 0x08" "code c = 9 \<longleftrightarrow> c = CHR 0x09" "code c = 12 \<longleftrightarrow> c = CHR 0x0C" "code c = 13 \<longleftrightarrow> c = CHR 0x0D"
proof -
  have "code (CHR 0x08) = 8" "code (CHR 0x09) = 9" "code (CHR 0x0C) = 12" "code (CHR 0x0D) = 13" by (simp_all add: code_def)
  then show "code c = 8 \<longleftrightarrow> c = CHR 0x08" "code c = 9 \<longleftrightarrow> c = CHR 0x09" "code c = 12 \<longleftrightarrow> c = CHR 0x0C" "code c = 13 \<longleftrightarrow> c = CHR 0x0D"
    by (metis code_eq)+
qed

lemma bytes_of_simps [simp]: "bytes_of [] = []" "bytes_of (c # s) = code c # bytes_of s" "bytes_of (s @ t) = bytes_of s @ bytes_of t"
  by (simp_all add: bytes_of_def code_def)

lemma utf8_width_ascii: "code c < 128 \<Longrightarrow> utf8_width (c # s) = Some 1"
  by (simp add: utf8_width_def decode_rune_ascii rune_error_def)

lemma quoted_ascii_append:
  "is_ascii s \<Longrightarrow> quoted_body (s @ u) = map_option (\<lambda>t. concat (map json_escape s) @ t) (quoted_body u)"
proof (induction s)
  case (Cons c s)
  then have "code c < 128" "is_ascii s" by (simp_all add: is_ascii_def code_def)
  with Cons.IH show ?case by (simp add: utf8_width_ascii option.map_comp comp_def)
qed (cases "quoted_body u"; simp)

lemma quoted_ascii: "is_ascii s \<Longrightarrow> quoted_body s = Some (concat (map json_escape s))"
  using quoted_ascii_append [of s "[]"] by simp

lemma decode_rune_take:
  assumes "decode_rune bs = (r, w)" and "w \<noteq> 0" and "\<not> (w = 1 \<and> r = rune_error)"
  shows "w \<le> length bs \<and> decode_rune (take w bs @ t) = (r, w)"
  using assms by (cases bs) (auto simp: decode_rune.simps split: if_splits list.splits)

lemma utf8_width_take:
  assumes "utf8_width s = Some w"
  shows "w \<le> length s" and "utf8_width (take w s @ t) = Some w"
proof -
  obtain r where d: "decode_rune (bytes_of s) = (r, w)" and ok: "w \<noteq> 0" "\<not> (w = 1 \<and> r = rune_error)"
    using assms by (auto simp: utf8_width_def split: prod.splits if_splits)
  have "bytes_of (take w s) = take w (bytes_of s)" by (simp add: bytes_of_def take_map)
  with decode_rune_take [OF d ok, of "bytes_of t"] ok show "w \<le> length s" "utf8_width (take w s @ t) = Some w"
    by (auto simp: utf8_width_def) (simp_all add: bytes_of_def)
qed

lemma hex_val_digit: "d < 16 \<Longrightarrow> hex_val (hex_digit d) = Some d"
  by (auto simp: hex_val_def hex_digit_def digit_char_def code_def Let_def in_range_def)

lemma hex4_digits: "r < 65536 \<Longrightarrow> hex4 (hex_digits 4 r @ s) = Some (r, s)"
proof -
  assume r: "r < 65536"
  have four: "4 = Suc (Suc (Suc (Suc 0)))" by simp
  have "hex_digits 4 r = [hex_digit (r div 16 div 16 div 16 mod 16), hex_digit (r div 16 div 16 mod 16), hex_digit (r div 16 mod 16), hex_digit (r mod 16)]"
    unfolding four by (simp only: hex_digits.simps append.simps)
  moreover have "r div 16 div 16 = r div 256" "r div 256 div 16 = r div 4096"
    using div_mult2_eq [of r 16 16] div_mult2_eq [of r 256 16] by simp_all
  ultimately have "hex4 (hex_digits 4 r @ s) = Some (((r div 4096 mod 16 * 16 + r div 256 mod 16) * 16 + r div 16 mod 16) * 16 + r mod 16, s)"
    by (simp only: append.simps hex4.simps) (simp add: hex_val_digit)
  also have "((r div 4096 mod 16 * 16 + r div 256 mod 16) * 16 + r div 16 mod 16) * 16 + r mod 16 = r"
  proof -
    have "r mod 16 + 16 * (r div 16 mod 16) = r mod 256" "r mod 256 + 256 * (r div 256 mod 16) = r mod 4096"
      "r mod 4096 + 4096 * (r div 4096 mod 16) = r mod 65536"
      using mod_mult2_eq [of r 16 16] mod_mult2_eq [of r 256 16] mod_mult2_eq [of r 4096 16] by simp_all
    moreover have "r mod 65536 = r" using r by simp
    moreover have "((a * 16 + b) * 16 + c) * 16 + d = r" if "d + 16 * c = x" "x + 256 * b = y" "y + 4096 * a = z" "z = r"
      for a b c d x y z :: nat using that by simp
    ultimately show ?thesis by blast
  qed
  finally show ?thesis .
qed

lemma escape_then_unquote:
  assumes "code c < 128"
  shows "unquote (json_escape c @ s) = map_option (\<lambda>(u, r). (c # u, r)) (unquote s)"
proof -
  have u: "unquote (CHR 0x5C # x # t @ s) = map_option (\<lambda>(u, r). (c # u, r)) (unquote s)" if "escape_sequence (x # t @ s) = Some ([c], s)" for x t
    using that by simp
  consider "c = CHR 0x22 \<or> c = CHR 0x5C" | "code c = 8" | "code c = 12" | "code c = 10" | "code c = 13" | "code c = 9"
    | "code c < 32" "code c \<notin> {8, 9, 10, 12, 13}" | "32 \<le> code c" "c \<noteq> CHR 0x22" "c \<noteq> CHR 0x5C" by fastforce
  then show ?thesis
  proof cases
    case 1
    then show ?thesis using u [of c "[]"] by (auto simp: json_escape_def)
  next
    case 7
    then have "c \<noteq> CHR 0x22" "c \<noteq> CHR 0x5C" by (auto simp: char_codes)
    moreover have "escape_sequence (CHR ''u'' # hex_digits 4 (code c) @ s) = Some ([c], s)"
      using 7 by (simp add: unicode_escape_def hex4_digits in_range_def encode_rune_def)
    ultimately show ?thesis using 7 u [of "CHR ''u''" "hex_digits 4 (code c)"] by (simp add: json_escape_def)
  next
    case 8
    then show ?thesis using assms by (simp add: json_escape_def utf8_width_ascii)
  next
    case 2
    then have "c = CHR 0x08" by (simp only: control_codes)
    then show ?thesis using u [of "CHR ''b''" "[]"] by (simp add: json_escape_def code_def)
  next
    case 3
    then have "c = CHR 0x0C" by (simp only: control_codes)
    then show ?thesis using u [of "CHR ''f''" "[]"] by (simp add: json_escape_def code_def)
  next
    case 4
    then have "c = CHR 0x0A" by (simp add: char_codes)
    then show ?thesis using u [of "CHR ''n''" "[]"] by (simp add: json_escape_def code_def)
  next
    case 5
    then have "c = CHR 0x0D" by (simp only: control_codes)
    then show ?thesis using u [of "CHR ''r''" "[]"] by (simp add: json_escape_def code_def)
  next
    case 6
    then have "c = CHR 0x09" by (simp only: control_codes)
    then show ?thesis using u [of "CHR ''t''" "[]"] by (simp add: json_escape_def code_def)
  qed
qed

lemma unquote_quoted:
  "quoted_body s = Some t \<Longrightarrow> unquote (t @ CHR 0x22 # rest) = Some (s, rest)"
proof (induction s arbitrary: t rule: quoted_body.induct)
  case 1
  then show ?case by simp
next
  case (2 c s)
  then obtain w u where w: "utf8_width (c # s) = Some w" and u: "quoted_body (drop w (c # s)) = Some u"
    and t: "t = (if code c < 128 then json_escape c else take w (c # s)) @ u"
    by (auto split: option.splits)
  have IH: "unquote (u @ CHR 0x22 # rest) = Some (drop w (c # s), rest)" using 2(1) [OF w u] .
  show ?case
  proof (cases "code c < 128")
    case True
    then have "w = 1" using w utf8_width_ascii by simp
    with True t IH show ?thesis by (simp add: escape_then_unquote)
  next
    case False
    obtain w' where w': "w = Suc w'" using utf8_width_pos [OF w] by (cases w) auto
    have big: "c \<noteq> CHR 0x22" "c \<noteq> CHR 0x5C" "\<not> code c < 32" using False by (auto simp: char_codes)
    have "utf8_width (take w (c # s) @ u @ CHR 0x22 # rest) = Some w" using w by (rule utf8_width_take(2))
    then have "utf8_width (c # take w' s @ u @ CHR 0x22 # rest) = Some w" using w' by simp
    moreover have "w' \<le> length s" using utf8_width_take(1) [OF w] w' by simp
    ultimately show ?thesis using False t IH big w' by simp
  qed
qed

text \<open>A number ends before a character that cannot go on with it.\<close>

definition number_ends :: "string \<Rightarrow> bool" where
  "number_ends s \<longleftrightarrow> (case s of [] \<Rightarrow> True | c # _ \<Rightarrow> \<not> is_digit c \<and> c \<noteq> CHR ''.'' \<and> c \<noteq> CHR ''e'' \<and> c \<noteq> CHR ''E'')"

lemma number_ends_simps [simp]:
  "number_ends []" "number_ends (CHR '','' # s)" "number_ends (CHR 0x0A # s)"
  by (simp_all add: number_ends_def is_digit_def)

lemma show_nat_head: "n \<noteq> 0 \<Longrightarrow> digit_val (hd (show_nat n)) \<noteq> 0"
proof (induction n rule: show_nat.induct)
  case (1 n)
  then show ?case by (cases "n < 10") (auto simp: show_nat.simps [of n])
qed

lemma show_nat_zero: "take 1 (show_nat n) = ''0'' \<Longrightarrow> show_nat n = ''0''"
proof -
  assume t: "take 1 (show_nat n) = ''0''"
  then have "hd (show_nat n) = CHR ''0''" by (cases "show_nat n") auto
  then have "n = 0" using show_nat_head [of n] by (auto simp: digit_val_def)
  with t show ?thesis by (simp add: show_nat.simps)
qed

lemma takeWhile_show_nat: "number_ends rest \<Longrightarrow> takeWhile is_digit (show_nat n @ rest) = show_nat n"
  by (cases rest) (auto simp: takeWhile_append2 show_nat_digits number_ends_def takeWhile_tail)

lemma parts_at_end: "number_ends rest \<Longrightarrow> fraction_part rest = Some []" "number_ends rest \<Longrightarrow> exponent_part rest = Some []"
  by (auto simp: number_ends_def fraction_part_def exponent_part_def split: list.splits)

lemma json_number_show:
  assumes "number_ends rest"
  shows "json_number (show_int i @ rest) = Some (show_int i, rest)"
proof -
  have hd: "hd (show_nat n) \<noteq> CHR ''-''" for n using digit_not_sign [OF show_nat_hd [of n]] by simp
  have nat: "json_number (sg @ show_nat n @ rest) = Some (sg @ show_nat n, rest)" if "sg = [] \<or> sg = ''-''" for sg n
  proof -
    have sg: "takeWhile (\<lambda>x. x = CHR ''-'') (take 1 (sg @ show_nat n @ rest)) = sg"
      using that hd [of n] by (cases "show_nat n") auto
    have ip: "(if take 1 (show_nat n) = ''0'' then ''0'' else show_nat n) = show_nat n" using show_nat_zero [of n] by metis
    have t: "drop (length sg) (sg @ show_nat n @ rest) = show_nat n @ rest" by simp
    show ?thesis
      unfolding json_number_def Let_def sg t takeWhile_show_nat [OF assms] ip by (simp add: assms parts_at_end)
  qed
  show ?thesis
    using nat [of "[]" "nat i"] nat [of "''-''" "nat (- i)"] by (simp add: show_int_def)
qed

section \<open>A value\<close>

text \<open>What can be printed and read back: numbers are integers, and no object has a name twice.\<close>

fun json_ok :: "json \<Rightarrow> bool" where
  "json_ok (JNum n) \<longleftrightarrow> (\<exists>i. n = show_int i)"
| "json_ok (JArr vs) \<longleftrightarrow> (\<forall>v \<in> set vs. json_ok v)"
| "json_ok (JObj ms) \<longleftrightarrow> distinct (map fst ms) \<and> (\<forall>m \<in> set ms. json_ok (snd m))"
| "json_ok v \<longleftrightarrow> True"

lemma json_skip_indent [simp]: "json_skip (indent d @ s) = json_skip s"
  by (induction d) (simp_all add: json_skip_def indent_def json_space_def code_def)

lemma json_skip_id: "\<not> json_space c \<Longrightarrow> json_skip (c # s) = c # s"
  by (simp add: json_skip_def)

lemma visible [simp]:
  "\<not> json_space (CHR '','')" "\<not> json_space (CHR '']'')" "\<not> json_space (CHR ''}'')" "\<not> json_space (CHR 0x22)"
  "\<not> json_space (CHR ''['')" "\<not> json_space (CHR ''{'')" "\<not> json_space (CHR '':'')" "\<not> json_space (CHR ''n'')"
  "\<not> json_space (CHR ''t'')" "\<not> json_space (CHR ''f'')" "json_space (CHR '' '')"
  by (simp_all add: json_space_def code_def)

text \<open>Printing succeeds exactly when every string is UTF-8.\<close>

fun json_utf8 :: "json \<Rightarrow> bool" where
  "json_utf8 (JStr s) \<longleftrightarrow> quoted_body s \<noteq> None"
| "json_utf8 (JArr vs) \<longleftrightarrow> (\<forall>v \<in> set vs. json_utf8 v)"
| "json_utf8 (JObj ms) \<longleftrightarrow> (\<forall>m \<in> set ms. quoted_body (fst m) \<noteq> None \<and> json_utf8 (snd m))"
| "json_utf8 v \<longleftrightarrow> True"

lemma json_text_total:
  "json_text d v \<noteq> None \<longleftrightarrow> json_utf8 v"
  "items_text d vs \<noteq> None \<longleftrightarrow> (\<forall>v \<in> set vs. json_utf8 v)"
  "members_text d ms \<noteq> None \<longleftrightarrow> (\<forall>m \<in> set ms. quoted_body (fst m) \<noteq> None \<and> json_utf8 (snd m))"
  by (induction d v and d vs and d ms rule: json_text_items_text_members_text.induct)
    (auto simp: json_quote_def split: option.splits)

text \<open>How the text of a value begins.\<close>

definition value_head :: "char \<Rightarrow> bool" where
  "value_head c \<longleftrightarrow> \<not> json_space c \<and> c \<noteq> CHR '']'' \<and> c \<noteq> CHR ''}''"

lemma show_int_head:
  obtains c t where "show_int i = c # t" and "is_digit c \<or> c = CHR ''-''"
proof (cases "i < 0")
  case False
  then show ?thesis using show_nat_hd [of "nat i"] by (cases "show_nat (nat i)") (auto simp: show_int_def intro: that)
qed (auto simp: show_int_def intro: that)

lemma digit_head: "is_digit c \<or> c = CHR ''-'' \<Longrightarrow>
  value_head c \<and> c \<noteq> CHR 0x22 \<and> c \<noteq> CHR ''['' \<and> c \<noteq> CHR ''{'' \<and> c \<noteq> CHR ''n'' \<and> c \<noteq> CHR ''t'' \<and> c \<noteq> CHR ''f''"
  by (auto simp: is_digit_def value_head_def json_space_def code_def)

lemma value_heads: "value_head (CHR ''n'')" "value_head (CHR ''t'')" "value_head (CHR ''f'')" "value_head (CHR 0x22)"
  "value_head (CHR ''['')" "value_head (CHR ''{'')"
  by (simp_all add: value_head_def)

lemma json_text_head:
  assumes "json_text d v = Some t" and "json_ok v"
  shows "\<exists>c u. t = c # u \<and> value_head c"
proof (cases v)
  case JNull
  with assms obtain u where "t = CHR ''n'' # u" by auto
  then show ?thesis using value_heads by blast
next
  case (JBool b)
  with assms obtain u where "t = CHR ''t'' # u \<or> t = CHR ''f'' # u" by (cases b) auto
  then show ?thesis using value_heads by blast
next
  case (JNum n)
  with assms obtain i where "t = show_int i" by auto
  with show_int_head [of i] digit_head show ?thesis by metis
next
  case (JStr s)
  with assms obtain u where "t = CHR 0x22 # u" by (auto simp: json_quote_def)
  then show ?thesis using value_heads by blast
next
  case (JArr vs)
  with assms obtain u where "t = CHR ''['' # u" by (cases "vs = []") auto
  then show ?thesis using value_heads by blast
next
  case (JObj ms)
  with assms obtain u where "t = CHR ''{'' # u" by (cases "ms = []") auto
  then show ?thesis using value_heads by blast
qed

lemma parse_number_text:
  assumes "number_ends rest" "json_skip s = show_int i @ rest"
  shows "parse_value (Suc n) s = Some (JNum (show_int i), rest)"
proof -
  obtain c t where c: "show_int i = c # t" "is_digit c \<or> c = CHR ''-''" by (rule show_int_head)
  then show ?thesis
    using digit_head [OF c(2)] json_number_show [OF assms(1), of i] assms(2) by auto
qed

lemma number_ends_indent [simp]: "number_ends (indent d @ s)"
  by (simp add: indent_def)

lemma json_skip_text: "json_text d v = Some t \<Longrightarrow> json_ok v \<Longrightarrow> json_skip (t @ s) = t @ s"
  using json_text_head [of d v t] by (auto simp: value_head_def json_skip_id)

lemma items_text_head:
  assumes "items_text d vs = Some t" "vs \<noteq> []" "\<forall>v \<in> set vs. json_ok v"
  shows "take 1 (json_skip (t @ s)) \<noteq> '']''"
proof -
  obtain v vs' where vs: "vs = v # vs'" using assms(2) by (cases vs) auto
  obtain t1 u where t1: "json_text d v = Some t1" and t: "t = indent d @ t1 @ u"
    using assms(1) vs by (auto split: option.splits)
  have "json_ok v" using assms(3) vs by simp
  with json_text_head [OF t1] json_skip_text [OF t1] t show ?thesis by (auto simp: value_head_def)
qed

lemma members_text_head:
  assumes "members_text d ms = Some t" "ms \<noteq> []"
  shows "\<exists>u. json_skip (t @ s) = CHR 0x22 # u"
proof -
  obtain k v ms' where "ms = (k, v) # ms'" using assms(2) by (cases ms) auto
  with assms(1) obtain q u where "t = indent d @ CHR 0x22 # q @ u"
    by (auto simp: json_quote_def split: option.splits)
  then show ?thesis by (simp add: json_skip_id)
qed

text \<open>What it means that a text is read back, whatever follows it.\<close>

definition value_back :: "json \<Rightarrow> string \<Rightarrow> bool" where
  "value_back v t \<longleftrightarrow>
     (\<forall>rest s n. number_ends rest \<longrightarrow> json_skip s = t @ rest \<longrightarrow> 2 * length s < n \<longrightarrow> parse_value n s = Some (v, rest))"

definition items_back :: "json list \<Rightarrow> string \<Rightarrow> bool" where
  "items_back vs t \<longleftrightarrow>
     (\<forall>d r n. 2 * length (t @ indent d @ CHR '']'' # r) + 1 < n \<longrightarrow>
        parse_items n (t @ indent d @ CHR '']'' # r) = Some (vs, r))"

definition members_back :: "(string \<times> json) list \<Rightarrow> string \<Rightarrow> bool" where
  "members_back ms t \<longleftrightarrow>
     (\<forall>d r n seen. set (map fst ms) \<inter> set seen = {} \<longrightarrow> 2 * length (t @ indent d @ CHR ''}'' # r) < n \<longrightarrow>
        parse_members n seen (t @ indent d @ CHR ''}'' # r) = Some (ms, r))"

lemma value_back_array:
  assumes "items_back vs t" and "items_text d vs = Some t" "vs \<noteq> []" "\<forall>v \<in> set vs. json_ok v"
  shows "value_back (JArr vs) (''['' @ t @ indent d' @ '']'')"
  unfolding value_back_def
proof (intro allI impI)
  fix rest s and n :: nat
  assume s: "json_skip s = (''['' @ t @ indent d' @ '']'') @ rest" and n: "2 * length s < n"
  then obtain n' where n': "n = Suc n'" by (cases n) auto
  have "length ((''['' @ t @ indent d' @ '']'') @ rest) \<le> length s" using s length_json_skip [of s] by simp
  then have "parse_items n' (t @ indent d' @ CHR '']'' # rest) = Some (vs, rest)"
    using assms(1) n n' by (simp add: items_back_def)
  with items_text_head [OF assms(2-4), of "indent d' @ CHR '']'' # rest"] s n'
  show "parse_value n s = Some (JArr vs, rest)" by simp
qed

lemma value_back_object:
  assumes "members_back ms t" and "members_text d ms = Some t" "ms \<noteq> []"
  shows "value_back (JObj ms) (''{'' @ t @ indent d' @ ''}'')"
  unfolding value_back_def
proof (intro allI impI)
  fix rest s and n :: nat
  assume s: "json_skip s = (''{'' @ t @ indent d' @ ''}'') @ rest" and n: "2 * length s < n"
  then obtain n' where n': "n = Suc n'" by (cases n) auto
  have "length ((''{'' @ t @ indent d' @ ''}'') @ rest) \<le> length s" using s length_json_skip [of s] by simp
  then have "parse_members n' [] (t @ indent d' @ CHR ''}'' # rest) = Some (ms, rest)"
    using assms(1) n n' by (simp add: members_back_def)
  moreover obtain u where "json_skip (t @ indent d' @ CHR ''}'' # rest) = CHR 0x22 # u"
    using members_text_head [OF assms(2,3)] by blast
  ultimately show "parse_value n s = Some (JObj ms, rest)" using s n' by simp
qed

lemma items_back_Cons:
  assumes "value_back v t" and "json_text d v = Some t" "json_ok v" and "vs = [] \<longrightarrow> u = []" "vs \<noteq> [] \<longrightarrow> items_back vs u"
  shows "items_back (v # vs) (indent d @ t @ (if vs = [] then [] else '','') @ u)"
  unfolding items_back_def
proof (intro allI impI)
  fix d' r and n :: nat
  let ?rest = "indent d' @ CHR '']'' # r"
  let ?more = "(if vs = [] then [] else '','') @ u @ ?rest"
  let ?s = "(indent d @ t @ (if vs = [] then [] else '','') @ u) @ ?rest"
  assume len: "2 * length ?s + 1 < n"
  then obtain n' where n': "n = Suc n'" by (cases n) auto
  have "number_ends ?more" using assms(4) by simp
  moreover have "json_skip ?s = t @ ?more" using json_skip_text [OF assms(2,3)] by simp
  ultimately have v: "parse_value n' ?s = Some (v, ?more)" using assms(1) len n' unfolding value_back_def by auto
  have "parse_items n' (u @ ?rest) = Some (vs, r)" if "vs \<noteq> []"
    using assms(5) len n' that by (simp add: items_back_def indent_def)
  then show "parse_items n ?s = Some (v # vs, r)" using v n' assms(4) by (cases "vs = []") (simp_all add: json_skip_id)
qed

lemma members_back_Cons:
  assumes "value_back v t" and "json_text d v = Some t" "json_ok v" and "json_quote k = Some q"
    and "k \<notin> set (map fst ms)" and "ms = [] \<longrightarrow> u = []" "ms \<noteq> [] \<longrightarrow> members_back ms u"
  shows "members_back ((k, v) # ms) (indent d @ q @ '': '' @ t @ (if ms = [] then [] else '','') @ u)"
  unfolding members_back_def
proof (intro allI impI)
  fix d' r seen and n :: nat
  let ?rest = "indent d' @ CHR ''}'' # r"
  let ?more = "(if ms = [] then [] else '','') @ u @ ?rest"
  let ?s = "(indent d @ q @ '': '' @ t @ (if ms = [] then [] else '','') @ u) @ ?rest"
  assume names: "set (map fst ((k, v) # ms)) \<inter> set seen = {}" and len: "2 * length ?s < n"
  then obtain n' where n': "n = Suc n'" by (cases n) auto
  obtain q' where q': "quoted_body k = Some q'" "q = CHR 0x22 # q' @ [CHR 0x22]" using assms(4) by (auto simp: json_quote_def)
  let ?rhs = "CHR '' '' # t @ ?more"
  have str: "json_skip ?s = CHR 0x22 # q' @ CHR 0x22 # CHR '':'' # ?rhs" using q' by (simp add: json_skip_id)
  have key: "unquote (q' @ CHR 0x22 # CHR '':'' # ?rhs) = Some (k, CHR '':'' # ?rhs)" by (rule unquote_quoted [OF q'(1)])
  have "number_ends ?more" using assms(6) by simp
  moreover have "json_skip ?rhs = t @ ?more" using json_skip_text [OF assms(2,3), of ?more] by (simp add: json_skip_def)
  moreover have "2 * length ?rhs < n'" using len n' q' by (simp add: indent_def)
  ultimately have v: "parse_value n' ?rhs = Some (v, ?more)" using assms(1) unfolding value_back_def by blast
  have "parse_members n' (k # seen) (u @ ?rest) = Some (ms, r)" if "ms \<noteq> []"
  proof -
    have "set (map fst ms) \<inter> set (k # seen) = {}" using names assms(5) by auto
    then show ?thesis using assms(7) len n' that by (simp add: members_back_def indent_def)
  qed
  then show "parse_members n seen ?s = Some ((k, v) # ms, r)"
    using v n' assms(6) str key names by (cases "ms = []") (simp_all add: json_skip_id)
qed

lemma parse_text_back:
  "json_text d v = Some t \<Longrightarrow> json_ok v \<Longrightarrow> value_back v t"
  "items_text d vs = Some t \<Longrightarrow> vs \<noteq> [] \<Longrightarrow> \<forall>v \<in> set vs. json_ok v \<Longrightarrow> items_back vs t"
  "members_text d ms = Some t \<Longrightarrow> ms \<noteq> [] \<Longrightarrow> \<forall>m \<in> set ms. json_ok (snd m) \<Longrightarrow> distinct (map fst ms) \<Longrightarrow> members_back ms t"
proof (induction d v and d vs and d ms arbitrary: t and t and t rule: json_text_items_text_members_text.induct)
  case (1 d)
  then have t: "t = ''null''" by simp
  show ?case unfolding value_back_def t by (intro allI impI, case_tac n) simp_all
next
  case (2 d b)
  then have t: "t = (if b then ''true'' else ''false'')" by simp
  show ?case unfolding value_back_def t by (intro allI impI, case_tac n; cases b) simp_all
next
  case (3 d x)
  then obtain i where "t = show_int i" "x = show_int i" by auto
  then show ?case using parse_number_text unfolding value_back_def by (metis less_nat_zero_code not0_implies_Suc)
next
  case (4 d u)
  then obtain q where q: "quoted_body u = Some q" "t = CHR 0x22 # q @ [CHR 0x22]" by (auto simp: json_quote_def)
  show ?case unfolding value_back_def q(2) using unquote_quoted [OF q(1)] by (intro allI impI, case_tac n) simp_all
next
  case (5 d vs)
  show ?case
  proof (cases "vs = []")
    case True
    then have "t = ''[]''" using 5(2) by simp
    with True show ?thesis unfolding value_back_def by (intro allI impI, case_tac n) (simp_all add: json_skip_id)
  next
    case False
    with 5 obtain u where u: "items_text (Suc d) vs = Some u" "t = ''['' @ u @ indent d @ '']''" by auto
    then show ?thesis using 5(1) [OF False u(1) False] 5(3) value_back_array [OF _ u(1) False] by simp
  qed
next
  case (6 d ms)
  show ?case
  proof (cases "ms = []")
    case True
    then have "t = ''{}''" using 6(2) by simp
    with True show ?thesis unfolding value_back_def by (intro allI impI, case_tac n) (simp_all add: json_skip_id)
  next
    case False
    with 6 obtain u where u: "members_text (Suc d) ms = Some u" "t = ''{'' @ u @ indent d @ ''}''" by auto
    then show ?thesis using 6(1) [OF False u(1) False] 6(3) value_back_object [OF _ u(1) False] by simp
  qed
next
  case (8 d v vs)
  then obtain t1 u where t1: "json_text d v = Some t1" and u: "items_text d vs = Some u"
    and t: "t = indent d @ t1 @ (if vs = [] then [] else '','') @ u"
    by (auto split: option.splits)
  have ok: "json_ok v" "\<forall>v \<in> set vs. json_ok v" using 8(5) by simp_all
  have "vs = [] \<longrightarrow> u = []" using u by auto
  moreover have "vs \<noteq> [] \<longrightarrow> items_back vs u" using 8(2) [OF t1 u _ ok(2)] by blast
  ultimately show ?case unfolding t by (rule items_back_Cons [OF 8(1) [OF t1 ok(1)] t1 ok(1)])
next
  case (10 d k v ms)
  then obtain q t1 u where q: "json_quote k = Some q" and t1: "json_text d v = Some t1" and u: "members_text d ms = Some u"
    and t: "t = indent d @ q @ '': '' @ t1 @ (if ms = [] then [] else '','') @ u"
    by (auto split: option.splits)
  have ok: "json_ok v" "\<forall>m \<in> set ms. json_ok (snd m)" "distinct (map fst ms)" and new: "k \<notin> set (map fst ms)"
    using 10(5,6) by simp_all
  have "ms = [] \<longrightarrow> u = []" using u by auto
  moreover have "ms \<noteq> [] \<longrightarrow> members_back ms u" using 10(2) [OF q t1 u _ ok(2,3)] by blast
  ultimately show ?case unfolding t by (rule members_back_Cons [OF 10(1) [OF q t1 ok(1)] t1 ok(1) q new])
qed simp_all

section \<open>Texts that are read back\<close>

text \<open>
  The contract of a printer and the reader that belongs to it: whatever may follow the text of a value,
  the reader finds the value and leaves what follows. So two values never have the same text, and the
  text of one is never the beginning of the text of another.
\<close>

locale text_codec =
  fixes emit :: "'a \<Rightarrow> string option" and scan :: "string \<Rightarrow> ('a \<times> string) option" and follows :: "string \<Rightarrow> bool"
  assumes scan_emit: "emit a = Some t \<Longrightarrow> follows rest \<Longrightarrow> scan (t @ rest) = Some (a, rest)"
    and follows_nothing: "follows []"
begin

lemma scan_text: "emit a = Some t \<Longrightarrow> scan t = Some (a, [])"
  using scan_emit [OF _ follows_nothing] by fastforce

lemma prefix_free: "emit a = Some t \<Longrightarrow> emit b = Some (t @ u) \<Longrightarrow> follows u \<Longrightarrow> a = b \<and> u = []"
  using scan_emit [of a t u] scan_text [of b "t @ u"] by simp

lemma emit_inj: "emit a = Some t \<Longrightarrow> emit b = Some t \<Longrightarrow> a = b"
  using prefix_free [of a t b "[]"] follows_nothing by simp

end

text \<open>Strings end by themselves; the other values end before what cannot go on with a number.\<close>

definition scan_string :: "string \<Rightarrow> (string \<times> string) option" where
  "scan_string s = (case s of c # t \<Rightarrow> if c = CHR 0x22 then unquote t else None | [] \<Rightarrow> None)"

interpretation json_strings: text_codec json_quote scan_string "\<lambda>_. True"
  by unfold_locales (auto simp: json_quote_def scan_string_def unquote_quoted)

definition emit_json :: "json \<Rightarrow> string option" where
  "emit_json v = (if json_ok v then json_text 0 v else None)"

definition scan_json :: "string \<Rightarrow> (json \<times> string) option" where
  "scan_json s = parse_value (2 * length s + 2) s"

lemma emit_json_ok: "json_ok v \<Longrightarrow> emit_json v = json_text 0 v"
  by (simp add: emit_json_def)

interpretation json_values: text_codec emit_json scan_json number_ends
proof
  fix v t rest assume e: "emit_json v = Some t" and f: "number_ends rest"
  then have t: "json_text 0 v = Some t" "json_ok v" by (simp_all add: emit_json_def split: if_splits)
  show "scan_json (t @ rest) = Some (v, rest)"
    using parse_text_back(1) [OF t, unfolded value_back_def, rule_format, OF f json_skip_text [OF t]]
    by (simp only: scan_json_def lessI)
qed simp

lemma parse_json_text:
  assumes "json_text 0 v = Some t" "json_ok v" "json_skip s = []" "number_ends s"
  shows "parse_json (t @ s) = Some v"
  using json_values.scan_emit [of v t s] assms by (simp add: emit_json_ok scan_json_def parse_json_def)

end
