(* ===== verification/Config_Json.thy ===== *)
theory Config_Json
  imports Config Go_Json
begin

text \<open>
  The configuration as JSON: what the field tags of \<open>config/config.go\<close> make of it with
  \<open>json.Marshal\<close> and \<open>json.Unmarshal\<close> of \<open>encoding/json/v2\<close>. \<open>RegexPattern\<close> is an object with one
  member: its two methods do not have the names of the interfaces \<open>MarshalerTo\<close> and \<open>UnmarshalerFrom\<close>,
  so the package does not call them. Which error a text that is refused gives is not told apart.
\<close>

section \<open>Marshal\<close>

definition sqlite_json :: "sqlite_config \<Rightarrow> json" where
  "sqlite_json s =
     JObj [(''busyTimeout'', JNum (show_int (BusyTimeout s))), (''cacheSize'', JNum (show_int (CacheSize s))),
           (''foreignKeys'', JBool (ForeignKeys s)), (''journalMode'', JStr (JournalMode s)),
           (''synchronous'', JStr (Synchronous s)), (''tempStore'', JStr (TempStore s)), (''trace'', JBool (Trace s)),
           (''traceThresholdMillisecond'', JNum (show_int (TraceThresholdMillisecond s)))]"

definition regex_json :: "RegexPattern \<Rightarrow> json" where
  "regex_json r = JObj [(''pattern'', JStr (Pattern r))]"

definition config_json :: "config \<Rightarrow> json" where
  "config_json c =
     JObj [(''dataDirectory'', JStr (DataDirectory c)), (''sqlite'', sqlite_json (SQLiteConf c)),
           (''webHost'', JStr (WebHost c)), (''webPort'', JNum (show_nat (WebPort c))),
           (''webLoggingIgnoredPaths'', JArr (map regex_json (WebLoggingIgnoredPaths c))),
           (''webEnableHttps'', JBool (WebEnableHTTPS c)), (''webCert'', JStr (WebCert c)), (''webKey'', JStr (WebKey c)),
           (''debug'', JBool (Debug c))]"

definition Marshal :: "config \<Rightarrow> string outcome" where
  "Marshal c =
     (case json_text 0 (config_json c) of
        None \<Rightarrow> Inl (NewError ''jsontext: invalid UTF-8'')
      | Some t \<Rightarrow> Inr t)"

section \<open>Unmarshal\<close>

text \<open>A value for a Go type, \<open>null\<close> for its zero value.\<close>

definition read_string :: "json \<Rightarrow> string option" where
  "read_string v = (case v of JStr s \<Rightarrow> Some s | JNull \<Rightarrow> Some [] | _ \<Rightarrow> None)"

definition read_bool :: "json \<Rightarrow> bool option" where
  "read_bool v = (case v of JBool b \<Rightarrow> Some b | JNull \<Rightarrow> Some False | _ \<Rightarrow> None)"

definition read_int :: "json \<Rightarrow> int option" where
  "read_int v =
     (case v of JNum n \<Rightarrow> (case parse_int64 n of Inl _ \<Rightarrow> None | Inr i \<Rightarrow> Some i) | JNull \<Rightarrow> Some 0 | _ \<Rightarrow> None)"

definition read_uint :: "json \<Rightarrow> nat option" where
  "read_uint v =
     (case v of JNum n \<Rightarrow> (case parse_uint64 n of Inl _ \<Rightarrow> None | Inr i \<Rightarrow> Some i) | JNull \<Rightarrow> Some 0 | _ \<Rightarrow> None)"

text \<open>
  A struct: the members one after the other, each into the field of its name; a name that no field has
  is refused (\<open>RejectUnknownMembers\<close>). Fields without a member stay as they are.
\<close>

fun read_members :: "(string \<Rightarrow> json \<Rightarrow> 'a \<Rightarrow> 'a option) \<Rightarrow> (string \<times> json) list \<Rightarrow> 'a \<Rightarrow> 'a option" where
  "read_members field [] a = Some a"
| "read_members field ((k, v) # ms) a = (case field k v a of None \<Rightarrow> None | Some a' \<Rightarrow> read_members field ms a')"

definition read_struct :: "'a \<Rightarrow> (string \<Rightarrow> json \<Rightarrow> 'a \<Rightarrow> 'a option) \<Rightarrow> json \<Rightarrow> 'a \<Rightarrow> 'a option" where
  "read_struct zero field v a =
     (case v of JNull \<Rightarrow> Some zero | JObj ms \<Rightarrow> read_members field ms a | _ \<Rightarrow> None)"

text \<open>A slice: each element starts from the zero value.\<close>

fun read_items :: "(json \<Rightarrow> 'a option) \<Rightarrow> json list \<Rightarrow> 'a list option" where
  "read_items item [] = Some []"
| "read_items item (v # vs) =
     (case item v of None \<Rightarrow> None | Some a \<Rightarrow> map_option ((#) a) (read_items item vs))"

definition read_slice :: "(json \<Rightarrow> 'a option) \<Rightarrow> json \<Rightarrow> 'a list option" where
  "read_slice item v = (case v of JNull \<Rightarrow> Some [] | JArr vs \<Rightarrow> read_items item vs | _ \<Rightarrow> None)"

definition zero_sqlite :: sqlite_config where
  "zero_sqlite =
     \<lparr>BusyTimeout = 0, CacheSize = 0, ForeignKeys = False, JournalMode = [], Synchronous = [], TempStore = [], Trace = False,
      TraceThresholdMillisecond = 0, ConfIndexDBFileName = [], ConfIndexDBMigrations = [], ConfNotesDBMigrations = []\<rparr>"

definition zero_config :: config where
  "zero_config =
     \<lparr>DataDirectory = [], FileLocation = [], SQLiteConf = zero_sqlite, WebHost = [], WebPort = 0, WebLoggingIgnoredPaths = [],
      WebEnableHTTPS = False, WebCert = [], WebKey = [], Debug = False\<rparr>"

definition sqlite_field :: "string \<Rightarrow> json \<Rightarrow> sqlite_config \<Rightarrow> sqlite_config option" where
  "sqlite_field k v s =
     (if k = ''busyTimeout'' then map_option (\<lambda>x. s\<lparr>BusyTimeout := x\<rparr>) (read_int v)
      else if k = ''cacheSize'' then map_option (\<lambda>x. s\<lparr>CacheSize := x\<rparr>) (read_int v)
      else if k = ''foreignKeys'' then map_option (\<lambda>x. s\<lparr>ForeignKeys := x\<rparr>) (read_bool v)
      else if k = ''journalMode'' then map_option (\<lambda>x. s\<lparr>JournalMode := x\<rparr>) (read_string v)
      else if k = ''synchronous'' then map_option (\<lambda>x. s\<lparr>Synchronous := x\<rparr>) (read_string v)
      else if k = ''tempStore'' then map_option (\<lambda>x. s\<lparr>TempStore := x\<rparr>) (read_string v)
      else if k = ''trace'' then map_option (\<lambda>x. s\<lparr>Trace := x\<rparr>) (read_bool v)
      else if k = ''traceThresholdMillisecond'' then map_option (\<lambda>x. s\<lparr>TraceThresholdMillisecond := x\<rparr>) (read_int v)
      else None)"

definition regex_field :: "string \<Rightarrow> json \<Rightarrow> RegexPattern \<Rightarrow> RegexPattern option" where
  "regex_field k v r = (if k = ''pattern'' then map_option (\<lambda>x. r\<lparr>Pattern := x\<rparr>) (read_string v) else None)"

definition read_regex :: "json \<Rightarrow> RegexPattern option" where
  "read_regex v = read_struct \<lparr>Pattern = []\<rparr> regex_field v \<lparr>Pattern = []\<rparr>"

definition config_field :: "string \<Rightarrow> json \<Rightarrow> config \<Rightarrow> config option" where
  "config_field k v c =
     (if k = ''dataDirectory'' then map_option (\<lambda>x. c\<lparr>DataDirectory := x\<rparr>) (read_string v)
      else if k = ''sqlite'' then
        map_option (\<lambda>x. c\<lparr>SQLiteConf := x\<rparr>) (read_struct zero_sqlite sqlite_field v (SQLiteConf c))
      else if k = ''webHost'' then map_option (\<lambda>x. c\<lparr>WebHost := x\<rparr>) (read_string v)
      else if k = ''webPort'' then map_option (\<lambda>x. c\<lparr>WebPort := x\<rparr>) (read_uint v)
      else if k = ''webLoggingIgnoredPaths'' then
        map_option (\<lambda>x. c\<lparr>WebLoggingIgnoredPaths := x\<rparr>) (read_slice read_regex v)
      else if k = ''webEnableHttps'' then map_option (\<lambda>x. c\<lparr>WebEnableHTTPS := x\<rparr>) (read_bool v)
      else if k = ''webCert'' then map_option (\<lambda>x. c\<lparr>WebCert := x\<rparr>) (read_string v)
      else if k = ''webKey'' then map_option (\<lambda>x. c\<lparr>WebKey := x\<rparr>) (read_string v)
      else if k = ''debug'' then map_option (\<lambda>x. c\<lparr>Debug := x\<rparr>) (read_bool v)
      else None)"

text \<open>\<open>json.Unmarshal(data, conf, json.RejectUnknownMembers(true))\<close>.\<close>

definition Unmarshal :: "string \<Rightarrow> config \<Rightarrow> config outcome" where
  "Unmarshal data c =
     (case Option.bind (parse_json data) (\<lambda>v. read_struct zero_config config_field v c) of
        None \<Rightarrow> Inl (NewError ''json: cannot unmarshal'')
      | Some c' \<Rightarrow> Inr c')"

section \<open>The round trip\<close>

text \<open>The integers are those of their Go types.\<close>

definition config_in_range :: "config \<Rightarrow> bool" where
  "config_in_range c \<longleftrightarrow>
     is_int64 (BusyTimeout (SQLiteConf c)) \<and> is_int64 (CacheSize (SQLiteConf c))
     \<and> is_int64 (TraceThresholdMillisecond (SQLiteConf c)) \<and> WebPort c < 2 ^ 64"

text \<open>The fields without a member: \<open>json:"-"\<close>.\<close>

definition keep_hidden :: "config \<Rightarrow> config \<Rightarrow> config" where
  "keep_hidden c base =
     c\<lparr>FileLocation := FileLocation base,
       SQLiteConf := (SQLiteConf c)\<lparr>ConfIndexDBFileName := ConfIndexDBFileName (SQLiteConf base),
                                    ConfIndexDBMigrations := ConfIndexDBMigrations (SQLiteConf base),
                                    ConfNotesDBMigrations := ConfNotesDBMigrations (SQLiteConf base)\<rparr>\<rparr>"

lemma read_written [simp]:
  "read_string (JStr s) = Some s" "read_bool (JBool b) = Some b"
  "is_int64 i \<Longrightarrow> read_int (JNum (show_int i)) = Some i"
  "n < 2 ^ 64 \<Longrightarrow> read_uint (JNum (show_nat n)) = Some n"
  by (simp_all add: read_string_def read_bool_def read_int_def read_uint_def parse_int64_show parse_uint64_show_nat)

lemma read_regex_json [simp]: "read_regex (regex_json r) = Some r"
  by (simp add: read_regex_def regex_json_def read_struct_def regex_field_def)

lemma read_items_map: "(\<And>a. item (f a) = Some a) \<Longrightarrow> read_items item (map f xs) = Some xs"
  by (induction xs) simp_all

lemma read_struct_object: "read_struct zero field (JObj ms) a = read_members field ms a"
  by (simp add: read_struct_def)

lemma read_sqlite_json:
  assumes "is_int64 (BusyTimeout s)" "is_int64 (CacheSize s)" "is_int64 (TraceThresholdMillisecond s)"
  shows "read_struct zero_sqlite sqlite_field (sqlite_json s) base =
    Some (s\<lparr>ConfIndexDBFileName := ConfIndexDBFileName base, ConfIndexDBMigrations := ConfIndexDBMigrations base,
            ConfNotesDBMigrations := ConfNotesDBMigrations base\<rparr>)"
  using assms by (simp add: sqlite_json_def read_struct_object sqlite_field_def)

lemma read_config_json:
  assumes "config_in_range c"
  shows "read_struct zero_config config_field (config_json c) base = Some (keep_hidden c base)"
  using assms
  by (simp add: config_in_range_def config_json_def read_struct_object config_field_def read_sqlite_json read_slice_def
      read_items_map keep_hidden_def)

lemma json_ok_config: "json_ok (config_json c)"
proof -
  have "\<exists>i. show_nat n = show_int i" for n by (rule exI [of _ "int n"]) (simp add: show_int_def)
  moreover have "\<exists>j. show_int i = show_int j" for i by blast
  ultimately show ?thesis by (simp add: config_json_def sqlite_json_def regex_json_def)
qed

lemma Unmarshal_Marshal:
  assumes "Marshal c = Inr t" "config_in_range c" "json_skip s = []" "number_ends s"
  shows "Unmarshal (t @ s) base = Inr (keep_hidden c base)"
proof -
  have "json_text 0 (config_json c) = Some t" using assms(1) by (simp add: Marshal_def split: option.splits)
  then have "parse_json (t @ s) = Some (config_json c)" using json_ok_config assms(3,4) by (rule parse_json_text)
  then show ?thesis using read_config_json [OF assms(2)] by (simp add: Unmarshal_def)
qed

text \<open>Two configurations with the same text differ at most in what is not written.\<close>

lemma Marshal_inj:
  assumes "Marshal c = Inr t" "Marshal c' = Inr t"
  shows "config_json c = config_json c'"
proof -
  have "emit_json (config_json c) = Some t" "emit_json (config_json c') = Some t"
    using assms by (simp_all add: Marshal_def emit_json_ok json_ok_config split: option.splits)
  then show ?thesis by (rule json_values.emit_inj)
qed

end
