(* ===== verification/Cli_Main.thy ===== *)
theory Cli_Main
  imports Go_Flags Config_Json
begin

text \<open>
  \<open>cmd/cli/main.go\<close>: the global options, the loading of the configuration and the choice of the
  command; the flags of \<open>cmd/cli/web.go\<close>. The commands are a record of functions on a world \<open>'w\<close>,
  which the theories of the single commands provide; a command may not return (\<open>None\<close>).
\<close>

section \<open>Ends of a command\<close>

text \<open>A command returns an error or nil, exits the process (\<open>flag.ExitOnError\<close>) or panics.\<close>

datatype cmd_end = CmdDone "go_error option" | CmdExit nat | CmdPanic string

type_synonym 'w command = "config \<Rightarrow> string list \<Rightarrow> 'w \<Rightarrow> (cmd_end \<times> 'w) option"

record 'w commands =
  cmd_database :: "'w command"
  cmd_serve :: "'w command"
  cmd_generate :: "'w command"
  cmd_uninstall :: "'w command"
  cmd_version :: "string list \<Rightarrow> 'w \<Rightarrow> cmd_end \<times> 'w"

text \<open>The environment of the process, and the reading of a file.\<close>

record cli_env =
  ce_conf :: conf_env
  read_file :: "string \<Rightarrow> string outcome"

section \<open>Global options\<close>

definition global_flags :: "conf_env \<Rightarrow> flag_values" where
  "global_flags env =
     [(''config-file'', StringV (DefaultFileLocation env)), (''debug'', BoolV False),
      (''data-directory'', StringV (DefaultDataDirectory env)), (''sqlite-busy-timeout'', IntV 0),
      (''sqlite-cache-size'', IntV 0), (''sqlite-foreign-keys'', BoolV False), (''sqlite-journal-mode'', StringV []),
      (''sqlite-synchronous'', StringV []), (''sqlite-temp-store'', StringV [])]"

text \<open>The function \<open>main\<close> gives to \<open>flag.Visit\<close>, \<open>val\<close> the values of the global options.\<close>

definition visit_global :: "(string \<Rightarrow> flag_value) \<Rightarrow> string \<Rightarrow> config \<Rightarrow> config" where
  "visit_global val nm conf =
     (let s = SQLiteConf conf
      in if nm = ''debug'' then conf\<lparr>Debug := bool_of (val ''debug'')\<rparr>
         else if nm = ''sqlite-busy-timeout'' then conf\<lparr>SQLiteConf := s\<lparr>BusyTimeout := int_of (val ''sqlite-busy-timeout'')\<rparr>\<rparr>
         else if nm = ''sqlite-cache-size'' then conf\<lparr>SQLiteConf := s\<lparr>CacheSize := int_of (val ''sqlite-cache-size'')\<rparr>\<rparr>
         else if nm = ''data-directory'' then conf\<lparr>DataDirectory := text_of_flag (val ''data-directory'')\<rparr>
         else if nm = ''sqlite-foreign-keys'' then conf\<lparr>SQLiteConf := s\<lparr>ForeignKeys := bool_of (val ''sqlite-foreign-keys'')\<rparr>\<rparr>
         else if nm = ''sqlite-synchronous'' then conf\<lparr>SQLiteConf := s\<lparr>Synchronous := text_of_flag (val ''sqlite-synchronous'')\<rparr>\<rparr>
         else if nm = ''sqlite-temp-store'' then conf\<lparr>SQLiteConf := s\<lparr>TempStore := text_of_flag (val ''sqlite-temp-store'')\<rparr>\<rparr>
         else if nm = ''sqlite-journal-mode'' then conf\<lparr>SQLiteConf := s\<lparr>JournalMode := text_of_flag (val ''sqlite-journal-mode'')\<rparr>\<rparr>
         else conf)"

text \<open>
  \<open>flag.Visit\<close> goes over the flags that were set on \<open>flag.CommandLine\<close>, the flag set of the package.
  The program never parses that one: the options are parsed by \<open>globalFlags\<close>.
\<close>

definition command_line_actual :: flag_values where
  "command_line_actual = []"

section \<open>The configuration\<close>

text \<open>The file, if there is one; an exit status when the program gives up.\<close>

definition load_config :: "cli_env \<Rightarrow> string \<Rightarrow> nat + config" where
  "load_config env cfp =
     (case expand_home (ce_conf env) cfp of
        Inl err \<Rightarrow> Inl 1
      | Inr resCFP \<Rightarrow>
     (case path_abs (getwd (ce_conf env)) resCFP of
        Inl err \<Rightarrow> Inl 1
      | Inr resCFP \<Rightarrow>
          (let conf = DefaultConfig (ce_conf env)
           in case file_stat (ce_conf env) resCFP of
                Some err \<Rightarrow> Inr conf
              | None \<Rightarrow>
                  (case read_file env resCFP of
                     Inl err \<Rightarrow> Inl 1
                   | Inr data \<Rightarrow>
                       (case Unmarshal data conf of
                          Inl err \<Rightarrow> Inl 1
                        | Inr conf' \<Rightarrow> Inr (conf'\<lparr>FileLocation := resCFP\<rparr>))))))"

section \<open>main\<close>

definition exit_status :: "cmd_end \<Rightarrow> nat" where
  "exit_status e =
     (case e of CmdDone None \<Rightarrow> 0 | CmdDone (Some err) \<Rightarrow> 1 | CmdExit n \<Rightarrow> n | CmdPanic p \<Rightarrow> 2)"

definition run_command :: "'w commands \<Rightarrow> config \<Rightarrow> string list \<Rightarrow> 'w \<Rightarrow> (nat \<times> 'w) option" where
  "run_command cmds conf args w =
     (let cmd = hd args; subArgs = tl args
      in if cmd = ''version'' then (case cmd_version cmds subArgs w of (e, w1) \<Rightarrow> Some (exit_status e, w1))
         else (let run = (if cmd = ''database'' then Some (cmd_database cmds)
                          else if cmd = ''serve'' then Some (cmd_serve cmds)
                          else if cmd = ''generate'' then Some (cmd_generate cmds)
                          else if cmd = ''uninstall'' then Some (cmd_uninstall cmds)
                          else None)
               in case run of
                    None \<Rightarrow> Some (1, w)
                  | Some command \<Rightarrow> map_option (\<lambda>(e, w1). (exit_status e, w1)) (command conf subArgs w)))"

definition main_program :: "cli_env \<Rightarrow> 'w commands \<Rightarrow> string list \<Rightarrow> 'w \<Rightarrow> (nat \<times> 'w) option" where
  "main_program env cmds argv w =
     (let formal = global_flags (ce_conf env)
      in case parse_flags formal [] argv of
           FlagsExit n \<Rightarrow> Some (n, w)
         | FlagsOk actual args \<Rightarrow>
             if args = [] then Some (0, w)
             else (case load_config env (text_of_flag (flag_of formal actual ''config-file'')) of
                     Inl n \<Rightarrow> Some (n, w)
                   | Inr conf0 \<Rightarrow>
                       (let conf = visit_flags (visit_global (flag_of formal actual)) command_line_actual conf0
                        in if Debug conf \<and> \<not> succeeds (Marshal conf) then Some (1, w)
                           else run_command cmds conf args w)))"

section \<open>The flags of serve\<close>

definition serve_flags :: flag_values where
  "serve_flags =
     [(''host'', StringV ''localhost''), (''port'', UintV 6789), (''https'', BoolV False), (''cert'', StringV []),
      (''key'', StringV [])]"

definition visit_serve :: "(string \<Rightarrow> flag_value) \<Rightarrow> string \<Rightarrow> config \<Rightarrow> config" where
  "visit_serve val nm conf =
     (if nm = ''host'' then conf\<lparr>WebHost := text_of_flag (val ''host'')\<rparr>
      else if nm = ''port'' then conf\<lparr>WebPort := uint_of (val ''port'')\<rparr>
      else if nm = ''https'' then conf\<lparr>WebEnableHTTPS := bool_of (val ''https'')\<rparr>
      else if nm = ''cert'' then conf\<lparr>WebCert := text_of_flag (val ''cert'')\<rparr>
      else if nm = ''key'' then conf\<lparr>WebKey := text_of_flag (val ''key'')\<rparr>
      else conf)"

text \<open>The configuration \<open>serve\<close> runs with: here the flags that were set do count.\<close>

definition serve_config :: "config \<Rightarrow> string list \<Rightarrow> nat + config" where
  "serve_config conf args =
     (case parse_flags serve_flags [] args of
        FlagsExit n \<Rightarrow> Inl n
      | FlagsOk actual _ \<Rightarrow> Inr (visit_flags (visit_serve (flag_of serve_flags actual)) actual conf))"

section \<open>version\<close>

text \<open>\<open>Version\<close> and \<open>ContainerVersion\<close> of the build information, if there is any.\<close>

definition VersionText :: "string option \<Rightarrow> string" where
  "VersionText bi = (case bi of Some v \<Rightarrow> v | None \<Rightarrow> [])"

definition ContainerVersion :: "string option \<Rightarrow> string" where
  "ContainerVersion bi = (case bi of Some v \<Rightarrow> map (\<lambda>c. if c = CHR ''+'' then CHR ''-'' else c) v | None \<Rightarrow> [])"

text \<open>\<open>VersionCMD\<close>: the end of the command and the line it prints.\<close>

definition VersionCMD :: "string option \<Rightarrow> string list \<Rightarrow> cmd_end \<times> string" where
  "VersionCMD bi args =
     (case parse_flags [(''container'', BoolV False)] [] args of
        FlagsExit n \<Rightarrow> (CmdExit n, [])
      | FlagsOk actual _ \<Rightarrow>
          (CmdDone None,
           (if bool_of (flag_of [(''container'', BoolV False)] actual ''container'') then ContainerVersion bi else VersionText bi)
             @ [CHR 0x0A]))"

end
