(* ===== verification/Cli_Database.thy ===== *)
theory Cli_Database
  imports Cli_Main Sqlite_Props
begin

text \<open>
  \<open>cmd/cli/database.go\<close>: the commands that create a database and walk its migrations, on the files
  of the operating system. A command opens the database with \<open>NewSQLiteDB\<close> and its defaults, reads
  the embedded migrations and works on the content of the file; what it prints is appended to the
  standard error of the world. The files that are not databases are the texts of the world.
\<close>

section \<open>World and environment\<close>

record 'sch cli_world =
  cw_os :: "'sch sqlite_file os_world"
  cw_texts :: "(string \<times> string) list"
  cw_out :: string
  cw_err :: string

record 'sch db_env =
  de_open :: "'sch sqlite_file open_env"
  de_walk :: "string \<Rightarrow> dir_entry list option"
  de_read :: "string \<Rightarrow> string outcome"
  de_calls :: "nat \<Rightarrow> call"
  de_engine :: "'sch sql_engine"
  de_rounds :: nat

definition print_err :: "string \<Rightarrow> 'sch cli_world \<Rightarrow> 'sch cli_world" where
  "print_err s w = w\<lparr>cw_err := cw_err w @ s\<rparr>"

section \<open>A walk on an open database\<close>

text \<open>The content of the file a database is on; the walk leaves the file it made.\<close>

definition on_file ::
    "SQLiteDB \<Rightarrow> ('sch mig_state \<Rightarrow> ('r \<times> 'sch mig_state) option) \<Rightarrow> 'sch sqlite_file os_world
       \<Rightarrow> ('r option \<times> 'sch sqlite_file os_world) option" where
  "on_file db walk w =
     (case map_of (fs w) (DBPath db) of
        Some (FileNode f) \<Rightarrow>
          (case walk (f, 0) of
             None \<Rightarrow> None
           | Some (r, (f', _)) \<Rightarrow> Some (Some r, w\<lparr>fs := AList.update (DBPath db) (FileNode f') (fs w)\<rparr>))
      | _ \<Rightarrow> Some (None, w))"

text \<open>Errors of the engine when the file is gone.\<close>

definition file_gone :: go_error where
  "file_gone = EngineError ''unable to open database file''"

definition err_of :: "'r outcome \<Rightarrow> go_error option" where
  "err_of r = (case r of Inl e \<Rightarrow> Some e | Inr _ \<Rightarrow> None)"

text \<open>Open the database, load the migrations, run \<open>body\<close>, and close the database on every way out.\<close>

definition with_database ::
    "'sch db_env \<Rightarrow> string \<Rightarrow> string
      \<Rightarrow> (migration list \<Rightarrow> SQLiteDB \<Rightarrow> 'sch cli_world \<Rightarrow> (go_error option \<times> 'sch cli_world) option)
      \<Rightarrow> 'sch cli_world \<Rightarrow> (cmd_end \<times> 'sch cli_world) option" where
  "with_database env dbPath migrationsDir body w =
     (case NewSQLiteDB (de_open env) dbPath [] (cw_os w) of
        (Panics p, os) \<Rightarrow> Some (CmdPanic p, w\<lparr>cw_os := os\<rparr>)
      | (Returns _ (Some err), os) \<Rightarrow> Some (CmdDone (Some err), w\<lparr>cw_os := os\<rparr>)
      | (Returns None None, os) \<Rightarrow> Some (CmdPanic nil_dereference, w\<lparr>cw_os := os\<rparr>)
      | (Returns (Some db) None, os) \<Rightarrow>
          (let w1 = w\<lparr>cw_os := os\<rparr>; closed = (\<lambda>w2. w2\<lparr>cw_os := snd (SQLiteDB_Close (de_open env) db (cw_os w2))\<rparr>)
           in case Load (de_walk env) migrationsDir of
                Panics p \<Rightarrow> Some (CmdPanic p, closed w1)
              | Returns _ (Some err) \<Rightarrow> Some (CmdDone (Some err), closed w1)
              | Returns migs None \<Rightarrow>
                  (case body migs db w1 of
                     None \<Rightarrow> None
                   | Some (err, w2) \<Rightarrow> Some (CmdDone err, closed w2))))"

text \<open>Run a walk and report; \<open>done_\<close> is what the command prints of the result.\<close>

definition walk_body ::
    "'sch db_env \<Rightarrow> ('sch mig_state migration_driver \<Rightarrow> 'sch mig_state \<Rightarrow> ('r outcome \<times> 'sch mig_state) option)
      \<Rightarrow> ('r \<Rightarrow> string) \<Rightarrow> SQLiteDB \<Rightarrow> 'sch cli_world \<Rightarrow> (go_error option \<times> 'sch cli_world) option" where
  "walk_body env walk report db w =
     (case on_file db (walk (sqlite_driver (de_calls env) (de_engine env))) (cw_os w) of
        None \<Rightarrow> None
      | Some (None, os) \<Rightarrow> Some (Some file_gone, w\<lparr>cw_os := os\<rparr>)
      | Some (Some (Inl err), os) \<Rightarrow> Some (Some err, w\<lparr>cw_os := os\<rparr>)
      | Some (Some (Inr x), os) \<Rightarrow> Some (None, print_err (report x) (w\<lparr>cw_os := os\<rparr>)))"

section \<open>The commands\<close>

definition newline :: string where "newline = [CHR 0x0A]"

text \<open>\<open>%04d\<close> of a version.\<close>

definition show_padded4 :: "nat \<Rightarrow> string" where
  "show_padded4 n = replicate (4 - length (show_nat n)) CHR ''0'' @ show_nat n"

definition migrated_to :: "migration \<Rightarrow> string" where
  "migrated_to m = ''database migrated to version '' @ show_nat (Version m) @ '' - '' @ Name m @ newline"

text \<open>The lines of \<open>list\<close>: the current version between stars.\<close>

definition list_line :: "nat \<Rightarrow> nat \<Rightarrow> string \<Rightarrow> string" where
  "list_line cv v name =
     (let body = show_padded4 v @ '' - '' @ name
      in (if cv = v then ''*** '' @ body @ '' ***'' else body) @ newline)"

definition list_migrations :: "migration list \<Rightarrow> nat \<Rightarrow> string" where
  "list_migrations migs cv =
     list_line cv 0 ''empty database'' @ concat (map (\<lambda>m. list_line cv (Version m) (Name m)) migs)"

definition migrate_subcommand ::
    "'sch db_env \<Rightarrow> string \<Rightarrow> migration list \<Rightarrow> SQLiteDB \<Rightarrow> 'sch cli_world \<Rightarrow> (go_error option \<times> 'sch cli_world) option" where
  "migrate_subcommand env cmd migs db w =
     (if cmd = ''down'' then
        walk_body env (\<lambda>drv s. map_option (\<lambda>(err, s'). (case err of Some e \<Rightarrow> Inl e | None \<Rightarrow> Inr (), s'))
                                (Down (de_rounds env) (de_read env) migs drv s)) (\<lambda>_. []) db w
      else if cmd = ''step-down'' then walk_body env (\<lambda>drv s. Some (StepDown (de_read env) migs drv s)) migrated_to db w
      else if cmd = ''step-up'' then walk_body env (\<lambda>drv s. Some (StepUp (de_read env) migs drv s)) migrated_to db w
      else if cmd = ''up'' then walk_body env (Up (de_rounds env) (de_read env) migs) (\<lambda>_. []) db w
      else if cmd = ''list'' then walk_body env (\<lambda>drv s. Some (DriverVersion drv s)) (list_migrations migs) db w
      else Some (Some (NewError (''command '' @ cmd @ '' is not support'')), w))"

text \<open>\<open>MigrateCMD\<close>; the subcommand is the first argument before parsing, not after.\<close>

definition MigrateCMD :: "'sch db_env \<Rightarrow> string list \<Rightarrow> string \<Rightarrow> string \<Rightarrow> 'sch cli_world \<Rightarrow> (cmd_end \<times> 'sch cli_world) option" where
  "MigrateCMD env args dbPath migrationsDir w =
     (case parse_flags [] [] args of
        FlagsExit n \<Rightarrow> Some (CmdExit n, w)
      | FlagsOk _ _ \<Rightarrow>
          if args = [] then Some (CmdDone None, w)
          else with_database env dbPath migrationsDir (migrate_subcommand env (hd args)) w)"

definition database_flags :: flag_values where
  "database_flags = [(''db-type'', StringV []), (''notes-user-number'', StringV [])]"

text \<open>The file and the migrations the two flags select.\<close>

definition database_of :: "config \<Rightarrow> string \<Rightarrow> string \<Rightarrow> (string \<times> string) outcome" where
  "database_of conf dbType notesUserNumber =
     (if lower_is dbType ''index'' then
        Inr (path_join [DataDirectory conf, ConfIndexDBFileName (SQLiteConf conf)], ConfIndexDBMigrations (SQLiteConf conf))
      else if lower_is dbType ''notes'' then
        (if notesUserNumber = [] then Inl (NewError ''notes-db-name is required'')
         else Inr (path_join [DataDirectory conf, ''user-databases'', notesUserNumber @ ''.db''],
                   ConfNotesDBMigrations (SQLiteConf conf)))
      else Inl (NewError (''database type '' @ dbType @ '' is not valid.  Valid options index or notes'')))"

definition DatabaseCMD :: "'sch db_env \<Rightarrow> config \<Rightarrow> string list \<Rightarrow> 'sch cli_world \<Rightarrow> (cmd_end \<times> 'sch cli_world) option" where
  "DatabaseCMD env conf args0 w =
     (case parse_flags database_flags [] args0 of
        FlagsExit n \<Rightarrow> Some (CmdExit n, w)
      | FlagsOk actual args \<Rightarrow>
          if args = [] then Some (CmdDone None, w)
          else (let val = (\<lambda>nm. text_of_flag (flag_of database_flags actual nm))
                in case database_of conf (val ''db-type'') (val ''notes-user-number'') of
                     Inl err \<Rightarrow> Some (CmdDone (Some err), w)
                   | Inr (dbPath, migrationsDir) \<Rightarrow>
                       if hd args = ''bootstrap'' then
                         with_database env dbPath migrationsDir
                           (\<lambda>migs. walk_body env (Bootstrap (de_rounds env) (de_read env) migs) (\<lambda>_. [])) w
                       else if hd args = ''migrate'' then MigrateCMD env (tl args) dbPath migrationsDir w
                       else Some (CmdDone (Some (NewError (''command '' @ hd args @ '' is not supported''))), w)))"

end
