(* ===== verification/Cli_Props.thy ===== *)
theory Cli_Props
  imports Cli_Database Config_Props Migration_Any
begin

text \<open>
  What the command line does: which options count, and what the database commands leave.
\<close>

section \<open>Options\<close>

lemma main_program_config:
  assumes "parse_flags (global_flags (ce_conf env)) [] argv = FlagsOk actual args"
  shows "main_program env cmds argv w =
    (if args = [] then Some (0, w)
     else case load_config env (text_of_flag (flag_of (global_flags (ce_conf env)) actual ''config-file'')) of
            Inl n \<Rightarrow> Some (n, w)
          | Inr conf \<Rightarrow> if Debug conf \<and> \<not> succeeds (Marshal conf) then Some (1, w) else run_command cmds conf args w)"
  using assms by (simp add: main_program_def Let_def visit_flags_def command_line_actual_def split: sum.split)

text \<open>
  C38: The global options do not count. \<open>main\<close> asks \<open>flag.Visit\<close> which options were set, but that
  visits the flag set of the package, which is never parsed, and not \<open>globalFlags\<close>: any two command
  lines with the same configuration file and the same command do the same, whatever \<open>-debug\<close>,
  \<open>-data-directory\<close> and the six \<open>-sqlite\<close> options say in either.
\<close>

theorem global_options_do_not_count:
  assumes "parse_flags (global_flags (ce_conf env)) [] argv1 = FlagsOk actual1 args"
    and "parse_flags (global_flags (ce_conf env)) [] argv2 = FlagsOk actual2 args"
    and "flag_of (global_flags (ce_conf env)) actual1 ''config-file'' = flag_of (global_flags (ce_conf env)) actual2 ''config-file''"
  shows "main_program env cmds argv1 w = main_program env cmds argv2 w"
  by (simp add: main_program_config [OF assms(1)] main_program_config [OF assms(2)] assms(3))

lemma visit_serve_fields [simp]:
  "DataDirectory (visit_serve val nm conf) = DataDirectory conf" "FileLocation (visit_serve val nm conf) = FileLocation conf"
  "SQLiteConf (visit_serve val nm conf) = SQLiteConf conf" "Debug (visit_serve val nm conf) = Debug conf"
  "WebLoggingIgnoredPaths (visit_serve val nm conf) = WebLoggingIgnoredPaths conf"
  "WebHost (visit_serve val nm conf) = (if nm = ''host'' then text_of_flag (val ''host'') else WebHost conf)"
  "WebPort (visit_serve val nm conf) = (if nm = ''port'' then uint_of (val ''port'') else WebPort conf)"
  "WebEnableHTTPS (visit_serve val nm conf) = (if nm = ''https'' then bool_of (val ''https'') else WebEnableHTTPS conf)"
  "WebCert (visit_serve val nm conf) = (if nm = ''cert'' then text_of_flag (val ''cert'') else WebCert conf)"
  "WebKey (visit_serve val nm conf) = (if nm = ''key'' then text_of_flag (val ''key'') else WebKey conf)"
  by (simp_all add: visit_serve_def)

lemma fold_visit_serve:
  "SQLiteConf (fold (visit_serve val) ks conf) = SQLiteConf conf" "DataDirectory (fold (visit_serve val) ks conf) = DataDirectory conf"
  "WebHost (fold (visit_serve val) ks conf) = (if ''host'' \<in> set ks then text_of_flag (val ''host'') else WebHost conf)"
  "WebPort (fold (visit_serve val) ks conf) = (if ''port'' \<in> set ks then uint_of (val ''port'') else WebPort conf)"
  "WebEnableHTTPS (fold (visit_serve val) ks conf) = (if ''https'' \<in> set ks then bool_of (val ''https'') else WebEnableHTTPS conf)"
  "WebCert (fold (visit_serve val) ks conf) = (if ''cert'' \<in> set ks then text_of_flag (val ''cert'') else WebCert conf)"
  "WebKey (fold (visit_serve val) ks conf) = (if ''key'' \<in> set ks then text_of_flag (val ''key'') else WebKey conf)"
  by (induction ks arbitrary: conf) auto

text \<open>The flags of \<open>serve\<close> do count: each that was given replaces its setting, and no other changes.\<close>

lemma serve_flags_count:
  assumes "parse_flags serve_flags [] args = FlagsOk actual rest" and "serve_config conf args = Inr conf'"
  shows "WebHost conf' = (case map_of actual ''host'' of Some v \<Rightarrow> text_of_flag v | None \<Rightarrow> WebHost conf)
    \<and> WebPort conf' = (case map_of actual ''port'' of Some v \<Rightarrow> uint_of v | None \<Rightarrow> WebPort conf)
    \<and> WebEnableHTTPS conf' = (case map_of actual ''https'' of Some v \<Rightarrow> bool_of v | None \<Rightarrow> WebEnableHTTPS conf)
    \<and> WebCert conf' = (case map_of actual ''cert'' of Some v \<Rightarrow> text_of_flag v | None \<Rightarrow> WebCert conf)
    \<and> WebKey conf' = (case map_of actual ''key'' of Some v \<Rightarrow> text_of_flag v | None \<Rightarrow> WebKey conf)
    \<and> SQLiteConf conf' = SQLiteConf conf \<and> DataDirectory conf' = DataDirectory conf"
proof -
  have "nm \<in> fst ` set actual \<longleftrightarrow> (\<exists>v. map_of actual nm = Some v)" for nm
    by (metis domIff dom_map_of_conv_image_fst not_None_eq)
  then show ?thesis
    using assms by (auto simp: serve_config_def visit_flags_def fold_visit_serve flag_of_def split: option.splits)
qed

section \<open>Databases are closed\<close>

lemma close_opened:
  assumes "opened env options w db w1" and "world_ok env w" and "open_pools w2 = open_pools w1"
  shows "snd (SQLiteDB_Close env db w2) = w2\<lparr>open_pools := open_pools w\<rparr>"
proof -
  have "\<forall>h \<in> fst ` set (open_pools w). h < next_pool w" using assms(2) by (simp add: world_ok_def)
  moreover obtain r wr where "open_pools w2 = (Suc (next_pool w), r) # (next_pool w, wr) # open_pools w"
    using assms(1,3) by (simp add: opened_def pools_of_def Let_def)
  ultimately obtain err where "SQLiteDB_Close env db w2 = (Returns () err, w2\<lparr>open_pools := open_pools w\<rparr>)"
    using close_fresh_pair [of "open_pools w" "next_pool w" w2 r wr db env] assms(1) by (auto simp: opened_def)
  then show ?thesis by simp
qed

lemma with_database_closes:
  assumes "world_ok (de_open env) (cw_os w)" and "\<forall>k. connector_fault (de_open env) k = None"
    and body: "\<And>migs db w1 err w2. body migs db w1 = Some (err, w2) \<Longrightarrow> open_pools (cw_os w2) = open_pools (cw_os w1)"
    and run: "with_database env p dir body w = Some (e, w')"
  shows "open_pools (cw_os w') = open_pools (cw_os w)"
proof (cases "NewSQLiteDB (de_open env) p [] (cw_os w)")
  case (Pair res os)
  from NewSQLiteDB_cases [OF assms(1,2) Pair] show ?thesis
  proof (elim conjE disjE exE)
    fix err assume "res = Returns None (Some err)" "open_pools os = open_pools (cw_os w)"
    then show ?thesis using run Pair by (auto simp: with_database_def)
  next
    fix db assume db: "res = Returns (Some db) None" "opened (de_open env) [] (cw_os w) db os"
    note closes = close_opened [OF db(2) assms(1)]
    show ?thesis
    proof (cases "Load (de_walk env) dir")
      case (Panics q)
      then show ?thesis using run Pair db closes by (auto simp: with_database_def Let_def)
    next
      case (Returns migs err)
      show ?thesis
      proof (cases err)
        case (Some e')
        then show ?thesis using run Pair db closes Returns by (auto simp: with_database_def Let_def)
      next
        case None
        then obtain err' w2 where b: "body migs db (w\<lparr>cw_os := os\<rparr>) = Some (err', w2)"
          using run Pair db Returns by (auto simp: with_database_def Let_def split: option.splits)
        have "open_pools (cw_os w2) = open_pools os" using body [OF b] by simp
        then show ?thesis using run Pair db closes Returns None b by (auto simp: with_database_def Let_def)
      qed
    qed
  qed
qed

lemma on_file_pools: "on_file db walk w = Some (r, w') \<Longrightarrow> open_pools w' = open_pools w"
  by (auto simp: on_file_def split: option.splits node.splits)

lemma walk_body_pools: "walk_body env walk report db w = Some (err, w') \<Longrightarrow> open_pools (cw_os w') = open_pools (cw_os w)"
  by (auto simp: walk_body_def print_err_def split: option.splits prod.splits sum.splits dest: on_file_pools)

lemma migrate_subcommand_pools:
  "migrate_subcommand env cmd migs db w = Some (err, w') \<Longrightarrow> open_pools (cw_os w') = open_pools (cw_os w)"
  by (auto simp: migrate_subcommand_def split: if_splits dest: walk_body_pools)


section \<open>What is in the file\<close>

text \<open>The content a database has once it is open: that of the file, or of the one the engine makes.\<close>

definition content_at :: "'f open_env \<Rightarrow> string \<Rightarrow> 'f os_world \<Rightarrow> 'f" where
  "content_at env p w = (case map_of (fs w) p of Some (FileNode f) \<Rightarrow> f | _ \<Rightarrow> created_file env)"

text \<open>Opening adds files and directories and changes none.\<close>

definition grows :: "'f open_env \<Rightarrow> 'f os_world \<Rightarrow> 'f os_world \<Rightarrow> bool" where
  "grows env w w1 \<longleftrightarrow> (\<forall>q n. map_of (fs w) q = Some n \<longrightarrow> map_of (fs w1) q = Some n)
     \<and> (\<forall>q f. map_of (fs w1) q = Some (FileNode f) \<longrightarrow> f = content_at env q w)"

lemma grows_refl: "grows env w w"
  by (simp add: grows_def content_at_def)

lemma grows_same_fs: "fs w1 = fs w \<Longrightarrow> grows env w w1"
  by (simp add: grows_def content_at_def)

lemma grows_trans: "grows env w w1 \<Longrightarrow> grows env w1 w2 \<Longrightarrow> grows env w w2"
proof -
  assume g: "grows env w w1" "grows env w1 w2"
  have "f = content_at env q w" if f: "map_of (fs w2) q = Some (FileNode f)" for q f
  proof (cases "map_of (fs w1) q")
    case None
    then have "map_of (fs w) q = None" using g(1) unfolding grows_def by (metis not_None_eq option.distinct(1))
    moreover have "f = content_at env q w1" using g(2) f by (simp add: grows_def)
    ultimately show ?thesis using None by (simp add: content_at_def)
  next
    case (Some n)
    then have "n = FileNode f" using g(2) f by (auto simp: grows_def)
    then show ?thesis using g(1) Some by (simp add: grows_def)
  qed
  then show ?thesis using g by (simp add: grows_def)
qed

lemma os_mkdir_all_grows: "os_mkdir_all env dir w = (err, w1) \<Longrightarrow> grows env w w1"
proof -
  assume run: "os_mkdir_all env dir w = (err, w1)"
  let ?new = "map (\<lambda>p. (p, DirNode)) (filter (\<lambda>p. map_of (fs w) p = None) (ancestors dir))"
  have "map_of (?new @ fs w) q = Some n \<longleftrightarrow> map_of (fs w) q = Some n \<or> (map_of (fs w) q = None \<and> q \<in> set (ancestors dir) \<and> n = DirNode)"
    for q and n :: "'a node"
    by (cases "map_of (fs w) q") (auto simp: map_of_map_restrict restrict_map_def map_add_def)
  then have "grows env w (w\<lparr>fs := ?new @ fs w\<rparr>)"
    unfolding grows_def content_at_def os_world.select_convs os_world.simps by auto
  then show ?thesis using run grows_refl [of env w] by (auto simp: os_mkdir_all_def split: option.splits if_splits)
qed

lemma database_path_grows:
  "database_path env p w = (Inr dbp, w1) \<Longrightarrow> grows env w w1 \<and> homedir_expand env p = Inr dbp"
  by (auto simp: database_path_def grows_refl split: sum.splits if_splits prod.splits option.splits dest: os_mkdir_all_grows)

lemma ping_grows: "ping env k h p w = (err, w1) \<Longrightarrow> grows env w w1"
  by (auto simp: ping_def Let_def grows_def content_at_def split: option.splits if_splits sum.splits)

lemma check_connections_grows:
  "check_connections env db wh rh w = (Returns (Some db') None, w1) \<Longrightarrow> grows env w w1 \<and> db' = db"
  by (auto simp: check_connections_def close_and_fail_def split: prod.splits option.splits sum.splits if_splits go_ret.splits
      dest!: ping_grows intro: grows_trans)

lemma sql_open_fs: "sql_open env k nm dsn mx w = (r, w1) \<Longrightarrow> fs w1 = fs w"
  by (auto simp: sql_open_def split: if_splits option.splits)

lemma NewSQLiteDB_grows:
  assumes "NewSQLiteDB env p os w = (Returns (Some db) None, w')"
  shows "grows env w w' \<and> homedir_expand env p = Inr (DBPath db)"
proof -
  from assms obtain sopts dbp w1 nm e reg wh w2 rh w3 where
    1: "database_path env p w = (Inr dbp, w1)"
    and 2: "sql_open env 0 nm (''file:'' @ dbp) 1 (w1\<lparr>drivers := reg\<rparr>) = (Inr wh, w2)"
    and 3: "sql_open env 1 nm (''file:'' @ dbp) (o_maxReaderConns sopts) w2 = (Inr rh, w3)"
    and 4: "check_connections env \<lparr>DBPath = dbp, Read = Some rh, Write = Some wh, QueryTimeout = o_queryTimeout sopts, opts = sopts\<rparr>
      wh rh w3 = (Returns (Some db) None, w')"
    by (auto simp: NewSQLiteDB_def close_and_fail_def Let_def split: sum.splits prod.splits go_ret.splits if_splits)
  have "fs w3 = fs w1" using sql_open_fs [OF 2] sql_open_fs [OF 3] by simp
  then have "grows env w1 w3" by (rule grows_same_fs)
  moreover note database_path_grows [OF 1] check_connections_grows [OF 4]
  ultimately show ?thesis using grows_trans [of env w w1 w3] grows_trans [of env w w3 w'] by simp
qed

section \<open>bootstrap\<close>

lemma fs_close [simp]: "fs (snd (SQLiteDB_Close env db w)) = fs w"
  by (auto simp: SQLiteDB_Close_def close_pool_def split: option.splits)

lemma walk_body_bootstrap:
  assumes "reads_succeed (de_calls env)" and "wf_migrations migs" and "\<forall>m \<in> set migs. version_fits (de_engine env) (Version m)"
    and "length migs < de_rounds env"
  shows "\<exists>err w1. walk_body env (Bootstrap (de_rounds env) (de_read env) migs) (\<lambda>_. []) db w = Some (err, w1)
    \<and> (err = None \<longrightarrow> (\<exists>f f' j. map_of (fs (cw_os w)) (DBPath db) = Some (FileNode f)
         \<and> map_of (fs (cw_os w1)) (DBPath db) = Some (FileNode f') \<and> user_version f' = Version (last migs)
         \<and> at_step migs (user_version f) j \<and> committed f' = committed f @ up_scripts (de_read env) migs j (length migs)))"
proof (cases "\<exists>f. map_of (fs (cw_os w)) (DBPath db) = Some (FileNode f)")
  case True
  then obtain f where f: "map_of (fs (cw_os w)) (DBPath db) = Some (FileNode f)" ..
  from Up_any_file [OF assms, of "de_read env" f 0] obtain r f' k where
    "Up (de_rounds env) (de_read env) migs (sqlite_driver (de_calls env) (de_engine env)) (f, 0) = Some (r, (f', k))"
    "\<forall>v. r = Inr v \<longrightarrow> user_version f' = Version (last migs)
         \<and> (\<exists>j. at_step migs (user_version f) j \<and> committed f' = committed f @ up_scripts (de_read env) migs j (length migs))"
    by blast
  then show ?thesis using f
    by (cases r) (auto simp: walk_body_def on_file_def print_err_def update_conv')
next
  case False
  then show ?thesis
    by (cases "map_of (fs (cw_os w)) (DBPath db)") (auto simp: walk_body_def on_file_def split: node.split)
qed

text \<open>The arguments of \<open>communis database -db-type t -notes-user-number n bootstrap\<close>.\<close>

definition bootstrap_args :: "string \<Rightarrow> string \<Rightarrow> string list" where
  "bootstrap_args t n = [''-db-type'', t, ''-notes-user-number'', n, ''bootstrap'']"

lemma parse_bootstrap_args:
  "\<exists>actual. parse_flags database_flags [] (bootstrap_args t n) = FlagsOk actual [''bootstrap'']
    \<and> text_of_flag (flag_of database_flags actual ''db-type'') = t
    \<and> text_of_flag (flag_of database_flags actual ''notes-user-number'') = n"
  by (simp add: bootstrap_args_def parse_flags.simps [of _ _ "_ # _"] database_flags_def split_flag_def
      flag_step_named_def is_bool_flag_def set_step_def flag_of_def)

lemma DatabaseCMD_bootstrap:
  assumes "database_of conf t n = Inr (p, dir)"
  shows "DatabaseCMD env conf (bootstrap_args t n) w =
    with_database env p dir (\<lambda>migs. walk_body env (Bootstrap (de_rounds env) (de_read env) migs) (\<lambda>_. [])) w"
  using parse_bootstrap_args [of t n] assms by (auto simp: DatabaseCMD_def Let_def)

lemma with_database_ends:
  assumes "world_ok (de_open env) (cw_os w)" and "\<forall>k. connector_fault (de_open env) k = None"
    and "\<And>migs db w1. Load (de_walk env) dir = Returns migs None \<Longrightarrow> body migs db w1 \<noteq> None"
  shows "\<exists>e w'. with_database env p dir body w = Some (e, w')"
proof (cases "NewSQLiteDB (de_open env) p [] (cw_os w)")
  case (Pair res os)
  from NewSQLiteDB_cases [OF assms(1,2) Pair] show ?thesis
  proof (elim conjE disjE exE)
    fix err assume "res = Returns None (Some err)"
    then show ?thesis using Pair by (simp add: with_database_def)
  next
    fix db assume db: "res = Returns (Some db) None"
    show ?thesis
    proof (cases "Load (de_walk env) dir")
      case (Panics p')
      then show ?thesis using Pair db by (simp add: with_database_def Let_def)
    next
      case (Returns migs le)
      show ?thesis
      proof (cases le)
        case (Some e)
        then show ?thesis using Pair db Returns by (simp add: with_database_def Let_def)
      next
        case None
        then obtain r where "body migs db (w\<lparr>cw_os := os\<rparr>) = Some r"
          using assms(3) [of migs db "w\<lparr>cw_os := os\<rparr>"] Returns by blast
        then show ?thesis using Pair db Returns None by (cases r) (simp add: with_database_def Let_def)
      qed
    qed
  qed
qed

text \<open>
  C19: The bootstrap command ends, on every file. With migrations numbered upwards that the file can
  record, \<open>communis database bootstrap\<close> comes back for every content the file may have, a version
  the list does not know included; when it reports success, the database at the path the flags
  select has exactly the scripts committed, in order, that were pending in the content it had (or
  in the new one), and the version of the last migration.
\<close>

theorem bootstrap_command_ends:
  assumes "world_ok (de_open env) (cw_os w)" and "\<forall>k. connector_fault (de_open env) k = None"
    and "reads_succeed (de_calls env)" and "database_of conf t n = Inr (p, dir)"
    and "Load (de_walk env) dir = Returns migs None" and "wf_migrations migs"
    and "\<forall>m \<in> set migs. version_fits (de_engine env) (Version m)" and "length migs < de_rounds env"
  shows "\<exists>err w'. DatabaseCMD env conf (bootstrap_args t n) w = Some (CmdDone err, w')
    \<and> (err = None \<longrightarrow> (\<exists>dbp f j. homedir_expand (de_open env) p = Inr dbp
         \<and> map_of (fs (cw_os w')) dbp = Some (FileNode f) \<and> user_version f = Version (last migs)
         \<and> at_step migs (user_version (content_at (de_open env) dbp (cw_os w))) j
         \<and> committed f = committed (content_at (de_open env) dbp (cw_os w))
             @ up_scripts (de_read env) migs j (length migs)))"
proof -
  let ?body = "\<lambda>migs. walk_body env (Bootstrap (de_rounds env) (de_read env) migs) (\<lambda>_. [])"
  note cmd = DatabaseCMD_bootstrap [OF assms(4), of env w]
  show ?thesis
  proof (cases "NewSQLiteDB (de_open env) p [] (cw_os w)")
    case (Pair res os)
    from NewSQLiteDB_cases [OF assms(1,2) Pair] show ?thesis
    proof (elim conjE disjE exE)
      fix err assume "res = Returns None (Some err)"
      then show ?thesis using cmd Pair by (simp add: with_database_def)
    next
      fix db assume db: "res = Returns (Some db) None"
      have os: "cw_os (w\<lparr>cw_os := os\<rparr>) = os" by simp
      from walk_body_bootstrap [OF assms(3,6,7,8), of db "w\<lparr>cw_os := os\<rparr>", unfolded os] obtain err w1 where
        b: "?body migs db (w\<lparr>cw_os := os\<rparr>) = Some (err, w1)"
        and eff: "err = None \<longrightarrow> (\<exists>f f' j. map_of (fs os) (DBPath db) = Some (FileNode f)
          \<and> map_of (fs (cw_os w1)) (DBPath db) = Some (FileNode f') \<and> user_version f' = Version (last migs)
          \<and> at_step migs (user_version f) j \<and> committed f' = committed f @ up_scripts (de_read env) migs j (length migs))"
        by (elim exE conjE) (rule that)
      have g: "grows (de_open env) (cw_os w) os" "homedir_expand (de_open env) p = Inr (DBPath db)"
        using NewSQLiteDB_grows [OF Pair [unfolded db]] by simp_all
      let ?w' = "w1\<lparr>cw_os := snd (SQLiteDB_Close (de_open env) db (cw_os w1))\<rparr>"
      have run: "DatabaseCMD env conf (bootstrap_args t n) w = Some (CmdDone err, ?w')"
        using cmd Pair db b assms(5) by (simp add: with_database_def Let_def)
      show ?thesis
      proof (rule exI [of _ err], rule exI [of _ ?w'], intro conjI impI)
        show "DatabaseCMD env conf (bootstrap_args t n) w = Some (CmdDone err, ?w')" by (rule run)
        assume "err = None"
        then obtain f f' j where ff: "map_of (fs os) (DBPath db) = Some (FileNode f)"
          "map_of (fs (cw_os w1)) (DBPath db) = Some (FileNode f')" "user_version f' = Version (last migs)"
          "at_step migs (user_version f) j" "committed f' = committed f @ up_scripts (de_read env) migs j (length migs)"
          using eff by blast
        moreover have "f = content_at (de_open env) (DBPath db) (cw_os w)" using g(1) ff(1) by (simp add: grows_def)
        ultimately show "\<exists>dbp f j. homedir_expand (de_open env) p = Inr dbp
             \<and> map_of (fs (cw_os ?w')) dbp = Some (FileNode f) \<and> user_version f = Version (last migs)
             \<and> at_step migs (user_version (content_at (de_open env) dbp (cw_os w))) j
             \<and> committed f = committed (content_at (de_open env) dbp (cw_os w))
                 @ up_scripts (de_read env) migs j (length migs)"
          using g(2) by auto
      qed
    qed
  qed
qed

section \<open>Examples\<close>

definition demo_db_env :: "nat db_env" where
  "demo_db_env = \<lparr>de_open = \<lparr>homedir_expand = Inr, stat_fault = None, mkdir_fault = None, sha256 = map of_char, traceSupported = False,
       connector_fault = (\<lambda>_. None), file_fault = (\<lambda>_. None), hook_fault = (\<lambda>_ _. None), set_trace_fault = (\<lambda>_. None),
       journal_query = Inr ''wal'', pool_close_fault = (\<lambda>_. None), created_file = fresh_file\<rparr>,
     de_walk = embedded_walk, de_read = demo_read, de_calls = (\<lambda>_. good_call ''now''), de_engine = demo_engine, de_rounds = 3\<rparr>"

definition demo_cli_world :: "nat cli_world" where
  "demo_cli_world = \<lparr>cw_os = \<lparr>fs = [], drivers = \<lparr>registeredDrivers = [], sql_drivers = []\<rparr>, open_pools = [], next_pool = 0\<rparr>,
     cw_texts = [], cw_out = [], cw_err = []\<rparr>"

lemma demo_cli_ok [simp]: "world_ok env (cw_os demo_cli_world)" "connector_fault (de_open demo_db_env) = (\<lambda>_. None)"
  by (simp_all add: world_ok_def demo_cli_world_def registry_ok_def demo_db_env_def)

definition demo_index_path :: string where
  "demo_index_path = path_join [DefaultDataDirectory demo_conf_env, ''index.db'']"

lemma demo_database_of: "database_of (DefaultConfig demo_conf_env) ''INDEX'' [] = Inr (demo_index_path, ''sql/index-db'')"
  by (simp add: database_of_def lower_is_def runes_ascii is_ascii_def lower_rune_def in_range_def demo_index_path_def)

theorem bootstrap_command_ends_witness:
  "\<exists>err w'. DatabaseCMD demo_db_env (DefaultConfig demo_conf_env) (bootstrap_args ''INDEX'' []) demo_cli_world = Some (CmdDone err, w')
    \<and> (err = None \<longrightarrow> (\<exists>f. map_of (fs (cw_os w')) demo_index_path = Some (FileNode f) \<and> user_version f = 2))"
proof -
  have "\<forall>k. connector_fault (de_open demo_db_env) k = None" "reads_succeed (de_calls demo_db_env)"
    "Load (de_walk demo_db_env) ''sql/index-db'' = Returns index_db_migrations None"
    "\<forall>m \<in> set index_db_migrations. version_fits (de_engine demo_db_env) (Version m)"
    "length index_db_migrations < de_rounds demo_db_env"
    by (simp_all add: demo_db_env_def Load_index_db index_db_migrations_def)
  note ok = this
  from bootstrap_command_ends [OF demo_cli_ok(1) ok(1,2) demo_database_of ok(3) index_db_wf ok(4,5)]
  show ?thesis by (auto simp: demo_db_env_def index_db_migrations_def)
qed

lemma demo_database_run:
  "\<exists>e w'. DatabaseCMD demo_db_env (DefaultConfig demo_conf_env) (bootstrap_args ''INDEX'' []) demo_cli_world = Some (e, w')"
proof -
  have "walk_body demo_db_env (Bootstrap (de_rounds demo_db_env) (de_read demo_db_env) index_db_migrations) (\<lambda>_. []) db w \<noteq> None" for db w
    using walk_body_bootstrap [of demo_db_env index_db_migrations db w] index_db_wf
    by (auto simp: demo_db_env_def index_db_migrations_def)
  moreover have "Load (de_walk demo_db_env) ''sql/index-db'' = Returns index_db_migrations None"
    by (simp add: demo_db_env_def Load_index_db)
  ultimately show ?thesis
    unfolding DatabaseCMD_bootstrap [OF demo_database_of] by (intro with_database_ends) simp_all
qed


definition demo_cli_env :: cli_env where
  "demo_cli_env = \<lparr>ce_conf = demo_conf_env, read_file = (\<lambda>_. Inr ''{}'')\<rparr>"

text \<open>Commands that note which one ran and the data directory it ran with.\<close>

definition demo_commands :: "(string \<times> string) list commands" where
  "demo_commands =
     \<lparr>cmd_database = (\<lambda>conf args w. Some (CmdDone None, (''database'', DataDirectory conf) # w)),
      cmd_serve = (\<lambda>conf args w. Some (CmdDone None, (''serve'', DataDirectory conf) # w)),
      cmd_generate = (\<lambda>conf args w. Some (CmdDone None, (''generate'', DataDirectory conf) # w)),
      cmd_uninstall = (\<lambda>conf args w. Some (CmdDone None, (''uninstall'', DataDirectory conf) # w)),
      cmd_version = (\<lambda>args w. (CmdDone None, (''version'', []) # w))\<rparr>"

theorem global_options_do_not_count_witness:
  "main_program demo_cli_env demo_commands
     [''-debug'', ''--data-directory=/srv'', ''-sqlite-cache-size'', ''0x10'', ''serve'', ''-port'', ''80''] []
   = main_program demo_cli_env demo_commands [''serve'', ''-port'', ''80''] []"
proof (rule global_options_do_not_count)
  show "parse_flags (global_flags (ce_conf demo_cli_env)) []
      [''-debug'', ''--data-directory=/srv'', ''-sqlite-cache-size'', ''0x10'', ''serve'', ''-port'', ''80'']
    = FlagsOk [(''debug'', BoolV True), (''data-directory'', StringV ''/srv''), (''sqlite-cache-size'', IntV 16)] [''serve'', ''-port'', ''80'']"
    by (simp add: parse_flags.simps [of _ _ "_ # _"] global_flags_def split_flag_def flag_step_named_def is_bool_flag_def set_step_def
        parse_bool_def parse_int0_def parse_uint0_def base_prefix_def lower_ascii_def in_range_def digit_of_def is_digit_def digit_val_def)
  show "parse_flags (global_flags (ce_conf demo_cli_env)) [] [''serve'', ''-port'', ''80''] = FlagsOk [] [''serve'', ''-port'', ''80'']"
    by (simp add: parse_flags.simps [of _ _ "_ # _"])
qed (simp add: flag_of_def)

end
