(* ===== verification/Cli_Serve.thy ===== *)
theory Cli_Serve
  imports Cli_Props Web_Server
begin

text \<open>
  \<open>ServeCMD\<close> of \<open>cmd/cli/web.go\<close>: the flags, the banner, the two conversions of the configuration,
  the index database, and \<open>RunServer\<close>. The file system of the command line becomes the state of the
  connection manager: the index is the content of its file, as the engine reads it.
\<close>

record serve_env =
  sv_conf :: conf_env
  sv_open :: "notes_db sqlite_file open_env"
  sv_server :: server_env
  sv_version :: "string option"
  sv_rows :: engine
  read_index :: "notes_db sqlite_file \<Rightarrow> index_db"

definition banner :: "string \<Rightarrow> string" where
  "banner version =
     (let b = [CHR 0x5C]; cell = b @ ''|/__''
      in join newline
        ['''', ''------------------------------------------'',
         '' ____ ____ ____ ____ ____ ____ ____ ____'',
         ''||c |||o |||m |||m |||u |||n |||i |||s ||'',
         ''||__|||__|||__|||__|||__|||__|||__|||__||'',
         ''|/__'' @ cell @ cell @ cell @ cell @ cell @ cell @ cell @ b @ ''|'', '''',
         ''------------------------------------------'', ''version: '' @ version, ''''])"

datatype serve_start = ServeReturns cmd_end | ServeRuns ServerConfig manager_config SQLiteDB

text \<open>Everything up to the call of \<open>RunServer\<close>; the server's settings are checked after the database is open.\<close>

definition serve_prepare ::
    "serve_env \<Rightarrow> config \<Rightarrow> string list \<Rightarrow> notes_db cli_world \<Rightarrow> serve_start \<times> notes_db cli_world" where
  "serve_prepare env conf0 args w =
     (case serve_config conf0 args of
        Inl n \<Rightarrow> (ServeReturns (CmdExit n), w)
      | Inr conf \<Rightarrow>
          (let w = w\<lparr>cw_out := cw_out w @ banner (VersionText (sv_version env))\<rparr>
           in case ConfigToSQLiteConnManagerConfig (sv_conf env) conf of
                Panics p \<Rightarrow> (ServeReturns (CmdPanic p), w)
              | Returns _ (Some err) \<Rightarrow> (ServeReturns (CmdDone (Some err)), w)
              | Returns None None \<Rightarrow> (ServeReturns (CmdPanic nil_dereference), w)
              | Returns (Some connMgrConfig) None \<Rightarrow>
                  (case NewSQLiteConnManager (sv_open env) connMgrConfig (cw_os w) of
                     (Panics p, os) \<Rightarrow> (ServeReturns (CmdPanic p), w\<lparr>cw_os := os\<rparr>)
                   | (Returns _ (Some err), os) \<Rightarrow> (ServeReturns (CmdDone (Some err)), w\<lparr>cw_os := os\<rparr>)
                   | (Returns None None, os) \<Rightarrow> (ServeReturns (CmdPanic nil_dereference), w\<lparr>cw_os := os\<rparr>)
                   | (Returns (Some db) None, os) \<Rightarrow>
                       (case ConfigToServerConfig (sv_conf env) conf of
                          Inl err \<Rightarrow> (ServeReturns (CmdDone (Some err)), w\<lparr>cw_os := os\<rparr>)
                        | Inr svrConf \<Rightarrow> (ServeRuns svrConf connMgrConfig db, w\<lparr>cw_os := os\<rparr>)))))"

text \<open>The manager on a file system: the index on the file of its database, the other files by their paths.\<close>

definition other_files :: "string \<Rightarrow> (string \<times> 'f node) list \<Rightarrow> (string \<times> 'f) list" where
  "other_files p files =
     List.map_filter (\<lambda>(q, n). if q = p then None else case n of FileNode f \<Rightarrow> Some (q, f) | DirNode \<Rightarrow> None) files"

definition manager_on :: "serve_env \<Rightarrow> SQLiteDB \<Rightarrow> notes_db sqlite_file os_world \<Rightarrow> notes_db manager" where
  "manager_on env db w =
     (let f = (case map_of (fs w) (DBPath db) of Some (FileNode f) \<Rightarrow> f | _ \<Rightarrow> created_file (sv_open env))
      in start_manager (read_index env f) f (other_files (DBPath db) (fs w)))"

text \<open>\<open>ServeCMD\<close>: what it serves, how listening ended and the state then, as for \<open>RunServer\<close>, and how the command ends.\<close>

inductive ServeCMD ::
    "serve_env \<Rightarrow> config \<Rightarrow> string list \<Rightarrow> notes_db cli_world \<Rightarrow> ('ses web_env \<times> request) list
       \<Rightarrow> (listen_end \<times> notes_db manager) option \<Rightarrow> cmd_end option \<Rightarrow> bool"
  for env conf args w where
  serve_returns: "serve_prepare env conf args w = (ServeReturns e, w1) \<Longrightarrow> ServeCMD env conf args w [] None (Some e)"
| serve_runs: "serve_prepare env conf args w = (ServeRuns sc c db, w1) \<Longrightarrow>
     RunServer (sv_server env) sc (sv_rows env) (conn_conf.truncate c) (manager_on env db (cw_os w1)) rs stop res m \<Longrightarrow>
     ServeCMD env conf args w rs stop (map_option CmdDone res)"

section \<open>What the server runs on\<close>

lemma serve_prepare_runs:
  assumes "serve_prepare env conf0 args w = (ServeRuns sc c db, w1)"
  shows "\<exists>conf. serve_config conf0 args = Inr conf
    \<and> ConfigToSQLiteConnManagerConfig (sv_conf env) conf = Returns (Some c) None
    \<and> ConfigToServerConfig (sv_conf env) conf = Inr sc
    \<and> NewSQLiteDB (sv_open env) (path_join [DBDirectory c, IndexDBFileName c]) (SQLiteOptions c) (cw_os w)
        = (Returns (Some db) None, cw_os w1)"
  using assms
  by (auto simp: serve_prepare_def Let_def NewSQLiteConnManager_def split: sum.splits go_ret.splits option.splits prod.splits)

lemma other_files_paths: "map fst (other_files p files) = map fst (filter (\<lambda>x. fst x \<noteq> p \<and> snd x \<noteq> DirNode) files)"
  by (induction files) (auto simp: other_files_def map_filter_simps split: node.splits)

lemma manager_on_reach:
  assumes "\<forall>f. index_ok (read_index env f)" and "distinct (map fst (fs w))"
  shows "conn_reach en conf calm (manager_on env db w)"
  unfolding manager_on_def Let_def
proof (rule conn_start)
  show "distinct (map fst (other_files (DBPath db) (fs w)))"
    unfolding other_files_paths using assms(2) by (simp add: distinct_map_filter)
qed (use assms(1) in simp)

end
