(* ===== verification/Serve_Example.thy ===== *)
theory Serve_Example
  imports Cli_Serve Server_Examples
begin

text \<open>
  \<open>communis serve\<close> on the migrations of the repository: what the flags leave of the configuration, and
  a disk, a configuration and an environment on which the command runs and serves a request.
\<close>

lemma serve_config_keeps:
  assumes "serve_config conf0 args = Inr conf"
  shows "SQLiteConf conf = SQLiteConf conf0" and "DataDirectory conf = DataDirectory conf0"
proof -
  obtain actual rest where "parse_flags serve_flags [] args = FlagsOk actual rest"
    "conf = visit_flags (visit_serve (flag_of serve_flags actual)) actual conf0"
    using assms by (auto simp: serve_config_def split: flags_parsed.splits)
  then show "SQLiteConf conf = SQLiteConf conf0" "DataDirectory conf = DataDirectory conf0"
    by (simp_all add: visit_flags_def fold_visit_serve)
qed

lemma last_migrations:
  "Version (last notes_db_migrations) = 6" "Version (last index_db_migrations) = 2"
  "length notes_db_migrations = 6" "length index_db_migrations = 2"
  "m \<in> set notes_db_migrations \<union> set index_db_migrations \<Longrightarrow> Version m \<le> 6"
  by (auto simp: notes_db_migrations_def index_db_migrations_def)

section \<open>An example\<close>

definition quiet_open :: "notes_db sqlite_file open_env" where
  "quiet_open = \<lparr>homedir_expand = Inr, stat_fault = None, mkdir_fault = None, sha256 = map of_char, traceSupported = False,
     connector_fault = (\<lambda>_. None), file_fault = (\<lambda>_. None), hook_fault = (\<lambda>_ _. None), set_trace_fault = (\<lambda>_. None),
     journal_query = Inr ''wal'', pool_close_fault = (\<lambda>_. None), created_file = ann_file\<rparr>"

definition demo_serve_env :: serve_env where
  "demo_serve_env = \<lparr>sv_conf = demo_conf_env, sv_open = quiet_open, sv_server = boot_env, sv_version = None, sv_rows = std_engine,
     read_index = (\<lambda>_. old_index)\<rparr>"

definition demo_serve_conf :: config where
  "demo_serve_conf = (DefaultConfig demo_conf_env)\<lparr>DataDirectory := ''data''\<rparr>"

definition demo_disk :: "notes_db sqlite_file os_world" where
  "demo_disk = \<lparr>fs = [(''data/index.db'', FileNode (ann_file\<lparr>user_version := 1\<rparr>)),
                     (db_file (repo_conf ''data'') (user_db_path 1), FileNode (ann_file\<lparr>user_version := 4\<rparr>))],
     drivers = \<lparr>registeredDrivers = [], sql_drivers = []\<rparr>, open_pools = [], next_pool = 0\<rparr>"

definition demo_serve_world :: "notes_db cli_world" where
  "demo_serve_world = \<lparr>cw_os = demo_disk, cw_texts = [], cw_out = [], cw_err = []\<rparr>"

lemma quiet_open_run:
  assumes "apply_options options default_options = Inr o'" and "o_journalMode o' = JournalModeWAL" "\<not> o_traceEnabled o'"
  shows "\<exists>db w'. NewSQLiteDB quiet_open ''data/index.db'' options demo_disk = (Returns (Some db) None, w')
     \<and> DBPath db = ''data/index.db'' \<and> fs w' = fs demo_disk"
  using assms
  by (simp add: NewSQLiteDB_def database_path_def os_stat_def quiet_open_def demo_disk_def ensureDriver_def Let_def
      sql_open_def check_connections_def ping_def new_connection_def connect_hook_def wal_fold)

lemma demo_serve_conf_accepted:
  "\<exists>os. ConfigToSQLiteConnManagerConfig demo_conf_env demo_serve_conf
        = Returns (Some \<lparr>DBDirectory = ''data'', IndexDBFileName = ''index.db'', NotesDBMigrations = notes_db_migrations,
                        IndexDBMigrations = index_db_migrations, SQLiteOptions = os\<rparr>) None
      \<and> apply_options os default_options = Inr default_options"
proof -
  obtain os where d: "ConfigToSQLiteConnManagerConfig demo_conf_env (DefaultConfig demo_conf_env)
      = Returns (Some \<lparr>DBDirectory = DefaultDataDirectory demo_conf_env, IndexDBFileName = ''index.db'',
                      NotesDBMigrations = notes_db_migrations, IndexDBMigrations = index_db_migrations, SQLiteOptions = os\<rparr>) None"
    and os: "apply_options os default_options = Inr default_options"
    using default_configuration_is_accepted [of demo_conf_env] by auto
  have "conf_options default_sqlite = Inr os" using accepted_config [OF d] by simp
  then show ?thesis using os
    by (simp add: demo_serve_conf_def ConfigToSQLiteConnManagerConfig_def Load_notes_db Load_index_db)
qed

lemma demo_server_conf: "\<exists>sc. ConfigToServerConfig demo_conf_env demo_serve_conf = Inr sc \<and> \<not> SvDebug sc"
  by (simp add: demo_serve_conf_def ConfigToServerConfig_def DefaultConfig_def resolve_tls_def)

lemma demo_serve_prepare:
  "\<exists>sc c db w1. serve_prepare demo_serve_env demo_serve_conf [] demo_serve_world = (ServeRuns sc c db, w1)
     \<and> \<not> SvDebug sc \<and> conn_conf.truncate c = repo_conf ''data'' \<and> manager_on demo_serve_env db (cw_os w1) = boot_manager"
proof -
  obtain os where c: "ConfigToSQLiteConnManagerConfig demo_conf_env demo_serve_conf
        = Returns (Some \<lparr>DBDirectory = ''data'', IndexDBFileName = ''index.db'', NotesDBMigrations = notes_db_migrations,
                        IndexDBMigrations = index_db_migrations, SQLiteOptions = os\<rparr>) None"
      (is "_ = Returns (Some ?c) None")
    and os: "apply_options os default_options = Inr default_options" using demo_serve_conf_accepted by blast
  obtain sc where sc: "ConfigToServerConfig demo_conf_env demo_serve_conf = Inr sc" "\<not> SvDebug sc" using demo_server_conf by blast
  obtain db w' where db: "NewSQLiteDB quiet_open ''data/index.db'' os demo_disk = (Returns (Some db) None, w')"
    "DBPath db = ''data/index.db''" "fs w' = fs demo_disk"
    using quiet_open_run [OF os] by (auto simp: default_options_def)
  have args: "serve_config demo_serve_conf [] = Inr demo_serve_conf"
    by (simp add: serve_config_def parse_flags.simps [of _ _ "[]"] visit_flags_def)
  have join: "path_join [''data'', ''index.db''] = ''data/index.db''" by code_simp
  have env: "sv_conf demo_serve_env = demo_conf_env" "sv_open demo_serve_env = quiet_open" "cw_os demo_serve_world = demo_disk"
    "read_index demo_serve_env = (\<lambda>_. old_index)"
    by (simp_all add: demo_serve_env_def demo_serve_world_def)
  have "\<exists>w1. serve_prepare demo_serve_env demo_serve_conf [] demo_serve_world = (ServeRuns sc ?c db, w1) \<and> cw_os w1 = w'"
    by (simp add: serve_prepare_def args Let_def env c NewSQLiteConnManager_def join db(1) sc(1))
  moreover have "conn_conf.truncate ?c = repo_conf ''data''" by (simp add: conn_conf.defs repo_conf_def)
  moreover have "manager_on demo_serve_env db w' = boot_manager"
  proof -
    have "db_file (repo_conf ''data'') (user_db_path 1) \<noteq> ''data/index.db''" by (simp add: db_file_def repo_conf_def user_db_path_def)
    then show ?thesis
      by (simp add: manager_on_def env db(2,3) demo_disk_def other_files_def map_filter_simps boot_manager_def)
  qed
  ultimately show ?thesis using sc(2) by blast
qed

lemma demo_serve_run:
  "\<exists>rs m2 e. rs \<noteq> [] \<and> ServeCMD demo_serve_env demo_serve_conf [] demo_serve_world (rs :: (int web_env \<times> request) list)
     (Some (ServerClosed, m2)) e"
proof -
  obtain sc c db w1 where p: "serve_prepare demo_serve_env demo_serve_conf [] demo_serve_world = (ServeRuns sc c db, w1)"
    "\<not> SvDebug sc" "conn_conf.truncate c = repo_conf ''data''" "manager_on demo_serve_env db (cw_os w1) = boot_manager"
    using demo_serve_prepare by blast
  obtain st m1 where st: "start_server boot_env sc (repo_conf ''data'') boot_manager = Some (Inr st, m1)"
    using boot_starts [of sc] by blast
  let ?env = "demo_site\<lparr>we_conf := repo_conf ''data'', we_etags := sv_etags st, we_ignore := IgnoredLoggingPaths sc\<rparr>"
  let ?w = "demo_web\<lparr>w_manager := m1\<rparr>" and ?r = "request_of ''GET'' [''login''] []"
  have "session_manager_ok ?env"
    using demo_session_manager by (simp add: session_manager_ok_def loaded_and_saved_def)
  moreover have reach: "conn_reach std_engine (repo_conf ''data'') False m1"
    using start_server_reach [OF st boot_reach] .
  ultimately obtain w' where "site ?env ?r ?w = Served w'"
    using reading_site [of ?env False ?w ?r] by (auto simp: safe_method_def request_of_def)
  with \<open>session_manager_ok ?env\<close> have run: "server_run std_engine (repo_conf ''data'') m1 ([] @ [(?env, ?r)]) (w_manager w')"
    using server_request [OF server_up, where env = ?env and w = ?w and r = ?r] by simp
  obtain res m3 where e: "end_server boot_env ServerClosed (w_manager w') = (res, m3)" by fastforce
  have cf: "\<forall>x \<in> set ([] @ [(?env, ?r)]). configured sc st (fst x)" using p(2) by (simp add: configured_def demo_site_def)
  have "RunServer boot_env sc std_engine (repo_conf ''data'') boot_manager ([] @ [(?env, ?r)])
      (Some (ServerClosed, w_manager w')) res m3"
    using serves_requests [OF st run cf e] .
  then have "ServeCMD demo_serve_env demo_serve_conf [] demo_serve_world ([] @ [(?env, ?r)])
      (Some (ServerClosed, w_manager w')) (map_option CmdDone res)"
    using serve_runs [OF p(1)] p(3,4) by (simp add: demo_serve_env_def)
  then show ?thesis by blast
qed

end
