(* ===== verification/Go_Template.thy ===== *)
theory Go_Template
  imports Go_Strings
begin

text \<open>
  The part of \<open>text/template\<close> that the generated files use: texts, fields, the dot, \<open>if\<close> and
  \<open>range\<close> on a field, \<open>end\<close>, and the trim markers, which eat the white space of the text beside
  an action. A template is lexed, parsed into a tree and executed on the fields of a struct.
\<close>

section \<open>Lexing\<close>

datatype action = Field string | Dot | If string | Range string | End

text \<open>A token is a text or an action with its two trim markers.\<close>

datatype token = Text string | Act bool action bool

definition is_trim :: "char \<Rightarrow> bool" where
  "is_trim c \<longleftrightarrow> c \<in> set [CHR '' '', CHR 0x09, CHR 0x0D, CHR 0x0A]"

text \<open>Up to the first \<open>"}}"\<close>, and what follows it.\<close>

fun until_close :: "string \<Rightarrow> (string \<times> string) option" where
  "until_close (c # s) =
     (if c = CHR ''}'' \<and> s \<noteq> [] \<and> hd s = CHR ''}'' then Some ([], tl s)
      else (case until_close s of None \<Rightarrow> None | Some (a, r) \<Rightarrow> Some (c # a, r)))"
| "until_close [] = None"

lemma until_close_shorter: "until_close s = Some (a, r) \<Longrightarrow> length r < length s"
proof (induction s arbitrary: a)
  case (Cons c s)
  then show ?case
    by (cases s) (fastforce split: if_splits option.splits prod.splits)+
qed simp

text \<open>The text before the first \<open>"{{"\<close>, and what follows it if there is one.\<close>

fun until_open :: "string \<Rightarrow> string \<times> string option" where
  "until_open (c # s) =
     (if c = CHR ''{'' \<and> s \<noteq> [] \<and> hd s = CHR ''{'' then ([], Some (tl s))
      else (case until_open s of (t, r) \<Rightarrow> (c # t, r)))"
| "until_open [] = ([], None)"

lemma until_open_shorter: "until_open s = (t, Some r) \<Longrightarrow> length r < length s"
proof (induction s arbitrary: t)
  case (Cons c s)
  then show ?case
    by (cases s) (fastforce split: if_splits prod.splits)+
qed simp

text \<open>The words of an action.\<close>

fun words_of :: "string \<Rightarrow> string list" where
  "words_of [] = []"
| "words_of (c # s) =
     (if c = CHR '' '' then words_of s
      else (case s of
              [] \<Rightarrow> [[c]]
            | d # _ \<Rightarrow> if d = CHR '' '' then [c] # words_of s
                     else (case words_of s of [] \<Rightarrow> [[c]] | w # ws \<Rightarrow> (c # w) # ws)))"

definition action_of :: "string list \<Rightarrow> action option" where
  "action_of ws =
     (case ws of
        [w] \<Rightarrow> if w = ''end'' then Some End else if w = ''.'' then Some Dot
               else if hd w = CHR ''.'' then Some (Field (tl w)) else None
      | [w, f] \<Rightarrow> if hd f = CHR ''.'' then
                    (if w = ''if'' then Some (If (tl f)) else if w = ''range'' then Some (Range (tl f)) else None)
                  else None
      | _ \<Rightarrow> None)"

text \<open>A trim marker is a dash with a space on its inner side.\<close>

definition act_token :: "string \<Rightarrow> token option" where
  "act_token s =
     (let l = take 2 s = ''- ''; s1 = (if l then drop 2 s else s);
          r = rev (take 2 (rev s1)) = '' -''; s2 = (if r then butlast (butlast s1) else s1)
      in map_option (\<lambda>a. Act l a r) (action_of (words_of s2)))"

function lex :: "string \<Rightarrow> token list option" where
  "lex s =
     (case until_open s of
        (t, None) \<Rightarrow> Some [Text t]
      | (t, Some r) \<Rightarrow>
          (case until_close r of
             None \<Rightarrow> None
           | Some (a, rest) \<Rightarrow>
               (case (act_token a, lex rest) of
                  (Some tok, Some toks) \<Rightarrow> Some (Text t # tok # toks)
                | _ \<Rightarrow> None)))"
  by pat_completeness auto
termination
  by (relation "measure length") (auto dest!: until_open_shorter [OF sym] until_close_shorter)

declare lex.simps [simp del]

text \<open>The trim markers at work.\<close>

definition trims_left :: "token list \<Rightarrow> bool" where
  "trims_left ts = (case ts of Act l a r # _ \<Rightarrow> l | _ \<Rightarrow> False)"

fun trim_tokens :: "bool \<Rightarrow> token list \<Rightarrow> token list" where
  "trim_tokens trimmed [] = []"
| "trim_tokens trimmed (Text s # ts) =
     (let s1 = (if trimmed then dropWhile is_trim s else s); s2 = (if trims_left ts then trim_right is_trim s1 else s1)
      in Text s2 # trim_tokens False ts)"
| "trim_tokens trimmed (Act l a r # ts) = Act l a r # trim_tokens r ts"

section \<open>Parsing\<close>

datatype node = NText string | NField string | NDot | NIf string "node list" | NRange string "node list"

text \<open>The nodes up to an \<open>end\<close> or the end of the input; the fuel is more than the number of tokens.\<close>

fun parse_nodes :: "nat \<Rightarrow> token list \<Rightarrow> (node list \<times> token list) option" where
  "parse_nodes 0 ts = None"
| "parse_nodes (Suc n) [] = Some ([], [])"
| "parse_nodes (Suc n) (Text s # ts) = map_option (\<lambda>(ns, r). (NText s # ns, r)) (parse_nodes n ts)"
| "parse_nodes (Suc n) (Act l (Field f) r # ts) = map_option (\<lambda>(ns, r). (NField f # ns, r)) (parse_nodes n ts)"
| "parse_nodes (Suc n) (Act l Dot r # ts) = map_option (\<lambda>(ns, r). (NDot # ns, r)) (parse_nodes n ts)"
| "parse_nodes (Suc n) (Act l End r # ts) = Some ([], Act l End r # ts)"
| "parse_nodes (Suc n) (Act l (If f) r # ts) =
     (case parse_nodes n ts of
        Some (body, Act _ End _ # ts') \<Rightarrow> map_option (\<lambda>(ns, r). (NIf f body # ns, r)) (parse_nodes n ts')
      | _ \<Rightarrow> None)"
| "parse_nodes (Suc n) (Act l (Range f) r # ts) =
     (case parse_nodes n ts of
        Some (body, Act _ End _ # ts') \<Rightarrow> map_option (\<lambda>(ns, r). (NRange f body # ns, r)) (parse_nodes n ts')
      | _ \<Rightarrow> None)"

definition template_parse :: "string \<Rightarrow> node list outcome" where
  "template_parse s =
     (case lex s of
        None \<Rightarrow> Inl (NewError ''template: bad action'')
      | Some ts \<Rightarrow>
          (case parse_nodes (Suc (length ts)) (trim_tokens False ts) of
             Some (ns, []) \<Rightarrow> Inr ns
           | _ \<Rightarrow> Inl (NewError ''template: unexpected {{end}} or EOF'')))"

section \<open>Execution\<close>

text \<open>A field of the struct is a string or a list of strings; inside a range the dot is an element.\<close>

datatype field_value = TextField string | ListField "string list"

type_synonym template_data = "string \<Rightarrow> field_value option"

definition no_field :: "string \<Rightarrow> go_error" where
  "no_field f = NewError (''template: can't evaluate field '' @ f)"

fun truthy :: "field_value \<Rightarrow> bool" where
  "truthy (TextField s) = (s \<noteq> [])"
| "truthy (ListField ss) = (ss \<noteq> [])"

text \<open>How a list is printed, \<open>[a b]\<close>.\<close>

fun print_field :: "field_value \<Rightarrow> string" where
  "print_field (TextField s) = s"
| "print_field (ListField ss) = ''['' @ join '' '' ss @ '']''"

fun concat_outcomes :: "string outcome list \<Rightarrow> string outcome" where
  "concat_outcomes [] = Inr []"
| "concat_outcomes (r # rs) =
     (case r of Inl e \<Rightarrow> Inl e | Inr s \<Rightarrow> (case concat_outcomes rs of Inl e \<Rightarrow> Inl e | Inr t \<Rightarrow> Inr (s @ t)))"

text \<open>
  \<open>Some d\<close> is the dot of a range; a field of a string does not exist. The templates never print
  the struct itself, which is left out.
\<close>

fun exec_node :: "template_data \<Rightarrow> string option \<Rightarrow> node \<Rightarrow> string outcome" where
  "exec_node env dot (NText s) = Inr s"
| "exec_node env dot NDot = (case dot of Some d \<Rightarrow> Inr d | None \<Rightarrow> Inl (NewError ''template: the struct is not printed''))"
| "exec_node env dot (NField f) =
     (case dot of
        Some _ \<Rightarrow> Inl (no_field f)
      | None \<Rightarrow> (case env f of Some v \<Rightarrow> Inr (print_field v) | None \<Rightarrow> Inl (no_field f)))"
| "exec_node env dot (NIf f body) =
     (case dot of
        Some _ \<Rightarrow> Inl (no_field f)
      | None \<Rightarrow>
          (case env f of
             Some v \<Rightarrow> if truthy v then concat_outcomes (map (exec_node env dot) body) else Inr []
           | None \<Rightarrow> Inl (no_field f)))"
| "exec_node env dot (NRange f body) =
     (case dot of
        Some _ \<Rightarrow> Inl (no_field f)
      | None \<Rightarrow>
          (case env f of
             Some (ListField ss) \<Rightarrow>
               concat_outcomes (map (\<lambda>s. concat_outcomes (map (exec_node env (Some s)) body)) ss)
           | Some (TextField _) \<Rightarrow> Inl (NewError ''template: range can't iterate over a string'')
           | None \<Rightarrow> Inl (no_field f)))"

definition template_execute :: "node list \<Rightarrow> template_data \<Rightarrow> string outcome" where
  "template_execute ns env = concat_outcomes (map (exec_node env None) ns)"

section \<open>Lines\<close>

fun lines :: "string \<Rightarrow> string list" where
  "lines [] = [[]]"
| "lines (c # s) = (if c = CHR 0x0A then [] # lines s else (case lines s of l # ls \<Rightarrow> (c # l) # ls | [] \<Rightarrow> [[c]]))"

lemma lines_nonempty [simp]: "lines s \<noteq> []"
  by (cases s) (auto split: list.split)

lemma lines_append: "CHR 0x0A \<notin> set a \<Longrightarrow> lines (a @ CHR 0x0A # s) = a # lines s"
  by (induction a) auto

lemma lines_single: "CHR 0x0A \<notin> set a \<Longrightarrow> lines a = [a]"
  by (induction a) auto

lemma lines_join:
  "ls \<noteq> [] \<Longrightarrow> \<forall>l \<in> set ls. CHR 0x0A \<notin> set l \<Longrightarrow> lines (join [CHR 0x0A] ls) = ls"
  by (induction "[CHR 0x0A]" ls rule: join.induct) (auto simp: lines_single lines_append)

end
