(* ===== verification/Cli_Generate.thy ===== *)
theory Cli_Generate
  imports Cli_Database Go_Template
begin

text \<open>
  \<open>cmd/cli/generate.go\<close>: the style sheets of the highlighting, the configuration as text, and the
  two files for systemd, which are templates. The styles of \<open>chroma\<close> and the users of the system are
  parameters.
\<close>

section \<open>Environment\<close>

record 'sch gen_env =
  ge_conf :: conf_env
  ge_open :: "'sch sqlite_file open_env"
  style_css :: "string \<Rightarrow> string outcome option"
  write_fault :: "string \<Rightarrow> go_error option"
  stdout_fault :: "go_error option"
  lookup_user :: "string \<Rightarrow> (string \<times> string) outcome"
  lookup_group :: "string \<Rightarrow> string outcome"
  executable :: "string outcome"
  eval_symlinks :: "string \<Rightarrow> string outcome"
  build_version :: "string option"

definition print_out :: "'sch gen_env \<Rightarrow> string \<Rightarrow> 'sch cli_world \<Rightarrow> cmd_end \<times> 'sch cli_world" where
  "print_out env s w =
     (case stdout_fault env of
        Some err \<Rightarrow> (CmdDone (Some err), w)
      | None \<Rightarrow> (CmdDone None, w\<lparr>cw_out := cw_out w @ s @ newline\<rparr>))"

definition write_file :: "'sch gen_env \<Rightarrow> string \<Rightarrow> string \<Rightarrow> 'sch cli_world \<Rightarrow> go_error option \<times> 'sch cli_world" where
  "write_file env p s w =
     (case write_fault env p of
        Some err \<Rightarrow> (Some err, w)
      | None \<Rightarrow> if map_of (fs (cw_os w)) p = Some DirNode then (Some (EngineError ''open: is a directory''), w)
                else (None, w\<lparr>cw_texts := AList.update p s (cw_texts w)\<rparr>))"

section \<open>Style sheets\<close>

definition css_flags :: flag_values where
  "css_flags = [(''dark-theme'', StringV []), (''light-theme'', StringV [])]"

definition relOutDir :: string where "relOutDir = ''../../web/static/vendor/css/''"

definition writeCSS ::
    "'sch gen_env \<Rightarrow> string \<Rightarrow> string outcome \<Rightarrow> string \<Rightarrow> string \<Rightarrow> 'sch cli_world \<Rightarrow> go_error option \<times> 'sch cli_world" where
  "writeCSS env outputDir css name darkLight w =
     (case css of
        Inl err \<Rightarrow> (Some (TextError (''failed to generate css theme '' @ name) err), w)
      | Inr text \<Rightarrow>
          (let fn = path_join [outputDir, ''highlighting-'' @ darkLight @ ''.css'']
           in case write_file env fn text w of
                (Some err, w1) \<Rightarrow> (Some (TextError ''failed to write theme file'' err), w1)
              | (None, w1) \<Rightarrow> (None, print_err (''generated css file at '' @ fn @ newline) w1)))"

definition output_dir :: "conf_env \<Rightarrow> string outcome" where
  "output_dir env =
     (case expand_home env relOutDir of
        Inl err \<Rightarrow> Inl (TextError ''invalid output directory'' err)
      | Inr d \<Rightarrow> (case path_abs (getwd env) d of
                    Inl err \<Rightarrow> Inl (TextError ''invalid output directory'' err)
                  | Inr d \<Rightarrow> Inr d))"

definition generateCSS :: "'sch gen_env \<Rightarrow> string list \<Rightarrow> 'sch cli_world \<Rightarrow> cmd_end \<times> 'sch cli_world" where
  "generateCSS env args w =
     (case parse_flags css_flags [] args of
        FlagsExit n \<Rightarrow> (CmdExit n, w)
      | FlagsOk actual _ \<Rightarrow>
          (let dark = text_of_flag (flag_of css_flags actual ''dark-theme'');
               light = text_of_flag (flag_of css_flags actual ''light-theme'');
               failed = (\<lambda>msg. (CmdDone (Some (NewError msg)), w))
           in if dark = [] then failed ''dark-theme is required''
              else if light = [] then failed ''light-theme is required''
              else
             (case style_css env dark of
                None \<Rightarrow> failed (''dark-theme '' @ dark @ '' is not supported'')
              | Some darkStyle \<Rightarrow>
             (case style_css env light of
                None \<Rightarrow> failed (''light-theme '' @ light @ '' is not supported'')
              | Some lightStyle \<Rightarrow>
             (case output_dir (ge_conf env) of
                Inl err \<Rightarrow> (CmdDone (Some err), w)
              | Inr outputDir \<Rightarrow>
             (case os_mkdir_all (ge_open env) outputDir (cw_os w) of
                (Some err, os) \<Rightarrow> (CmdDone (Some (TextError ''failed to make output directory'' err)), w\<lparr>cw_os := os\<rparr>)
              | (None, os) \<Rightarrow>
             (case writeCSS env outputDir darkStyle dark ''dark'' (w\<lparr>cw_os := os\<rparr>) of
                (Some err, w1) \<Rightarrow> (CmdDone (Some err), w1)
              | (None, w1) \<Rightarrow>
             (case writeCSS env outputDir lightStyle light ''light'' w1 of
                (err, w2) \<Rightarrow> (CmdDone err, w2)))))))))"

section \<open>The files for systemd\<close>

definition text_lines :: "string list \<Rightarrow> string" where
  "text_lines ls = join newline ls"

definition unitTemplate :: string where
  "unitTemplate = text_lines
     [''[Unit]'',
      ''Description=Communis Note Taking Server'',
      ''Documentation=https://github.com/ASC521/communis'',
      ''After=network.target'',
      '''',
      ''[Service]'',
      ''Type=simple'',
      ''{{ if .User -}}'',
      ''User={{ .User }}'',
      ''Group={{ .Group }}'',
      ''{{- end -}}'',
      ''ExecStart={{ .ExecPath }} serve'',
      ''Restart=on-failure'',
      ''RestartSec=5s'',
      '''',
      ''ReadWritePaths={{ range .ReadWritePaths }} {{ . }} {{ end }}'',
      '''',
      ''NoNewPrivileges=true'',
      ''ProtectSystem=strict'',
      ''ProtectHome=true'',
      ''PrivateTmp=true'',
      '''',
      ''[Install]'',
      ''WantedBy=multi-user.target'']"

record UnitFileOptions =
  uf_User :: string
  uf_Group :: string
  uf_ExecPath :: string
  uf_ReadWritePaths :: "string list"

definition unit_data :: "UnitFileOptions \<Rightarrow> template_data" where
  "unit_data o' =
     map_of [(''User'', TextField (uf_User o')), (''Group'', TextField (uf_Group o')),
             (''ExecPath'', TextField (uf_ExecPath o')), (''ReadWritePaths'', ListField (uf_ReadWritePaths o'))]"

text \<open>Parse and execute.\<close>

definition render_template :: "string \<Rightarrow> template_data \<Rightarrow> string outcome" where
  "render_template s env = (case template_parse s of Inl err \<Rightarrow> Inl err | Inr ns \<Rightarrow> template_execute ns env)"

definition print_template :: "'sch gen_env \<Rightarrow> string \<Rightarrow> template_data \<Rightarrow> 'sch cli_world \<Rightarrow> cmd_end \<times> 'sch cli_world" where
  "print_template env s fv w =
     (case render_template s fv of
        Inl err \<Rightarrow> (CmdDone (Some err), w)
      | Inr text \<Rightarrow> print_out env text w)"

definition unit_flags :: flag_values where
  "unit_flags = [(''username'', StringV [])]"

text \<open>The names of the user of the flag and of his group, both empty without one.\<close>

definition unit_owner :: "'sch gen_env \<Rightarrow> string \<Rightarrow> (string \<times> string) outcome" where
  "unit_owner env user =
     (if user = [] then Inr ([], [])
      else (case lookup_user env user of
              Inl err \<Rightarrow> Inl err
            | Inr (username, gid) \<Rightarrow>
                (case lookup_group env gid of Inl err \<Rightarrow> Inl err | Inr grp \<Rightarrow> Inr (username, grp))))"

definition own_path :: "'sch gen_env \<Rightarrow> string outcome" where
  "own_path env = (case executable env of Inl err \<Rightarrow> Inl err | Inr exe \<Rightarrow> eval_symlinks env exe)"

definition systemdUnitFileCMD :: "'sch gen_env \<Rightarrow> config \<Rightarrow> string list \<Rightarrow> 'sch cli_world \<Rightarrow> cmd_end \<times> 'sch cli_world" where
  "systemdUnitFileCMD env conf args w =
     (case parse_flags unit_flags [] args of
        FlagsExit n \<Rightarrow> (CmdExit n, w)
      | FlagsOk actual _ \<Rightarrow>
          (case unit_owner env (text_of_flag (flag_of unit_flags actual ''username'')) of
             Inl err \<Rightarrow> (CmdDone (Some err), w)
           | Inr (username, groupname) \<Rightarrow>
               (case own_path env of
                  Inl err \<Rightarrow> (CmdDone (Some err), w)
                | Inr exe \<Rightarrow>
                    print_template env unitTemplate
                      (unit_data \<lparr>uf_User = username, uf_Group = groupname, uf_ExecPath = exe,
                                  uf_ReadWritePaths = [DataDirectory conf, path_dir (FileLocation conf)]\<rparr>) w)))"

definition containerTemplate :: string where
  "containerTemplate = text_lines
     [''[Unit]'',
      ''Description=Communis Note Taking Server'',
      ''Documentation=https://github.com/ASC521/communis'',
      ''After=network.target'',
      '''',
      ''[Container]'',
      ''Image=ghcr.io/asc521/communis:{{ .Version }}'',
      ''Volume=communis-data:/var/opt/communis'',
      ''Volume={{ .UserConfigLoc }}:/etc/opt/communis:Z,ro'',
      ''PublishPort=6789:6789'',
      ''Exec=serve'',
      '''',
      ''[Service]'',
      ''Restart=on-failure'',
      '''',
      ''[Install]'',
      ''WantedBy=default.target'']"

record containerOptions =
  UserConfigLoc :: string
  co_Version :: string

definition container_data :: "containerOptions \<Rightarrow> template_data" where
  "container_data o' = map_of [(''UserConfigLoc'', TextField (UserConfigLoc o')), (''Version'', TextField (co_Version o'))]"

definition container_flags :: flag_values where
  "container_flags = [(''config-dir'', StringV ''%h/.config/communis'')]"

definition generateSystemdContainerFile :: "'sch gen_env \<Rightarrow> string list \<Rightarrow> 'sch cli_world \<Rightarrow> cmd_end \<times> 'sch cli_world" where
  "generateSystemdContainerFile env args w =
     (case parse_flags container_flags [] args of
        FlagsExit n \<Rightarrow> (CmdExit n, w)
      | FlagsOk actual _ \<Rightarrow>
          print_template env containerTemplate
            (container_data \<lparr>UserConfigLoc = text_of_flag (flag_of container_flags actual ''config-dir''),
                             co_Version = ContainerVersion (build_version env)\<rparr>) w)"

section \<open>The command\<close>

text \<open>The subcommand is the first argument before parsing; there are no flags of its own.\<close>

definition GenerateCMD :: "'sch gen_env \<Rightarrow> config \<Rightarrow> string list \<Rightarrow> 'sch cli_world \<Rightarrow> cmd_end \<times> 'sch cli_world" where
  "GenerateCMD env conf args w =
     (case parse_flags [] [] args of
        FlagsExit n \<Rightarrow> (CmdExit n, w)
      | FlagsOk _ _ \<Rightarrow>
          if args = [] then (CmdDone None, w)
          else (let cmd = hd args; subArgs = tl args
                in if cmd = ''css'' then generateCSS env subArgs w
                   else if cmd = ''config'' then
                     (case Marshal conf of Inl err \<Rightarrow> (CmdDone (Some err), w) | Inr b \<Rightarrow> print_out env b w)
                   else if cmd = ''systemd-unit'' then systemdUnitFileCMD env conf subArgs w
                   else if cmd = ''systemd-container'' then generateSystemdContainerFile env subArgs w
                   else (CmdDone (Some (NewError (cmd @ '' is not a valid command''))), w)))"

end
