(* ===== verification/Generate_Props.thy ===== *)
theory Generate_Props
  imports Cli_Generate Go_Quote Config_Props
begin

text \<open>
  What the generated files say: the configuration, which can be read back, and the files for systemd.
\<close>

section \<open>The configuration\<close>

text \<open>
  C17: The configuration that \<open>communis generate config\<close> prints is the configuration: when the text
  that a successful run printed is the content of the configuration file, \<open>main\<close> loads every field from
  it as it was, with the file as its location and the names of the index database and of the migrations
  as in the defaults. In particular no setting is lost, and no text of a setting can be mistaken for
  JSON, whatever characters it has.
\<close>

theorem generated_configuration_is_loaded:
  assumes "GenerateCMD genv conf [''config''] w = (CmdDone None, w\<lparr>cw_out := cw_out w @ printed\<rparr>)"
    and "config_in_range conf"
    and "expand_home (ce_conf env) cfp = Inr p" "path_abs (getwd (ce_conf env)) p = Inr file"
    and "file_stat (ce_conf env) file = None" "read_file env file = Inr printed"
  shows "load_config env cfp = Inr ((keep_hidden conf (DefaultConfig (ce_conf env)))\<lparr>FileLocation := file\<rparr>)"
proof -
  have args: "parse_flags [] [] [''config''] = FlagsOk [] [''config'']"
    by (simp add: parse_flags.simps [of _ _ "_ # _"] split_flag_def)
  obtain t where t: "Marshal conf = Inr t" and printed: "printed = t @ newline"
    using assms(1) by (auto simp: GenerateCMD_def args print_out_def Let_def split: sum.splits option.splits dest: arg_cong [of _ _ cw_out])
  have "Unmarshal (t @ newline) (DefaultConfig (ce_conf env)) = Inr (keep_hidden conf (DefaultConfig (ce_conf env)))"
    by (rule Unmarshal_Marshal [OF t assms(2)]) (simp_all add: newline_def json_skip_def json_space_def code_def)
  then show ?thesis using assms(3-6) printed by (simp add: load_config_def Let_def)
qed

section \<open>The templates executed\<close>

definition unit_head :: "string list" where
  "unit_head =
     [''[Unit]'', ''Description=Communis Note Taking Server'', ''Documentation=https://github.com/ASC521/communis'',
      ''After=network.target'', '''', ''[Service]'', ''Type=simple'']"

definition unit_tail :: "string list" where
  "unit_tail =
     ['''', ''NoNewPrivileges=true'', ''ProtectSystem=strict'', ''ProtectHome=true'', ''PrivateTmp=true'', '''', ''[Install]'',
      ''WantedBy=multi-user.target'']"

lemma unit_parse:
  "template_parse unitTemplate =
     Inr [NText (text_lines (unit_head @ [''''])),
          NIf ''User'' [NText ''User='', NField ''User'', NText (text_lines ['''', ''Group='']), NField ''Group'', NText []],
          NText ''ExecStart='', NField ''ExecPath'',
          NText (text_lines ['' serve'', ''Restart=on-failure'', ''RestartSec=5s'', '''', ''ReadWritePaths='']),
          NRange ''ReadWritePaths'' [NText '' '', NDot, NText '' ''],
          NText (text_lines ('''' # unit_tail))]"
  by code_simp

text \<open>The lines of the unit: with a user, the end of his group and the command are one line.\<close>

definition unit_lines :: "string \<Rightarrow> string \<Rightarrow> string \<Rightarrow> string list \<Rightarrow> string list" where
  "unit_lines u g exe paths =
     unit_head
     @ (if u = [] then [''ExecStart='' @ exe @ '' serve'']
        else [''User='' @ u, ''Group='' @ g @ ''ExecStart='' @ exe @ '' serve''])
     @ [''Restart=on-failure'', ''RestartSec=5s'', '''', ''ReadWritePaths='' @ concat (map (\<lambda>p. '' '' @ p @ '' '') paths)]
     @ unit_tail"

lemma concat_outcomes_Inr: "concat_outcomes (map (\<lambda>x. Inr (f x)) xs) = Inr (concat (map f xs))"
  by (induction xs) simp_all

lemma range_text: "concat_outcomes (map (\<lambda>s. concat_outcomes (map (exec_node env (Some s)) [NText '' '', NDot, NText '' ''])) ss)
    = Inr (concat (map (\<lambda>p. '' '' @ p @ '' '') ss))"
  using concat_outcomes_Inr [of "\<lambda>p. '' '' @ p @ '' ''" ss] by simp

lemma unit_text:
  "render_template unitTemplate (unit_data \<lparr>uf_User = u, uf_Group = g, uf_ExecPath = exe, uf_ReadWritePaths = paths\<rparr>)
    = Inr (text_lines (unit_lines u g exe paths))"
  unfolding render_template_def unit_parse sum.case template_execute_def
  by (simp add: unit_data_def range_text [simplified] text_lines_def newline_def unit_head_def unit_tail_def unit_lines_def)

lemma container_parse:
  "template_parse containerTemplate =
     Inr [NText (text_lines [''[Unit]'', ''Description=Communis Note Taking Server'',
            ''Documentation=https://github.com/ASC521/communis'', ''After=network.target'', '''', ''[Container]'',
            ''Image=ghcr.io/asc521/communis:'']),
          NField ''Version'', NText (text_lines ['''', ''Volume=communis-data:/var/opt/communis'', ''Volume='']),
          NField ''UserConfigLoc'',
          NText (text_lines ['':/etc/opt/communis:Z,ro'', ''PublishPort=6789:6789'', ''Exec=serve'', '''', ''[Service]'',
            ''Restart=on-failure'', '''', ''[Install]'', ''WantedBy=default.target''])]"
  by code_simp

text \<open>
  C39: The systemd unit of a user starts nothing. The command prints a unit whenever the user, his
  group and the binary are found; without a user one of its lines is the \<open>ExecStart\<close> of the server,
  but with a user, as the README installs it, no line begins with \<open>ExecStart=\<close>: the trim markers of
  \<open>{{- end -}}\<close> glue the command to the line of the group.
\<close>

theorem unit_of_user_has_no_ExecStart:
  assumes "unit_owner env user = Inr (u, g)" and "own_path env = Inr exe" and "stdout_fault env = None"
    and "\<forall>s \<in> {u, g, exe, DataDirectory conf, path_dir (FileLocation conf)}. no_break s"
  shows "\<exists>unit. systemdUnitFileCMD env conf [''-username'', user] w = (CmdDone None, w\<lparr>cw_out := cw_out w @ unit @ newline\<rparr>)
    \<and> (u = [] \<longrightarrow> ''ExecStart='' @ exe @ '' serve'' \<in> set (lines unit))
    \<and> (u \<noteq> [] \<longrightarrow> (\<forall>l \<in> set (lines unit). take 10 l \<noteq> ''ExecStart='')
         \<and> ''Group='' @ g @ ''ExecStart='' @ exe @ '' serve'' \<in> set (lines unit))"
proof (intro exI conjI)
  let ?ls = "unit_lines u g exe [DataDirectory conf, path_dir (FileLocation conf)]"
  have "parse_flags unit_flags [] [''-username'', user] = FlagsOk [(''username'', StringV user)] []"
    by (simp add: parse_flags.simps [of _ _ "_ # _"] parse_flags.simps [of _ _ "[]"] unit_flags_def split_flag_def flag_step_named_def is_bool_flag_def set_step_def)
  then show "systemdUnitFileCMD env conf [''-username'', user] w = (CmdDone None, w\<lparr>cw_out := cw_out w @ text_lines ?ls @ newline\<rparr>)"
    using assms(1-3)
    by (simp add: systemdUnitFileCMD_def flag_of_def print_template_def unit_text print_out_def)
  have "\<forall>l \<in> set ?ls. no_break l"
    using assms(4) by (auto simp: unit_lines_def unit_head_def unit_tail_def)
  then have lines: "lines (text_lines ?ls) = ?ls"
    unfolding text_lines_def newline_def by (intro lines_join) (auto simp: no_break_def unit_lines_def)
  show "u = [] \<longrightarrow> ''ExecStart='' @ exe @ '' serve'' \<in> set (lines (text_lines ?ls))"
    unfolding lines by (simp add: unit_lines_def)
  show "u \<noteq> [] \<longrightarrow> (\<forall>l \<in> set (lines (text_lines ?ls)). take 10 l \<noteq> ''ExecStart='')
      \<and> ''Group='' @ g @ ''ExecStart='' @ exe @ '' serve'' \<in> set (lines (text_lines ?ls))"
    unfolding lines by (simp add: unit_lines_def unit_head_def unit_tail_def)
qed

section \<open>An example\<close>

definition demo_gen_env :: "nat gen_env" where
  "demo_gen_env = \<lparr>ge_conf = demo_conf_env,
     ge_open = \<lparr>homedir_expand = Inr, stat_fault = None, mkdir_fault = None, sha256 = map of_char, traceSupported = False,
       connector_fault = (\<lambda>_. None), file_fault = (\<lambda>_. None), hook_fault = (\<lambda>_ _. None), set_trace_fault = (\<lambda>_. None),
       journal_query = Inr ''wal'', pool_close_fault = (\<lambda>_. None), created_file = fresh_file\<rparr>,
     style_css = (\<lambda>_. None), write_fault = (\<lambda>_. None), stdout_fault = None,
     lookup_user = (\<lambda>u. Inr (u, ''1000'')), lookup_group = (\<lambda>_. Inr ''communis''),
     executable = Inr ''/usr/local/bin/communis'', eval_symlinks = Inr, build_version = None\<rparr>"

definition empty_cli_world :: "nat cli_world" where
  "empty_cli_world = \<lparr>cw_os = \<lparr>fs = [], drivers = \<lparr>registeredDrivers = [], sql_drivers = []\<rparr>, open_pools = [], next_pool = 0\<rparr>,
     cw_texts = [], cw_out = [], cw_err = []\<rparr>"

definition demo_unit_conf :: config where
  "demo_unit_conf = (DefaultConfig demo_conf_env)\<lparr>DataDirectory := ''/srv'', FileLocation := ''c''\<rparr>"

theorem unit_of_user_has_no_ExecStart_witness:
  "\<exists>unit. systemdUnitFileCMD demo_gen_env demo_unit_conf [''-username'', ''notes''] empty_cli_world
      = (CmdDone None, empty_cli_world\<lparr>cw_out := unit @ newline\<rparr>)
    \<and> (\<forall>l \<in> set (lines unit). take 10 l \<noteq> ''ExecStart='')"
proof -
  have "unit_owner demo_gen_env ''notes'' = Inr (''notes'', ''communis'')"
    "own_path demo_gen_env = Inr ''/usr/local/bin/communis''" "stdout_fault demo_gen_env = None"
    "\<forall>s \<in> {''notes'', ''communis'', ''/usr/local/bin/communis'', DataDirectory demo_unit_conf, path_dir (FileLocation demo_unit_conf)}.
       no_break s"
    by (simp_all add: unit_owner_def own_path_def demo_gen_env_def demo_unit_conf_def path_dir_def path_clean_def path_rooted_def
        is_slash_def)
  from unit_of_user_has_no_ExecStart [OF this, of empty_cli_world] show ?thesis
    by (auto simp: empty_cli_world_def)
qed


text \<open>A configuration with a quote, a line break and a letter of two bytes in a path.\<close>

definition demo_json_conf :: config where
  "demo_json_conf = (DefaultConfig demo_conf_env)\<lparr>DataDirectory := ''/srv/a'' @ [CHR 0x22, CHR 0x0A, CHR 0xC3, CHR 0xA9], WebPort := 80\<rparr>"

lemma demo_json_text: "\<exists>t. Marshal demo_json_conf = Inr t"
proof -
  have e: "quoted_body [CHR 0xC3, CHR 0xA9] = Some [CHR 0xC3, CHR 0xA9]"
    by (simp add: utf8_width_def decode_rune.simps code_def in_range_def)
  have "is_ascii (''/srv/a'' @ [CHR 0x22, CHR 0x0A])" by (simp add: is_ascii_def)
  from quoted_ascii_append [OF this, of "[CHR 0xC3, CHR 0xA9]"]
  obtain q where "quoted_body (DataDirectory demo_json_conf) = Some q" using e by (auto simp: demo_json_conf_def)
  then have "json_utf8 (config_json demo_json_conf)"
    by (simp add: config_json_def sqlite_json_def regex_json_def quoted_ascii is_ascii_def demo_json_conf_def DefaultConfig_def
        default_sqlite_def del: quoted_body.simps)
  then obtain t where "json_text 0 (config_json demo_json_conf) = Some t" using json_text_total(1) by blast
  then show ?thesis by (simp add: Marshal_def)
qed

theorem generated_configuration_is_loaded_witness:
  "\<exists>printed. GenerateCMD demo_gen_env demo_json_conf [''config''] empty_cli_world
       = (CmdDone None, empty_cli_world\<lparr>cw_out := printed\<rparr>)
     \<and> load_config \<lparr>ce_conf = demo_conf_env, read_file = (\<lambda>_. Inr printed)\<rparr> ''/etc/c.json''
       = Inr (demo_json_conf\<lparr>FileLocation := ''/etc/c.json''\<rparr>)"
proof -
  obtain t where t: "Marshal demo_json_conf = Inr t" using demo_json_text by blast
  let ?printed = "t @ newline"
  have out: "GenerateCMD demo_gen_env demo_json_conf [''config''] empty_cli_world
      = (CmdDone None, empty_cli_world\<lparr>cw_out := ?printed\<rparr>)"
    using t by (simp add: GenerateCMD_def parse_flags.simps [of _ _ "_ # _"] split_flag_def print_out_def demo_gen_env_def empty_cli_world_def)
  have abs: "path_abs (Inr ''/'') ''/etc/c.json'' = Inr ''/etc/c.json''" by code_simp
  let ?env = "\<lparr>ce_conf = demo_conf_env, read_file = (\<lambda>_. Inr ?printed)\<rparr>"
  have "cw_out empty_cli_world = []" by (simp add: empty_cli_world_def)
  with out have "GenerateCMD demo_gen_env demo_json_conf [''config''] empty_cli_world
      = (CmdDone None, empty_cli_world\<lparr>cw_out := cw_out empty_cli_world @ ?printed\<rparr>)" by simp
  moreover have "config_in_range demo_json_conf"
    by (simp add: config_in_range_def demo_json_conf_def DefaultConfig_def default_sqlite_def is_int64_def int64_min_def int64_max_def)
  moreover have "expand_home (ce_conf ?env) ''/etc/c.json'' = Inr ''/etc/c.json''"
    "path_abs (getwd (ce_conf ?env)) ''/etc/c.json'' = Inr ''/etc/c.json''" "file_stat (ce_conf ?env) ''/etc/c.json'' = None"
    using abs by (simp_all add: demo_conf_env_def)
  moreover have "read_file ?env ''/etc/c.json'' = Inr ?printed" by simp
  ultimately have "load_config ?env ''/etc/c.json''
      = Inr ((keep_hidden demo_json_conf (DefaultConfig (ce_conf ?env)))\<lparr>FileLocation := ''/etc/c.json''\<rparr>)"
    by (rule generated_configuration_is_loaded)
  then show ?thesis using out by (auto simp: keep_hidden_def demo_json_conf_def DefaultConfig_def)
qed

end
