(* ===== verification/Cli_Install.thy ===== *)
theory Cli_Install
  imports Cli_Generate
begin

text \<open>
  \<open>cmd/cli/install.go\<close>: the command that removes the unit file, the data, the configuration and the
  binary, in this order, and stops at the first error. A path stands for the file of that name.
\<close>

section \<open>Removing files\<close>

record 'sch install_env =
  ie_gen :: "'sch gen_env"
  goos :: string
  getuid :: int
  remove_fault :: "nat \<Rightarrow> go_error option"
  removed_before :: "nat \<Rightarrow> string \<Rightarrow> bool"

definition under :: "string \<Rightarrow> string \<Rightarrow> bool" where
  "under dir p \<longleftrightarrow>
     (let d = (if dir \<noteq> [] \<and> is_slash (last dir) then dir else dir @ ''/'') in p = dir \<or> take (length d) p = d)"

definition keep_paths :: "(string \<Rightarrow> bool) \<Rightarrow> 'sch cli_world \<Rightarrow> 'sch cli_world" where
  "keep_paths keep w =
     w\<lparr>cw_os := (cw_os w)\<lparr>fs := filter (\<lambda>x. keep (fst x)) (fs (cw_os w))\<rparr>, cw_texts := filter (\<lambda>x. keep (fst x)) (cw_texts w)\<rparr>"

definition path_there :: "'sch cli_world \<Rightarrow> string \<Rightarrow> bool" where
  "path_there w p \<longleftrightarrow> p \<in> fst ` set (fs (cw_os w)) \<or> p \<in> fst ` set (cw_texts w)"

text \<open>\<open>os.Remove\<close>, the k-th of the command: a file, or a directory that is empty.\<close>

definition os_remove :: "'sch install_env \<Rightarrow> nat \<Rightarrow> string \<Rightarrow> 'sch cli_world \<Rightarrow> go_error option \<times> 'sch cli_world" where
  "os_remove env k p w =
     (case remove_fault env k of
        Some err \<Rightarrow> (Some err, w)
      | None \<Rightarrow>
          if \<not> path_there w p then (Some ErrNotExist, w)
          else if \<exists>q \<in> fst ` set (fs (cw_os w)) \<union> fst ` set (cw_texts w). q \<noteq> p \<and> under p q
          then (Some (EngineError ''remove: directory not empty''), w)
          else (None, keep_paths (\<lambda>q. q \<noteq> p) w))"

text \<open>
  \<open>os.RemoveAll\<close>: nothing to do for the empty path, an error for one that ends with a dot; when it
  fails it may have removed a part.
\<close>

definition ends_with_dot :: "string \<Rightarrow> bool" where
  "ends_with_dot p \<longleftrightarrow> p = ''.'' \<or> (length p \<ge> 2 \<and> last p = CHR ''.'' \<and> is_slash (last (butlast p)))"

definition os_remove_all :: "'sch install_env \<Rightarrow> nat \<Rightarrow> string \<Rightarrow> 'sch cli_world \<Rightarrow> go_error option \<times> 'sch cli_world" where
  "os_remove_all env k p w =
     (if p = [] then (None, w)
      else if ends_with_dot p then (Some (EngineError ''RemoveAll: invalid argument''), w)
      else (case remove_fault env k of
              Some err \<Rightarrow> (Some err, keep_paths (\<lambda>q. \<not> (under p q \<and> removed_before env k q)) w)
            | None \<Rightarrow> (None, keep_paths (\<lambda>q. \<not> under p q) w)))"

section \<open>The command\<close>

definition uninstall_flags :: flag_values where
  "uninstall_flags = [(''remove-data'', BoolV True), (''systemd-dir'', StringV ''/etc/systemd/system/'')]"

definition deleted_line :: "string \<Rightarrow> string" where
  "deleted_line p = [CHR 0xE2, CHR 0x9C, CHR 0x93, CHR '' ''] @ p @ '' deleted'' @ newline"

text \<open>One step: on success the line is printed and the rest of the command runs.\<close>

definition removing ::
    "string \<Rightarrow> go_error option \<times> 'sch cli_world \<Rightarrow> ('sch cli_world \<Rightarrow> cmd_end \<times> 'sch cli_world) \<Rightarrow> cmd_end \<times> 'sch cli_world" where
  "removing p r rest =
     (case r of
        (Some err, w) \<Rightarrow> (CmdDone (Some err), w)
      | (None, w) \<Rightarrow> rest (print_err (deleted_line p) w))"

definition remove_data :: "'sch install_env \<Rightarrow> bool \<Rightarrow> string \<Rightarrow> 'sch cli_world
    \<Rightarrow> ('sch cli_world \<Rightarrow> cmd_end \<times> 'sch cli_world) \<Rightarrow> cmd_end \<times> 'sch cli_world" where
  "remove_data env wanted dir w rest =
     (if wanted then removing dir (os_remove_all env 1 dir w) rest else rest w)"

definition UninstallCMD :: "'sch install_env \<Rightarrow> config \<Rightarrow> string list \<Rightarrow> 'sch cli_world \<Rightarrow> cmd_end \<times> 'sch cli_world" where
  "UninstallCMD env conf args w =
     (case parse_flags uninstall_flags [] args of
        FlagsExit n \<Rightarrow> (CmdExit n, w)
      | FlagsOk actual _ \<Rightarrow>
          if goos env \<noteq> ''linux''
          then (CmdDone (Some (NewError (goos env @ '' operating system is not support for automated uninstallation''))), w)
          else if getuid env \<noteq> 0 then (CmdDone (Some (NewError ''uninstall command must be run as root user'')), w)
          else (let unitFile = path_join [text_of_flag (flag_of uninstall_flags actual ''systemd-dir''), AppName @ ''.service''];
                    confDir = path_dir (FileLocation conf)
                in removing unitFile (os_remove env 0 unitFile w) (\<lambda>w.
                   remove_data env (bool_of (flag_of uninstall_flags actual ''remove-data'')) (DataDirectory conf) w (\<lambda>w.
                   removing confDir (os_remove_all env 2 confDir w) (\<lambda>w.
                   (case own_path (ie_gen env) of
                      Inl err \<Rightarrow> (CmdDone (Some err), w)
                    | Inr exe \<Rightarrow> removing exe (os_remove env 3 exe w) (\<lambda>w. (CmdDone None, w))))))))"

section \<open>What it removes\<close>

text \<open>The paths that are gone after a command that reports success.\<close>

definition uninstalled :: "config \<Rightarrow> bool \<Rightarrow> string \<Rightarrow> string \<Rightarrow> string \<Rightarrow> bool" where
  "uninstalled conf wanted unitFile exe q \<longleftrightarrow>
     q = unitFile \<or> q = exe \<or> under (path_dir (FileLocation conf)) q
     \<or> (wanted \<and> DataDirectory conf \<noteq> [] \<and> under (DataDirectory conf) q)"

lemma print_err_paths [simp]:
  "fs (cw_os (print_err s w)) = fs (cw_os w)" "cw_texts (print_err s w) = cw_texts w" "cw_out (print_err s w) = cw_out w"
  by (simp_all add: print_err_def)

lemma keep_paths_simps [simp]:
  "fs (cw_os (keep_paths P w)) = filter (\<lambda>x. P (fst x)) (fs (cw_os w))" "cw_texts (keep_paths P w) = filter (\<lambda>x. P (fst x)) (cw_texts w)"
  "cw_out (keep_paths P w) = cw_out w"
  by (simp_all add: keep_paths_def)

definition pruned :: "(string \<Rightarrow> bool) \<Rightarrow> 'sch cli_world \<Rightarrow> 'sch cli_world \<Rightarrow> bool" where
  "pruned gone w w' \<longleftrightarrow>
     fs (cw_os w') = filter (\<lambda>x. \<not> gone (fst x)) (fs (cw_os w)) \<and> cw_texts w' = filter (\<lambda>x. \<not> gone (fst x)) (cw_texts w)"

lemma pruned_trans: "pruned P w w1 \<Longrightarrow> pruned Q w1 w2 \<Longrightarrow> pruned (\<lambda>q. P q \<or> Q q) w w2"
  by (simp add: pruned_def conj_commute)

lemma pruned_nothing: "pruned (\<lambda>_. False) w w"
  by (simp add: pruned_def)

lemma pruned_keep: "pruned P w (print_err s (keep_paths (\<lambda>q. \<not> P q) w))"
  by (simp add: pruned_def)

lemma removing_os_remove:
  assumes "removing p (os_remove env k p w) rest = (CmdDone None, w')"
  shows "\<exists>w1. pruned (\<lambda>q. q = p) w w1 \<and> rest w1 = (CmdDone None, w')"
  using assms pruned_keep [of "\<lambda>q. q = p" w]
  by (auto simp: removing_def os_remove_def split: option.splits if_splits)

lemma removing_os_remove_all:
  assumes "removing p (os_remove_all env k p w) rest = (CmdDone None, w')"
  shows "\<exists>w1. pruned (\<lambda>q. p \<noteq> [] \<and> under p q) w w1 \<and> rest w1 = (CmdDone None, w')"
proof (cases "p = []")
  case True
  then have "rest (print_err (deleted_line p) w) = (CmdDone None, w')"
    using assms by (simp add: removing_def os_remove_all_def)
  moreover have "pruned (\<lambda>q. p \<noteq> [] \<and> under p q) w (print_err (deleted_line p) w)"
    using True by (simp add: pruned_def)
  ultimately show ?thesis by blast
next
  case False
  then have "rest (print_err (deleted_line p) (keep_paths (\<lambda>q. \<not> under p q) w)) = (CmdDone None, w')"
    using assms by (auto simp: removing_def os_remove_all_def split: option.splits if_splits)
  then show ?thesis using False pruned_keep [of "under p" w "deleted_line p"] by auto
qed

lemma remove_data_pruned:
  assumes "remove_data env wanted dir w rest = (CmdDone None, w')"
  shows "\<exists>w1. pruned (\<lambda>q. wanted \<and> dir \<noteq> [] \<and> under dir q) w w1 \<and> rest w1 = (CmdDone None, w')"
  using assms removing_os_remove_all [of dir env 1 w rest w'] pruned_nothing [of w]
  by (auto simp: remove_data_def split: if_splits)

lemma path_dir_nonempty [simp]: "path_dir p \<noteq> []"
  by (simp add: path_dir_def path_clean_def Let_def)

text \<open>
  What \<open>uninstall\<close> removes. It reports success only on Linux and to root, and then exactly the
  unit file in the directory of the flag, the binary, everything under the directory of the
  configuration and, unless \<open>-remove-data=false\<close> was given, everything under the data directory are
  gone; every other file is as before.
\<close>

theorem uninstall_removes_exactly:
  assumes "UninstallCMD env conf args w = (CmdDone None, w')"
  shows "\<exists>actual rest exe. parse_flags uninstall_flags [] args = FlagsOk actual rest \<and> own_path (ie_gen env) = Inr exe
    \<and> goos env = ''linux'' \<and> getuid env = 0
    \<and> (let gone = uninstalled conf (bool_of (flag_of uninstall_flags actual ''remove-data''))
             (path_join [text_of_flag (flag_of uninstall_flags actual ''systemd-dir''), AppName @ ''.service'']) exe
       in fs (cw_os w') = filter (\<lambda>x. \<not> gone (fst x)) (fs (cw_os w)) \<and> cw_texts w' = filter (\<lambda>x. \<not> gone (fst x)) (cw_texts w))"
proof -
  from assms obtain actual rest where p: "parse_flags uninstall_flags [] args = FlagsOk actual rest"
    and os: "goos env = ''linux''" "getuid env = 0"
    by (auto simp: UninstallCMD_def split: flags_parsed.splits if_splits)
  let ?unit = "path_join [text_of_flag (flag_of uninstall_flags actual ''systemd-dir''), AppName @ ''.service'']"
  let ?wanted = "bool_of (flag_of uninstall_flags actual ''remove-data'')" and ?conf = "path_dir (FileLocation conf)"
  from assms obtain w1 where 1: "pruned (\<lambda>q. q = ?unit) w w1" and r1: "remove_data env ?wanted (DataDirectory conf) w1 (\<lambda>w.
      removing ?conf (os_remove_all env 2 ?conf w) (\<lambda>w. (case own_path (ie_gen env) of
          Inl err \<Rightarrow> (CmdDone (Some err), w)
        | Inr exe \<Rightarrow> removing exe (os_remove env 3 exe w) (\<lambda>w. (CmdDone None, w))))) = (CmdDone None, w')"
    using os p unfolding UninstallCMD_def Let_def by (auto dest!: removing_os_remove)
  from remove_data_pruned [OF r1] obtain w2 where 2: "pruned (\<lambda>q. ?wanted \<and> DataDirectory conf \<noteq> [] \<and> under (DataDirectory conf) q) w1 w2"
    and r2: "removing ?conf (os_remove_all env 2 ?conf w2) (\<lambda>w. (case own_path (ie_gen env) of
          Inl err \<Rightarrow> (CmdDone (Some err), w)
        | Inr exe \<Rightarrow> removing exe (os_remove env 3 exe w) (\<lambda>w. (CmdDone None, w)))) = (CmdDone None, w')" by blast
  from removing_os_remove_all [OF r2] obtain w3 where 3: "pruned (\<lambda>q. ?conf \<noteq> [] \<and> under ?conf q) w2 w3"
    and r3: "(case own_path (ie_gen env) of
          Inl err \<Rightarrow> (CmdDone (Some err), w3)
        | Inr exe \<Rightarrow> removing exe (os_remove env 3 exe w3) (\<lambda>w. (CmdDone None, w))) = (CmdDone None, w')" by blast
  from r3 obtain exe where exe: "own_path (ie_gen env) = Inr exe"
    and r4: "removing exe (os_remove env 3 exe w3) (\<lambda>w. (CmdDone None, w)) = (CmdDone None, w')"
    by (auto split: sum.splits)
  from removing_os_remove [OF r4] have 4: "pruned (\<lambda>q. q = exe) w3 w'" by simp
  have "pruned (uninstalled conf ?wanted ?unit exe) w w'"
    using pruned_trans [OF pruned_trans [OF pruned_trans [OF 1 2] 3] 4]
    by (rule back_subst [of "\<lambda>P. pruned P w w'"]) (auto simp: uninstalled_def fun_eq_iff)
  with p os exe show ?thesis by (simp add: pruned_def Let_def)
qed

end
