(* ===== verification/Install_Props.thy ===== *)
theory Install_Props
  imports Cli_Install Generate_Props
begin

text \<open>
  Examples of \<open>uninstall\<close>, and what stops it.
\<close>

text \<open>The unit file is removed first and has to be there: an installation without it is not removed at all.\<close>

lemma uninstall_needs_unit_file:
  assumes "remove_fault env 0 = None" and "\<not> path_there w (path_join [''/etc/systemd/system/'', AppName @ ''.service''])"
  shows "\<exists>err. UninstallCMD env conf [] w = (CmdDone (Some err), w)"
  using assms
  by (auto simp: UninstallCMD_def Let_def parse_flags.simps [of _ _ "[]"] uninstall_flags_def flag_of_def removing_def os_remove_def)

lemma uninstall_needs_root:
  assumes "goos env \<noteq> ''linux'' \<or> getuid env \<noteq> 0"
  shows "snd (UninstallCMD env conf args w) = w"
  using assms by (auto simp: UninstallCMD_def split: flags_parsed.split)

definition demo_install_env :: "nat install_env" where
  "demo_install_env = \<lparr>ie_gen = demo_gen_env, goos = ''linux'', getuid = 0, remove_fault = (\<lambda>_. None), removed_before = (\<lambda>_ _. False)\<rparr>"

definition installed_world :: "nat cli_world" where
  "installed_world = empty_cli_world\<lparr>cw_texts :=
     [(''/etc/systemd/system/communis.service'', ''unit''), (''/etc/c/config.json'', ''{}''), (''/usr/local/bin/communis'', ''bin''),
      (''/srv/n'', ''notes''), (''/srv2'', ''other'')]\<rparr>"

definition demo_install_conf :: config where
  "demo_install_conf = demo_unit_conf\<lparr>FileLocation := ''/etc/c/config.json''\<rparr>"

lemma demo_uninstall_run:
  "fst (UninstallCMD demo_install_env demo_install_conf [] installed_world) = CmdDone None"
  "map fst (cw_texts (snd (UninstallCMD demo_install_env demo_install_conf [] installed_world))) = [''/srv2'']"
  by code_simp+

theorem uninstall_removes_exactly_witness:
  "\<exists>w'. UninstallCMD demo_install_env demo_install_conf [] installed_world = (CmdDone None, w') \<and> map fst (cw_texts w') = [''/srv2'']
    \<and> (\<exists>gone. cw_texts w' = filter (\<lambda>x. \<not> gone (fst x)) (cw_texts installed_world))"
proof -
  obtain w' where run: "UninstallCMD demo_install_env demo_install_conf [] installed_world = (CmdDone None, w')"
    using demo_uninstall_run(1) by (cases "UninstallCMD demo_install_env demo_install_conf [] installed_world") auto
  from uninstall_removes_exactly [OF this] have "\<exists>gone. cw_texts w' = filter (\<lambda>x. \<not> gone (fst x)) (cw_texts installed_world)"
    by (auto simp: Let_def)
  then show ?thesis using run demo_uninstall_run(2) by simp
qed

end
