(* ===== verification/Spec2Isabelle.thy ===== *)
theory Spec2Isabelle
  imports Slug Data_Examples Data_Types Session_Store Conn_Props Web_Examples Server_Examples
    Sqlite_Props Config_Props Slog_Props Cli_Props Serve_Example Generate_Props Install_Props
begin

text \<open>
  A model of Communis, a server for personal notes written in Go, and the theorems that make it
  correct. The definitions are translations of the Go files under \<open>src/\<close>, named as there, and they
  compute; the theorems are about these definitions.

  \<^bold>\<open>The program.\<close> A process (\<open>cmd/cli\<close>) reads its options and a configuration file (\<open>config\<close>), opens
  the index database and runs the server (\<open>web/server.go\<close>) or one of the commands that create and
  migrate a database, generate files, or uninstall. The index database (\<open>user-store/sqlite.go\<close>) has
  the users, their password hashes, the path and the version of the notes database of each user, and
  the sessions (\<open>dbx/sqlitex/sessionstore.go\<close>). Every user has a notes database of his own
  (\<open>data-store/sqlite.go\<close>): notes, sections, tags, references between notes, and a full-text index.
  Connections to the notes databases are owned by a manager (\<open>user-store/sqliteconncache.go\<close>): one
  goroutine serves commands from a channel, keeps a cache of connections that expire, creates and
  deletes databases and brings them to the latest version. The handlers of the requests
  (\<open>web/handlers\<close>, behind the middleware and the routes of \<open>web/routes.go\<close>) ask the manager for the
  store of the user of the session and call the two stores. A database is opened by
  \<open>dbx/sqlitex/sqlite.go\<close> with the pragmas the configuration asks for, and its schema is walked up and
  down by \<open>dbx/migrations\<close> through the driver of \<open>dbx/sqlitex/migrations.go\<close>.

  \<^bold>\<open>Theories and code.\<close>

  \<^item> \<open>Comm_Prelude\<close>, \<open>Go_Strings\<close>, \<open>Go_Time\<close>, \<open>Go_Paths\<close>, \<open>Go_Quote\<close>, \<open>Go_Flags\<close>, \<open>Go_Template\<close>,
    \<open>Go_Json\<close>: Go's errors, 64-bit integers and what the program uses of the packages \<open>strconv\<close>,
    \<open>strings\<close>, \<open>unicode/utf8\<close>, \<open>time\<close>, \<open>path/filepath\<close>, \<open>flag\<close>, \<open>text/template\<close> and
    \<open>encoding/json/v2\<close>. A Go string is the list of its bytes. An operation returns a value or an error (\<open>outcome\<close>), or both, or
    it panics (\<open>go_ret\<close>).

  \<^item> \<open>Transactions\<close>, \<open>Sql_Tables\<close>: \<open>WithTransaction\<close> of \<open>dbx/sqlitex/sqlite.go\<close> and what the stores
    rely on of the SQL engine. A \<open>call\<close> says which statement of an operation fails and at what time it
    runs, an \<open>engine\<close> which rowid a row gets and in which order rows are visited. Both are arguments,
    so every theorem is about all failures and all orders.

  \<^item> \<open>Notes_Schema\<close> (the SQL files \<open>dbx/migrations/sql/notes-db\<close> as tables and statements with their
    constraints and foreign-key actions), \<open>Data_Store\<close> and \<open>Data_Queries\<close> (\<open>data-store/sqlite.go\<close>: the
    operations that write and those that read). \<open>Data_Schema\<close>: integrity, for all databases the
    operations can produce. \<open>Data_Index\<close>: the full-text index against the notes. \<open>Data_Types\<close>: every
    row can be scanned. \<open>Data_Notes\<close>, \<open>Data_Lists\<close>: what the operations do and what the listings
    return.

  \<^item> \<open>User_Store\<close>, \<open>User_Accounts\<close>: \<open>user-store/sqlite.go\<close>, accounts and authentication.
    \<open>Session_Store\<close>: \<open>dbx/sqlitex/sessionstore.go\<close> as an implementation of a map from tokens to data
    with expiry (the locale \<open>token_store\<close>).

  \<^item> \<open>Migrations\<close>, \<open>Migration_Load\<close>, \<open>Migration_Walk\<close>, \<open>Migration_Driver\<close>, \<open>Migration_Any\<close>:
    \<open>dbx/migrations/migrations.go\<close> over any driver that keeps the contract of the interface
    \<open>MigrationDriver\<close> (the locale \<open>migration_store\<close>), and the driver of \<open>dbx/sqlitex/migrations.go\<close>,
    which keeps it, on files of any content.

  \<^item> \<open>Sqlite_Options\<close>, \<open>Sqlite_Open\<close>, \<open>Sqlite_Props\<close>: the rest of \<open>dbx/sqlitex\<close>: settings, the
    registered drivers, opening and closing the two pools of a database.

  \<^item> \<open>Conn_Cache\<close> (\<open>user-store/sqliteconncache.go\<close>, \<open>chanutil/chanutil.go\<close>: the state of the manager
    and one function per command), \<open>Conn_Safety\<close> (the invariant of every run of commands),
    \<open>Conn_Props\<close> (what each command does), \<open>Conn_Upgrade\<close> (\<open>runMigrations\<close>), \<open>Conn_Life\<close> (the two
    goroutines as a step relation).

  \<^item> \<open>Web_Base\<close>, \<open>Web_Notes\<close>, \<open>Web_Lists\<close>, \<open>Web_Users\<close>, \<open>Web_Routes\<close>: \<open>web/handlers\<close>,
    \<open>web/routes.go\<close> and the renderer, one function per handler, composed as the routes and the
    middleware compose them into \<open>site\<close>. \<open>Web_Frame\<close>, \<open>Web_Site\<close>: the contract of access to the
    notes as locales, with the lemma of each handler under it; \<open>Web_Safety\<close> interprets them on the
    manager. \<open>Web_Claims\<close>, \<open>Web_Props\<close>, \<open>Web_NoteProps\<close>, \<open>Web_Routing\<close>: the properties of the site.
    \<open>Web_Server\<close>: \<open>web/server.go\<close>, what happens before the first request and after the last.

  \<^item> \<open>Config\<close>, \<open>Config_Props\<close>, \<open>Config_Json\<close>: \<open>config/config.go\<close>, \<open>hdx/hdx.go\<close> and the conversions of
    the configuration, and its text as JSON (the locale \<open>text_codec\<close> is the contract of a printer and
    its reader). \<open>Slog_Handler\<close>, \<open>Slog_Props\<close>: \<open>slogx/handler.go\<close>. \<open>Slug\<close>:
    \<open>slug/slug.go\<close>.

  \<^item> \<open>Cli_Main\<close>, \<open>Cli_Database\<close>, \<open>Cli_Serve\<close>, \<open>Cli_Generate\<close>, \<open>Cli_Install\<close>: the files of \<open>cmd/cli\<close>;
    \<open>Cli_Props\<close>, \<open>Generate_Props\<close>, \<open>Install_Props\<close> their properties. \<open>Data_Examples\<close>, \<open>Web_Examples\<close>,
    \<open>Server_Examples\<close> and \<open>Serve_Example\<close> are concrete databases and servers the properties are applied to.

  \<^bold>\<open>What the theorems show.\<close> The claims are numbered by importance. C3, below, spans the whole program,
  from the command line to the last request: the state when listening ended and every other state it can
  reach. C1, C2, C6, C9, C10 and C23 are about the site: users never
  reach each other's data, under any sequence of requests and failures; requests of other sites change
  nothing; a session is of a user whose password was given. C7 and C8 follow a note from the form through
  the manager into the store and back. C5, C11 and C12 are the invariants of a notes database, C22, C28,
  C29 and C30 the behaviour of the data store, C13 that of transactions. C14, C19, C27 and C31 are about
  migrations: what is loaded, that the walks end, and the one driver against which a walk does not end.
  C15 and C16 say what opening a database establishes and that the configuration decides it, C17 that
  its text is read back as it was. C4, C18, C34, C35 and C40 are about the manager and the server: it
  starts with every database migrated that is recorded as behind, what it has closed when it ends and when
  it does not end, and how commands that are served in between can break a deletion. C20, C38 and C39 are
  about the command line, C21 about the log, C25 and C33 about sessions, C32 and C36 about accounts, C24
  about the routes, C26 and C37 about slugs.

  \<^bold>\<open>Errors of the code.\<close> Some claims prove that the code does something else than it means to: C28 (the
  search index after a tag is deleted), C31 (a dropped error), C35 (a deletion that is two commands), C36
  (identifiers that are used again), C38 (options that do not count), C39 (a unit file without its
  command). C18 and C34 show connections that stay open. The findings of the manifest list the others.

  \<^bold>\<open>Bounds and fuel.\<close> Loops of the code are structural recursion where they go over a list. The walks
  \<open>Up\<close>, \<open>Down\<close> and \<open>Bootstrap\<close> loop until the driver says they are done: they take a number of rounds,
  give \<open>None\<close> when it is used up, and return for every number greater than that of the migrations (C14,
  C19, and C4 for \<open>runMigrations\<close>); C31 is the driver against which every number is used up. The fields
  \<open>rounds\<close> of the manager's environment and \<open>de_rounds\<close> of the command line's hold this number. The
  parser of templates takes one more step than there are tokens as fuel, each step takes a token; the
  parser of JSON takes two more than twice the bytes of the text, and \<open>Go_Json\<close> proves that more fuel
  changes nothing. Integers of type \<open>int\<close> and \<open>int64\<close> are integers with \<open>wrap64\<close> where an
  operation can overflow.

  \<^bold>\<open>Parameters.\<close> Code that is not in the repository is an argument: the SQL engine and SQLite's full-text
  index (documented behaviour, \<open>engine_ok\<close>), \<open>bcrypt\<close>, the session manager \<open>scs\<close> with its middleware,
  the templates and their execution by \<open>html/template\<close>, the Markdown renderer, the server of static
  files, regular expressions, SHA-256, the home directory, the styles of \<open>chroma\<close>, the table of the
  printable characters, the clock, the file system's failures.

  \<^bold>\<open>Not modelled.\<close> The CSS and JavaScript of the browser and the texts of the HTML templates (the data
  handed to them is modelled); the usage texts of the commands, which go to the standard error; the
  tests; the text in the body of a redirect and the Go type in an error of \<open>slog\<close>. Lists of tags and
  references that the data store reads from a JSON column are the lists of their rows: that
  \<open>encoding/json\<close> replaces bytes of a name or a title that are not UTF-8 is left out. \<open>net/http\<close>
  redirects a path that is not clean before it looks at a route, so requests have clean paths. Handlers run one after the other between the commands of the manager: two handlers that
  run at the same time meet only in the databases, whose transactions the engine makes serial, and in
  the manager, whose commands are served one by one. The invariant behind C1 (\<open>reach_users_apart\<close>) holds
  however the commands of the manager, the operations of the user store and the writes to the notes are
  interleaved, so that C1 does not rest on the order of the handlers.
  What is outside of this is the data race of \<open>Stop\<close>, which goes over the cache from the goroutine of the
  caller while the serving goroutine may still change it (see the findings of the manifest). The directory of
  the databases is taken to be a clean absolute path, as the configuration makes it. A failed opening may
  leave an empty file behind, which \<open>Conn_Cache\<close> does not keep. The two methods of \<open>RegexPattern\<close> in
  \<open>config/config.go\<close> are not the methods the JSON package looks for, so they are never called.
\<close>

section \<open>From the command line to the last request\<close>

text \<open>
  C3: The whole of \<open>communis serve\<close>. When the command got as far as listening, whatever its options, the
  requests and the failures were, then its configuration was accepted and names the data directory.
  Before the first request the file of the index database was at version 2; every notes database the
  index recorded as older than version 6 had its file at version 6, and all are recorded at 6 or later:
  these are the migrations the repository ships (that a file is as new as the index says, the code
  takes for granted). Every request was served with the settings of the configuration. And in every
  state of the manager that can be reached from there, by any requests, in which these and the state
  \<open>m2\<close> when listening ended are included, the users are apart (one database path each, at most one cached
  connection each, on his own file only), and the connection the manager hands out for a user is on
  the file of that user.
\<close>

theorem serve_protects_users:
  assumes "ServeCMD env conf0 args w (rs :: ('ses web_env \<times> request) list) (Some (l, m2)) e"
    and "engine_ok (sv_rows env)" and "row_engine (se_migrations (sv_server env)) = sv_rows env"
    and "\<forall>f. index_ok (read_index env f)" and "one_per_path (cw_os w)"
    and "embedded (sv_conf env) = embedded_walk" and "ConfNotesDBMigrations (SQLiteConf conf0) = ''sql/notes-db''"
    and "ConfIndexDBMigrations (SQLiteConf conf0) = ''sql/index-db''"
    and "\<forall>k. reads_succeed (mig_call (se_migrations (sv_server env)) k)"
    and "\<forall>v \<le> 6. version_fits (script_engine (se_migrations (sv_server env))) v"
    and "6 < rounds (se_migrations (sv_server env))"
  shows "\<exists>conf c sc db w1 st m0 m1.
      serve_config conf0 args = Inr conf
    \<and> serve_prepare env conf0 args w = (ServeRuns sc c db, w1)
    \<and> ConfigToSQLiteConnManagerConfig (sv_conf env) conf = Returns (Some c) None
    \<and> ConfigToServerConfig (sv_conf env) conf = Inr sc
    \<and> expand_home (sv_conf env) (DataDirectory conf0) = Inr (DBDirectory c)
    \<and> m0 = manager_on env db (cw_os w1)
    \<and> start_server (sv_server env) sc (conn_conf.truncate c) m0 = Some (Inr st, m1)
    \<and> user_version (index_file m1) = 2
    \<and> (\<forall>d \<in> set (outdated 6 (index m0)). file_at m1 (db_file (conn_conf.truncate c) (d_path d)) 6)
    \<and> (\<forall>d \<in> set (user_databases (index m1)). 6 \<le> d_version d)
    \<and> (\<forall>x \<in> set rs. configured sc st (fst x))
    \<and> server_run (sv_rows env) (conn_conf.truncate c) m1 rs m2
    \<and> users_apart (conn_conf.truncate c) m2
    \<and> (\<forall>rs' m. server_run (sv_rows env) (conn_conf.truncate c) m1 (rs' :: ('ses web_env \<times> request) list) m \<longrightarrow>
         users_apart (conn_conf.truncate c) m
         \<and> (\<forall>cenv u h m' ino path. serve (conn_conf.truncate c) cenv (CmdGetConn u) m = Some (ReplyStore h, m')
              \<and> map_of (open_conns m') h = Some ino \<and> (path, ino) \<in> set (dir_entries m')
              \<longrightarrow> path = user_path (conn_conf.truncate c) u))"
  using assms(1)
proof (cases rule: ServeCMD.cases)
  case (serve_runs sc c db w1 res m')
  obtain conf where conf: "serve_config conf0 args = Inr conf"
      "ConfigToSQLiteConnManagerConfig (sv_conf env) conf = Returns (Some c) None" "ConfigToServerConfig (sv_conf env) conf = Inr sc"
    and open_db: "NewSQLiteDB (sv_open env) (path_join [DBDirectory c, IndexDBFileName c]) (SQLiteOptions c) (cw_os w)
        = (Returns (Some db) None, cw_os w1)"
    using serve_prepare_runs [OF serve_runs(2)] by blast
  have migs: "NotesDBMigrations c = notes_db_migrations" "IndexDBMigrations c = index_db_migrations"
    using accepted_config [OF conf(2)] serve_config_keeps(1) [OF conf(1)] assms(6-8) Load_notes_db Load_index_db by auto
  let ?c = "conn_conf.truncate c" and ?m0 = "manager_on env db (cw_os w1)"
  have reach: "conn_reach (sv_rows env) ?c False ?m0"
    using manager_on_reach assms(4) one_per_path_open [OF open_db assms(5)] unfolding one_per_path_def by blast
  from serve_runs(3) obtain st m1 where
    start: "start_server (sv_server env) sc ?c ?m0 = Some (Inr st, m1)" and run: "server_run (sv_rows env) ?c m1 rs m2"
    and cf: "\<forall>x \<in> set rs. configured sc st (fst x)"
    by (cases rule: RunServer.cases) auto
  have mc: "NotesDBMigrations ?c = notes_db_migrations" "IndexDBMigrations ?c = index_db_migrations"
    using migs by (simp_all add: conn_conf.defs)
  have eng: "engine_ok (row_engine (se_migrations (sv_server env)))" using assms(2,3) by simp
  have migrated: "user_version (index_file m1) = 2 \<and> (\<forall>d \<in> set (outdated 6 (index ?m0)). file_at m1 (db_file ?c (d_path d)) 6)
      \<and> (\<forall>d \<in> set (user_databases (index m1)). 6 \<le> d_version d)"
    using start_server_migrates [OF eng, of ?c False ?m0 sc] reach assms(3,9,10,11) start notes_db_wf index_db_wf
    by (auto simp: mc last_migrations)
  have reached: "conn_reach (sv_rows env) ?c False m" if "server_run (sv_rows env) ?c m1 rs' m" for rs' :: "('ses web_env \<times> request) list" and m
    using server_run_reach [OF that start_server_reach [OF start reach]] .
  have apart: "users_apart ?c m" if "server_run (sv_rows env) ?c m1 rs' m" for rs' :: "('ses web_env \<times> request) list" and m
    using reach_users_apart [OF assms(2) reached [OF that]] .
  have dir: "expand_home (sv_conf env) (DataDirectory conf0) = Inr (DBDirectory c)"
    using accepted_config [OF conf(2)] serve_config_keeps(2) [OF conf(1)] by simp
  show ?thesis
    using serve_runs(2) conf dir start migrated cf run apart handed_out_own [OF assms(2) reached]
    by (intro exI conjI allI impI refl; (assumption | blast))
qed

theorem serve_protects_users_witness:
  "\<exists>rs m2 e c m1. rs \<noteq> [] \<and> ServeCMD demo_serve_env demo_serve_conf [] demo_serve_world (rs :: (int web_env \<times> request) list)
         (Some (ServerClosed, m2)) e
     \<and> server_run std_engine c m1 rs m2 \<and> (\<forall>d \<in> set (user_databases (index m1)). 6 \<le> d_version d) \<and> users_apart c m2"
proof -
  obtain rs :: "(int web_env \<times> request) list" and m2 e where run: "rs \<noteq> []"
    "ServeCMD demo_serve_env demo_serve_conf [] demo_serve_world rs (Some (ServerClosed, m2)) e" using demo_serve_run by blast
  have ix: "index_ok old_index" using reach_bounded [OF engine_ok_std boot_reach] by (simp add: boot_manager_def start_manager_def)
  have disk: "one_per_path (cw_os demo_serve_world)"
    by (simp add: one_per_path_def demo_serve_world_def demo_disk_def db_file_def repo_conf_def user_db_path_def)
  have env: "sv_rows demo_serve_env = std_engine" "sv_server demo_serve_env = boot_env" "sv_conf demo_serve_env = demo_conf_env"
    "read_index demo_serve_env f = old_index" for f by (simp_all add: demo_serve_env_def)
  have conf: "SQLiteConf demo_serve_conf = default_sqlite" by (simp add: demo_serve_conf_def)
  have quiet: "\<forall>k. reads_succeed (mig_call quiet_env k)" "\<forall>v \<le> 6. version_fits (script_engine quiet_env) v" "6 < rounds quiet_env"
    by (simp_all add: quiet_env_def reads_succeed_def version_fits_def)
  have "\<exists>c m1. server_run std_engine c m1 rs m2 \<and> (\<forall>d \<in> set (user_databases (index m1)). 6 \<le> d_version d) \<and> users_apart c m2"
    using serve_protects_users [OF run(2)] ix disk quiet by (simp add: env conf) blast
  then show ?thesis using run by blast
qed

end
